(* ===== verification/Prelude.thy ===== *)
theory Prelude
  imports
    Main
    "HOL-Library.Word"
    "HOL-Library.Char_ord"
    "HOL-Library.List_Lexorder"
    "HOL-Library.Sublist"
begin

text \<open>
  Vocabulary shared by every component theory of the development.

  \<^item> Rust's \<open>Result\<close> is the sum type with the error on the left; \<open>attempt\<close> is the question
    mark operator, and the two loop combinators \<open>try_for_each\<close> and \<open>try_fold\<close> are \<open>for\<close>
    loops whose body may return early with an error.
  \<^item> \<open>u64\<close>, \<open>u32\<close> and \<open>u16\<close> are machine words; \<open>checked_add\<close> and \<open>checked_sub\<close> are the standard
    library's overflow-checked operations.  \<open>usize\<close> lengths are natural numbers.
  \<^item> A Rust \<open>String\<close> is its UTF-8 byte sequence, a \<open>char list\<close> whose characters are bytes.
    The predicates on Unicode scalar values that the sources use (\<open>char::is_control\<close>,
    \<open>str::trim\<close>) are given on that encoding.
  \<^item> A \<open>DateTime<Utc>\<close> is its number of nanoseconds since the epoch.
  \<^item> Paths are split into components as \<open>std::path::Path::components\<close> does on Unix.
\<close>

named_theorems result_simps \<open>inversion of the result combinators at a successful value\<close>
named_theorems step_intros \<open>per-operation preservation facts of a component's invariant\<close>
named_theorems json_inj \<open>injectivity of the encodings into JSON values\<close>

section \<open>Results\<close>

abbreviation Ok :: "'a \<Rightarrow> 'e + 'a" where "Ok \<equiv> Inr"
abbreviation Err :: "'e \<Rightarrow> 'e + 'a" where "Err \<equiv> Inl"

type_synonym u64 = "64 word"
type_synonym u32 = "32 word"
type_synonym u16 = "16 word"

type_synonym time = int
type_synonym bytes = string

definition is_ok :: "'e + 'a \<Rightarrow> bool" where
  "is_ok r = (case r of Err _ \<Rightarrow> False | Ok _ \<Rightarrow> True)"

definition attempt :: "'e + 'a \<Rightarrow> ('a \<Rightarrow> 'e + 'b) \<Rightarrow> 'e + 'b" where
  "attempt r f = (case r of Err e \<Rightarrow> Err e | Ok x \<Rightarrow> f x)"

definition map_err :: "('e \<Rightarrow> 'f) \<Rightarrow> 'e + 'a \<Rightarrow> 'f + 'a" where
  "map_err f r = (case r of Err e \<Rightarrow> Err (f e) | Ok x \<Rightarrow> Ok x)"

definition ok_or :: "'e \<Rightarrow> 'a option \<Rightarrow> 'e + 'a" where
  "ok_or e x = (case x of None \<Rightarrow> Err e | Some y \<Rightarrow> Ok y)"

fun try_fold :: "('s \<Rightarrow> 'x \<Rightarrow> 'e + 's) \<Rightarrow> 's \<Rightarrow> 'x list \<Rightarrow> 'e + 's" where
  "try_fold f s [] = Ok s"
| "try_fold f s (x # xs) = attempt (f s x) (\<lambda>s'. try_fold f s' xs)"

fun try_for_each :: "('x \<Rightarrow> 'e + unit) \<Rightarrow> 'x list \<Rightarrow> 'e + unit" where
  "try_for_each f [] = Ok ()"
| "try_for_each f (x # xs) = attempt (f x) (\<lambda>_. try_for_each f xs)"

fun try_map :: "('x \<Rightarrow> 'e + 'y) \<Rightarrow> 'x list \<Rightarrow> 'e + 'y list" where
  "try_map f [] = Ok []"
| "try_map f (x # xs) = attempt (f x) (\<lambda>y. attempt (try_map f xs) (\<lambda>ys. Ok (y # ys)))"

section \<open>Checked machine arithmetic\<close>

definition checked_add :: "'w::len word \<Rightarrow> 'w word \<Rightarrow> 'w word option" where
  "checked_add a b = (if unat a + unat b < 2 ^ LENGTH('w) then Some (a + b) else None)"

definition checked_sub :: "'w::len word \<Rightarrow> 'w word \<Rightarrow> 'w word option" where
  "checked_sub a b = (if b \<le> a then Some (a - b) else None)"

section \<open>Time\<close>

text \<open>\<open>a.signed_duration_since(b).num_milliseconds()\<close>: the difference in whole milliseconds,
  truncated towards zero.\<close>

definition num_milliseconds_since :: "time \<Rightarrow> time \<Rightarrow> int" where
  "num_milliseconds_since a b =
     (if a \<ge> b then (a - b) div 1000000 else - ((b - a) div 1000000))"

section \<open>Strings\<close>

definition byte_of :: "char \<Rightarrow> nat" where
  "byte_of c = of_char c"

fun has_control :: "string \<Rightarrow> bool" where
  "has_control [] = False"
| "has_control (c # cs) =
     (byte_of c < 32 \<or> byte_of c = 127
      \<or> (byte_of c = 194 \<and> (case cs of [] \<Rightarrow> False | d # _ \<Rightarrow> 128 \<le> byte_of d \<and> byte_of d < 160))
      \<or> has_control cs)"

definition whitespace_encodings :: "string list" where
  "whitespace_encodings =
     [[CHR 0x09], [CHR 0x0A], [CHR 0x0B], [CHR 0x0C], [CHR 0x0D], [CHR 0x20],
      [CHR 0xC2, CHR 0x85], [CHR 0xC2, CHR 0xA0], [CHR 0xE1, CHR 0x9A, CHR 0x80],
      [CHR 0xE2, CHR 0x80, CHR 0x80], [CHR 0xE2, CHR 0x80, CHR 0x81],
      [CHR 0xE2, CHR 0x80, CHR 0x82], [CHR 0xE2, CHR 0x80, CHR 0x83],
      [CHR 0xE2, CHR 0x80, CHR 0x84], [CHR 0xE2, CHR 0x80, CHR 0x85],
      [CHR 0xE2, CHR 0x80, CHR 0x86], [CHR 0xE2, CHR 0x80, CHR 0x87],
      [CHR 0xE2, CHR 0x80, CHR 0x88], [CHR 0xE2, CHR 0x80, CHR 0x89],
      [CHR 0xE2, CHR 0x80, CHR 0x8A], [CHR 0xE2, CHR 0x80, CHR 0xA8],
      [CHR 0xE2, CHR 0x80, CHR 0xA9], [CHR 0xE2, CHR 0x80, CHR 0xAF],
      [CHR 0xE2, CHR 0x81, CHR 0x9F], [CHR 0xE3, CHR 0x80, CHR 0x80]]"

fun is_prefix :: "'a list \<Rightarrow> 'a list \<Rightarrow> bool" where
  "is_prefix [] ys = True"
| "is_prefix (x # xs) [] = False"
| "is_prefix (x # xs) (y # ys) = (x = y \<and> is_prefix xs ys)"

definition starts_with :: "string \<Rightarrow> string \<Rightarrow> bool" where
  "starts_with s p = is_prefix p s"

definition ends_with :: "string \<Rightarrow> string \<Rightarrow> bool" where
  "ends_with s p = is_prefix (rev p) (rev s)"

definition strip_prefix :: "string \<Rightarrow> string \<Rightarrow> string option" where
  "strip_prefix p s = (if is_prefix p s then Some (drop (length p) s) else None)"

text \<open>\<open>s.trim() != s\<close>: some white space character begins or ends the string.\<close>

definition trims :: "string \<Rightarrow> bool" where
  "trims s = list_ex (\<lambda>w. starts_with s w \<or> ends_with s w) whitespace_encodings"

text \<open>\<open>s.trim().is_empty()\<close>: the string is a sequence of white space characters.\<close>

fun blank_upto :: "nat \<Rightarrow> string \<Rightarrow> bool" where
  "blank_upto 0 s = (s = [])"
| "blank_upto (Suc n) s =
     (s = [] \<or> list_ex (\<lambda>w. is_prefix w s \<and> blank_upto n (drop (length w) s)) whitespace_encodings)"

definition is_blank :: "string \<Rightarrow> bool" where
  "is_blank s = blank_upto (length s) s"

fun split_on :: "char \<Rightarrow> string \<Rightarrow> string list" where
  "split_on c [] = [[]]"
| "split_on c (x # xs) =
     (if x = c then [] # split_on c xs
      else (case split_on c xs of [] \<Rightarrow> [[x]] | s # ss \<Rightarrow> (x # s) # ss))"

definition is_ascii_digit :: "char \<Rightarrow> bool" where
  "is_ascii_digit c = (48 \<le> byte_of c \<and> byte_of c \<le> 57)"

definition is_ascii_lowercase :: "char \<Rightarrow> bool" where
  "is_ascii_lowercase c = (97 \<le> byte_of c \<and> byte_of c \<le> 122)"

definition is_ascii_uppercase :: "char \<Rightarrow> bool" where
  "is_ascii_uppercase c = (65 \<le> byte_of c \<and> byte_of c \<le> 90)"

definition is_ascii_hexdigit :: "char \<Rightarrow> bool" where
  "is_ascii_hexdigit c =
     (is_ascii_digit c \<or> (97 \<le> byte_of c \<and> byte_of c \<le> 102) \<or> (65 \<le> byte_of c \<and> byte_of c \<le> 70))"

section \<open>Paths\<close>

datatype path_component = RootDir | CurDir | ParentDir | Normal string

definition is_absolute :: "string \<Rightarrow> bool" where
  "is_absolute p = starts_with p ''/''"

fun segment_components :: "string list \<Rightarrow> path_component list" where
  "segment_components [] = []"
| "segment_components (s # ss) =
     (if s = [] \<or> s = ''.'' then segment_components ss
      else if s = ''..'' then ParentDir # segment_components ss
      else Normal s # segment_components ss)"

text \<open>A leading \<open>.\<close> is kept only in a relative path; empty segments and every other \<open>.\<close> are
  dropped.\<close>

definition components :: "string \<Rightarrow> path_component list" where
  "components p =
     (if is_absolute p then RootDir # segment_components (split_on CHR ''/'' p)
      else (case split_on CHR ''/'' p of
              [] \<Rightarrow> []
            | s # ss \<Rightarrow> (if s = ''.'' then CurDir # segment_components ss
                        else segment_components (s # ss))))"

text \<open>\<open>Path::starts_with\<close> compares whole components.\<close>

definition path_starts_with :: "string \<Rightarrow> string \<Rightarrow> bool" where
  "path_starts_with p q = is_prefix (components q) (components p)"

section \<open>Lemmas on results\<close>

lemma attempt_simps [simp]:
  "attempt (Err e) f = Err e"
  "attempt (Ok x) f = f x"
  by (simp_all add: attempt_def)

lemma attempt_Ok_iff [result_simps]:
  "attempt r f = Ok y \<longleftrightarrow> (\<exists>x. r = Ok x \<and> f x = Ok y)"
  by (cases r) auto

lemma attempt_cong [fundef_cong]:
  "r = r' \<Longrightarrow> (\<And>x. r' = Ok x \<Longrightarrow> f x = g x) \<Longrightarrow> attempt r f = attempt r' g"
  by (cases r') auto

lemma map_err_simps [simp]:
  "map_err f (Err e) = Err (f e)"
  "map_err f (Ok x) = Ok x"
  by (simp_all add: map_err_def)

lemma map_err_Ok_iff [result_simps]: "map_err f r = Ok y \<longleftrightarrow> r = Ok y"
  by (cases r) auto

lemma ok_or_simps [simp]:
  "ok_or e None = Err e"
  "ok_or e (Some x) = Ok x"
  by (simp_all add: ok_or_def)

lemma ok_or_Ok_iff [result_simps]: "ok_or e x = Ok y \<longleftrightarrow> x = Some y"
  by (cases x) auto

lemma is_ok_simps [simp]:
  "is_ok (Ok x) = True"
  "is_ok (Err e) = False"
  by (simp_all add: is_ok_def)

lemma is_ok_iff: "is_ok r \<longleftrightarrow> (\<exists>x. r = Ok x)"
  by (cases r) auto

lemma if_Err_Ok_iff [result_simps]:
  "(if b then Err e else r) = Ok y \<longleftrightarrow> \<not> b \<and> r = Ok y"
  "(if b then r else Err e) = Ok y \<longleftrightarrow> b \<and> r = Ok y"
  by auto

lemma try_fold_append:
  "try_fold f s (xs @ ys) = attempt (try_fold f s xs) (\<lambda>s'. try_fold f s' ys)"
  by (induction xs arbitrary: s) (simp_all add: attempt_def split: sum.splits)

lemma try_fold_invariant:
  assumes "try_fold f s xs = Ok t" and "P s"
    and "\<And>s x s'. x \<in> set xs \<Longrightarrow> P s \<Longrightarrow> f s x = Ok s' \<Longrightarrow> P s'"
  shows "P t"
  using assms by (induction xs arbitrary: s) (auto simp: attempt_Ok_iff)

lemma try_for_each_Ok_iff [result_simps]:
  "try_for_each f xs = Ok () \<longleftrightarrow> (\<forall>x \<in> set xs. f x = Ok ())"
  by (induction xs) (auto simp: attempt_Ok_iff)

lemma try_map_length: "try_map f xs = Ok ys \<Longrightarrow> length ys = length xs"
  by (induction xs arbitrary: ys) (auto simp: attempt_Ok_iff)

lemma try_map_nth:
  "try_map f xs = Ok ys \<Longrightarrow> i < length xs \<Longrightarrow> f (xs ! i) = Ok (ys ! i)"
  by (induction xs arbitrary: ys i) (auto simp: attempt_Ok_iff nth_Cons split: nat.splits)

lemma try_map_Ok_iff:
  "try_map f xs = Ok ys \<longleftrightarrow> list_all2 (\<lambda>x y. f x = Ok y) xs ys"
  by (induction xs arbitrary: ys) (auto simp: attempt_Ok_iff list_all2_Cons1)

section \<open>Lemmas on checked arithmetic\<close>

lemma checked_add_Some_iff [result_simps]:
  "checked_add a b = Some c \<longleftrightarrow> unat a + unat b < 2 ^ LENGTH('w) \<and> c = a + b"
  for a b c :: "'w::len word"
  by (auto simp: checked_add_def)

lemma checked_add_unat:
  "checked_add a b = Some c \<Longrightarrow> unat c = unat a + unat b" for a b c :: "'w::len word"
  by (auto simp: checked_add_def unat_word_ariths split: if_splits)

lemma checked_add_None_iff:
  "checked_add a b = None \<longleftrightarrow> 2 ^ LENGTH('w) \<le> unat a + unat b" for a b :: "'w::len word"
  by (auto simp: checked_add_def)

lemma checked_sub_unat:
  "checked_sub a b = Some c \<Longrightarrow> unat c = unat a - unat b \<and> unat b \<le> unat a" for a b c :: "'w::len word"
  by (auto simp: checked_sub_def unat_sub word_le_nat_alt split: if_splits)

section \<open>Lemmas on strings and paths\<close>

lemma is_prefix_iff: "is_prefix xs ys \<longleftrightarrow> (\<exists>zs. ys = xs @ zs)"
  by (induction xs ys rule: is_prefix.induct) auto

lemma is_prefix_refl [simp]: "is_prefix xs xs"
  by (induction xs) auto

lemma is_prefix_trans: "is_prefix xs ys \<Longrightarrow> is_prefix ys zs \<Longrightarrow> is_prefix xs zs"
  by (auto simp: is_prefix_iff)

lemma strip_prefix_Some_iff [result_simps]:
  "strip_prefix p s = Some r \<longleftrightarrow> s = p @ r"
  by (auto simp: strip_prefix_def is_prefix_iff)

lemma has_control_append: "has_control (xs @ ys) \<Longrightarrow> \<not> has_control xs \<Longrightarrow> ys \<noteq> []"
  by (cases ys) auto

lemma split_on_not_Nil [simp]: "split_on c s \<noteq> []"
  by (induction s) (auto split: list.splits)

lemma split_on_join: "concat (map (\<lambda>s. c # s) (split_on c s)) = c # s"
  by (induction s) (auto split: list.splits)

lemma split_on_no_sep: "x \<in> set (split_on c s) \<Longrightarrow> c \<notin> set x"
proof (induction s arbitrary: x)
  case (Cons y s)
  then show ?case
    by (cases "split_on c s") (auto split: if_splits)
qed simp

lemma ParentDir_in_segments: "ParentDir \<in> set (segment_components ss) \<longleftrightarrow> ''..'' \<in> set ss"
  by (induction ss) auto

lemma Normal_in_segments:
  "Normal s \<in> set (segment_components ss) \<Longrightarrow> s \<in> set ss \<and> s \<noteq> [] \<and> s \<noteq> ''.'' \<and> s \<noteq> ''..''"
  by (induction ss) (auto split: if_splits)

lemma CurDir_not_in_segments [simp]: "CurDir \<notin> set (segment_components ss)"
  by (induction ss) auto

lemma path_starts_with_refl [simp]: "path_starts_with p p"
  by (simp add: path_starts_with_def)

lemma path_starts_with_trans:
  "path_starts_with p q \<Longrightarrow> path_starts_with q r \<Longrightarrow> path_starts_with p r"
  unfolding path_starts_with_def by (rule is_prefix_trans)

end
