(* ===== verification/Machine.thy ===== *)
theory Machine
  imports Prelude "HOL-Library.Multiset"
begin

text \<open>
  Interfaces that several components share.

  \<^item> \<open>btree_map\<close> is the contract of \<open>std::collections::BTreeMap\<close> as the sources use it; it is
    interpreted on key-sorted association lists (\<open>bt_insert\<close>, \<open>bt_remove\<close>), the representation
    every persisted map of the model has.
  \<^item> \<open>guarded_machine\<close> is a store whose operations either fail and leave the state alone or
    succeed with a new one, together with a state invariant that every successful operation
    keeps; \<open>stable_fact\<close> adds a fact that no operation can take back.  The scheduler store, the
    family authority store, the receipt lifecycle and the managed admission domain interpret them.
  \<^item> \<open>simulation\<close> is a store whose parts follow an abstract step relation; the permit store
    interprets it on its files.
\<close>

section \<open>Ordered maps\<close>

type_synonym ('k, 'v) btmap = "('k \<times> 'v) list"

definition bt_empty :: "('k, 'v) btmap" where
  "bt_empty = []"

definition bt_get :: "('k, 'v) btmap \<Rightarrow> 'k \<Rightarrow> 'v option" where
  "bt_get m = map_of m"

fun bt_insert :: "'k::linorder \<Rightarrow> 'v \<Rightarrow> ('k, 'v) btmap \<Rightarrow> ('k, 'v) btmap" where
  "bt_insert k v [] = [(k, v)]"
| "bt_insert k v ((k', v') # m) =
     (if k < k' then (k, v) # (k', v') # m
      else if k = k' then (k, v) # m
      else (k', v') # bt_insert k v m)"

definition bt_remove :: "'k \<Rightarrow> ('k, 'v) btmap \<Rightarrow> ('k, 'v) btmap" where
  "bt_remove k m = filter (\<lambda>p. fst p \<noteq> k) m"

definition bt_contains_key :: "('k, 'v) btmap \<Rightarrow> 'k \<Rightarrow> bool" where
  "bt_contains_key m k = (bt_get m k \<noteq> None)"

definition bt_keys :: "('k, 'v) btmap \<Rightarrow> 'k list" where
  "bt_keys m = map fst m"

definition bt_values :: "('k, 'v) btmap \<Rightarrow> 'v list" where
  "bt_values m = map snd m"

definition bt_inv :: "('k::linorder, 'v) btmap \<Rightarrow> bool" where
  "bt_inv m = sorted_wrt (<) (map fst m)"

locale btree_map =
  fixes empty :: 'm
    and get :: "'m \<Rightarrow> 'k::linorder \<Rightarrow> 'v option"
    and insert :: "'k \<Rightarrow> 'v \<Rightarrow> 'm \<Rightarrow> 'm"
    and remove :: "'k \<Rightarrow> 'm \<Rightarrow> 'm"
    and invar :: "'m \<Rightarrow> bool"
    and entries :: "'m \<Rightarrow> ('k \<times> 'v) list"
  assumes get_empty: "get empty = Map.empty"
    and get_insert: "get (insert k v m) = (get m)(k \<mapsto> v)"
    and get_remove: "get (remove k m) = (get m)(k := None)"
    and invar_empty: "invar empty"
    and invar_insert: "invar m \<Longrightarrow> invar (insert k v m)"
    and invar_remove: "invar m \<Longrightarrow> invar (remove k m)"
    and entries_get: "invar m \<Longrightarrow> set (entries m) = {(k, v). get m k = Some v}"
    and entries_distinct: "invar m \<Longrightarrow> distinct (map fst (entries m))"
begin

lemma entries_insert_fresh:
  assumes "invar m" and "get m k = None"
  shows "set (entries (insert k v m)) = Set.insert (k, v) (set (entries m))"
  using assms by (auto simp: entries_get invar_insert get_insert split: if_splits)

lemma sum_insert_fresh:
  fixes f :: "'k \<times> 'v \<Rightarrow> nat"
  assumes "invar m" and "get m k = None"
  shows "sum_list (map f (entries (insert k v m))) = f (k, v) + sum_list (map f (entries m))"
proof -
  have dist: "distinct (entries (insert k v m))" "distinct (entries m)"
    using assms entries_distinct invar_insert by (metis distinct_map)+
  have "(k, v) \<notin> set (entries m)"
    using assms by (simp add: entries_get)
  then show ?thesis
    using assms dist by (simp add: sum_list_distinct_conv_sum_set entries_insert_fresh)
qed

lemma length_insert_fresh:
  assumes "invar m" and "get m k = None"
  shows "length (entries (insert k v m)) = Suc (length (entries m))"
  using sum_insert_fresh [OF assms, of "\<lambda>_. 1" v] by (simp add: sum_list_triv)

lemma values_insert_subset:
  assumes "invar m"
  shows "snd ` set (entries (insert k v m)) \<subseteq> Set.insert v (snd ` set (entries m))"
  using assms by (auto simp: entries_get invar_insert get_insert image_iff split: if_splits)

lemma values_remove_subset:
  assumes "invar m"
  shows "set (entries (remove k m)) \<subseteq> set (entries m)"
  using assms by (auto simp: entries_get invar_remove get_remove split: if_splits)

end

lemma bt_get_insert [simp]: "bt_get (bt_insert k v m) = (bt_get m)(k \<mapsto> v)"
  unfolding bt_get_def by (induction m rule: bt_insert.induct) (auto simp: fun_eq_iff)

lemma bt_get_empty [simp]: "bt_get bt_empty = Map.empty"
  by (simp add: bt_get_def bt_empty_def)

lemma bt_get_Nil [simp]: "bt_get [] = Map.empty"
  by (simp add: bt_get_def)

lemma bt_get_remove [simp]: "bt_get (bt_remove k m) = (bt_get m)(k := None)"
  unfolding bt_get_def bt_remove_def by (induction m) (auto simp: fun_eq_iff)

lemma keys_bt_insert: "fst ` set (bt_insert k v m) = insert k (fst ` set m)"
  by (induction k v m rule: bt_insert.induct) auto

lemma bt_inv_insert: "bt_inv m \<Longrightarrow> bt_inv (bt_insert k v m)"
  unfolding bt_inv_def
proof (induction k v m rule: bt_insert.induct)
  case (2 k v k' v' m)
  then show ?case
    using keys_bt_insert [of k v m] by (auto simp: image_iff)
qed simp

lemma bt_inv_empty: "bt_inv bt_empty"
  by (simp add: bt_inv_def bt_empty_def)

lemma bt_inv_remove: "bt_inv m \<Longrightarrow> bt_inv (bt_remove k m)"
  unfolding bt_inv_def bt_remove_def by (simp add: sorted_wrt_map sorted_wrt_filter)

lemma bt_inv_distinct: "bt_inv m \<Longrightarrow> distinct (map fst m)"
  unfolding bt_inv_def by (simp add: strict_sorted_iff)

lemma bt_entries_get: "bt_inv m \<Longrightarrow> set m = {(k, v). bt_get m k = Some v}"
  using bt_inv_distinct [of m] by (auto simp: bt_get_def map_of_eq_Some_iff)

interpretation bt: btree_map bt_empty bt_get bt_insert bt_remove bt_inv "\<lambda>m. m"
  by unfold_locales
    (simp_all add: bt_inv_insert bt_inv_empty bt_inv_remove bt_entries_get bt_inv_distinct)

lemma bt_contains_key_insert [simp]:
  "bt_contains_key (bt_insert k v m) k' \<longleftrightarrow> k' = k \<or> bt_contains_key m k'"
  by (simp add: bt_contains_key_def)

lemma bt_get_in_values: "bt_get m k = Some v \<Longrightarrow> v \<in> set (bt_values m)"
  unfolding bt_get_def bt_values_def by (force dest: map_of_SomeD)

lemma bt_get_in_set: "bt_get m k = Some v \<Longrightarrow> (k, v) \<in> set m"
  unfolding bt_get_def by (rule map_of_SomeD)

lemma bt_contains_key_iff: "bt_contains_key m k \<longleftrightarrow> k \<in> fst ` set m"
  by (auto simp: bt_contains_key_def bt_get_def map_of_eq_None_iff)

lemma bt_values_insert_subset:
  "set (bt_values (bt_insert k v m)) \<subseteq> insert v (set (bt_values m))"
  unfolding bt_values_def by (induction k v m rule: bt_insert.induct) auto

lemma bt_insert_subset: "set (bt_insert k v m) \<subseteq> insert (k, v) (set m)"
  by (induction k v m rule: bt_insert.induct) auto

lemma bt_remove_subset: "set (bt_remove k m) \<subseteq> set m"
  by (auto simp: bt_remove_def)

lemma bt_values_update:
  assumes "bt_inv m" and "bt_get m k = Some v" and "f v' = f v"
  shows "map f (bt_values (bt_insert k v' m)) = map f (bt_values m)"
  using assms
proof (induction k v' m rule: bt_insert.induct)
  case (2 k v' k0 v0 m)
  have "k \<notin> fst ` set m" if "k < k0"
    using that 2(2) by (auto simp: bt_inv_def)
  then have "\<not> k < k0"
    using 2(3) by (force simp: bt_get_def dest: map_of_SomeD split: if_splits)
  then show ?case using 2 by (auto simp: bt_inv_def bt_get_def bt_values_def split: if_splits)
qed (simp add: bt_get_def)

lemma mset_bt_insert_fresh:
  "bt_get m k = None \<Longrightarrow> mset (bt_insert k v m) = add_mset (k, v) (mset m)"
  by (induction k v m rule: bt_insert.induct) (auto simp: bt_get_def split: if_splits)

lemma mset_bt_remove:
  "bt_inv m \<Longrightarrow> bt_get m k = Some v \<Longrightarrow> mset m = add_mset (k, v) (mset (bt_remove k m))"
proof (induction m)
  case (Cons p m)
  have fresh: "fst p \<notin> fst ` set m" using Cons.prems by (auto simp: bt_inv_def)
  show ?case
  proof (cases "fst p = k")
    case True
    then have "bt_remove k m = m"
      using fresh by (auto simp: bt_remove_def image_iff intro!: filter_True)
    then show ?thesis
      using True Cons.prems by (cases p) (auto simp: bt_remove_def bt_get_def)
  next
    case False
    then show ?thesis
      using Cons by (cases p) (auto simp: bt_inv_def bt_remove_def bt_get_def)
  qed
qed simp

section \<open>Guarded machines\<close>

text \<open>\<open>exec\<close> runs a sequence of operations against the store; an operation that fails leaves the
  state as it was, and the sequence goes on.\<close>

definition exec1 :: "('s \<Rightarrow> 'op \<Rightarrow> 'e + 's) \<Rightarrow> 's \<Rightarrow> 'op \<Rightarrow> 's" where
  "exec1 step s op = (case step s op of Err _ \<Rightarrow> s | Ok s' \<Rightarrow> s')"

definition exec :: "('s \<Rightarrow> 'op \<Rightarrow> 'e + 's) \<Rightarrow> 's \<Rightarrow> 'op list \<Rightarrow> 's" where
  "exec step s ops = foldl (exec1 step) s ops"

lemma exec_Nil [simp]: "exec step s [] = s"
  by (simp add: exec_def)

lemma exec_Cons [simp]: "exec step s (op # ops) = exec step (exec1 step s op) ops"
  by (simp add: exec_def)

lemma exec_append: "exec step s (xs @ ys) = exec step (exec step s xs) ys"
  by (simp add: exec_def)

locale guarded_machine =
  fixes step :: "'s \<Rightarrow> 'op \<Rightarrow> 'e + 's"
    and invar :: "'s \<Rightarrow> bool"
  assumes step_invar: "invar s \<Longrightarrow> step s op = Ok s' \<Longrightarrow> invar s'"
begin

lemma exec1_invar: "invar s \<Longrightarrow> invar (exec1 step s op)"
  by (auto simp: exec1_def split: sum.splits intro: step_invar)

lemma exec_invar: "invar s \<Longrightarrow> invar (exec step s ops)"
  by (induction ops arbitrary: s) (simp_all add: exec1_invar)

end

locale stable_fact = guarded_machine step invar
  for step :: "'s \<Rightarrow> 'op \<Rightarrow> 'e + 's" and invar :: "'s \<Rightarrow> bool" +
  fixes fact :: "'s \<Rightarrow> bool"
  assumes step_fact: "invar s \<Longrightarrow> fact s \<Longrightarrow> step s op = Ok s' \<Longrightarrow> fact s'"
begin

lemma exec1_fact: "invar s \<Longrightarrow> fact s \<Longrightarrow> fact (exec1 step s op)"
  by (auto simp: exec1_def split: sum.splits intro: step_fact)

lemma exec_fact: "invar s \<Longrightarrow> fact s \<Longrightarrow> fact (exec step s ops)"
  by (induction ops arbitrary: s) (simp_all add: exec1_invar exec1_fact)

text \<open>A guard that excludes the fact is never passed again once the fact holds.\<close>

lemma exec_blocks:
  assumes "invar s" and "fact s" and "\<And>t. fact t \<Longrightarrow> \<not> is_ok (g t)"
  shows "\<not> is_ok (g (exec step s ops))"
  using assms exec_fact by blast

end

section \<open>Simulations\<close>

text \<open>A store whose every operation moves each of its parts along the steps of an abstract machine,
  whether the operation succeeds, fails or is interrupted.  What no abstract step can take back holds
  of the part for ever.\<close>

locale simulation =
  fixes step :: "'s \<Rightarrow> 'op \<Rightarrow> 'e + 's"
    and part :: "'s \<Rightarrow> 'k \<Rightarrow> 'a"
    and move :: "'a \<Rightarrow> 'a \<Rightarrow> bool"
  assumes step_moves: "step s op = Ok s' \<Longrightarrow> move\<^sup>*\<^sup>* (part s k) (part s' k)"
begin

lemma exec1_moves: "move\<^sup>*\<^sup>* (part s k) (part (exec1 step s op) k)"
  by (auto simp: exec1_def split: sum.splits intro: step_moves)

lemma exec_moves: "move\<^sup>*\<^sup>* (part s k) (part (exec step s ops) k)"
proof (induction ops arbitrary: s)
  case (Cons op ops)
  show ?case using rtranclp_trans [OF exec1_moves Cons.IH] by simp
qed simp

lemma exec_keeps:
  assumes "P (part s k)" and "\<And>a b. P a \<Longrightarrow> move a b \<Longrightarrow> P b"
  shows "P (part (exec step s ops) k)"
  using exec_moves [of s k ops] by (induction rule: rtranclp_induct) (use assms in blast)+

end

end
