(* ===== verification/Json.thy ===== *)
theory Json
  imports Machine "HOL-Library.Monad_Syntax"
begin

text \<open>
  JSON values as \<open>serde_json::Value\<close> holds them, and the parts of \<open>serde\<close>'s derived encodings and
  decodings the contracts rely on.  An object is the key-sorted entry list of its \<open>BTreeMap\<close>; the
  encoders of the later theories therefore list their fields in key order.  Decoders of closed
  shapes (\<open>deny_unknown_fields\<close>) are built from \<open>struct_fields\<close>, \<open>field\<close>, \<open>field_opt\<close> and
  \<open>field_default\<close>.
\<close>

datatype json =
    JNull
  | JBool bool
  | JNum int
  | JFloat u64
  | JStr string
  | JArr "json list"
  | JObj "(string \<times> json) list"

definition json_of_option :: "('a \<Rightarrow> json) \<Rightarrow> 'a option \<Rightarrow> json" where
  "json_of_option f x = (case x of None \<Rightarrow> JNull | Some y \<Rightarrow> f y)"

definition json_of_list :: "('a \<Rightarrow> json) \<Rightarrow> 'a list \<Rightarrow> json" where
  "json_of_list f xs = JArr (map f xs)"

definition json_of_word :: "'w::len word \<Rightarrow> json" where
  "json_of_word w = JNum (uint w)"

definition json_of_nat :: "nat \<Rightarrow> json" where
  "json_of_nat n = JNum (int n)"

text \<open>\<open>Value::get\<close> by key, and the typed views of a value.\<close>

fun json_get :: "json \<Rightarrow> string \<Rightarrow> json option" where
  "json_get (JObj kvs) k = map_of kvs k"
| "json_get _ k = None"

fun as_bool :: "json \<Rightarrow> bool option" where
  "as_bool (JBool b) = Some b"
| "as_bool _ = None"

fun as_str :: "json \<Rightarrow> string option" where
  "as_str (JStr s) = Some s"
| "as_str _ = None"

fun as_u64 :: "json \<Rightarrow> u64 option" where
  "as_u64 (JNum n) = (if 0 \<le> n \<and> n < 2 ^ 64 then Some (word_of_int n) else None)"
| "as_u64 _ = None"

fun as_array :: "json \<Rightarrow> json list option" where
  "as_array (JArr vs) = Some vs"
| "as_array _ = None"

fun is_object :: "json \<Rightarrow> bool" where
  "is_object (JObj _) = True"
| "is_object _ = False"

text \<open>A derived decoder of a closed structure accepts an object without unknown keys and, as every
  derived visitor does, an array with the fields in declaration order; the flag tells the two
  apart.\<close>

type_synonym fields = "bool \<times> (string \<times> json) list"

fun struct_fields :: "string list \<Rightarrow> json \<Rightarrow> fields option" where
  "struct_fields keys (JObj kvs) =
     (if list_all (\<lambda>kv. fst kv \<in> set keys) kvs then Some (False, kvs) else None)"
| "struct_fields keys (JArr vs) =
     (if length vs \<le> length keys then Some (True, zip keys vs) else None)"
| "struct_fields keys _ = None"

definition field :: "(json \<Rightarrow> 'a option) \<Rightarrow> string \<Rightarrow> fields \<Rightarrow> 'a option" where
  "field dec k fs = (case map_of (snd fs) k of None \<Rightarrow> None | Some v \<Rightarrow> dec v)"

text \<open>An optional field may be missing from an object, not from an array.\<close>

definition decode_option :: "(json \<Rightarrow> 'a option) \<Rightarrow> json \<Rightarrow> 'a option option" where
  "decode_option dec v = (case v of JNull \<Rightarrow> Some None | _ \<Rightarrow> map_option Some (dec v))"

definition field_opt :: "(json \<Rightarrow> 'a option) \<Rightarrow> string \<Rightarrow> fields \<Rightarrow> 'a option option" where
  "field_opt dec k fs =
     (case map_of (snd fs) k of
        None \<Rightarrow> (if fst fs then None else Some None)
      | Some v \<Rightarrow> decode_option dec v)"

definition field_default :: "'a \<Rightarrow> (json \<Rightarrow> 'a option) \<Rightarrow> string \<Rightarrow> fields \<Rightarrow> 'a option" where
  "field_default d dec k fs = (case map_of (snd fs) k of None \<Rightarrow> Some d | Some v \<Rightarrow> dec v)"

fun decode_all :: "(json \<Rightarrow> 'a option) \<Rightarrow> json list \<Rightarrow> 'a list option" where
  "decode_all dec [] = Some []"
| "decode_all dec (v # vs) =
     (case dec v of
        None \<Rightarrow> None
      | Some x \<Rightarrow> (case decode_all dec vs of None \<Rightarrow> None | Some xs \<Rightarrow> Some (x # xs)))"

definition decode_list :: "(json \<Rightarrow> 'a option) \<Rightarrow> json \<Rightarrow> 'a list option" where
  "decode_list dec v = (case as_array v of None \<Rightarrow> None | Some vs \<Rightarrow> decode_all dec vs)"

section \<open>UTF-8\<close>

text \<open>\<open>std::str::from_utf8\<close>: well-formed byte sequences of one to four bytes, without overlong
  forms and surrogates.\<close>

definition utf8_cont :: "char \<Rightarrow> bool" where
  "utf8_cont c = (128 \<le> byte_of c \<and> byte_of c < 192)"

definition utf8_pair_ok :: "char \<Rightarrow> char \<Rightarrow> bool" where
  "utf8_pair_ok a b =
     (utf8_cont b
      \<and> (byte_of a = 224 \<longrightarrow> 160 \<le> byte_of b) \<and> (byte_of a = 237 \<longrightarrow> byte_of b < 160)
      \<and> (byte_of a = 240 \<longrightarrow> 144 \<le> byte_of b) \<and> (byte_of a = 244 \<longrightarrow> byte_of b < 144))"

fun from_utf8 :: "bytes \<Rightarrow> bool" where
  "from_utf8 [] = True"
| "from_utf8 (a # r) =
     (if byte_of a < 128 then from_utf8 r
      else if 194 \<le> byte_of a \<and> byte_of a < 224 then
        (case r of b # r' \<Rightarrow> utf8_cont b \<and> from_utf8 r' | _ \<Rightarrow> False)
      else if 224 \<le> byte_of a \<and> byte_of a < 240 then
        (case r of b # c # r' \<Rightarrow> utf8_pair_ok a b \<and> utf8_cont c \<and> from_utf8 r' | _ \<Rightarrow> False)
      else if 240 \<le> byte_of a \<and> byte_of a \<le> 244 then
        (case r of b # c # d # r' \<Rightarrow>
           utf8_pair_ok a b \<and> utf8_cont c \<and> utf8_cont d \<and> from_utf8 r' | _ \<Rightarrow> False)
      else False)"

section \<open>Encodings are injective\<close>

text \<open>An encoding is a map into JSON values that loses nothing.  Every identity of the system is a
  digest of such an encoding, so two materials with the same identity are either equal or
  exhibit a digest collision.\<close>

locale canonical_encoding =
  fixes enc :: "'a \<Rightarrow> json"
  assumes enc_eq_iff: "enc x = enc y \<longleftrightarrow> x = y"
begin

lemma option_eq_iff:
  assumes "\<And>x. enc x \<noteq> JNull"
  shows "json_of_option enc a = json_of_option enc b \<longleftrightarrow> a = b"
  using assms by (cases a; cases b) (auto simp: json_of_option_def enc_eq_iff, metis)

lemma list_eq_iff: "json_of_list enc xs = json_of_list enc ys \<longleftrightarrow> xs = ys"
  unfolding json_of_list_def
  by (metis enc_eq_iff injI inj_map_eq_map json.inject(5))

end

interpretation str_enc: canonical_encoding JStr
  by unfold_locales simp

interpretation word_enc: canonical_encoding json_of_word
  by unfold_locales (simp add: json_of_word_def word_uint_eq_iff)

interpretation nat_enc: canonical_encoding json_of_nat
  by unfold_locales (simp add: json_of_nat_def)

lemma json_of_word_neq_null [simp]: "json_of_word w \<noteq> JNull"
  by (simp add: json_of_word_def)

lemmas [json_inj] =
  str_enc.list_eq_iff str_enc.option_eq_iff [OF json.distinct(7) [symmetric]]
  word_enc.enc_eq_iff word_enc.list_eq_iff word_enc.option_eq_iff [OF json_of_word_neq_null]
  nat_enc.enc_eq_iff

lemma as_u64_json_of_word [simp]: "as_u64 (json_of_word (w::u64)) = Some w"
  using uint_lt2p [of w] by (simp add: json_of_word_def)

end
