(* ===== verification/Contracts.thy ===== *)
theory Contracts
  imports Json
begin

text \<open>
  Identities and receipts of \<open>recursive-agent-contracts/src/lib.rs\<close>: the validated deterministic
  identifiers and their derivations, the authority lineage, artifact descriptors, receipts, their
  outcomes and terminal states, and the run-pack and replay manifests.

  Code outside the repository is the record \<open>env\<close>: canonicalisation and content digests
  (\<open>boundary-compiler\<close>, \<open>stack-ids\<close>), identifier construction (\<open>stack-ids\<close>), strict JSON parsing
  (\<open>boundary-compiler\<close>) and the textual form of instants (\<open>chrono\<close>).  A \<open>ContentDigest\<close> is named by
  its hexadecimal text, and an identifier by its string.
\<close>

section \<open>Identifiers and external owners\<close>

type_synonym content_digest = string
type_synonym run_id = string
type_synonym step_id = string
type_synonym permit_id = string
type_synonym receipt_id = string
type_synonym artifact_id = string

datatype id_family =
    KernelRunId | EffectIntentId | ExecutionPermitId | ControlReceiptId | ArtifactId | TrialId

datatype jcs_error = JcsDuplicateKey | JcsOther

record env =
  canonicalize_bytes :: "json \<Rightarrow> jcs_error + bytes"
  boundary_digest :: "json \<Rightarrow> jcs_error + string"
  digest_from_hex :: "string \<Rightarrow> content_digest option"
  digest_compute :: "bytes \<Rightarrow> content_digest"
  digest_json :: "content_digest \<Rightarrow> json"
  id_deterministic :: "id_family \<Rightarrow> string \<Rightarrow> string \<Rightarrow> string option"
  id_try_new :: "id_family \<Rightarrow> string \<Rightarrow> string option"
  parse_and_validate :: "string \<Rightarrow> jcs_error + json"
  time_text :: "time \<Rightarrow> string"
  time_parse :: "string \<Rightarrow> time option"

text \<open>The messages of \<open>ContractError::Malformed\<close>: one constructor per message of the identity,
  receipt and event contracts, and the message itself for the operation contracts.\<close>

datatype malformed =
    DigestWrap
  | PermitValidityEmpty
  | EmptyLineage | DuplicateLineageOrigin | LineageMustStartWithRequest | LineageMustEndWithEffect
  | UnsupportedOrEmptyManifest | UnsafeOrDuplicatePackPath string
  | UnsupportedReplayResult | ReplayReferencesUnordered
  | InvalidMediaType | InvalidEncoding | ReceiptIdentityUnbound
  | AfterFinalization nat | MixesRunIdentifiers nat | MustBeginWithRunStarted
  | RunStartedNotFirst | ProviderEgressNotUnique | BadStepStarted
  | PermitIssuedNotOk | PermitConsumedNotOk | PermitRejectionNotDenied | PermitRevocationOutcome
  | ViolatesStepOrdering string | ArtifactStoredNotOk | StepCompletedNotOk | StepCompletedNoArtifact
  | StepCompletedForeignArtifact | StepFailedNotTerminal | StepFailedSuccessful
  | ParentCancelledInvalid | ChildPreparedInvalid | ChildLinkedInvalid | ChildClosedInvalid
  | FinalizationWithoutStart | FinalizedNotTerminal | FinalizedContradicts | FinalizedIncompleteStep
  | FinalizedOpenChild | StrictNotFinalized | MultipleTerminalCauses
  | EventSequenceExceedsU64 | EventsMismatchReceipts
  | Message string

datatype contract_error =
    Boundary jcs_error
  | Malformed malformed
  | IdFamily string string
  | IdParse

abbreviation RUN_ID_DOMAIN :: string where
  "RUN_ID_DOMAIN \<equiv> ''recursive-agent/run/v1''"
abbreviation STEP_ID_DOMAIN :: string where
  "STEP_ID_DOMAIN \<equiv> ''recursive-agent/step/v1''"
abbreviation PERMIT_ID_DOMAIN :: string where
  "PERMIT_ID_DOMAIN \<equiv> ''recursive-agent/permit/v1''"
abbreviation RECEIPT_ID_DOMAIN :: string where
  "RECEIPT_ID_DOMAIN \<equiv> ''recursive-agent/receipt/v1''"
abbreviation ARTIFACT_ID_DOMAIN :: string where
  "ARTIFACT_ID_DOMAIN \<equiv> ''recursive-agent/artifact/v1''"

definition jcs_canonical :: "env \<Rightarrow> json \<Rightarrow> contract_error + bytes" where
  "jcs_canonical E v = map_err Boundary (canonicalize_bytes E v)"

definition content_digest :: "env \<Rightarrow> json \<Rightarrow> contract_error + content_digest" where
  "content_digest E v =
     attempt (map_err Boundary (boundary_digest E v)) (\<lambda>hex.
       ok_or (Malformed DigestWrap) (digest_from_hex E hex))"

fun join_with :: "char \<Rightarrow> string list \<Rightarrow> string" where
  "join_with c [] = []"
| "join_with c [s] = s"
| "join_with c (s # ss) = s @ [c] @ join_with c ss"

definition validate_current_id :: "string \<Rightarrow> string \<Rightarrow> contract_error + unit" where
  "validate_current_id value domain =
     (let prefix = ''v1:'' @ domain @ '':det:'' in
      attempt (ok_or (IdFamily prefix (join_with CHR '':'' (take 4 (split_on CHR '':'' value))))
                 (strip_prefix prefix value)) (\<lambda>digest.
        if length digest \<noteq> 64
           \<or> \<not> list_all (\<lambda>c. is_ascii_hexdigit c \<and> \<not> is_ascii_uppercase c) digest
        then Err IdParse else Ok ()))"

definition current_id_try_new :: "env \<Rightarrow> id_family \<Rightarrow> string \<Rightarrow> string \<Rightarrow> contract_error + string" where
  "current_id_try_new E fam domain value =
     attempt (validate_current_id value domain) (\<lambda>_. ok_or IdParse (id_try_new E fam value))"

definition current_id_from_owner :: "string \<Rightarrow> string \<Rightarrow> contract_error + string" where
  "current_id_from_owner domain value = attempt (validate_current_id value domain) (\<lambda>_. Ok value)"

definition LegacyV1Id_parse :: "string \<Rightarrow> contract_error + string" where
  "LegacyV1Id_parse value = (if is_blank value \<or> has_control value then Err IdParse else Ok value)"

section \<open>Receipt data\<close>

datatype LineageOrigin =
    OriginRequest | OriginPlan | OriginPolicy | OriginApproval | OriginTool | OriginEffect

record AuthorityLineageEntryV1 =
  lin_origin :: LineageOrigin
  lin_principal :: string
  lin_permit_id :: "permit_id option"
  lin_policy_version :: string

record ToolCallSpecV1 =
  tc_tool :: string
  tc_args :: json
  tc_frozen_clock :: "time option"

record StepSpecV1 =
  ss_name :: string
  ss_call :: ToolCallSpecV1

record RunSpecV1 =
  rs_name :: string
  rs_steps :: "StepSpecV1 list"
  rs_frozen_clock :: "time option"
  rs_policy_version :: string

record ArtifactDescriptorV1 =
  ad_owner_id :: artifact_id
  ad_digest :: content_digest
  ad_byte_length :: u64
  ad_media_type :: string
  ad_encoding :: "string option"

datatype ReceiptKindV1 =
    RunStarted | ProviderEgressAdmitted | StepStarted | PermitIssued | PermitConsumed
  | PermitRejected | PermitRevoked | ArtifactStored | StepCompleted | StepFailed
  | ParentCancelled | ChildAdmissionPrepared | ChildLinked | ChildClosed | RunFinalized

datatype ReceiptOutcomeV1 =
    OutcomeOk
  | OutcomeDenied
  | OutcomeFailed string
  | OutcomeTimedOut string
  | OutcomeCancelled string
  | OutcomeSandboxFailed string
  | OutcomeCorrupted string
  | OutcomeDegraded string

datatype RunTerminalStateV1 =
    Succeeded | Failed | Denied | TimedOut | Cancelled | SandboxFailed | Corrupted | LegacyUnknown

record ReceiptV1 =
  rc_receipt_id :: receipt_id
  rc_run_id :: run_id
  rc_step_id :: step_id
  rc_kind :: ReceiptKindV1
  rc_valid_time :: time
  rc_recorded_time :: time
  rc_lineage :: "AuthorityLineageEntryV1 list"
  rc_spec_digest :: content_digest
  rc_args_digest :: content_digest
  rc_artifact_refs :: "ArtifactDescriptorV1 list"
  rc_outcome :: ReceiptOutcomeV1
  rc_prev_chain_digest :: content_digest

record PermitIdentityMaterialV1 =
  pim_binding_digest :: content_digest
  pim_requested_not_before_delay_ms :: u64
  pim_requested_validity_ms :: u64

record StepIdentityMaterial =
  sim_run_id :: run_id
  sim_stable_step_index :: nat
  sim_step_name :: string
  sim_tool_call :: ToolCallSpecV1

record ReceiptIdentityMaterialV1 =
  rim_run_id :: run_id
  rim_step_id :: step_id
  rim_kind :: ReceiptKindV1
  rim_lineage :: "AuthorityLineageEntryV1 list"
  rim_spec_digest :: content_digest
  rim_args_digest :: content_digest
  rim_outcome :: ReceiptOutcomeV1
  rim_artifact_refs :: "ArtifactDescriptorV1 list"
  rim_predecessor_chain_digest :: content_digest

section \<open>Encodings\<close>

definition time_json :: "env \<Rightarrow> time \<Rightarrow> json" where
  "time_json E t = JStr (time_text E t)"

fun origin_name :: "LineageOrigin \<Rightarrow> string" where
  "origin_name OriginRequest = ''request''"
| "origin_name OriginPlan = ''plan''"
| "origin_name OriginPolicy = ''policy''"
| "origin_name OriginApproval = ''approval''"
| "origin_name OriginTool = ''tool''"
| "origin_name OriginEffect = ''effect''"

definition lineage_entry_json :: "AuthorityLineageEntryV1 \<Rightarrow> json" where
  "lineage_entry_json e =
     JObj [(''origin'', JStr (origin_name (lin_origin e))),
           (''permit_id'', json_of_option JStr (lin_permit_id e)),
           (''policy_version'', JStr (lin_policy_version e)),
           (''principal'', JStr (lin_principal e))]"

definition tool_call_json :: "env \<Rightarrow> ToolCallSpecV1 \<Rightarrow> json" where
  "tool_call_json E c =
     JObj [(''args'', tc_args c),
           (''frozen_clock'', json_of_option (time_json E) (tc_frozen_clock c)),
           (''tool'', JStr (tc_tool c))]"

definition step_spec_json :: "env \<Rightarrow> StepSpecV1 \<Rightarrow> json" where
  "step_spec_json E s =
     JObj [(''call'', tool_call_json E (ss_call s)), (''name'', JStr (ss_name s))]"

definition run_spec_json :: "env \<Rightarrow> RunSpecV1 \<Rightarrow> json" where
  "run_spec_json E s =
     JObj [(''frozen_clock'', json_of_option (time_json E) (rs_frozen_clock s)),
           (''name'', JStr (rs_name s)),
           (''policy_version'', JStr (rs_policy_version s)),
           (''steps'', json_of_list (step_spec_json E) (rs_steps s))]"

definition artifact_descriptor_json :: "env \<Rightarrow> ArtifactDescriptorV1 \<Rightarrow> json" where
  "artifact_descriptor_json E d =
     JObj [(''byte_length'', json_of_word (ad_byte_length d)),
           (''digest'', digest_json E (ad_digest d)),
           (''encoding'', json_of_option JStr (ad_encoding d)),
           (''media_type'', JStr (ad_media_type d)),
           (''owner_id'', JStr (ad_owner_id d))]"

fun kind_name :: "ReceiptKindV1 \<Rightarrow> string" where
  "kind_name RunStarted = ''run_started''"
| "kind_name ProviderEgressAdmitted = ''provider_egress_admitted''"
| "kind_name StepStarted = ''step_started''"
| "kind_name PermitIssued = ''permit_issued''"
| "kind_name PermitConsumed = ''permit_consumed''"
| "kind_name PermitRejected = ''permit_rejected''"
| "kind_name PermitRevoked = ''permit_revoked''"
| "kind_name ArtifactStored = ''artifact_stored''"
| "kind_name StepCompleted = ''step_completed''"
| "kind_name StepFailed = ''step_failed''"
| "kind_name ParentCancelled = ''parent_cancelled''"
| "kind_name ChildAdmissionPrepared = ''child_admission_prepared''"
| "kind_name ChildLinked = ''child_linked''"
| "kind_name ChildClosed = ''child_closed''"
| "kind_name RunFinalized = ''run_finalized''"

definition reason_json :: "string \<Rightarrow> string \<Rightarrow> json" where
  "reason_json tag reason = JObj [(tag, JObj [(''reason'', JStr reason)])]"

fun outcome_json :: "ReceiptOutcomeV1 \<Rightarrow> json" where
  "outcome_json OutcomeOk = JStr ''ok''"
| "outcome_json OutcomeDenied = JStr ''denied''"
| "outcome_json (OutcomeFailed r) = reason_json ''failed'' r"
| "outcome_json (OutcomeTimedOut r) = reason_json ''timed_out'' r"
| "outcome_json (OutcomeCancelled r) = reason_json ''cancelled'' r"
| "outcome_json (OutcomeSandboxFailed r) = reason_json ''sandbox_failed'' r"
| "outcome_json (OutcomeCorrupted r) = reason_json ''corrupted'' r"
| "outcome_json (OutcomeDegraded r) = reason_json ''degraded'' r"

definition step_identity_json :: "env \<Rightarrow> StepIdentityMaterial \<Rightarrow> json" where
  "step_identity_json E m =
     JObj [(''run_id'', JStr (sim_run_id m)),
           (''stable_step_index'', json_of_nat (sim_stable_step_index m)),
           (''step_name'', JStr (sim_step_name m)),
           (''tool_call'', tool_call_json E (sim_tool_call m))]"

definition permit_identity_json :: "env \<Rightarrow> PermitIdentityMaterialV1 \<Rightarrow> json" where
  "permit_identity_json E m =
     JObj [(''binding_digest'', digest_json E (pim_binding_digest m)),
           (''requested_not_before_delay_ms'', json_of_word (pim_requested_not_before_delay_ms m)),
           (''requested_validity_ms'', json_of_word (pim_requested_validity_ms m))]"

definition receipt_identity_json :: "env \<Rightarrow> ReceiptIdentityMaterialV1 \<Rightarrow> json" where
  "receipt_identity_json E m =
     JObj [(''args_digest'', digest_json E (rim_args_digest m)),
           (''artifact_refs'', json_of_list (artifact_descriptor_json E) (rim_artifact_refs m)),
           (''kind'', JStr (kind_name (rim_kind m))),
           (''lineage'', json_of_list lineage_entry_json (rim_lineage m)),
           (''outcome'', outcome_json (rim_outcome m)),
           (''predecessor_chain_digest'', digest_json E (rim_predecessor_chain_digest m)),
           (''run_id'', JStr (rim_run_id m)),
           (''spec_digest'', digest_json E (rim_spec_digest m)),
           (''step_id'', JStr (rim_step_id m))]"

section \<open>Derived identities\<close>

definition derive_run_id :: "env \<Rightarrow> RunSpecV1 \<Rightarrow> contract_error + run_id" where
  "derive_run_id E spec =
     attempt (content_digest E (run_spec_json E spec)) (\<lambda>digest.
     attempt (ok_or IdParse (id_deterministic E KernelRunId RUN_ID_DOMAIN digest)) (\<lambda>owner.
     current_id_from_owner RUN_ID_DOMAIN owner))"

definition derive_step_id ::
    "env \<Rightarrow> run_id \<Rightarrow> nat \<Rightarrow> string \<Rightarrow> ToolCallSpecV1 \<Rightarrow> contract_error + step_id" where
  "derive_step_id E run_id stable_step_index step_name tool_call =
     attempt (content_digest E (step_identity_json E
       \<lparr>sim_run_id = run_id, sim_stable_step_index = stable_step_index,
        sim_step_name = step_name, sim_tool_call = tool_call\<rparr>)) (\<lambda>digest.
     attempt (ok_or IdParse (id_deterministic E EffectIntentId STEP_ID_DOMAIN digest)) (\<lambda>owner.
     current_id_from_owner STEP_ID_DOMAIN owner))"

definition PermitIdentityMaterialV1_validate :: "PermitIdentityMaterialV1 \<Rightarrow> contract_error + unit" where
  "PermitIdentityMaterialV1_validate m =
     (if pim_requested_validity_ms m = 0 then Err (Malformed PermitValidityEmpty) else Ok ())"

definition derive_permit_id ::
    "env \<Rightarrow> PermitIdentityMaterialV1 \<Rightarrow> contract_error + permit_id" where
  "derive_permit_id E material =
     attempt (PermitIdentityMaterialV1_validate material) (\<lambda>_.
     attempt (content_digest E (permit_identity_json E material)) (\<lambda>digest.
     attempt (ok_or IdParse (id_deterministic E ExecutionPermitId PERMIT_ID_DOMAIN digest)) (\<lambda>owner.
     current_id_from_owner PERMIT_ID_DOMAIN owner)))"

definition derive_receipt_id ::
    "env \<Rightarrow> ReceiptIdentityMaterialV1 \<Rightarrow> contract_error + receipt_id" where
  "derive_receipt_id E material =
     attempt (content_digest E (receipt_identity_json E material)) (\<lambda>digest.
     attempt (ok_or IdParse (id_deterministic E ControlReceiptId RECEIPT_ID_DOMAIN digest)) (\<lambda>owner.
     current_id_from_owner RECEIPT_ID_DOMAIN owner))"

definition derive_artifact_id :: "env \<Rightarrow> bytes \<Rightarrow> contract_error + artifact_id" where
  "derive_artifact_id E content =
     attempt (ok_or IdParse
       (id_deterministic E ArtifactId ARTIFACT_ID_DOMAIN (digest_compute E content))) (\<lambda>owner.
     current_id_from_owner ARTIFACT_ID_DOMAIN owner)"

section \<open>Lineage\<close>

text \<open>The source compares origins by their serialised names.\<close>

fun lineage_origins_fresh ::
    "string set \<Rightarrow> AuthorityLineageEntryV1 list \<Rightarrow> contract_error + unit" where
  "lineage_origins_fresh seen [] = Ok ()"
| "lineage_origins_fresh seen (entry # rest) =
     (let key = origin_name (lin_origin entry) in
      if key \<in> seen then Err (Malformed DuplicateLineageOrigin)
      else lineage_origins_fresh (insert key seen) rest)"

definition validate_lineage :: "AuthorityLineageEntryV1 list \<Rightarrow> contract_error + unit" where
  "validate_lineage chain =
     (if chain = [] then Err (Malformed EmptyLineage)
      else attempt (lineage_origins_fresh {} chain) (\<lambda>_.
        if origin_name (lin_origin (hd chain)) \<noteq> ''request''
        then Err (Malformed LineageMustStartWithRequest)
        else if origin_name (lin_origin (last chain)) \<noteq> ''effect''
        then Err (Malformed LineageMustEndWithEffect)
        else Ok ()))"

section \<open>Artifacts, outcomes and receipts\<close>

definition ArtifactDescriptorV1_validate :: "ArtifactDescriptorV1 \<Rightarrow> contract_error + unit" where
  "ArtifactDescriptorV1_validate d =
     (if ad_media_type d = [] \<or> CHR ''/'' \<notin> set (ad_media_type d) \<or> has_control (ad_media_type d)
      then Err (Malformed InvalidMediaType)
      else if (case ad_encoding d of None \<Rightarrow> False | Some enc \<Rightarrow> enc = [] \<or> has_control enc)
      then Err (Malformed InvalidEncoding)
      else Ok ())"

definition permits_successful_finalization :: "RunTerminalStateV1 \<Rightarrow> bool" where
  "permits_successful_finalization s = (s = Succeeded)"

fun receipt_outcome :: "RunTerminalStateV1 \<Rightarrow> string \<Rightarrow> ReceiptOutcomeV1" where
  "receipt_outcome Succeeded reason = OutcomeOk"
| "receipt_outcome Failed reason = OutcomeFailed reason"
| "receipt_outcome Denied reason = OutcomeDenied"
| "receipt_outcome TimedOut reason = OutcomeTimedOut reason"
| "receipt_outcome Cancelled reason = OutcomeCancelled reason"
| "receipt_outcome SandboxFailed reason = OutcomeSandboxFailed reason"
| "receipt_outcome Corrupted reason = OutcomeCorrupted reason"
| "receipt_outcome LegacyUnknown reason = OutcomeDegraded reason"

fun terminal_state :: "ReceiptOutcomeV1 \<Rightarrow> RunTerminalStateV1 option" where
  "terminal_state OutcomeOk = Some Succeeded"
| "terminal_state OutcomeDenied = Some Denied"
| "terminal_state (OutcomeFailed _) = Some Failed"
| "terminal_state (OutcomeTimedOut _) = Some TimedOut"
| "terminal_state (OutcomeCancelled _) = Some Cancelled"
| "terminal_state (OutcomeSandboxFailed _) = Some SandboxFailed"
| "terminal_state (OutcomeCorrupted _) = Some Corrupted"
| "terminal_state (OutcomeDegraded _) = None"

definition receipt_identity :: "ReceiptV1 \<Rightarrow> ReceiptIdentityMaterialV1" where
  "receipt_identity r =
     \<lparr>rim_run_id = rc_run_id r, rim_step_id = rc_step_id r, rim_kind = rc_kind r,
      rim_lineage = rc_lineage r, rim_spec_digest = rc_spec_digest r,
      rim_args_digest = rc_args_digest r, rim_outcome = rc_outcome r,
      rim_artifact_refs = rc_artifact_refs r,
      rim_predecessor_chain_digest = rc_prev_chain_digest r\<rparr>"

definition validate_material :: "env \<Rightarrow> ReceiptV1 \<Rightarrow> contract_error + unit" where
  "validate_material E r =
     attempt (validate_lineage (rc_lineage r)) (\<lambda>_.
     attempt (try_for_each ArtifactDescriptorV1_validate (rc_artifact_refs r)) (\<lambda>_.
     attempt (derive_receipt_id E (receipt_identity r)) (\<lambda>expected.
       if expected \<noteq> rc_receipt_id r then Err (Malformed ReceiptIdentityUnbound) else Ok ())))"

section \<open>Run-pack and replay manifests\<close>

record RunPackFileEntryV1 =
  pf_path :: string
  pf_role :: string
  pf_byte_length :: u64
  pf_digest :: content_digest

record RunPackManifestV1 =
  pm_schema_version :: u32
  pm_source_run_id :: run_id
  pm_files :: "RunPackFileEntryV1 list"

definition unsafe_pack_path :: "string \<Rightarrow> bool" where
  "unsafe_pack_path path =
     (is_absolute path \<or> path = [] \<or> CHR 0x5C \<in> set path \<or> CHR '':'' \<in> set path
      \<or> starts_with path ''/''
      \<or> list_ex (\<lambda>c. c = [] \<or> c = ''.'' \<or> c = ''..'') (split_on CHR ''/'' path)
      \<or> list_ex (\<lambda>c. c = ParentDir \<or> c = CurDir) (components path))"

fun manifest_files_ok :: "string set \<Rightarrow> RunPackFileEntryV1 list \<Rightarrow> contract_error + unit" where
  "manifest_files_ok seen [] = Ok ()"
| "manifest_files_ok seen (entry # rest) =
     (if unsafe_pack_path (pf_path entry) \<or> pf_path entry \<in> seen \<or> pf_role entry = []
      then Err (Malformed (UnsafeOrDuplicatePackPath (pf_path entry)))
      else manifest_files_ok (insert (pf_path entry) seen) rest)"

definition RunPackManifestV1_validate :: "RunPackManifestV1 \<Rightarrow> contract_error + unit" where
  "RunPackManifestV1_validate m =
     (if pm_schema_version m \<noteq> 1 \<or> pm_files m = []
      then Err (Malformed UnsupportedOrEmptyManifest)
      else manifest_files_ok {} (pm_files m))"

record RecordedReplayResultV1 =
  rr_schema_version :: u32
  rr_mode :: string
  rr_source_run_id :: run_id
  rr_verification_manifest_digest :: content_digest
  rr_verification_manifest_ref :: string
  rr_terminal_classification :: RunTerminalStateV1
  rr_artifact_references :: "ArtifactDescriptorV1 list"

fun replay_refs_ok :: "string option \<Rightarrow> ArtifactDescriptorV1 list \<Rightarrow> contract_error + unit" where
  "replay_refs_ok previous [] = Ok ()"
| "replay_refs_ok previous (d # rest) =
     attempt (ArtifactDescriptorV1_validate d) (\<lambda>_.
       if (case previous of None \<Rightarrow> False | Some prev \<Rightarrow> prev \<ge> ad_owner_id d)
       then Err (Malformed ReplayReferencesUnordered)
       else replay_refs_ok (Some (ad_owner_id d)) rest)"

definition RecordedReplayResultV1_validate :: "RecordedReplayResultV1 \<Rightarrow> contract_error + unit" where
  "RecordedReplayResultV1_validate r =
     (if rr_schema_version r \<noteq> 1 \<or> rr_mode r \<noteq> ''recorded_evidence''
         \<or> rr_verification_manifest_ref r \<noteq> ''PACK_MANIFEST.json''
      then Err (Malformed UnsupportedReplayResult)
      else replay_refs_ok None (rr_artifact_references r))"

section \<open>What the external owners are relied on for\<close>

text \<open>The encodings of digests and instants lose nothing and are never \<open>null\<close>; the constructor of an
  identifier family returns the text it was given.\<close>

definition encoders_ok :: "env \<Rightarrow> bool" where
  "encoders_ok E \<longleftrightarrow> inj (digest_json E) \<and> inj (time_text E) \<and> (\<forall>d. digest_json E d \<noteq> JNull)"

text \<open>A collision is a concrete pair of different inputs with the same digest or identifier.\<close>

definition digest_collision :: "env \<Rightarrow> json \<Rightarrow> json \<Rightarrow> bool" where
  "digest_collision E v w \<longleftrightarrow>
     v \<noteq> w \<and> is_ok (content_digest E v) \<and> content_digest E v = content_digest E w"

definition id_collision :: "env \<Rightarrow> id_family \<Rightarrow> string \<Rightarrow> string \<Rightarrow> string \<Rightarrow> bool" where
  "id_collision E fam domain a b \<longleftrightarrow>
     a \<noteq> b \<and> id_deterministic E fam domain a \<noteq> None
     \<and> id_deterministic E fam domain a = id_deterministic E fam domain b"

section \<open>Identifier format\<close>

lemma validate_current_id_Ok_iff [result_simps]:
  "validate_current_id value domain = Ok () \<longleftrightarrow>
     (\<exists>d. value = ''v1:'' @ domain @ '':det:'' @ d \<and> length d = 64
        \<and> list_all (\<lambda>c. is_ascii_hexdigit c \<and> \<not> is_ascii_uppercase c) d)"
  unfolding validate_current_id_def Let_def
  by (auto simp: result_simps simp del: append.simps append_Cons)

lemma current_id_from_owner_Ok_iff [result_simps]:
  "current_id_from_owner domain value = Ok i \<longleftrightarrow> i = value \<and> validate_current_id value domain = Ok ()"
  unfolding current_id_from_owner_def by (auto simp: attempt_Ok_iff)

lemma current_id_length:
  "validate_current_id value domain = Ok () \<Longrightarrow> length value = 72 + length domain"
  unfolding validate_current_id_Ok_iff by auto

lemma current_id_domain:
  assumes "validate_current_id value domain = Ok ()"
  shows "domain = take (length value - 72) (drop 3 value)"
  using assms unfolding validate_current_id_Ok_iff by auto

lemma validated_families_disjoint:
  assumes "validate_current_id value d1 = Ok ()" and "validate_current_id value d2 = Ok ()"
  shows "d1 = d2"
  using assms [THEN current_id_domain] by simp

section \<open>Injectivity of the encodings\<close>

lemma origin_name_eq_iff [simp]: "origin_name a = origin_name b \<longleftrightarrow> a = b"
  by (cases a; cases b) simp_all

lemma kind_name_eq_iff [simp]: "kind_name a = kind_name b \<longleftrightarrow> a = b"
  by (cases a; cases b) simp_all

lemma outcome_json_eq_iff [simp]: "outcome_json a = outcome_json b \<longleftrightarrow> a = b"
  by (cases a; cases b) (simp_all add: reason_json_def)

lemma time_json_eq_iff:
  "encoders_ok E \<Longrightarrow> json_of_option (time_json E) a = json_of_option (time_json E) b \<longleftrightarrow> a = b"
  unfolding encoders_ok_def
  by (cases a; cases b) (auto simp: json_of_option_def time_json_def inj_eq)

lemma digest_json_eq_iff: "encoders_ok E \<Longrightarrow> digest_json E a = digest_json E b \<longleftrightarrow> a = b"
  unfolding encoders_ok_def by (auto simp: inj_eq)

interpretation lineage_enc: canonical_encoding lineage_entry_json
  by unfold_locales
    (auto simp: lineage_entry_json_def json_inj AuthorityLineageEntryV1.equality)

lemma descriptor_encoding:
  "encoders_ok E \<Longrightarrow> canonical_encoding (artifact_descriptor_json E)"
  by unfold_locales
    (auto simp: artifact_descriptor_json_def json_inj digest_json_eq_iff ArtifactDescriptorV1.equality)

lemma tool_call_encoding: "encoders_ok E \<Longrightarrow> canonical_encoding (tool_call_json E)"
  by unfold_locales
    (auto simp: tool_call_json_def json_inj time_json_eq_iff ToolCallSpecV1.equality)

lemma step_spec_encoding: "encoders_ok E \<Longrightarrow> canonical_encoding (step_spec_json E)"
  by unfold_locales
    (auto simp: step_spec_json_def canonical_encoding.enc_eq_iff [OF tool_call_encoding]
       StepSpecV1.equality)

lemma run_spec_encoding: "encoders_ok E \<Longrightarrow> canonical_encoding (run_spec_json E)"
  by unfold_locales
    (auto simp: run_spec_json_def json_inj time_json_eq_iff RunSpecV1.equality
       canonical_encoding.list_eq_iff [OF step_spec_encoding])

lemma step_identity_encoding: "encoders_ok E \<Longrightarrow> canonical_encoding (step_identity_json E)"
  by unfold_locales
    (auto simp: step_identity_json_def json_inj canonical_encoding.enc_eq_iff [OF tool_call_encoding]
       StepIdentityMaterial.equality)

lemma permit_identity_encoding: "encoders_ok E \<Longrightarrow> canonical_encoding (permit_identity_json E)"
  by unfold_locales
    (auto simp: permit_identity_json_def json_inj digest_json_eq_iff PermitIdentityMaterialV1.equality)

lemma receipt_identity_encoding: "encoders_ok E \<Longrightarrow> canonical_encoding (receipt_identity_json E)"
  by unfold_locales
    (auto simp: receipt_identity_json_def json_inj digest_json_eq_iff lineage_enc.list_eq_iff
       canonical_encoding.list_eq_iff [OF descriptor_encoding] ReceiptIdentityMaterialV1.equality)

text \<open>The shape shared by the identity derivations: a digest of an encoding, then an identifier of
  that digest.\<close>

lemma same_identity_same_material:
  assumes enc: "canonical_encoding enc"
    and x: "content_digest E (enc x) = Ok dx" "id_deterministic E fam domain dx = Some i"
    and y: "content_digest E (enc y) = Ok dy" "id_deterministic E fam domain dy = Some i"
  shows "x = y \<or> digest_collision E (enc x) (enc y) \<or> id_collision E fam domain dx dy"
proof (cases "dx = dy")
  case True
  then show ?thesis
    using x y canonical_encoding.enc_eq_iff [OF enc] by (auto simp: digest_collision_def)
next
  case False
  then show ?thesis
    using x y by (auto simp: id_collision_def)
qed

lemma derive_receipt_id_Ok_iff [result_simps]:
  "derive_receipt_id E m = Ok i \<longleftrightarrow>
     (\<exists>d. content_digest E (receipt_identity_json E m) = Ok d
        \<and> id_deterministic E ControlReceiptId RECEIPT_ID_DOMAIN d = Some i
        \<and> validate_current_id i RECEIPT_ID_DOMAIN = Ok ())"
  unfolding derive_receipt_id_def by (auto simp: attempt_Ok_iff ok_or_Ok_iff current_id_from_owner_Ok_iff)

section \<open>Lineage\<close>

lemma lineage_origins_fresh_iff:
  "lineage_origins_fresh seen chain = Ok () \<longleftrightarrow>
     distinct (map lin_origin chain) \<and> (\<forall>e \<in> set chain. origin_name (lin_origin e) \<notin> seen)"
  by (induction seen chain rule: lineage_origins_fresh.induct) (auto simp: Let_def intro: rev_image_eqI)

lemma origin_name_request [simp]: "origin_name a = ''request'' \<longleftrightarrow> a = OriginRequest"
  by (cases a) simp_all

lemma origin_name_effect [simp]: "origin_name a = ''effect'' \<longleftrightarrow> a = OriginEffect"
  by (cases a) simp_all

lemma validate_lineage_Ok_iff [result_simps]:
  "validate_lineage chain = Ok () \<longleftrightarrow>
     chain \<noteq> [] \<and> distinct (map lin_origin chain)
     \<and> lin_origin (hd chain) = OriginRequest \<and> lin_origin (last chain) = OriginEffect"
  unfolding validate_lineage_def by (auto simp: attempt_Ok_iff lineage_origins_fresh_iff)

section \<open>Receipts\<close>

lemma validate_material_Ok_iff [result_simps]:
  "validate_material E r = Ok () \<longleftrightarrow>
     validate_lineage (rc_lineage r) = Ok ()
     \<and> (\<forall>d \<in> set (rc_artifact_refs r). ArtifactDescriptorV1_validate d = Ok ())
     \<and> derive_receipt_id E (receipt_identity r) = Ok (rc_receipt_id r)"
  unfolding validate_material_def by (auto simp: attempt_Ok_iff try_for_each_Ok_iff if_Err_Ok_iff)

lemma terminal_state_None_iff: "terminal_state o' = None \<longleftrightarrow> (\<exists>r. o' = OutcomeDegraded r)"
  by (cases o') simp_all

lemma terminal_state_receipt_outcome:
  "s \<noteq> LegacyUnknown \<Longrightarrow> terminal_state (receipt_outcome s reason) = Some s"
  by (cases s) simp_all

section \<open>Pack paths\<close>

lemma safe_pack_path_components:
  assumes "\<not> unsafe_pack_path p"
  shows "components p = map Normal (split_on CHR ''/'' p)"
proof -
  have seg: "segment_components ss = map Normal ss"
    if "list_all (\<lambda>c. c \<noteq> [] \<and> c \<noteq> ''.'' \<and> c \<noteq> ''..'') ss" for ss
    using that by (induction ss) auto
  have "list_all (\<lambda>c. c \<noteq> [] \<and> c \<noteq> ''.'' \<and> c \<noteq> ''..'') (split_on CHR ''/'' p)"
    and "\<not> is_absolute p"
    using assms by (auto simp: unsafe_pack_path_def list_ex_iff list_all_iff)
  then show ?thesis
    using seg by (cases "split_on CHR ''/'' p") (auto simp: components_def)
qed

lemma manifest_files_ok_iff:
  "manifest_files_ok seen files = Ok () \<longleftrightarrow>
     distinct (map pf_path files)
     \<and> (\<forall>f \<in> set files. pf_path f \<notin> seen \<and> \<not> unsafe_pack_path (pf_path f) \<and> pf_role f \<noteq> [])"
  by (induction seen files rule: manifest_files_ok.induct) (auto intro: rev_image_eqI)

lemma replay_refs_ok_sorted:
  "replay_refs_ok prev ds = Ok () \<Longrightarrow>
     sorted_wrt (<) (map ad_owner_id ds)
     \<and> (\<forall>d \<in> set ds. ArtifactDescriptorV1_validate d = Ok ()
          \<and> (case prev of None \<Rightarrow> True | Some p \<Rightarrow> p < ad_owner_id d))"
proof (induction prev ds rule: replay_refs_ok.induct)
  case (2 prev d rest)
  then show ?case
    by (fastforce simp: attempt_Ok_iff not_le split: option.splits if_splits)
qed (simp split: option.splits)

end
