(* ===== verification/Samples.thy ===== *)
theory Samples
  imports Contracts
begin

text \<open>
  Concrete values at which the properties are exercised: an instance of the external owners with a
  constant digest, and small receipts over it.  Nothing here models code of the repository.
\<close>

definition hex64 :: "char \<Rightarrow> string" where
  "hex64 c = replicate 64 c"

definition unary_text :: "int \<Rightarrow> string" where
  "unary_text t = (if t < 0 then ''-'' else ''+'') @ replicate (nat \<bar>t\<bar>) CHR ''1''"

definition sample_env :: env where
  "sample_env =
     \<lparr>canonicalize_bytes = (\<lambda>v. Ok ''{}''),
      boundary_digest = (\<lambda>v. Ok (hex64 CHR ''a'')),
      digest_from_hex = Some,
      digest_compute = (\<lambda>b. hex64 CHR ''b''),
      digest_json = JStr,
      id_deterministic = (\<lambda>fam domain h. Some (''v1:'' @ domain @ '':det:'' @ h)),
      id_try_new = (\<lambda>fam s. Some s),
      parse_and_validate = (\<lambda>s. Ok JNull),
      time_text = unary_text,
      time_parse = (\<lambda>s. None)\<rparr>"

definition sample_id :: "string \<Rightarrow> string" where
  "sample_id domain = ''v1:'' @ domain @ '':det:'' @ hex64 CHR ''a''"

definition sample_entry :: "LineageOrigin \<Rightarrow> AuthorityLineageEntryV1" where
  "sample_entry o' = \<lparr>lin_origin = o', lin_principal = ''p'', lin_permit_id = None,
                      lin_policy_version = ''1''\<rparr>"

definition sample_artifact :: ArtifactDescriptorV1 where
  "sample_artifact = \<lparr>ad_owner_id = ''artifact'', ad_digest = ''d'', ad_byte_length = 1,
                      ad_media_type = ''text/plain'', ad_encoding = None\<rparr>"

definition sample_receipt ::
    "ReceiptKindV1 \<Rightarrow> ReceiptOutcomeV1 \<Rightarrow> ArtifactDescriptorV1 list \<Rightarrow> ReceiptV1" where
  "sample_receipt k out refs =
     \<lparr>rc_receipt_id = sample_id RECEIPT_ID_DOMAIN, rc_run_id = ''run'', rc_step_id = ''step'',
      rc_kind = k, rc_valid_time = 0, rc_recorded_time = 0,
      rc_lineage = [sample_entry OriginRequest, sample_entry OriginEffect],
      rc_spec_digest = ''s'', rc_args_digest = ''args'', rc_artifact_refs = refs,
      rc_outcome = out, rc_prev_chain_digest = ''prev''\<rparr>"

definition sample_run :: "ReceiptV1 list" where
  "sample_run =
     [sample_receipt RunStarted OutcomeOk [],
      sample_receipt StepStarted OutcomeOk [],
      sample_receipt PermitIssued OutcomeOk [],
      sample_receipt PermitConsumed OutcomeOk [],
      sample_receipt ArtifactStored OutcomeOk [sample_artifact],
      sample_receipt StepCompleted OutcomeOk [sample_artifact],
      sample_receipt ChildAdmissionPrepared OutcomeOk [],
      sample_receipt ChildLinked OutcomeOk [sample_artifact],
      sample_receipt ChildClosed OutcomeOk [sample_artifact],
      sample_receipt RunFinalized OutcomeOk []]"

lemma sample_encoders: "encoders_ok sample_env"
proof -
  have "inj unary_text"
  proof (rule injI)
    fix a b :: int
    assume eq: "unary_text a = unary_text b"
    then have "length (unary_text a) = length (unary_text b)" by simp
    then have "nat \<bar>a\<bar> = nat \<bar>b\<bar>" by (simp add: unary_text_def split: if_splits)
    moreover have "a < 0 \<longleftrightarrow> b < 0" using eq by (auto simp: unary_text_def split: if_splits)
    ultimately show "a = b" by linarith
  qed
  then show ?thesis by (simp add: encoders_ok_def sample_env_def inj_def)
qed

lemma sample_receipt_simps [simp]:
  "rc_kind (sample_receipt k out refs) = k"
  "rc_outcome (sample_receipt k out refs) = out"
  "rc_artifact_refs (sample_receipt k out refs) = refs"
  "rc_run_id (sample_receipt k out refs) = ''run''"
  "rc_step_id (sample_receipt k out refs) = ''step''"
  "rc_args_digest (sample_receipt k out refs) = ''args''"
  "rc_lineage (sample_receipt k out refs) = [sample_entry OriginRequest, sample_entry OriginEffect]"
  "rc_receipt_id (sample_receipt k out refs) = sample_id RECEIPT_ID_DOMAIN"
  by (simp_all add: sample_receipt_def)

lemma sample_content_digest [simp]: "content_digest sample_env v = Ok (hex64 CHR ''a'')"
  by (simp add: content_digest_def sample_env_def)

lemma sample_id_valid [simp]: "validate_current_id (sample_id domain) domain = Ok ()"
  unfolding validate_current_id_Ok_iff sample_id_def
  by (rule exI [of _ "hex64 CHR ''a''"])
    (simp add: hex64_def list_all_iff is_ascii_hexdigit_def is_ascii_uppercase_def is_ascii_digit_def byte_of_def)

lemma sample_id_deterministic [simp]:
  "id_deterministic sample_env fam domain (hex64 CHR ''a'') = Some (sample_id domain)"
  by (simp add: sample_env_def sample_id_def)

lemma sample_artifact_valid [simp]: "ArtifactDescriptorV1_validate sample_artifact = Ok ()"
  by code_simp

lemma sample_material [simp]:
  "refs = [] \<or> refs = [sample_artifact] \<Longrightarrow> validate_material sample_env (sample_receipt k out refs) = Ok ()"
  by (auto simp: validate_material_Ok_iff validate_lineage_Ok_iff derive_receipt_id_Ok_iff sample_entry_def)

end
