(* ===== verification/Lifecycle.thy ===== *)
theory Lifecycle
  imports Samples
begin

text \<open>
  The receipt lifecycle validator of \<open>recursive-agent-contracts/src/lib.rs\<close>
  (\<open>validate_receipt_sequence\<close>).  The local variables of its loop are the record \<open>lifecycle\<close>; the
  loop body is \<open>lifecycle_step\<close>, with one definition per arm of the match on the receipt kind.  The
  lemmas read an accepted sequence back as a protocol: what the receipts of one step look like,
  where finalisation may stand, and what a successful finalisation guarantees.
\<close>

datatype LifecycleValidationMode = AppendInProgress | StrictCurrent | LegacyIntegrityOnly

record LifecycleValidation =
  lv_run_id :: "run_id option"
  lv_terminal_state :: "RunTerminalStateV1 option"
  lv_finalized :: bool

datatype StepLifecycle =
    StepIsStarted | StepPermitIssued | StepPermitConsumed | StepArtifactStored | StepComplete

record lifecycle =
  lc_run_id :: "run_id option"
  lc_steps :: "(step_id, StepLifecycle) btmap"
  lc_stored_artifacts :: "(step_id, string set) btmap"
  lc_terminal :: "RunTerminalStateV1 option"
  lc_finalized :: bool
  lc_prepared_children :: "content_digest set"
  lc_linked_children :: "content_digest set"
  lc_closed_children :: "content_digest set"
  lc_provider_egress_admissions :: "step_id set"

definition lifecycle_init :: lifecycle where
  "lifecycle_init =
     \<lparr>lc_run_id = None, lc_steps = bt_empty, lc_stored_artifacts = bt_empty, lc_terminal = None,
      lc_finalized = False, lc_prepared_children = {}, lc_linked_children = {},
      lc_closed_children = {}, lc_provider_egress_admissions = {}\<rparr>"

section \<open>The arms of the validator\<close>

definition require_step_state ::
    "(step_id, StepLifecycle) btmap \<Rightarrow> step_id \<Rightarrow> StepLifecycle \<Rightarrow> string \<Rightarrow> contract_error + unit" where
  "require_step_state steps step_id expected event =
     (if bt_get steps step_id \<noteq> Some expected then Err (Malformed (ViolatesStepOrdering event))
      else Ok ())"

definition set_terminal ::
    "RunTerminalStateV1 option \<Rightarrow> RunTerminalStateV1 \<Rightarrow> contract_error + RunTerminalStateV1 option" where
  "set_terminal terminal state =
     (if terminal \<noteq> None then Err (Malformed MultipleTerminalCauses) else Ok (Some state))"

definition set_step :: "ReceiptV1 \<Rightarrow> StepLifecycle \<Rightarrow> lifecycle \<Rightarrow> lifecycle" where
  "set_step r st s = s\<lparr>lc_steps := bt_insert (rc_step_id r) st (lc_steps s)\<rparr>"

definition on_RunStarted :: "nat \<Rightarrow> lifecycle \<Rightarrow> ReceiptV1 \<Rightarrow> contract_error + lifecycle" where
  "on_RunStarted index s r =
     (if index \<noteq> 0 \<or> rc_outcome r \<noteq> OutcomeOk then Err (Malformed RunStartedNotFirst) else Ok s)"

definition on_ProviderEgressAdmitted :: "lifecycle \<Rightarrow> ReceiptV1 \<Rightarrow> contract_error + lifecycle" where
  "on_ProviderEgressAdmitted s r =
     (if lc_terminal s \<noteq> None \<or> rc_outcome r \<noteq> OutcomeOk \<or> length (rc_artifact_refs r) \<noteq> 1
         \<or> bt_contains_key (lc_steps s) (rc_step_id r)
         \<or> rc_step_id r \<in> lc_provider_egress_admissions s
      then Err (Malformed ProviderEgressNotUnique)
      else Ok (s\<lparr>lc_provider_egress_admissions :=
                   insert (rc_step_id r) (lc_provider_egress_admissions s)\<rparr>))"

definition on_StepStarted :: "lifecycle \<Rightarrow> ReceiptV1 \<Rightarrow> contract_error + lifecycle" where
  "on_StepStarted s r =
     (if rc_outcome r \<noteq> OutcomeOk \<or> lc_terminal s \<noteq> None
         \<or> bt_get (lc_steps s) (rc_step_id r) \<noteq> None
      then Err (Malformed BadStepStarted)
      else Ok (set_step r StepIsStarted s))"

definition on_PermitIssued :: "lifecycle \<Rightarrow> ReceiptV1 \<Rightarrow> contract_error + lifecycle" where
  "on_PermitIssued s r =
     (if rc_outcome r \<noteq> OutcomeOk then Err (Malformed PermitIssuedNotOk)
      else attempt (require_step_state (lc_steps s) (rc_step_id r) StepIsStarted ''PermitIssued'')
        (\<lambda>_. Ok (set_step r StepPermitIssued s)))"

definition on_PermitConsumed :: "lifecycle \<Rightarrow> ReceiptV1 \<Rightarrow> contract_error + lifecycle" where
  "on_PermitConsumed s r =
     (if rc_outcome r \<noteq> OutcomeOk then Err (Malformed PermitConsumedNotOk)
      else attempt (require_step_state (lc_steps s) (rc_step_id r) StepPermitIssued ''PermitConsumed'')
        (\<lambda>_. Ok (set_step r StepPermitConsumed s)))"

definition on_PermitRejected :: "lifecycle \<Rightarrow> ReceiptV1 \<Rightarrow> contract_error + lifecycle" where
  "on_PermitRejected s r =
     (if rc_outcome r \<noteq> OutcomeDenied then Err (Malformed PermitRejectionNotDenied)
      else attempt (require_step_state (lc_steps s) (rc_step_id r) StepPermitIssued ''PermitRejected'')
        (\<lambda>_. attempt (set_terminal (lc_terminal s) Denied)
        (\<lambda>terminal. Ok (set_step r StepComplete (s\<lparr>lc_terminal := terminal\<rparr>)))))"

definition on_PermitRevoked :: "lifecycle \<Rightarrow> ReceiptV1 \<Rightarrow> contract_error + lifecycle" where
  "on_PermitRevoked s r =
     (case rc_outcome r of
        OutcomeOk \<Rightarrow>
          attempt (require_step_state (lc_steps s) (rc_step_id r) StepPermitIssued ''PermitRevoked'')
            (\<lambda>_. Ok (set_step r StepComplete s))
      | OutcomeDenied \<Rightarrow>
          attempt (require_step_state (lc_steps s) (rc_step_id r) StepPermitIssued ''PermitRevoked'')
            (\<lambda>_. attempt (set_terminal (lc_terminal s) Denied)
            (\<lambda>terminal. Ok (set_step r StepComplete (s\<lparr>lc_terminal := terminal\<rparr>))))
      | _ \<Rightarrow> Err (Malformed PermitRevocationOutcome))"

definition on_ArtifactStored :: "lifecycle \<Rightarrow> ReceiptV1 \<Rightarrow> contract_error + lifecycle" where
  "on_ArtifactStored s r =
     (if bt_get (lc_steps s) (rc_step_id r) \<noteq> Some StepPermitConsumed
         \<and> bt_get (lc_steps s) (rc_step_id r) \<noteq> Some StepArtifactStored
      then Err (Malformed (ViolatesStepOrdering ''ArtifactStored''))
      else if rc_outcome r \<noteq> OutcomeOk \<or> rc_artifact_refs r = []
      then Err (Malformed ArtifactStoredNotOk)
      else
        let before = (case bt_get (lc_stored_artifacts s) (rc_step_id r) of
                        None \<Rightarrow> {} | Some ids \<Rightarrow> ids);
            stored = bt_insert (rc_step_id r) (before \<union> set (map ad_owner_id (rc_artifact_refs r)))
                       (lc_stored_artifacts s)
        in Ok (set_step r StepArtifactStored (s\<lparr>lc_stored_artifacts := stored\<rparr>)))"

definition on_StepCompleted :: "lifecycle \<Rightarrow> ReceiptV1 \<Rightarrow> contract_error + lifecycle" where
  "on_StepCompleted s r =
     attempt (require_step_state (lc_steps s) (rc_step_id r) StepArtifactStored ''StepCompleted'') (\<lambda>_.
       if rc_outcome r \<noteq> OutcomeOk \<or> rc_artifact_refs r = []
       then Err (Malformed StepCompletedNotOk)
       else attempt (ok_or (Malformed StepCompletedNoArtifact)
                       (bt_get (lc_stored_artifacts s) (rc_step_id r))) (\<lambda>observed.
         if list_ex (\<lambda>d. ad_owner_id d \<notin> observed) (rc_artifact_refs r)
         then Err (Malformed StepCompletedForeignArtifact)
         else Ok (set_step r StepComplete s)))"

definition on_StepFailed :: "lifecycle \<Rightarrow> ReceiptV1 \<Rightarrow> contract_error + lifecycle" where
  "on_StepFailed s r =
     attempt (ok_or (Malformed StepFailedNotTerminal) (terminal_state (rc_outcome r))) (\<lambda>state.
       if state = Succeeded \<or> state = LegacyUnknown then Err (Malformed StepFailedSuccessful)
       else
         let current = bt_get (lc_steps s) (rc_step_id r);
             valid_state = (if state = Denied then current = Some StepIsStarted
                            else current = Some StepPermitConsumed \<or> current = Some StepArtifactStored)
         in if \<not> valid_state then Err (Malformed (ViolatesStepOrdering ''StepFailed''))
            else attempt (set_terminal (lc_terminal s) state) (\<lambda>terminal.
              Ok (set_step r StepComplete (s\<lparr>lc_terminal := terminal\<rparr>))))"

definition on_ParentCancelled :: "lifecycle \<Rightarrow> ReceiptV1 \<Rightarrow> contract_error + lifecycle" where
  "on_ParentCancelled s r =
     (if lc_terminal s \<noteq> None
         \<or> (case rc_outcome r of OutcomeCancelled _ \<Rightarrow> False | _ \<Rightarrow> True)
         \<or> rc_artifact_refs r \<noteq> []
      then Err (Malformed ParentCancelledInvalid)
      else attempt (set_terminal (lc_terminal s) Cancelled) (\<lambda>terminal.
        Ok (s\<lparr>lc_terminal := terminal\<rparr>)))"

definition on_ChildAdmissionPrepared :: "lifecycle \<Rightarrow> ReceiptV1 \<Rightarrow> contract_error + lifecycle" where
  "on_ChildAdmissionPrepared s r =
     (if lc_terminal s \<noteq> None \<or> rc_outcome r \<noteq> OutcomeOk \<or> rc_artifact_refs r \<noteq> []
         \<or> rc_args_digest r \<in> lc_prepared_children s
      then Err (Malformed ChildPreparedInvalid)
      else Ok (s\<lparr>lc_prepared_children := insert (rc_args_digest r) (lc_prepared_children s)\<rparr>))"

definition on_ChildLinked :: "lifecycle \<Rightarrow> ReceiptV1 \<Rightarrow> contract_error + lifecycle" where
  "on_ChildLinked s r =
     (if lc_terminal s \<noteq> None \<or> rc_outcome r \<noteq> OutcomeOk \<or> rc_artifact_refs r = []
         \<or> rc_args_digest r \<notin> lc_prepared_children s \<or> rc_args_digest r \<in> lc_linked_children s
      then Err (Malformed ChildLinkedInvalid)
      else Ok (s\<lparr>lc_linked_children := insert (rc_args_digest r) (lc_linked_children s)\<rparr>))"

definition on_ChildClosed :: "lifecycle \<Rightarrow> ReceiptV1 \<Rightarrow> contract_error + lifecycle" where
  "on_ChildClosed s r =
     (if lc_terminal s \<noteq> None \<or> rc_outcome r \<noteq> OutcomeOk \<or> rc_artifact_refs r = []
         \<or> rc_args_digest r \<notin> lc_linked_children s \<or> rc_args_digest r \<in> lc_closed_children s
      then Err (Malformed ChildClosedInvalid)
      else Ok (s\<lparr>lc_closed_children := insert (rc_args_digest r) (lc_closed_children s)\<rparr>))"

definition on_RunFinalized :: "nat \<Rightarrow> lifecycle \<Rightarrow> ReceiptV1 \<Rightarrow> contract_error + lifecycle" where
  "on_RunFinalized index s r =
     (if index = 0 then Err (Malformed FinalizationWithoutStart)
      else attempt (ok_or (Malformed FinalizedNotTerminal) (terminal_state (rc_outcome r))) (\<lambda>observed.
        let expected = (case lc_terminal s of None \<Rightarrow> Succeeded | Some t \<Rightarrow> t) in
        if observed \<noteq> expected then Err (Malformed FinalizedContradicts)
        else if list_ex (\<lambda>state. state \<noteq> StepComplete) (bt_values (lc_steps s))
        then Err (Malformed FinalizedIncompleteStep)
        else if observed = Succeeded \<and> lc_prepared_children s \<noteq> lc_closed_children s
        then Err (Malformed FinalizedOpenChild)
        else Ok (s\<lparr>lc_terminal := Some observed, lc_finalized := True\<rparr>)))"

definition on_kind :: "nat \<Rightarrow> lifecycle \<Rightarrow> ReceiptV1 \<Rightarrow> contract_error + lifecycle" where
  "on_kind index s r =
     (case rc_kind r of
        RunStarted \<Rightarrow> on_RunStarted index s r
      | ProviderEgressAdmitted \<Rightarrow> on_ProviderEgressAdmitted s r
      | StepStarted \<Rightarrow> on_StepStarted s r
      | PermitIssued \<Rightarrow> on_PermitIssued s r
      | PermitConsumed \<Rightarrow> on_PermitConsumed s r
      | PermitRejected \<Rightarrow> on_PermitRejected s r
      | PermitRevoked \<Rightarrow> on_PermitRevoked s r
      | ArtifactStored \<Rightarrow> on_ArtifactStored s r
      | StepCompleted \<Rightarrow> on_StepCompleted s r
      | StepFailed \<Rightarrow> on_StepFailed s r
      | ParentCancelled \<Rightarrow> on_ParentCancelled s r
      | ChildAdmissionPrepared \<Rightarrow> on_ChildAdmissionPrepared s r
      | ChildLinked \<Rightarrow> on_ChildLinked s r
      | ChildClosed \<Rightarrow> on_ChildClosed s r
      | RunFinalized \<Rightarrow> on_RunFinalized index s r)"

section \<open>The loop\<close>

definition lifecycle_step :: "env \<Rightarrow> lifecycle \<Rightarrow> nat \<times> ReceiptV1 \<Rightarrow> contract_error + lifecycle" where
  "lifecycle_step E s = (\<lambda>(index, r).
     attempt (validate_material E r) (\<lambda>_.
       if lc_finalized s then Err (Malformed (AfterFinalization index))
       else attempt
         (case lc_run_id s of
            Some expected \<Rightarrow> (if expected \<noteq> rc_run_id r then Err (Malformed (MixesRunIdentifiers index))
                              else Ok s)
          | None \<Rightarrow> Ok (s\<lparr>lc_run_id := Some (rc_run_id r)\<rparr>)) (\<lambda>s'.
         if index = 0 \<and> rc_kind r \<noteq> RunStarted then Err (Malformed MustBeginWithRunStarted)
         else on_kind index s' r)))"

definition lifecycle_run :: "env \<Rightarrow> ReceiptV1 list \<Rightarrow> contract_error + lifecycle" where
  "lifecycle_run E receipts = try_fold (lifecycle_step E) lifecycle_init (enumerate 0 receipts)"

definition validate_receipt_sequence ::
    "env \<Rightarrow> ReceiptV1 list \<Rightarrow> LifecycleValidationMode \<Rightarrow> contract_error + LifecycleValidation" where
  "validate_receipt_sequence E receipts mode =
     (if mode = LegacyIntegrityOnly
      then Ok \<lparr>lv_run_id = (case receipts of [] \<Rightarrow> None | r # _ \<Rightarrow> Some (rc_run_id r)),
               lv_terminal_state = Some LegacyUnknown,
               lv_finalized = list_ex (\<lambda>r. rc_kind r = RunFinalized) receipts\<rparr>
      else attempt (lifecycle_run E receipts) (\<lambda>s.
        if mode = StrictCurrent \<and> \<not> lc_finalized s then Err (Malformed StrictNotFinalized)
        else Ok \<lparr>lv_run_id = lc_run_id s, lv_terminal_state = lc_terminal s,
                 lv_finalized = lc_finalized s\<rparr>))"

section \<open>The protocol of one step\<close>

text \<open>The kinds that belong to a step, the kinds recorded for one step in order, and the words the
  protocol allows in each lifecycle state.\<close>

definition step_kinds :: "ReceiptKindV1 set" where
  "step_kinds = {StepStarted, PermitIssued, PermitConsumed, PermitRejected, PermitRevoked,
                 ArtifactStored, StepCompleted, StepFailed}"

definition step_word :: "step_id \<Rightarrow> ReceiptV1 list \<Rightarrow> ReceiptKindV1 list" where
  "step_word sid rs = map rc_kind (filter (\<lambda>r. rc_step_id r = sid \<and> rc_kind r \<in> step_kinds) rs)"

abbreviation authorised_prefix :: "ReceiptKindV1 list" where
  "authorised_prefix \<equiv> [StepStarted, PermitIssued, PermitConsumed]"

fun step_protocol :: "StepLifecycle option \<Rightarrow> ReceiptKindV1 list \<Rightarrow> bool" where
  "step_protocol None w = (w = [])"
| "step_protocol (Some StepIsStarted) w = (w = [StepStarted])"
| "step_protocol (Some StepPermitIssued) w = (w = [StepStarted, PermitIssued])"
| "step_protocol (Some StepPermitConsumed) w = (w = authorised_prefix)"
| "step_protocol (Some StepArtifactStored) w =
     (\<exists>n > 0. w = authorised_prefix @ replicate n ArtifactStored)"
| "step_protocol (Some StepComplete) w =
     (w = [StepStarted, StepFailed] \<or> w = [StepStarted, PermitIssued, PermitRejected]
      \<or> w = [StepStarted, PermitIssued, PermitRevoked]
      \<or> (\<exists>n > 0. w = authorised_prefix @ replicate n ArtifactStored @ [StepCompleted])
      \<or> (\<exists>n. w = authorised_prefix @ replicate n ArtifactStored @ [StepFailed]))"

definition child_digests :: "ReceiptKindV1 \<Rightarrow> ReceiptV1 list \<Rightarrow> content_digest list" where
  "child_digests k rs = map rc_args_digest (filter (\<lambda>r. rc_kind r = k) rs)"

text \<open>The moves of one step: which receipt kind leads from which lifecycle state to which.\<close>

inductive step_move :: "StepLifecycle option \<Rightarrow> ReceiptKindV1 \<Rightarrow> StepLifecycle \<Rightarrow> bool" where
  start: "step_move None StepStarted StepIsStarted"
| issue: "step_move (Some StepIsStarted) PermitIssued StepPermitIssued"
| consume: "step_move (Some StepPermitIssued) PermitConsumed StepPermitConsumed"
| reject: "step_move (Some StepPermitIssued) PermitRejected StepComplete"
| revoke: "step_move (Some StepPermitIssued) PermitRevoked StepComplete"
| store_first: "step_move (Some StepPermitConsumed) ArtifactStored StepArtifactStored"
| store_more: "step_move (Some StepArtifactStored) ArtifactStored StepArtifactStored"
| complete: "step_move (Some StepArtifactStored) StepCompleted StepComplete"
| refuse: "step_move (Some StepIsStarted) StepFailed StepComplete"
| fail_early: "step_move (Some StepPermitConsumed) StepFailed StepComplete"
| fail_late: "step_move (Some StepArtifactStored) StepFailed StepComplete"

inductive_simps step_move_iff: "step_move st k st'"

section \<open>Inversion of the loop\<close>

lemma require_step_state_Ok_iff [result_simps]:
  "require_step_state steps sid st ev = Ok () \<longleftrightarrow> bt_get steps sid = Some st"
  by (simp add: require_step_state_def)

lemma set_terminal_Ok_iff [result_simps]:
  "set_terminal t st = Ok t' \<longleftrightarrow> t = None \<and> t' = Some st"
  by (auto simp: set_terminal_def)

lemma on_RunStarted_Ok_iff:
  "on_RunStarted index s r = Ok s' \<longleftrightarrow> index = 0 \<and> rc_outcome r = OutcomeOk \<and> s' = s"
  by (auto simp: on_RunStarted_def)

lemma on_ProviderEgressAdmitted_Ok_iff:
  "on_ProviderEgressAdmitted s r = Ok s' \<longleftrightarrow>
     lc_terminal s = None \<and> rc_outcome r = OutcomeOk \<and> length (rc_artifact_refs r) = 1
     \<and> \<not> bt_contains_key (lc_steps s) (rc_step_id r) \<and> rc_step_id r \<notin> lc_provider_egress_admissions s
     \<and> s' = s\<lparr>lc_provider_egress_admissions :=
                 insert (rc_step_id r) (lc_provider_egress_admissions s)\<rparr>"
  by (auto simp: on_ProviderEgressAdmitted_def)

lemma on_StepStarted_Ok_iff:
  "on_StepStarted s r = Ok s' \<longleftrightarrow>
     rc_outcome r = OutcomeOk \<and> lc_terminal s = None \<and> bt_get (lc_steps s) (rc_step_id r) = None
     \<and> s' = set_step r StepIsStarted s"
  by (auto simp: on_StepStarted_def)

lemma on_PermitIssued_Ok_iff:
  "on_PermitIssued s r = Ok s' \<longleftrightarrow>
     rc_outcome r = OutcomeOk \<and> bt_get (lc_steps s) (rc_step_id r) = Some StepIsStarted
     \<and> s' = set_step r StepPermitIssued s"
  by (auto simp: on_PermitIssued_def result_simps)

lemma on_PermitConsumed_Ok_iff:
  "on_PermitConsumed s r = Ok s' \<longleftrightarrow>
     rc_outcome r = OutcomeOk \<and> bt_get (lc_steps s) (rc_step_id r) = Some StepPermitIssued
     \<and> s' = set_step r StepPermitConsumed s"
  by (auto simp: on_PermitConsumed_def result_simps)

lemma on_PermitRejected_Ok_iff:
  "on_PermitRejected s r = Ok s' \<longleftrightarrow>
     rc_outcome r = OutcomeDenied \<and> bt_get (lc_steps s) (rc_step_id r) = Some StepPermitIssued
     \<and> lc_terminal s = None \<and> s' = set_step r StepComplete (s\<lparr>lc_terminal := Some Denied\<rparr>)"
  by (auto simp: on_PermitRejected_def result_simps)

lemma on_PermitRevoked_Ok_iff:
  "on_PermitRevoked s r = Ok s' \<longleftrightarrow>
     bt_get (lc_steps s) (rc_step_id r) = Some StepPermitIssued
     \<and> (rc_outcome r = OutcomeOk \<and> s' = set_step r StepComplete s
        \<or> rc_outcome r = OutcomeDenied \<and> lc_terminal s = None
          \<and> s' = set_step r StepComplete (s\<lparr>lc_terminal := Some Denied\<rparr>))"
  by (cases "rc_outcome r") (auto simp: on_PermitRevoked_def result_simps)

lemma on_ArtifactStored_Ok_iff:
  "on_ArtifactStored s r = Ok s' \<longleftrightarrow>
     (bt_get (lc_steps s) (rc_step_id r) = Some StepPermitConsumed
      \<or> bt_get (lc_steps s) (rc_step_id r) = Some StepArtifactStored)
     \<and> rc_outcome r = OutcomeOk \<and> rc_artifact_refs r \<noteq> []
     \<and> s' = set_step r StepArtifactStored (s\<lparr>lc_stored_artifacts :=
           bt_insert (rc_step_id r)
             ((case bt_get (lc_stored_artifacts s) (rc_step_id r) of None \<Rightarrow> {} | Some ids \<Rightarrow> ids)
              \<union> set (map ad_owner_id (rc_artifact_refs r))) (lc_stored_artifacts s)\<rparr>)"
  unfolding on_ArtifactStored_def Let_def by (simp only: if_Err_Ok_iff sum.inject) blast

lemma on_StepCompleted_Ok_iff:
  "on_StepCompleted s r = Ok s' \<longleftrightarrow>
     bt_get (lc_steps s) (rc_step_id r) = Some StepArtifactStored
     \<and> rc_outcome r = OutcomeOk \<and> rc_artifact_refs r \<noteq> []
     \<and> (\<exists>observed. bt_get (lc_stored_artifacts s) (rc_step_id r) = Some observed
          \<and> ad_owner_id ` set (rc_artifact_refs r) \<subseteq> observed)
     \<and> s' = set_step r StepComplete s"
  unfolding on_StepCompleted_def
  by (auto simp: attempt_Ok_iff if_Err_Ok_iff ok_or_Ok_iff require_step_state_Ok_iff list_ex_iff)

lemma on_StepFailed_Ok_iff:
  "on_StepFailed s r = Ok s' \<longleftrightarrow>
     (\<exists>state. terminal_state (rc_outcome r) = Some state \<and> state \<noteq> Succeeded \<and> state \<noteq> LegacyUnknown
        \<and> (if state = Denied then bt_get (lc_steps s) (rc_step_id r) = Some StepIsStarted
            else bt_get (lc_steps s) (rc_step_id r) = Some StepPermitConsumed
                 \<or> bt_get (lc_steps s) (rc_step_id r) = Some StepArtifactStored)
        \<and> lc_terminal s = None
        \<and> s' = set_step r StepComplete (s\<lparr>lc_terminal := Some state\<rparr>))"
  unfolding on_StepFailed_def Let_def
  by (simp only: attempt_Ok_iff if_Err_Ok_iff ok_or_Ok_iff set_terminal_Ok_iff sum.inject) blast

lemma on_ParentCancelled_Ok_iff:
  "on_ParentCancelled s r = Ok s' \<longleftrightarrow>
     lc_terminal s = None \<and> (\<exists>reason. rc_outcome r = OutcomeCancelled reason)
     \<and> rc_artifact_refs r = [] \<and> s' = s\<lparr>lc_terminal := Some Cancelled\<rparr>"
  by (cases "rc_outcome r") (auto simp: on_ParentCancelled_def result_simps)

lemma on_ChildAdmissionPrepared_Ok_iff:
  "on_ChildAdmissionPrepared s r = Ok s' \<longleftrightarrow>
     lc_terminal s = None \<and> rc_outcome r = OutcomeOk \<and> rc_artifact_refs r = []
     \<and> rc_args_digest r \<notin> lc_prepared_children s
     \<and> s' = s\<lparr>lc_prepared_children := insert (rc_args_digest r) (lc_prepared_children s)\<rparr>"
  by (auto simp: on_ChildAdmissionPrepared_def)

lemma on_ChildLinked_Ok_iff:
  "on_ChildLinked s r = Ok s' \<longleftrightarrow>
     lc_terminal s = None \<and> rc_outcome r = OutcomeOk \<and> rc_artifact_refs r \<noteq> []
     \<and> rc_args_digest r \<in> lc_prepared_children s \<and> rc_args_digest r \<notin> lc_linked_children s
     \<and> s' = s\<lparr>lc_linked_children := insert (rc_args_digest r) (lc_linked_children s)\<rparr>"
  by (auto simp: on_ChildLinked_def)

lemma on_ChildClosed_Ok_iff:
  "on_ChildClosed s r = Ok s' \<longleftrightarrow>
     lc_terminal s = None \<and> rc_outcome r = OutcomeOk \<and> rc_artifact_refs r \<noteq> []
     \<and> rc_args_digest r \<in> lc_linked_children s \<and> rc_args_digest r \<notin> lc_closed_children s
     \<and> s' = s\<lparr>lc_closed_children := insert (rc_args_digest r) (lc_closed_children s)\<rparr>"
  by (auto simp: on_ChildClosed_def)

lemma on_RunFinalized_Ok_iff:
  "on_RunFinalized index s r = Ok s' \<longleftrightarrow>
     index \<noteq> 0
     \<and> (\<exists>t. terminal_state (rc_outcome r) = Some t
          \<and> t = (case lc_terminal s of None \<Rightarrow> Succeeded | Some t' \<Rightarrow> t')
          \<and> (\<forall>state \<in> set (bt_values (lc_steps s)). state = StepComplete)
          \<and> (t = Succeeded \<longrightarrow> lc_prepared_children s = lc_closed_children s)
          \<and> s' = s\<lparr>lc_terminal := Some t, lc_finalized := True\<rparr>)"
  unfolding on_RunFinalized_def Let_def
  by (simp only: attempt_Ok_iff if_Err_Ok_iff ok_or_Ok_iff sum.inject list_ex_iff) blast

lemmas arm_defs =
  on_RunStarted_def on_ProviderEgressAdmitted_def on_StepStarted_def on_PermitIssued_def
  on_PermitConsumed_def on_PermitRejected_def on_PermitRevoked_def on_ArtifactStored_def
  on_StepCompleted_def on_StepFailed_def on_ParentCancelled_def on_ChildAdmissionPrepared_def
  on_ChildLinked_def on_ChildClosed_def on_RunFinalized_def

lemmas arm_Ok_iff =
  on_RunStarted_Ok_iff on_ProviderEgressAdmitted_Ok_iff on_StepStarted_Ok_iff
  on_PermitIssued_Ok_iff on_PermitConsumed_Ok_iff on_PermitRejected_Ok_iff
  on_PermitRevoked_Ok_iff on_ArtifactStored_Ok_iff on_StepCompleted_Ok_iff
  on_StepFailed_Ok_iff on_ParentCancelled_Ok_iff on_ChildAdmissionPrepared_Ok_iff
  on_ChildLinked_Ok_iff on_ChildClosed_Ok_iff on_RunFinalized_Ok_iff

lemma lifecycle_step_Ok_iff:
  "lifecycle_step E s (index, r) = Ok s' \<longleftrightarrow>
     validate_material E r = Ok () \<and> \<not> lc_finalized s
     \<and> (lc_run_id s = None \<or> lc_run_id s = Some (rc_run_id r))
     \<and> (index = 0 \<longrightarrow> rc_kind r = RunStarted)
     \<and> on_kind index (s\<lparr>lc_run_id := Some (rc_run_id r)\<rparr>) r = Ok s'"
proof (cases "lc_run_id s")
  case (Some i)
  have "s\<lparr>lc_run_id := lc_run_id s\<rparr> = s" by simp
  then have "i = rc_run_id r \<Longrightarrow> on_kind index (s\<lparr>lc_run_id := Some (rc_run_id r)\<rparr>) r = on_kind index s r"
    using Some by metis
  with Some show ?thesis
    by (cases "i = rc_run_id r") (simp_all add: lifecycle_step_def attempt_Ok_iff if_Err_Ok_iff, blast)
qed (auto simp: lifecycle_step_def attempt_Ok_iff)

lemma lifecycle_run_Nil [simp]: "lifecycle_run E [] = Ok lifecycle_init"
  by (simp add: lifecycle_run_def)

lemma lifecycle_run_snoc:
  "lifecycle_run E (rs @ [r]) = attempt (lifecycle_run E rs) (\<lambda>s. lifecycle_step E s (length rs, r))"
  by (simp add: lifecycle_run_def enumerate_append_eq try_fold_append attempt_def split: sum.splits)

lemma lifecycle_run_induct [consumes 1, case_names Nil snoc]:
  assumes "lifecycle_run E rs = Ok s"
    and "P [] lifecycle_init"
    and "\<And>rs r s s'. lifecycle_run E rs = Ok s \<Longrightarrow> P rs s \<Longrightarrow>
           lifecycle_step E s (length rs, r) = Ok s' \<Longrightarrow> P (rs @ [r]) s'"
  shows "P rs s"
  using assms(1)
proof (induction rs arbitrary: s rule: rev_induct)
  case Nil
  then show ?case using assms(2) by simp
next
  case (snoc r rs)
  then show ?case using assms(3) by (auto simp: lifecycle_run_snoc attempt_Ok_iff)
qed

section \<open>Step protocol\<close>

lemma on_kind_steps:
  assumes "on_kind index s r = Ok s'"
  shows "if rc_kind r \<in> step_kinds
         then \<exists>st. lc_steps s' = bt_insert (rc_step_id r) st (lc_steps s)
              \<and> step_move (bt_get (lc_steps s) (rc_step_id r)) (rc_kind r) st
         else lc_steps s' = lc_steps s"
  using assms unfolding on_kind_def
  by (cases "rc_kind r")
    (auto simp: arm_Ok_iff step_kinds_def set_step_def step_move_iff split: if_splits)

lemma step_move_protocol:
  assumes "step_move st k st'" and "step_protocol st w"
  shows "step_protocol (Some st') (w @ [k])"
  using assms
proof (cases rule: step_move.cases)
  case store_more
  with assms(2) obtain n where "w = authorised_prefix @ replicate n ArtifactStored" by auto
  then have "w @ [k] = authorised_prefix @ replicate (Suc n) ArtifactStored"
    using store_more by (simp add: replicate_append_same)
  then show ?thesis using store_more by auto
qed (use assms(2) in \<open>auto intro: exI [of _ 0] exI [of _ 1]\<close>)

lemma step_word_snoc:
  "step_word sid (rs @ [r]) =
     step_word sid rs @ (if rc_step_id r = sid \<and> rc_kind r \<in> step_kinds then [rc_kind r] else [])"
  by (simp add: step_word_def)

lemma run_step_protocol:
  assumes "lifecycle_run E rs = Ok s"
  shows "step_protocol (bt_get (lc_steps s) sid) (step_word sid rs)"
  using assms
proof (induction rule: lifecycle_run_induct)
  case Nil
  then show ?case by (simp add: lifecycle_init_def step_word_def)
next
  case (snoc rs r s s')
  then have "on_kind (length rs) (s\<lparr>lc_run_id := Some (rc_run_id r)\<rparr>) r = Ok s'"
    by (simp add: lifecycle_step_Ok_iff)
  from on_kind_steps [OF this] snoc.IH show ?case
    by (auto simp: step_word_snoc split: if_splits intro: step_move_protocol)
qed

section \<open>Children\<close>

lemma child_digests_simps [simp]:
  "child_digests k [] = []"
  "child_digests k (r # rs) = (if rc_kind r = k then [rc_args_digest r] else []) @ child_digests k rs"
  by (simp_all add: child_digests_def)

lemma child_digests_snoc:
  "child_digests k (rs @ [r]) = child_digests k rs @ (if rc_kind r = k then [rc_args_digest r] else [])"
  by (simp add: child_digests_def)

lemma run_children:
  assumes "lifecycle_run E rs = Ok s"
  shows "lc_prepared_children s = set (child_digests ChildAdmissionPrepared rs)
       \<and> lc_linked_children s = set (child_digests ChildLinked rs)
       \<and> lc_closed_children s = set (child_digests ChildClosed rs)
       \<and> lc_closed_children s \<subseteq> lc_linked_children s
       \<and> lc_linked_children s \<subseteq> lc_prepared_children s
       \<and> distinct (child_digests ChildAdmissionPrepared rs)
       \<and> distinct (child_digests ChildLinked rs) \<and> distinct (child_digests ChildClosed rs)"
  using assms
proof (induction rule: lifecycle_run_induct)
  case Nil
  then show ?case by (simp add: lifecycle_init_def child_digests_def)
next
  case (snoc rs r s s')
  then have "on_kind (length rs) (s\<lparr>lc_run_id := Some (rc_run_id r)\<rparr>) r = Ok s'"
    by (simp add: lifecycle_step_Ok_iff)
  with snoc.IH show ?case
    unfolding on_kind_def
    by (cases "rc_kind r")
      (auto simp: arm_Ok_iff set_step_def child_digests_snoc)
qed

section \<open>Terminal causes and finalisation\<close>

text \<open>The receipts that end a run other than successfully.\<close>

definition adverse :: "ReceiptV1 \<Rightarrow> bool" where
  "adverse r \<longleftrightarrow> rc_kind r \<in> {StepFailed, PermitRejected, ParentCancelled}
     \<or> (rc_kind r = PermitRevoked \<and> rc_outcome r = OutcomeDenied)"

lemma on_kind_terminal:
  assumes "on_kind index s r = Ok s'"
  shows "(if adverse r then lc_terminal s = None
            \<and> (\<exists>t. lc_terminal s' = Some t \<and> t \<noteq> Succeeded \<and> terminal_state (rc_outcome r) = Some t)
          else if rc_kind r = RunFinalized then
            lc_terminal s' = Some (case lc_terminal s of None \<Rightarrow> Succeeded | Some t \<Rightarrow> t)
            \<and> terminal_state (rc_outcome r) = lc_terminal s'
          else lc_terminal s' = lc_terminal s)
         \<and> lc_finalized s' = (lc_finalized s \<or> rc_kind r = RunFinalized)
         \<and> lc_run_id s' = lc_run_id s"
  using assms unfolding on_kind_def
  by (cases "rc_kind r")
    (auto simp: arm_Ok_iff set_step_def adverse_def)

lemma run_terminal:
  assumes "lifecycle_run E rs = Ok s"
  shows "(lc_terminal s = None \<longleftrightarrow> \<not> list_ex adverse rs \<and> \<not> lc_finalized s)
       \<and> (lc_terminal s = Some Succeeded \<longleftrightarrow> \<not> list_ex adverse rs \<and> lc_finalized s)
       \<and> (lc_finalized s \<longleftrightarrow> list_ex (\<lambda>r. rc_kind r = RunFinalized) rs)"
  using assms
proof (induction rule: lifecycle_run_induct)
  case Nil
  then show ?case by (simp add: lifecycle_init_def)
next
  case (snoc rs r s s')
  then have step: "on_kind (length rs) (s\<lparr>lc_run_id := Some (rc_run_id r)\<rparr>) r = Ok s'"
    and fin: "\<not> lc_finalized s"
    by (simp_all add: lifecycle_step_Ok_iff)
  from on_kind_terminal [OF step] snoc.IH fin show ?case
    by (cases "lc_terminal s") (auto split: if_splits simp: adverse_def)
qed

lemma run_uniform:
  assumes "lifecycle_run E rs = Ok s"
  shows "lc_run_id s = (case rs of [] \<Rightarrow> None | r # _ \<Rightarrow> Some (rc_run_id r))
       \<and> list_all (\<lambda>r. lc_run_id s = Some (rc_run_id r) \<and> validate_material E r = Ok ()) rs"
  using assms
proof (induction rule: lifecycle_run_induct)
  case Nil
  then show ?case by (simp add: lifecycle_init_def)
next
  case (snoc rs r s s')
  then have step: "on_kind (length rs) (s\<lparr>lc_run_id := Some (rc_run_id r)\<rparr>) r = Ok s'"
    and ids: "lc_run_id s = None \<or> lc_run_id s = Some (rc_run_id r)"
    and mat: "validate_material E r = Ok ()"
    by (simp_all add: lifecycle_step_Ok_iff)
  from on_kind_terminal [OF step] have "lc_run_id s' = Some (rc_run_id r)" by simp
  with snoc.IH ids mat show ?case
    by (cases rs) (auto simp: list_all_iff)
qed

lemma run_bracketed:
  assumes "lifecycle_run E rs = Ok s" and "rs \<noteq> []"
  shows "rc_kind (hd rs) = RunStarted
       \<and> list_all (\<lambda>r. rc_kind r \<noteq> RunStarted) (tl rs)
       \<and> list_all (\<lambda>r. rc_kind r \<noteq> RunFinalized) (butlast rs)"
  using assms
proof (induction rule: lifecycle_run_induct)
  case Nil
  then show ?case by simp
next
  case (snoc rs r s s')
  then have step: "on_kind (length rs) (s\<lparr>lc_run_id := Some (rc_run_id r)\<rparr>) r = Ok s'"
    and fin: "\<not> lc_finalized s" and first: "length rs = 0 \<longrightarrow> rc_kind r = RunStarted"
    by (simp_all add: lifecycle_step_Ok_iff)
  have open_run: "list_all (\<lambda>r. rc_kind r \<noteq> RunFinalized) rs"
    using run_terminal [OF snoc.hyps(1)] fin by (auto simp: list_all_iff list_ex_iff)
  have start: "rc_kind r = RunStarted \<longrightarrow> rs = []"
    using step by (auto simp: on_kind_def on_RunStarted_Ok_iff)
  show ?case
    using snoc.IH open_run start first by (cases rs) (auto simp: list_all_iff)
qed

lemma run_finalized_steps:
  assumes "lifecycle_run E rs = Ok s" and "lc_finalized s"
  shows "bt_get (lc_steps s) sid = None \<or> bt_get (lc_steps s) sid = Some StepComplete"
  using assms
proof (induction rule: lifecycle_run_induct)
  case Nil
  then show ?case by (simp add: lifecycle_init_def)
next
  case (snoc rs r s s')
  then have step: "on_kind (length rs) (s\<lparr>lc_run_id := Some (rc_run_id r)\<rparr>) r = Ok s'"
    and fin: "\<not> lc_finalized s"
    by (simp_all add: lifecycle_step_Ok_iff)
  then have "rc_kind r = RunFinalized"
    using on_kind_terminal [OF step] snoc.prems by simp
  then show ?case
    using step bt_get_in_values [of "lc_steps s" sid]
    by (cases "bt_get (lc_steps s) sid") (auto simp: on_kind_def on_RunFinalized_Ok_iff)
qed

lemma run_success_children:
  assumes "lifecycle_run E rs = Ok s" and "lc_finalized s" and "lc_terminal s = Some Succeeded"
  shows "lc_prepared_children s = lc_closed_children s"
  using assms
proof (induction rule: lifecycle_run_induct)
  case Nil
  then show ?case by (simp add: lifecycle_init_def)
next
  case (snoc rs r s s')
  then have step: "on_kind (length rs) (s\<lparr>lc_run_id := Some (rc_run_id r)\<rparr>) r = Ok s'"
    and fin: "\<not> lc_finalized s"
    by (simp_all add: lifecycle_step_Ok_iff)
  then have "rc_kind r = RunFinalized"
    using on_kind_terminal [OF step] snoc.prems by simp
  then show ?case
    using step snoc.prems by (auto simp: on_kind_def on_RunFinalized_Ok_iff)
qed

section \<open>Reading the validator's answer\<close>

lemma validate_current_Ok_iff:
  assumes "mode \<noteq> LegacyIntegrityOnly"
  shows "validate_receipt_sequence E rs mode = Ok v \<longleftrightarrow>
     (\<exists>s. lifecycle_run E rs = Ok s \<and> (mode = StrictCurrent \<longrightarrow> lc_finalized s)
        \<and> v = \<lparr>lv_run_id = lc_run_id s, lv_terminal_state = lc_terminal s,
               lv_finalized = lc_finalized s\<rparr>)"
  using assms by (auto simp: validate_receipt_sequence_def attempt_Ok_iff if_Err_Ok_iff)

lemma strict_accepted_for_append:
  "validate_receipt_sequence E rs StrictCurrent = Ok v \<Longrightarrow>
   validate_receipt_sequence E rs AppendInProgress = Ok v"
  by (auto simp: validate_current_Ok_iff)

lemma lifecycle_run_append:
  "lifecycle_run E (rs @ rs') = Ok s' \<Longrightarrow> \<exists>s. lifecycle_run E rs = Ok s"
  by (auto simp: lifecycle_run_def enumerate_append_eq try_fold_append attempt_Ok_iff)

section \<open>Properties\<close>

lemma sample_run_valid:
  "validate_receipt_sequence sample_env sample_run StrictCurrent =
     Ok \<lparr>lv_run_id = Some ''run'', lv_terminal_state = Some Succeeded, lv_finalized = True\<rparr>"
proof -
  have "lifecycle_run sample_env sample_run = Ok
     \<lparr>lc_run_id = Some ''run'', lc_steps = [(''step'', StepComplete)],
      lc_stored_artifacts = [(''step'', {''artifact''})], lc_terminal = Some Succeeded,
      lc_finalized = True, lc_prepared_children = {''args''}, lc_linked_children = {''args''},
      lc_closed_children = {''args''}, lc_provider_egress_admissions = {}\<rparr>"
    by (simp add: lifecycle_run_def sample_run_def lifecycle_step_def on_kind_def lifecycle_init_def
        arm_defs require_step_state_def set_step_def bt_empty_def bt_get_def bt_values_def
        sample_artifact_def [THEN arg_cong [where f = ad_owner_id]])
  then show ?thesis by (simp add: validate_receipt_sequence_def)
qed

text \<open>C1 step protocol.  In every receipt sequence the validator accepts, the receipts of each step,
  read in order, form a word of the step protocol: started, permit issued, permit consumed, one or
  more artifacts, completed, with refusal, rejection, revocation and failure only where the
  protocol has them.  In a finalised run every step has reached the end of a word.\<close>

theorem accepted_steps_follow_protocol:
  assumes "mode \<noteq> LegacyIntegrityOnly" and "validate_receipt_sequence E rs mode = Ok v"
  shows "\<exists>st. step_protocol st (step_word sid rs)
           \<and> (lv_finalized v \<longrightarrow> st = None \<or> st = Some StepComplete)"
proof -
  obtain s where "lifecycle_run E rs = Ok s" and "lv_finalized v = lc_finalized s"
    using assms by (auto simp: validate_current_Ok_iff)
  then show ?thesis
    using run_step_protocol run_finalized_steps by metis
qed

theorem accepted_steps_follow_protocol_witness:
  "\<exists>st. step_protocol st (step_word ''step'' sample_run) \<and> (True \<longrightarrow> st = None \<or> st = Some StepComplete)"
  using accepted_steps_follow_protocol [OF _ sample_run_valid, of "''step''"] by simp

text \<open>C21 no evidence without a consumed permit.  Whenever an accepted sequence records an artifact for
  a step or completes it, the receipts of that step so far are exactly: started, permit issued,
  permit consumed, then artifacts.  In particular the permit of the step was consumed before, and
  only once.\<close>

theorem artifact_requires_consumed_permit:
  assumes "mode \<noteq> LegacyIntegrityOnly"
    and "validate_receipt_sequence E (pre @ r # post) mode = Ok v"
    and "rc_kind r = ArtifactStored \<or> rc_kind r = StepCompleted"
  shows "\<exists>n. step_word (rc_step_id r) pre = authorised_prefix @ replicate n ArtifactStored"
proof -
  obtain s' where "lifecycle_run E ((pre @ [r]) @ post) = Ok s'"
    using assms by (auto simp: validate_current_Ok_iff)
  from lifecycle_run_append [OF this] obtain t s where pre: "lifecycle_run E pre = Ok s"
    and step: "on_kind (length pre) (s\<lparr>lc_run_id := Some (rc_run_id r)\<rparr>) r = Ok t"
    by (auto simp: lifecycle_run_snoc attempt_Ok_iff lifecycle_step_Ok_iff)
  have "bt_get (lc_steps s) (rc_step_id r) \<in> {Some StepPermitConsumed, Some StepArtifactStored}"
    using step assms(3) by (auto simp: on_kind_def arm_Ok_iff)
  with run_step_protocol [OF pre, of "rc_step_id r"] show ?thesis
    by (auto intro: exI [of _ 0])
qed

theorem artifact_requires_consumed_permit_witness:
  "\<exists>n. step_word ''step'' (take 5 sample_run) = authorised_prefix @ replicate n ArtifactStored"
proof -
  have split: "sample_run = take 5 sample_run @ (sample_run ! 5) # drop 6 sample_run"
    by (simp add: sample_run_def)
  have "validate_receipt_sequence sample_env (take 5 sample_run @ (sample_run ! 5) # drop 6 sample_run)
          StrictCurrent =
        Ok \<lparr>lv_run_id = Some ''run'', lv_terminal_state = Some Succeeded, lv_finalized = True\<rparr>"
    using sample_run_valid split by simp
  from artifact_requires_consumed_permit [OF _ this] show ?thesis
    by (simp add: sample_run_def sample_receipt_def)
qed

lemma strict_shape:
  assumes "validate_receipt_sequence E rs StrictCurrent = Ok v"
  shows "rs \<noteq> [] \<and> rc_kind (hd rs) = RunStarted \<and> rc_kind (last rs) = RunFinalized
       \<and> list_all (\<lambda>r. rc_kind r \<noteq> RunStarted) (tl rs)
       \<and> list_all (\<lambda>r. rc_kind r \<noteq> RunFinalized) (butlast rs)
       \<and> list_all (\<lambda>r. lv_run_id v = Some (rc_run_id r)) rs
       \<and> terminal_state (rc_outcome (last rs)) = lv_terminal_state v \<and> lv_terminal_state v \<noteq> None"
proof -
  obtain s where run: "lifecycle_run E rs = Ok s" and fin: "lc_finalized s"
    and v: "lv_run_id v = lc_run_id s" "lv_terminal_state v = lc_terminal s"
    using assms by (auto simp: validate_current_Ok_iff)
  have "rs \<noteq> []" using run fin by (auto simp: lifecycle_init_def)
  then obtain pre r where rs: "rs = pre @ [r]" by (metis append_butlast_last_id)
  with run obtain t where pre: "lifecycle_run E pre = Ok t" and "\<not> lc_finalized t"
    and step: "on_kind (length pre) (t\<lparr>lc_run_id := Some (rc_run_id r)\<rparr>) r = Ok s"
    by (auto simp: lifecycle_run_snoc attempt_Ok_iff lifecycle_step_Ok_iff)
  with on_kind_terminal [OF step] fin have "rc_kind r = RunFinalized"
    and "terminal_state (rc_outcome r) = lc_terminal s" and "lc_terminal s \<noteq> None"
    by (auto simp: adverse_def split: if_splits)
  then show ?thesis
    using run_bracketed [OF run \<open>rs \<noteq> []\<close>] run_uniform [OF run] v rs
    by (auto simp: list_all_iff)
qed

text \<open>C28 shape of a current chain.  A sequence accepted in strict mode is not empty, begins with its only
  \<open>RunStarted\<close>, ends with its only \<open>RunFinalized\<close>, belongs to one run, and the reported terminal state
  is the one its last receipt carries.\<close>

theorem strict_chain_shape:
  assumes "validate_receipt_sequence E rs StrictCurrent = Ok v"
  shows "rs \<noteq> [] \<and> rc_kind (hd rs) = RunStarted \<and> rc_kind (last rs) = RunFinalized
       \<and> list_all (\<lambda>r. rc_kind r \<noteq> RunStarted) (tl rs)
       \<and> list_all (\<lambda>r. rc_kind r \<noteq> RunFinalized) (butlast rs)
       \<and> list_all (\<lambda>r. lv_run_id v = Some (rc_run_id r)) rs
       \<and> terminal_state (rc_outcome (last rs)) = lv_terminal_state v \<and> lv_terminal_state v \<noteq> None"
  using strict_shape [OF assms] .

theorem strict_chain_shape_witness:
  "sample_run \<noteq> [] \<and> rc_kind (last sample_run) = RunFinalized"
  using strict_chain_shape [OF sample_run_valid] by simp

text \<open>C22 success is earned.  If a strictly accepted run reports success then no receipt in it records a
  failure, rejection, denial or cancellation; every prepared child was linked and closed, each of
  them once; and every step either completed after storing artifacts under a consumed permit or
  had its unconsumed permit revoked in an orderly way.\<close>

theorem success_is_earned:
  assumes "validate_receipt_sequence E rs StrictCurrent = Ok v"
    and "lv_terminal_state v = Some Succeeded"
  shows "\<not> list_ex adverse rs
       \<and> set (child_digests ChildAdmissionPrepared rs) = set (child_digests ChildClosed rs)
       \<and> set (child_digests ChildLinked rs) = set (child_digests ChildClosed rs)
       \<and> distinct (child_digests ChildClosed rs)
       \<and> (step_word sid rs = [] \<or> step_word sid rs = [StepStarted, PermitIssued, PermitRevoked]
          \<or> (\<exists>n > 0. step_word sid rs = authorised_prefix @ replicate n ArtifactStored @ [StepCompleted]))"
proof -
  obtain s where run: "lifecycle_run E rs = Ok s" and fin: "lc_finalized s"
    and succ: "lc_terminal s = Some Succeeded"
    using assms by (auto simp: validate_current_Ok_iff)
  have clean: "\<not> list_ex adverse rs" using run_terminal [OF run] succ by simp
  have word: "StepFailed \<notin> set (step_word sid rs)" "PermitRejected \<notin> set (step_word sid rs)"
    using clean by (auto simp: step_word_def adverse_def list_ex_iff)
  have "step_protocol (bt_get (lc_steps s) sid) (step_word sid rs)"
    and "bt_get (lc_steps s) sid = None \<or> bt_get (lc_steps s) sid = Some StepComplete"
    using run_step_protocol [OF run] run_finalized_steps [OF run fin] by blast+
  then have "step_word sid rs = [] \<or> step_word sid rs = [StepStarted, PermitIssued, PermitRevoked]
       \<or> (\<exists>n > 0. step_word sid rs = authorised_prefix @ replicate n ArtifactStored @ [StepCompleted])"
    using word by auto
  moreover have "lc_prepared_children s = lc_closed_children s"
    by (rule run_success_children [OF run fin succ])
  ultimately show ?thesis
    using clean run_children [OF run] by blast
qed

theorem success_is_earned_witness:
  "\<not> list_ex adverse sample_run
   \<and> set (child_digests ChildAdmissionPrepared sample_run) = set (child_digests ChildClosed sample_run)"
  using success_is_earned [OF sample_run_valid, of "''step''"] by simp

text \<open>append discipline.  Accepting a sequence for append means accepting every prefix of it, and once
  an accepted sequence is finalised no extension of it is accepted.\<close>

theorem append_discipline:
  assumes "validate_receipt_sequence E rs AppendInProgress = Ok v"
  shows "is_ok (validate_receipt_sequence E (take n rs) AppendInProgress)
       \<and> (lv_finalized v \<longrightarrow> \<not> is_ok (validate_receipt_sequence E (rs @ r # rest) AppendInProgress))"
proof -
  obtain s where run: "lifecycle_run E rs = Ok s" and v: "lv_finalized v = lc_finalized s"
    using assms by (auto simp: validate_current_Ok_iff)
  have "\<exists>t. lifecycle_run E (take n rs) = Ok t"
    using run lifecycle_run_append [of E "take n rs" "drop n rs"] by simp
  moreover have "lifecycle_run E (rs @ r # rest) \<noteq> Ok t" if "lc_finalized s" for t
  proof
    assume "lifecycle_run E (rs @ r # rest) = Ok t"
    then obtain u where "lifecycle_run E (rs @ [r]) = Ok u"
      using lifecycle_run_append [of E "rs @ [r]" rest t] by auto
    with run that show False
      by (auto simp: lifecycle_run_snoc attempt_Ok_iff lifecycle_step_Ok_iff)
  qed
  ultimately show ?thesis
    using v by (auto simp: is_ok_iff validate_current_Ok_iff)
qed

theorem append_discipline_witness:
  "is_ok (validate_receipt_sequence sample_env (take 4 sample_run) AppendInProgress)
   \<and> \<not> is_ok (validate_receipt_sequence sample_env (sample_run @ [hd sample_run]) AppendInProgress)"
proof -
  have "validate_receipt_sequence sample_env sample_run AppendInProgress =
     Ok \<lparr>lv_run_id = Some ''run'', lv_terminal_state = Some Succeeded, lv_finalized = True\<rparr>"
    by (rule strict_accepted_for_append [OF sample_run_valid])
  from append_discipline [OF this, of 4 "hd sample_run" "[]"] show ?thesis by simp
qed

end
