(* ===== verification/Scheduler.thy ===== *)
theory Scheduler
  imports Machine
begin

text \<open>
  The durable scheduler projection of \<open>recursive-agent-runner/src/scheduler.rs\<close>.  Each operation is
  a change of the stored file (\<open>*_change\<close>), published through \<open>update\<close>: lock, read and validate the
  current file, change the copy, persist it, unlock.  Several handles (processes) share one file;
  the file system and the lock are the record \<open>faults\<close>, which says for one call which of the
  system calls fail, a failing \<open>persist\<close> before or after the rename included.
\<close>

section \<open>Data\<close>

datatype io_kind = NotFound | OtherIo

datatype invalid_reason =
    FileBound | BadJson | RowIdentity | ConflictingIdentity | QuarantineState
  | EmptyAdmission | ChildProjection | ChildMismatch | RootMismatch | OutputBound

datatype SchedulerStoreError =
    SchedIo io_kind
  | SchedJson
  | UnknownAdmission string
  | LeaseConflict string string
  | LeaseFenced string string u64
  | LeaseGenerationExhausted string
  | InvalidLeaseHolder
  | RecoveryRequired
  | IdempotencyConflict
  | IneligibleLease
  | SchedInvalid invalid_reason

datatype ProjectedState = Submitted | Authorized | Cancelling | Terminal | Quarantined

record OperationRow =
  or_operation_id :: string
  or_parent_operation_id :: "string option"
  or_root_operation_id :: "string option"
  or_children :: "string list"
  or_idempotency_key_digest :: "string option"
  or_lease_holder :: "string option"
  or_lease_generation :: u64
  or_heartbeat :: u64
  or_cancel_requested :: bool
  or_projection_cursor :: u64
  or_state :: ProjectedState

definition OperationRow_new :: "string \<Rightarrow> OperationRow" where
  "OperationRow_new operation_id =
     \<lparr>or_operation_id = operation_id, or_parent_operation_id = None, or_root_operation_id = None,
      or_children = [], or_idempotency_key_digest = None, or_lease_holder = None,
      or_lease_generation = 0, or_heartbeat = 0, or_cancel_requested = False,
      or_projection_cursor = 0, or_state = Submitted\<rparr>"

record LeaseGrantV1 =
  lg_operation_id :: string
  lg_holder :: string
  lg_generation :: u64

record StoreFile =
  sf_rows :: "(string, OperationRow) btmap"
  sf_quarantined :: "OperationRow list"

abbreviation StoreFile_default :: StoreFile where
  "StoreFile_default \<equiv> \<lparr>sf_rows = bt_empty, sf_quarantined = []\<rparr>"

section \<open>Reading: the checks of a stored file\<close>

definition all_rows :: "StoreFile \<Rightarrow> OperationRow list" where
  "all_rows f = bt_values (sf_rows f) @ sf_quarantined f"

fun check_identities ::
    "string set \<Rightarrow> string set \<Rightarrow> OperationRow list \<Rightarrow> SchedulerStoreError + unit" where
  "check_identities ids keys [] = Ok ()"
| "check_identities ids keys (row # rows) =
     (if or_operation_id row = [] \<or> or_operation_id row \<in> ids
         \<or> (case or_idempotency_key_digest row of None \<Rightarrow> False | Some key \<Rightarrow> key = [] \<or> key \<in> keys)
      then Err (SchedInvalid ConflictingIdentity)
      else check_identities (insert (or_operation_id row) ids)
             (keys \<union> set_option (or_idempotency_key_digest row)) rows)"

definition validate_store :: "StoreFile \<Rightarrow> SchedulerStoreError + StoreFile" where
  "validate_store f =
     (if list_ex (\<lambda>(oid, row). oid \<noteq> or_operation_id row \<or> or_state row = Quarantined) (sf_rows f)
      then Err (SchedInvalid RowIdentity)
      else attempt (check_identities {} {} (all_rows f)) (\<lambda>_.
        if list_ex (\<lambda>row. or_state row \<noteq> Quarantined) (sf_quarantined f)
        then Err (SchedInvalid QuarantineState)
        else Ok f))"

section \<open>Changes of the stored file\<close>

definition put_row :: "OperationRow \<Rightarrow> string \<Rightarrow> StoreFile \<Rightarrow> StoreFile" where
  "put_row row oid f = f\<lparr>sf_rows := bt_insert oid row (sf_rows f)\<rparr>"

definition get_row :: "string \<Rightarrow> StoreFile \<Rightarrow> SchedulerStoreError + OperationRow" where
  "get_row oid f = ok_or (UnknownAdmission oid) (bt_get (sf_rows f) oid)"

definition admit_change ::
    "string \<Rightarrow> string \<Rightarrow> StoreFile \<Rightarrow> SchedulerStoreError + (StoreFile \<times> OperationRow)" where
  "admit_change operation_id key f =
     (if list_ex (\<lambda>row. or_operation_id row = operation_id) (sf_quarantined f)
      then Err (UnknownAdmission operation_id)
      else case bt_get (sf_rows f) operation_id of
        Some row \<Rightarrow>
          (if or_idempotency_key_digest row \<noteq> Some key then Err IdempotencyConflict else Ok (f, row))
      | None \<Rightarrow>
          (if list_ex (\<lambda>row. or_idempotency_key_digest row = Some key) (all_rows f)
           then Err IdempotencyConflict
           else
             let row = (OperationRow_new operation_id)\<lparr>or_idempotency_key_digest := Some key\<rparr>
             in Ok (put_row row operation_id f, row)))"

definition project_child_change ::
    "string \<Rightarrow> string \<Rightarrow> string \<Rightarrow> StoreFile \<Rightarrow> SchedulerStoreError + (StoreFile \<times> unit)" where
  "project_child_change parent_id root_id child_id f =
     (if parent_id = child_id \<or> root_id = [] then Err (SchedInvalid ChildProjection)
      else if (case bt_get (sf_rows f) child_id of
                 None \<Rightarrow> False
               | Some child \<Rightarrow>
                   (case or_parent_operation_id child of None \<Rightarrow> False | Some p \<Rightarrow> p \<noteq> parent_id)
                   \<or> (case or_root_operation_id child of None \<Rightarrow> False | Some r \<Rightarrow> r \<noteq> root_id))
      then Err (SchedInvalid ChildMismatch)
      else attempt (get_row parent_id f) (\<lambda>parent.
        if (case or_root_operation_id parent of None \<Rightarrow> False | Some r \<Rightarrow> r \<noteq> root_id)
        then Err (SchedInvalid RootMismatch)
        else
          let kids = (if child_id \<in> set (or_children parent) then or_children parent
                      else or_children parent @ [child_id]);
              f1 = put_row (parent\<lparr>or_root_operation_id := Some root_id, or_children := kids\<rparr>)
                     parent_id f
          in case bt_get (sf_rows f1) child_id of
               None \<Rightarrow> Ok (f1, ())
             | Some child \<Rightarrow>
                 Ok (put_row (child\<lparr>or_parent_operation_id := Some parent_id,
                                    or_root_operation_id := Some root_id\<rparr>) child_id f1, ())))"

definition acquire_lease_change ::
    "string \<Rightarrow> string \<Rightarrow> StoreFile \<Rightarrow> SchedulerStoreError + (StoreFile \<times> LeaseGrantV1)" where
  "acquire_lease_change operation_id holder f =
     attempt (get_row operation_id f) (\<lambda>row.
       if or_cancel_requested row \<or> (or_state row \<noteq> Submitted \<and> or_state row \<noteq> Authorized)
       then Err IneligibleLease
       else attempt
         (case or_lease_holder row of
            Some existing \<Rightarrow>
              (if existing \<noteq> holder then Err (LeaseConflict operation_id existing)
               else Ok (or_lease_generation row))
          | None \<Rightarrow> ok_or (LeaseGenerationExhausted operation_id)
                      (checked_add (or_lease_generation row) 1)) (\<lambda>generation.
         attempt (ok_or (LeaseGenerationExhausted operation_id) (checked_add (or_heartbeat row) 1))
           (\<lambda>heartbeat.
             Ok (put_row (row\<lparr>or_lease_generation := generation, or_heartbeat := heartbeat,
                              or_lease_holder := Some holder, or_state := Authorized\<rparr>) operation_id f,
                 \<lparr>lg_operation_id = or_operation_id row, lg_holder = holder,
                  lg_generation = generation\<rparr>))))"

definition validate_grant_in :: "StoreFile \<Rightarrow> LeaseGrantV1 \<Rightarrow> SchedulerStoreError + unit" where
  "validate_grant_in f grant =
     attempt (get_row (lg_operation_id grant) f) (\<lambda>row.
       if or_state row = Authorized \<and> \<not> or_cancel_requested row
          \<and> or_lease_holder row = Some (lg_holder grant)
          \<and> or_lease_generation row = lg_generation grant
       then Ok ()
       else Err (LeaseFenced (lg_operation_id grant) (lg_holder grant) (lg_generation grant)))"

definition transfer_lease_change ::
    "LeaseGrantV1 \<Rightarrow> string \<Rightarrow> StoreFile \<Rightarrow> SchedulerStoreError + (StoreFile \<times> LeaseGrantV1)" where
  "transfer_lease_change current next_holder f =
     attempt (validate_grant_in f current) (\<lambda>_.
     attempt (get_row (lg_operation_id current) f) (\<lambda>row.
     attempt (ok_or (LeaseGenerationExhausted (lg_operation_id current))
                (checked_add (or_lease_generation row) 1)) (\<lambda>generation.
     attempt (ok_or (LeaseGenerationExhausted (lg_operation_id current))
                (checked_add (or_heartbeat row) 1)) (\<lambda>heartbeat.
       Ok (put_row (row\<lparr>or_lease_generation := generation, or_heartbeat := heartbeat,
                        or_lease_holder := Some next_holder\<rparr>) (lg_operation_id current) f,
           \<lparr>lg_operation_id = lg_operation_id current, lg_holder = next_holder,
            lg_generation = generation\<rparr>)))))"

definition request_cancel_change ::
    "string \<Rightarrow> StoreFile \<Rightarrow> SchedulerStoreError + (StoreFile \<times> unit)" where
  "request_cancel_change operation_id f =
     attempt (get_row operation_id f) (\<lambda>row.
       Ok (put_row (row\<lparr>or_cancel_requested := True,
                        or_state := (if or_state row \<noteq> Terminal then Cancelling else or_state row)\<rparr>)
             operation_id f, ()))"

definition advance_cursor_change ::
    "string \<Rightarrow> u64 \<Rightarrow> StoreFile \<Rightarrow> SchedulerStoreError + (StoreFile \<times> unit)" where
  "advance_cursor_change operation_id sequence f =
     attempt (get_row operation_id f) (\<lambda>row.
       Ok (put_row (row\<lparr>or_projection_cursor := max (or_projection_cursor row) sequence\<rparr>)
             operation_id f, ()))"

definition set_terminal_change ::
    "string \<Rightarrow> StoreFile \<Rightarrow> SchedulerStoreError + (StoreFile \<times> unit)" where
  "set_terminal_change operation_id f =
     attempt (get_row operation_id f) (\<lambda>row.
       Ok (put_row (row\<lparr>or_state := Terminal\<rparr>) operation_id f, ()))"

definition quarantine_change ::
    "string \<Rightarrow> StoreFile \<Rightarrow> SchedulerStoreError + (StoreFile \<times> unit)" where
  "quarantine_change operation_id f =
     attempt (get_row operation_id f) (\<lambda>row.
       Ok (f\<lparr>sf_rows := bt_remove operation_id (sf_rows f),
             sf_quarantined := sf_quarantined f @ [row\<lparr>or_state := Quarantined\<rparr>]\<rparr>, ()))"

section \<open>Publication\<close>

text \<open>What is at the path of the store: nothing, something that is not a regular file or is larger than
  the bound, a file that is not strict JSON, strict JSON that is not a store, or the JSON text that
  \<open>serde_json::to_vec\<close> writes for a store, which the strict parser and \<open>serde_json::from_value\<close> read back.\<close>

datatype disk_image = Absent | OutOfBound | NotStrictJson | NotAStore | Stored StoreFile

datatype persist_fault = PersistOk | FailsBeforeRename | FailsAfterRename

record faults =
  gate_poisoned :: bool
  lock_fails :: bool
  open_fails :: bool
  persist_fault :: persist_fault
  unlock_fails :: bool

record SchedulerStore =
  ss_file :: StoreFile
  ss_uncertain :: bool

abbreviation MAX_STORE_BYTES :: nat where
  "MAX_STORE_BYTES \<equiv> 64 * 1024 * 1024"

text \<open>The parameter \<open>encoded_len\<close> is the length of the JSON text \<open>serde_json::to_vec\<close> writes.\<close>

definition read_current ::
    "(StoreFile \<Rightarrow> nat) \<Rightarrow> faults \<Rightarrow> disk_image \<Rightarrow> SchedulerStoreError + StoreFile" where
  "read_current encoded_len F disk =
     (if open_fails F then Err (SchedIo OtherIo)
      else case disk of
        Absent \<Rightarrow> Err (SchedIo NotFound)
      | OutOfBound \<Rightarrow> Err (SchedInvalid FileBound)
      | NotStrictJson \<Rightarrow> Err (SchedInvalid BadJson)
      | NotAStore \<Rightarrow> Err SchedJson
      | Stored f \<Rightarrow> (if encoded_len f > MAX_STORE_BYTES then Err (SchedInvalid FileBound)
                     else validate_store f))"

definition persist ::
    "(StoreFile \<Rightarrow> nat) \<Rightarrow> faults \<Rightarrow> StoreFile \<Rightarrow> disk_image \<Rightarrow>
     disk_image \<times> (SchedulerStoreError + unit)" where
  "persist encoded_len F f disk =
     (if encoded_len f > MAX_STORE_BYTES then (disk, Err (SchedInvalid OutputBound))
      else case persist_fault F of
        PersistOk \<Rightarrow> (Stored f, Ok ())
      | FailsBeforeRename \<Rightarrow> (disk, Err (SchedIo OtherIo))
      | FailsAfterRename \<Rightarrow> (Stored f, Err (SchedIo OtherIo)))"

text \<open>The body \<open>update\<close> runs under the lock: disk, uncertain flag, result.\<close>

definition locked_update ::
    "(StoreFile \<Rightarrow> nat) \<Rightarrow> faults \<Rightarrow> (StoreFile \<Rightarrow> SchedulerStoreError + (StoreFile \<times> 'o)) \<Rightarrow>
     disk_image \<Rightarrow> disk_image \<times> bool \<times> (SchedulerStoreError + (StoreFile \<times> 'o))" where
  "locked_update encoded_len F change disk =
     (case read_current encoded_len F disk of
        Err e \<Rightarrow> (disk, True, Err e)
      | Ok candidate \<Rightarrow>
          (case change candidate of
             Err e \<Rightarrow> (disk, False, Err e)
           | Ok (candidate', output) \<Rightarrow>
               (case persist encoded_len F candidate' disk of
                  (disk', Err e) \<Rightarrow> (disk', True, Err e)
                | (disk', Ok _) \<Rightarrow> (disk', False, Ok (candidate', output)))))"

text \<open>\<open>with_lock\<close> around a body that may change the disk and may set the uncertain flag.\<close>

definition with_lock ::
    "faults \<Rightarrow> SchedulerStore \<Rightarrow> (disk_image \<Rightarrow> disk_image \<times> bool \<times> (SchedulerStoreError + 'r)) \<Rightarrow>
     disk_image \<Rightarrow> disk_image \<times> SchedulerStore \<times> (SchedulerStoreError + 'r)" where
  "with_lock F h body disk =
     (if ss_uncertain h then (disk, h, Err RecoveryRequired)
      else if gate_poisoned F then (disk, h, Err RecoveryRequired)
      else if lock_fails F then (disk, h, Err (SchedIo OtherIo))
      else case body disk of (disk', uncertain, result) \<Rightarrow>
        (if unlock_fails F then (disk', h\<lparr>ss_uncertain := True\<rparr>, Err RecoveryRequired)
         else (disk', h\<lparr>ss_uncertain := uncertain\<rparr>, result)))"

definition update ::
    "(StoreFile \<Rightarrow> nat) \<Rightarrow> faults \<Rightarrow> (StoreFile \<Rightarrow> SchedulerStoreError + (StoreFile \<times> 'o)) \<Rightarrow>
     disk_image \<Rightarrow> SchedulerStore \<Rightarrow> disk_image \<times> SchedulerStore \<times> (SchedulerStoreError + 'o)" where
  "update encoded_len F change disk h =
     (case with_lock F h (locked_update encoded_len F change) disk of
        (disk', h', Ok (candidate, output)) \<Rightarrow> (disk', h'\<lparr>ss_file := candidate\<rparr>, Ok output)
      | (disk', h', Err e) \<Rightarrow>
          (disk', (case e of SchedIo _ \<Rightarrow> h'\<lparr>ss_uncertain := True\<rparr>
                           | RecoveryRequired \<Rightarrow> h'\<lparr>ss_uncertain := True\<rparr>
                           | _ \<Rightarrow> h'), Err e))"

definition validate_grant ::
    "(StoreFile \<Rightarrow> nat) \<Rightarrow> faults \<Rightarrow> LeaseGrantV1 \<Rightarrow> disk_image \<Rightarrow> SchedulerStore \<Rightarrow>
     disk_image \<times> SchedulerStore \<times> (SchedulerStoreError + unit)" where
  "validate_grant encoded_len F grant disk h =
     with_lock F h (\<lambda>d. (d, False, attempt (read_current encoded_len F d) (\<lambda>f. validate_grant_in f grant)))
       disk"

text \<open>Both effect start and publication ask exactly this.\<close>

definition authorize_effect_start where
  "authorize_effect_start = validate_grant"

definition authorize_publish where
  "authorize_publish = validate_grant"

section \<open>The operations\<close>

datatype sched_op =
    Admit string string
  | ProjectChild string string string
  | AcquireLease string string
  | TransferLease LeaseGrantV1 string
  | RequestCancel string
  | AdvanceCursor string u64
  | SetTerminal string
  | Quarantine string

datatype sched_output = OutRow OperationRow | OutGrant LeaseGrantV1 | OutUnit

definition lift_out :: "('o \<Rightarrow> 'p) \<Rightarrow> 'e + ('f \<times> 'o) \<Rightarrow> 'e + ('f \<times> 'p)" where
  "lift_out g r = (case r of Err e \<Rightarrow> Err e | Ok (f, x) \<Rightarrow> Ok (f, g x))"

text \<open>Argument checks made before the store is touched, then the change.\<close>

fun op_precheck :: "sched_op \<Rightarrow> SchedulerStoreError option" where
  "op_precheck (Admit operation_id key) =
     (if operation_id = [] \<or> key = [] then Some (SchedInvalid EmptyAdmission) else None)"
| "op_precheck (AcquireLease _ holder) = (if holder = [] then Some InvalidLeaseHolder else None)"
| "op_precheck (TransferLease _ next_holder) =
     (if next_holder = [] then Some InvalidLeaseHolder else None)"
| "op_precheck _ = None"

fun op_change :: "sched_op \<Rightarrow> StoreFile \<Rightarrow> SchedulerStoreError + (StoreFile \<times> sched_output)" where
  "op_change (Admit operation_id key) f = lift_out OutRow (admit_change operation_id key f)"
| "op_change (ProjectChild p r c) f = lift_out (\<lambda>_. OutUnit) (project_child_change p r c f)"
| "op_change (AcquireLease operation_id holder) f =
     lift_out OutGrant (acquire_lease_change operation_id holder f)"
| "op_change (TransferLease current next_holder) f =
     lift_out OutGrant (transfer_lease_change current next_holder f)"
| "op_change (RequestCancel operation_id) f =
     lift_out (\<lambda>_. OutUnit) (request_cancel_change operation_id f)"
| "op_change (AdvanceCursor operation_id sequence) f =
     lift_out (\<lambda>_. OutUnit) (advance_cursor_change operation_id sequence f)"
| "op_change (SetTerminal operation_id) f =
     lift_out (\<lambda>_. OutUnit) (set_terminal_change operation_id f)"
| "op_change (Quarantine operation_id) f =
     lift_out (\<lambda>_. OutUnit) (quarantine_change operation_id f)"

definition perform ::
    "(StoreFile \<Rightarrow> nat) \<Rightarrow> faults \<Rightarrow> sched_op \<Rightarrow> disk_image \<Rightarrow> SchedulerStore \<Rightarrow>
     disk_image \<times> SchedulerStore \<times> (SchedulerStoreError + sched_output)" where
  "perform encoded_len F op disk h =
     (case op_precheck op of
        Some e \<Rightarrow> (disk, h, Err e)
      | None \<Rightarrow> update encoded_len F (op_change op) disk h)"

text \<open>Any number of handles on one file; an event is a call through one of them.\<close>

record sched_system =
  sys_disk :: disk_image
  sys_handles :: "nat \<Rightarrow> SchedulerStore"

type_synonym sched_event = "nat \<times> faults \<times> sched_op"

definition sched_step ::
    "(StoreFile \<Rightarrow> nat) \<Rightarrow> sched_system \<Rightarrow> sched_event \<Rightarrow> SchedulerStoreError + sched_system" where
  "sched_step encoded_len sys = (\<lambda>(i, F, op).
     case perform encoded_len F op (sys_disk sys) (sys_handles sys i) of
       (disk', h', _) \<Rightarrow> Ok (sys\<lparr>sys_disk := disk', sys_handles := (sys_handles sys)(i := h')\<rparr>))"

section \<open>Well-formed stores\<close>

definition ident :: "OperationRow \<Rightarrow> string \<times> string option" where
  "ident row = (or_operation_id row, or_idempotency_key_digest row)"

definition idents_ok :: "(string \<times> string option) list \<Rightarrow> bool" where
  "idents_ok xs \<longleftrightarrow>
     (\<forall>(i, k) \<in> set xs. i \<noteq> [] \<and> k \<noteq> Some [])
     \<and> distinct (map fst xs) \<and> distinct (List.map_filter snd xs)"

definition store_ok :: "StoreFile \<Rightarrow> bool" where
  "store_ok f \<longleftrightarrow> bt_inv (sf_rows f) \<and> validate_store f = Ok f"

text \<open>How a store may evolve: rows keep their identity, generations and cursors grow, the holder of a
  generation is fixed, cancellation and termination stay, and rows leave only into quarantine,
  where they remain.\<close>

definition row_le :: "OperationRow \<Rightarrow> OperationRow \<Rightarrow> bool" where
  "row_le a b \<longleftrightarrow> ident a = ident b \<and> or_lease_generation a \<le> or_lease_generation b
     \<and> (or_lease_generation a = or_lease_generation b \<and> or_lease_holder a \<noteq> None
        \<longrightarrow> or_lease_holder b = or_lease_holder a)
     \<and> (or_cancel_requested a \<longrightarrow> or_cancel_requested b)
     \<and> (or_state a = Terminal \<longrightarrow> or_state b = Terminal)
     \<and> or_projection_cursor a \<le> or_projection_cursor b"

definition tombstone :: "string \<times> string option \<Rightarrow> StoreFile \<Rightarrow> bool" where
  "tombstone i f \<longleftrightarrow> i \<in> ident ` set (sf_quarantined f)"

definition evolves :: "StoreFile \<Rightarrow> StoreFile \<Rightarrow> bool" where
  "evolves f f' \<longleftrightarrow>
     (\<forall>oid row. bt_get (sf_rows f) oid = Some row \<longrightarrow>
        (\<exists>row'. bt_get (sf_rows f') oid = Some row' \<and> row_le row row') \<or> tombstone (ident row) f')
     \<and> (\<forall>i. tombstone i f \<longrightarrow> tombstone i f')"

definition sys_ok :: "sched_system \<Rightarrow> bool" where
  "sys_ok sys \<longleftrightarrow> (\<exists>f. sys_disk sys = Stored f \<and> store_ok f)"

definition evolved_from :: "StoreFile \<Rightarrow> sched_system \<Rightarrow> bool" where
  "evolved_from f0 sys \<longleftrightarrow> (\<exists>f. sys_disk sys = Stored f \<and> evolves f0 f)"

lemma idents_ok_perm: "mset xs = mset ys \<Longrightarrow> idents_ok xs = idents_ok ys"
proof -
  assume eq: "mset xs = mset ys"
  have "mset (map fst xs) = mset (map fst ys)"
    and "mset (List.map_filter snd xs) = mset (List.map_filter snd ys)"
    using eq by (simp_all add: List.map_filter_def)
  then show ?thesis
    unfolding idents_ok_def using mset_eq_setD [OF eq] by (metis mset_eq_imp_distinct_iff)
qed

lemma map_filter_snd_iff: "k \<in> set (List.map_filter snd xs) \<longleftrightarrow> Some k \<in> snd ` set xs"
  by (induction xs) (auto simp: map_filter_simps split: option.splits)

lemma idents_ok_Cons:
  "idents_ok ((i, k) # xs) \<longleftrightarrow>
     i \<noteq> [] \<and> k \<noteq> Some [] \<and> i \<notin> fst ` set xs \<and> (k \<noteq> None \<longrightarrow> k \<notin> snd ` set xs) \<and> idents_ok xs"
  by (cases k) (auto simp: idents_ok_def map_filter_simps map_filter_snd_iff)

lemma idents_ok_Nil [simp]: "idents_ok []"
  by (simp add: idents_ok_def map_filter_simps)

lemma check_identities_iff:
  "check_identities ids keys rows = Ok () \<longleftrightarrow>
     idents_ok (map ident rows)
     \<and> (\<forall>row \<in> set rows. or_operation_id row \<notin> ids
          \<and> (\<forall>k. or_idempotency_key_digest row = Some k \<longrightarrow> k \<notin> keys))"
proof (induction ids keys rows rule: check_identities.induct)
  case (2 ids keys row rows)
  have "or_operation_id row \<notin> fst ` set (map ident rows) \<longleftrightarrow>
        (\<forall>r \<in> set rows. or_operation_id r \<noteq> or_operation_id row)"
    by (auto simp: ident_def image_iff)
  moreover have "or_idempotency_key_digest row \<notin> snd ` set (map ident rows) \<longleftrightarrow>
        (\<forall>r \<in> set rows. or_idempotency_key_digest r \<noteq> or_idempotency_key_digest row)"
    by (auto simp: ident_def image_iff)
  ultimately show ?case
    using 2 by (cases "or_idempotency_key_digest row") (auto simp: idents_ok_Cons ident_def [of row])
qed simp

lemma store_ok_iff:
  "store_ok f \<longleftrightarrow>
     bt_inv (sf_rows f)
     \<and> (\<forall>(oid, row) \<in> set (sf_rows f). oid = or_operation_id row \<and> or_state row \<noteq> Quarantined)
     \<and> (\<forall>row \<in> set (sf_quarantined f). or_state row = Quarantined)
     \<and> idents_ok (map ident (all_rows f))"
  unfolding store_ok_def validate_store_def
  by (auto simp: list_ex_iff attempt_Ok_iff if_Err_Ok_iff check_identities_iff)

lemma store_ok_row:
  assumes "store_ok f" and "bt_get (sf_rows f) oid = Some row"
  shows "or_operation_id row = oid" and "or_state row \<noteq> Quarantined"
  using assms bt_get_in_set [OF assms(2)] by (auto simp: store_ok_iff)

lemma store_ok_update:
  assumes ok: "store_ok f" and row: "bt_get (sf_rows f) oid = Some row"
    and same: "ident row' = ident row" and live: "or_state row' \<noteq> Quarantined"
  shows "store_ok (put_row row' oid f)"
proof -
  have "map ident (bt_values (bt_insert oid row' (sf_rows f))) = map ident (bt_values (sf_rows f))"
    using ok row same by (intro bt_values_update) (auto simp: store_ok_iff)
  moreover have "or_operation_id row' = oid"
    using same store_ok_row(1) [OF ok row] by (simp add: ident_def)
  ultimately show ?thesis
    using ok live bt_insert_subset [of oid row' "sf_rows f"]
    by (auto simp: store_ok_iff put_row_def all_rows_def bt_inv_insert)
qed

lemma store_ok_insert:
  assumes ok: "store_ok f" and fresh: "bt_get (sf_rows f) oid = None"
    and row: "or_operation_id row = oid" "or_state row \<noteq> Quarantined"
    and new: "idents_ok (ident row # map ident (all_rows f))"
  shows "store_ok (put_row row oid f)"
proof -
  have "mset (map ident (all_rows (put_row row oid f))) = mset (ident row # map ident (all_rows f))"
    using mset_bt_insert_fresh [OF fresh, of row]
    by (simp add: all_rows_def put_row_def bt_values_def)
  then have "idents_ok (map ident (all_rows (put_row row oid f)))"
    using new idents_ok_perm by blast
  then show ?thesis
    using ok row bt_insert_subset [of oid row "sf_rows f"]
    by (auto simp: store_ok_iff put_row_def bt_inv_insert)
qed

lemma store_ok_quarantine:
  assumes ok: "store_ok f" and row: "bt_get (sf_rows f) oid = Some row"
  shows "store_ok (f\<lparr>sf_rows := bt_remove oid (sf_rows f),
                     sf_quarantined := sf_quarantined f @ [row\<lparr>or_state := Quarantined\<rparr>]\<rparr>)"
    (is "store_ok ?f'")
proof -
  have inv: "bt_inv (sf_rows f)" using ok by (simp add: store_ok_iff)
  have "mset (map ident (all_rows ?f')) = mset (map ident (all_rows f))"
    using mset_bt_remove [OF inv row]
    by (simp add: all_rows_def bt_values_def ident_def)
  from idents_ok_perm [OF this] have "idents_ok (map ident (all_rows ?f'))"
    using ok by (simp add: store_ok_iff)
  then show ?thesis
    using ok bt_remove_subset [of oid "sf_rows f"] by (auto simp: store_ok_iff bt_inv_remove)
qed

section \<open>Evolution\<close>

lemma row_le_refl [simp]: "row_le row row"
  by (simp add: row_le_def)

lemma row_le_trans: "row_le a b \<Longrightarrow> row_le b c \<Longrightarrow> row_le a c"
  unfolding row_le_def by (metis order_antisym order_trans)

lemma evolves_refl [simp]: "evolves f f"
  unfolding evolves_def using row_le_refl by blast

lemma evolves_trans: "evolves f g \<Longrightarrow> evolves g h \<Longrightarrow> evolves f h"
  unfolding evolves_def
proof (intro conjI allI impI, goal_cases)
  case (1 oid row)
  then consider row' where "bt_get (sf_rows g) oid = Some row'" "row_le row row'"
    | "tombstone (ident row) g" by blast
  then show ?case
  proof cases
    case (1 row')
    then show ?thesis
      using \<open>_ \<and> (\<forall>i. tombstone i g \<longrightarrow> tombstone i h)\<close> row_le_trans [of row row']
      by (metis row_le_def)
  qed (use 1 in blast)
qed blast

lemma evolves_put_row:
  assumes "\<And>row. bt_get (sf_rows f) oid = Some row \<Longrightarrow> row_le row row'"
  shows "evolves f (put_row row' oid f)"
  using assms unfolding evolves_def tombstone_def put_row_def by simp

lemma evolves_quarantine:
  assumes "bt_get (sf_rows f) oid = Some row"
  shows "evolves f (f\<lparr>sf_rows := bt_remove oid (sf_rows f),
                     sf_quarantined := sf_quarantined f @ [row\<lparr>or_state := Quarantined\<rparr>]\<rparr>)"
  using assms unfolding evolves_def tombstone_def by (auto simp: ident_def)

lemma get_row_Ok_iff [result_simps]: "get_row oid f = Ok row \<longleftrightarrow> bt_get (sf_rows f) oid = Some row"
  by (simp add: get_row_def ok_or_Ok_iff)

lemma checked_succ:
  assumes "checked_add (g::u64) 1 = Some g'"
  shows "g < g'" and "unat g' = unat g + 1"
  using checked_add_unat [OF assms] by (simp_all add: word_less_nat_alt)

text \<open>Every change keeps a well-formed store well-formed and lets it evolve.\<close>

lemma admit_change_step [step_intros]:
  assumes "store_ok f" and "operation_id \<noteq> []" and "key \<noteq> []"
    and "admit_change operation_id key f = Ok (f', row)"
  shows "store_ok f' \<and> evolves f f' \<and> bt_get (sf_rows f') operation_id = Some row
       \<and> or_idempotency_key_digest row = Some key"
proof (cases "bt_get (sf_rows f) operation_id")
  case (Some r)
  then show ?thesis using assms by (auto simp: admit_change_def split: if_splits)
next
  case None
  let ?row = "(OperationRow_new operation_id)\<lparr>or_idempotency_key_digest := Some key\<rparr>"
  have f': "f' = put_row ?row operation_id f" and row: "row = ?row"
    and quarantined: "\<forall>r \<in> set (sf_quarantined f). or_operation_id r \<noteq> operation_id"
    and keys: "\<forall>r \<in> set (all_rows f). or_idempotency_key_digest r \<noteq> Some key"
    using assms(4) None by (auto simp: admit_change_def list_ex_iff Let_def split: if_splits)
  have live: "\<forall>r \<in> set (bt_values (sf_rows f)). or_operation_id r \<noteq> operation_id"
    using assms(1) None by (force simp: store_ok_iff bt_values_def bt_get_def map_of_eq_None_iff)
  have "idents_ok (ident ?row # map ident (all_rows f))"
    using assms(1-3) quarantined keys live
    by (auto simp: idents_ok_Cons ident_def OperationRow_new_def store_ok_iff all_rows_def image_iff)
  then have "store_ok f'"
    unfolding f' using assms(1) None
    by (intro store_ok_insert) (simp_all add: OperationRow_new_def)
  moreover have "evolves f f'" unfolding f' using None by (intro evolves_put_row) simp
  ultimately show ?thesis by (simp add: f' row put_row_def)
qed

lemma project_child_change_step [step_intros]:
  assumes "store_ok f" and "project_child_change p r c f = Ok (f', u)"
  shows "store_ok f' \<and> evolves f f'"
proof -
  obtain parent where parent: "bt_get (sf_rows f) p = Some parent"
    using assms(2) by (auto simp: project_child_change_def attempt_Ok_iff get_row_Ok_iff if_Err_Ok_iff)
  define kids where
    "kids = (if c \<in> set (or_children parent) then or_children parent else or_children parent @ [c])"
  have f': "(let f1 = put_row (parent\<lparr>or_root_operation_id := Some r, or_children := kids\<rparr>) p f
                   in case bt_get (sf_rows f1) c of None \<Rightarrow> Ok (f1, ())
                      | Some child \<Rightarrow> Ok (put_row (child\<lparr>or_parent_operation_id := Some p,
                                             or_root_operation_id := Some r\<rparr>) c f1, ()))
             = (Ok (f', u) :: SchedulerStoreError + (StoreFile \<times> unit))"
    using assms(2) parent
    by (simp add: project_child_change_def get_row_def kids_def Let_def
        split del: if_split split: if_split_asm)
  let ?f1 = "put_row (parent\<lparr>or_root_operation_id := Some r, or_children := kids\<rparr>) p f"
  have one: "store_ok ?f1" "evolves f ?f1"
    using assms(1) parent store_ok_row(2) [OF assms(1) parent]
    by (auto intro!: store_ok_update evolves_put_row simp: ident_def row_le_def)
  show ?thesis
  proof (cases "bt_get (sf_rows ?f1) c")
    case None
    then show ?thesis using one f' by (simp add: Let_def)
  next
    case (Some child)
    then have "f' = put_row (child\<lparr>or_parent_operation_id := Some p,
                               or_root_operation_id := Some r\<rparr>) c ?f1"
      using f' by (simp add: Let_def)
    then have "store_ok f'" and "evolves ?f1 f'"
      using one(1) Some store_ok_row(2) [OF one(1) Some]
      by (auto intro!: store_ok_update evolves_put_row simp: ident_def row_le_def)
    then show ?thesis using one(2) evolves_trans by blast
  qed
qed

lemma row_change_step:
  assumes "store_ok f" and "bt_get (sf_rows f) oid = Some row" and "row_le row row'"
    and "or_state row' \<noteq> Quarantined" and "f' = put_row row' oid f"
  shows "store_ok f' \<and> evolves f f'"
  using assms by (auto intro!: store_ok_update evolves_put_row simp: row_le_def)

lemma acquire_lease_change_step [step_intros]:
  assumes "store_ok f" and "acquire_lease_change oid holder f = Ok (f', g)"
  shows "store_ok f' \<and> evolves f f' \<and> validate_grant_in f' g = Ok () \<and> lg_operation_id g = oid
       \<and> lg_holder g = holder"
proof -
  obtain row where row: "bt_get (sf_rows f) oid = Some row"
    and elig: "\<not> or_cancel_requested row" "or_state row \<noteq> Terminal"
    using assms(2) by (auto simp: acquire_lease_change_def attempt_Ok_iff get_row_Ok_iff if_Err_Ok_iff)
  then obtain generation heartbeat where
    raw: "(case or_lease_holder row of
            Some existing \<Rightarrow> (if existing \<noteq> holder then Err (LeaseConflict oid existing)
                              else Ok (or_lease_generation row))
          | None \<Rightarrow> ok_or (LeaseGenerationExhausted oid) (checked_add (or_lease_generation row) 1))
          = Ok generation"
    and f': "f' = put_row (row\<lparr>or_lease_generation := generation, or_heartbeat := heartbeat,
                               or_lease_holder := Some holder, or_state := Authorized\<rparr>) oid f"
    and g: "g = \<lparr>lg_operation_id = or_operation_id row, lg_holder = holder, lg_generation = generation\<rparr>"
    using assms(2)
    by (auto simp: acquire_lease_change_def attempt_Ok_iff get_row_def if_Err_Ok_iff)
  have gen: "case or_lease_holder row of
               Some h \<Rightarrow> h = holder \<and> generation = or_lease_generation row
             | None \<Rightarrow> checked_add (or_lease_generation row) 1 = Some generation"
    using raw by (auto simp: ok_or_Ok_iff split: option.splits if_splits)
  have "or_operation_id row = oid" by (rule store_ok_row(1) [OF assms(1) row])
  moreover have "row_le row (row\<lparr>or_lease_generation := generation, or_heartbeat := heartbeat,
                   or_lease_holder := Some holder, or_state := Authorized\<rparr>)"
    using gen elig checked_succ(1) [of "or_lease_generation row" generation]
    by (auto simp: row_le_def ident_def split: option.splits)
  ultimately show ?thesis
    using row_change_step [OF assms(1) row _ _ f'] elig
    by (simp add: f' g validate_grant_in_def get_row_def put_row_def)
qed

lemma validate_grant_in_Ok_iff [result_simps]:
  "validate_grant_in f g = Ok () \<longleftrightarrow>
     (\<exists>row. bt_get (sf_rows f) (lg_operation_id g) = Some row \<and> or_state row = Authorized
        \<and> \<not> or_cancel_requested row \<and> or_lease_holder row = Some (lg_holder g)
        \<and> or_lease_generation row = lg_generation g)"
  by (auto simp: validate_grant_in_def attempt_Ok_iff get_row_Ok_iff if_Err_Ok_iff)

lemma transfer_lease_change_step [step_intros]:
  assumes "store_ok f" and "transfer_lease_change g holder f = Ok (f', g')"
  shows "store_ok f' \<and> evolves f f' \<and> validate_grant_in f g = Ok () \<and> validate_grant_in f' g' = Ok ()
       \<and> lg_operation_id g' = lg_operation_id g \<and> lg_holder g' = holder
       \<and> unat (lg_generation g') = unat (lg_generation g) + 1"
proof -
  obtain row generation heartbeat where row: "bt_get (sf_rows f) (lg_operation_id g) = Some row"
    and valid: "validate_grant_in f g = Ok ()"
    and gen: "checked_add (or_lease_generation row) 1 = Some generation"
    and f': "f' = put_row (row\<lparr>or_lease_generation := generation, or_heartbeat := heartbeat,
                               or_lease_holder := Some holder\<rparr>) (lg_operation_id g) f"
    and g': "g' = \<lparr>lg_operation_id = lg_operation_id g, lg_holder = holder, lg_generation = generation\<rparr>"
    using assms(2)
    by (auto simp: transfer_lease_change_def attempt_Ok_iff get_row_Ok_iff ok_or_Ok_iff)
  note st = valid [unfolded validate_grant_in_Ok_iff]
  have "row_le row (row\<lparr>or_lease_generation := generation, or_heartbeat := heartbeat,
                   or_lease_holder := Some holder\<rparr>)"
    using checked_succ(1) [OF gen] by (auto simp: row_le_def ident_def)
  then show ?thesis
    using row_change_step [OF assms(1) row _ _ f'] store_ok_row(2) [OF assms(1) row] st row valid checked_succ(2) [OF gen]
    by (auto simp: f' g' validate_grant_in_Ok_iff put_row_def)
qed

lemma request_cancel_change_step [step_intros]:
  assumes "store_ok f" and "request_cancel_change oid f = Ok (f', u)"
  shows "store_ok f' \<and> evolves f f'
       \<and> (\<exists>row. bt_get (sf_rows f') oid = Some row \<and> or_cancel_requested row)"
proof -
  obtain row where row: "bt_get (sf_rows f) oid = Some row"
    and f': "f' = put_row (row\<lparr>or_cancel_requested := True,
        or_state := (if or_state row \<noteq> Terminal then Cancelling else or_state row)\<rparr>) oid f"
    using assms(2) by (auto simp: request_cancel_change_def attempt_Ok_iff get_row_Ok_iff)
  have "store_ok f' \<and> evolves f f'"
    by (rule row_change_step [OF assms(1) row _ _ f']) (auto simp: row_le_def ident_def)
  then show ?thesis by (simp add: f' put_row_def)
qed

lemma advance_cursor_change_step [step_intros]:
  assumes "store_ok f" and "advance_cursor_change oid n f = Ok (f', u)"
  shows "store_ok f' \<and> evolves f f'"
proof -
  obtain row where row: "bt_get (sf_rows f) oid = Some row"
    and f': "f' = put_row (row\<lparr>or_projection_cursor := max (or_projection_cursor row) n\<rparr>) oid f"
    using assms(2) by (auto simp: advance_cursor_change_def attempt_Ok_iff get_row_Ok_iff)
  show ?thesis
    by (rule row_change_step [OF assms(1) row _ _ f'])
      (use store_ok_row(2) [OF assms(1) row] in \<open>auto simp: row_le_def ident_def\<close>)
qed

lemma set_terminal_change_step [step_intros]:
  assumes "store_ok f" and "set_terminal_change oid f = Ok (f', u)"
  shows "store_ok f' \<and> evolves f f'
       \<and> (\<exists>row. bt_get (sf_rows f') oid = Some row \<and> or_state row = Terminal)"
proof -
  obtain row where row: "bt_get (sf_rows f) oid = Some row"
    and f': "f' = put_row (row\<lparr>or_state := Terminal\<rparr>) oid f"
    using assms(2) by (auto simp: set_terminal_change_def attempt_Ok_iff get_row_Ok_iff)
  have "store_ok f' \<and> evolves f f'"
    by (rule row_change_step [OF assms(1) row _ _ f']) (auto simp: row_le_def ident_def)
  then show ?thesis by (simp add: f' put_row_def)
qed

lemma quarantine_change_step [step_intros]:
  assumes "store_ok f" and "quarantine_change oid f = Ok (f', u)"
  shows "store_ok f' \<and> evolves f f'
       \<and> (\<exists>row. bt_get (sf_rows f) oid = Some row \<and> tombstone (ident row) f')"
proof -
  obtain row where row: "bt_get (sf_rows f) oid = Some row"
    and f': "f' = f\<lparr>sf_rows := bt_remove oid (sf_rows f),
                     sf_quarantined := sf_quarantined f @ [row\<lparr>or_state := Quarantined\<rparr>]\<rparr>"
    using assms(2) by (auto simp: quarantine_change_def attempt_Ok_iff get_row_Ok_iff)
  show ?thesis
    unfolding f' using store_ok_quarantine [OF assms(1) row] evolves_quarantine [OF row] row
    by (auto simp: tombstone_def ident_def)
qed

lemma lift_out_Ok_iff [result_simps]:
  "lift_out g r = Ok (f, y) \<longleftrightarrow> (\<exists>x. r = Ok (f, x) \<and> y = g x)"
  by (cases r) (auto simp: lift_out_def)

lemma op_change_step:
  assumes "store_ok f" and "op_precheck op = None" and "op_change op f = Ok (f', out)"
  shows "store_ok f' \<and> evolves f f'"
  using assms
  by (cases op) (auto simp: lift_out_Ok_iff split: if_splits dest: step_intros)

section \<open>Publication is atomic\<close>

lemma read_current_Ok:
  "read_current len F disk = Ok c \<Longrightarrow> disk = Stored c \<and> validate_store c = Ok c"
  by (auto simp: read_current_def validate_store_def attempt_Ok_iff if_Err_Ok_iff
      split: if_splits disk_image.splits)

lemma locked_update_cases:
  assumes "locked_update len F change disk = (disk', uncertain, result)"
  obtains (refused) e where "disk' = disk" "result = Err e"
  | (lost) c c' out e where "disk = Stored c" "validate_store c = Ok c" "change c = Ok (c', out)"
      "disk' = Stored c'" "result = Err e" "uncertain" "len c' \<le> MAX_STORE_BYTES"
  | (published) c c' out where "disk = Stored c" "validate_store c = Ok c" "change c = Ok (c', out)"
      "disk' = Stored c'" "result = Ok (c', out)" "\<not> uncertain" "len c' \<le> MAX_STORE_BYTES"
proof (cases "read_current len F disk")
  case (Inl e)
  then show ?thesis using assms refused by (auto simp: locked_update_def)
next
  case (Inr c)
  note disk = read_current_Ok [OF Inr]
  show ?thesis
  proof (cases "change c")
    case failed: (Inl e)
    show ?thesis
      by (rule refused [of e]) (use assms Inr failed in \<open>simp_all add: locked_update_def\<close>)
  next
    case changed: (Inr co)
    obtain c' out where co: "co = (c', out)" by (cases co)
    show ?thesis
    proof (cases "persist len F c' disk")
      case (Pair d r)
      then have run: "(disk', uncertain, result) =
          (case r of Err e \<Rightarrow> (d, True, Err e) | Ok _ \<Rightarrow> (d, False, Ok (c', out)))"
        using assms Inr changed co by (simp add: locked_update_def split: sum.splits)
      show ?thesis
      proof (cases r)
        case (Inl e)
        then show ?thesis
          using run Pair disk changed co refused lost
          by (auto simp: persist_def not_less split: if_splits persist_fault.splits)
      next
        case (Inr u)
        then show ?thesis
          using run Pair disk changed co published
          by (auto simp: persist_def not_less split: if_splits persist_fault.splits)
      qed
    qed
  qed
qed

lemma update_cases:
  assumes "update len F change disk h = (disk', h', result)"
  obtains (refused) e where "disk' = disk" "result = Err e"
  | (lost) c c' out e where "disk = Stored c" "validate_store c = Ok c" "change c = Ok (c', out)"
      "disk' = Stored c'" "result = Err e" "ss_uncertain h'" "len c' \<le> MAX_STORE_BYTES"
  | (published) c c' out where "disk = Stored c" "validate_store c = Ok c" "change c = Ok (c', out)"
      "disk' = Stored c'" "result = Ok out" "ss_file h' = c'" "\<not> ss_uncertain h'"
      "len c' \<le> MAX_STORE_BYTES"
proof -
  obtain d u r where body: "locked_update len F change disk = (d, u, r)"
    by (metis prod_cases3)
  from body show ?thesis
  proof (cases rule: locked_update_cases)
    case (refused e)
    then show ?thesis
      using assms body that(1)
      by (auto simp: update_def with_lock_def split: if_splits)
  next
    case (lost c c' out e)
    then show ?thesis
      using assms body that(1,2)
      by (auto simp: update_def with_lock_def split: if_splits SchedulerStoreError.splits)
  next
    case (published c c' out)
    then show ?thesis
      using assms body that
      by (auto simp: update_def with_lock_def split: if_splits SchedulerStoreError.splits)
  qed
qed

lemma perform_cases:
  assumes "perform len F op disk h = (disk', h', result)"
  obtains (refused) e where "disk' = disk" "result = Err e"
  | (lost) c c' out e where "disk = Stored c" "validate_store c = Ok c" "op_precheck op = None"
      "op_change op c = Ok (c', out)" "disk' = Stored c'" "result = Err e" "ss_uncertain h'"
      "len c' \<le> MAX_STORE_BYTES"
  | (published) c c' out where "disk = Stored c" "validate_store c = Ok c" "op_precheck op = None"
      "op_change op c = Ok (c', out)" "disk' = Stored c'" "result = Ok out" "ss_file h' = c'"
      "\<not> ss_uncertain h'" "len c' \<le> MAX_STORE_BYTES"
proof (cases "op_precheck op")
  case None
  then have "update len F (op_change op) disk h = (disk', h', result)"
    using assms by (simp add: perform_def)
  then show ?thesis
    by (cases rule: update_cases) (use None that in blast)+
next
  case (Some e)
  then show ?thesis using assms that(1) by (auto simp: perform_def)
qed

text \<open>Without faults, and while the file stays within its size bound, a change that the current file
  admits is published.\<close>

lemma perform_without_faults:
  assumes "\<not> gate_poisoned F" "\<not> lock_fails F" "\<not> open_fails F" "persist_fault F = PersistOk"
    "\<not> unlock_fails F" and "\<not> ss_uncertain h"
    and "validate_store c = Ok c" and "len c \<le> MAX_STORE_BYTES" and "len c' \<le> MAX_STORE_BYTES"
    and "op_precheck op = None" and "op_change op c = Ok (c', out)"
  shows "perform len F op (Stored c) h = (Stored c', h\<lparr>ss_file := c', ss_uncertain := False\<rparr>, Ok out)"
  using assms
  by (simp add: perform_def update_def with_lock_def locked_update_def read_current_def persist_def)

lemma perform_disk:
  assumes "perform len F op (Stored f) h = (disk', h', result)" and "store_ok f"
  shows "\<exists>f'. disk' = Stored f' \<and> store_ok f' \<and> evolves f f'"
  using assms(1)
proof (cases rule: perform_cases)
  case (lost c c' out e)
  then show ?thesis using op_change_step [of f op c' out] assms(2) by auto
next
  case (published c c' out)
  then show ?thesis using op_change_step [of f op c' out] assms(2) by auto
qed (use assms(2) in auto)

text \<open>The stored file stays within the bound of \<open>read_current\<close>.\<close>

definition readable :: "(StoreFile \<Rightarrow> nat) \<Rightarrow> sched_system \<Rightarrow> bool" where
  "readable len sys \<longleftrightarrow> (\<exists>f. sys_disk sys = Stored f \<and> len f \<le> MAX_STORE_BYTES)"

lemma perform_size:
  assumes "perform len F op disk h = (disk', h', result)" and "\<exists>f. disk = Stored f \<and> len f \<le> MAX_STORE_BYTES"
  shows "\<exists>f. disk' = Stored f \<and> len f \<le> MAX_STORE_BYTES"
  using assms(1) by (cases rule: perform_cases) (use assms(2) in auto)

lemma sched_step_disk:
  assumes "sched_step len sys ev = Ok sys'" and "sys_disk sys = Stored f" and "store_ok f"
  shows "\<exists>f'. sys_disk sys' = Stored f' \<and> store_ok f' \<and> evolves f f'"
  using assms perform_disk
  by (auto simp: sched_step_def split: prod.splits)

interpretation sched: guarded_machine "sched_step len" sys_ok for len
  by unfold_locales (auto simp: sys_ok_def dest: sched_step_disk)

interpretation sched_history: stable_fact "sched_step len" sys_ok "evolved_from f0" for len f0
  by unfold_locales (auto simp: sys_ok_def evolved_from_def dest!: sched_step_disk intro: evolves_trans)

interpretation sched_size: stable_fact "sched_step len" sys_ok "readable len" for len
  by unfold_locales (auto simp: readable_def sched_step_def dest: perform_size split: prod.splits)

lemma exec_evolves:
  assumes "sys_disk sys = Stored f" and "store_ok f"
  shows "\<exists>f'. sys_disk (exec (sched_step len) sys evs) = Stored f' \<and> store_ok f' \<and> evolves f f'"
proof -
  have "sys_ok sys" and "evolved_from f sys"
    using assms evolves_refl by (auto simp: sys_ok_def evolved_from_def)
  then show ?thesis
    using sched.exec_invar [of sys len evs] sched_history.exec_fact [of sys f len evs]
    by (auto simp: sys_ok_def evolved_from_def)
qed

section \<open>Consequences of evolution\<close>

lemma perform_Ok:
  assumes "perform len F op (Stored c) h = (disk', h', Ok out)"
  shows "\<exists>c'. op_change op c = Ok (c', out) \<and> disk' = Stored c'"
  using assms by (cases rule: perform_cases) auto

lemma perform_refused:
  assumes "\<And>c'. op_change op c \<noteq> Ok (c', out)"
  shows "snd (snd (perform len F op (Stored c) h)) \<noteq> Ok out"
proof
  assume "snd (snd (perform len F op (Stored c) h)) = Ok out"
  then obtain disk' h' where "perform len F op (Stored c) h = (disk', h', Ok out)"
    by (metis prod.collapse)
  then show False using perform_Ok assms by blast
qed

lemma quarantined_key_reserved:
  assumes "store_ok f" and "row \<in> set (bt_values (sf_rows f))" and "q \<in> set (sf_quarantined f)"
    and "or_idempotency_key_digest row = Some k"
  shows "or_idempotency_key_digest q \<noteq> Some k"
proof
  assume "or_idempotency_key_digest q = Some k"
  then have "k \<in> set (List.map_filter snd (map ident (sf_quarantined f)))"
    and "k \<in> set (List.map_filter snd (map ident (bt_values (sf_rows f))))"
    using assms(2-4) by (force simp: map_filter_snd_iff ident_def)+
  moreover have "distinct (List.map_filter snd (map ident (bt_values (sf_rows f)))
                           @ List.map_filter snd (map ident (sf_quarantined f)))"
    using assms(1) by (simp add: store_ok_iff idents_ok_def all_rows_def List.map_filter_def)
  ultimately show False by auto
qed

lemma validate_grant_Ok:
  "is_ok (snd (snd (validate_grant len F g disk h))) \<Longrightarrow>
     \<exists>f. disk = Stored f \<and> validate_grant_in f g = Ok ()"
  by (auto simp: validate_grant_def with_lock_def is_ok_iff attempt_Ok_iff dest!: read_current_Ok
      split: if_splits)

lemma tombstone_excludes:
  assumes "store_ok f" and "tombstone i f"
  shows "bt_get (sf_rows f) (fst i) = None"
proof (rule ccontr)
  assume "bt_get (sf_rows f) (fst i) \<noteq> None"
  then obtain row where row: "bt_get (sf_rows f) (fst i) = Some row" by blast
  have "fst (ident row) = fst i" using store_ok_row(1) [OF assms(1) row] by (simp add: ident_def)
  moreover have "row \<in> set (bt_values (sf_rows f))" by (rule bt_get_in_values [OF row])
  moreover have "distinct (map fst (map ident (bt_values (sf_rows f)) @ map ident (sf_quarantined f)))"
    using assms(1) by (auto simp: store_ok_iff idents_ok_def all_rows_def)
  ultimately show False using assms(2) by (force simp: tombstone_def)
qed

lemma evolved_row:
  assumes "evolves f f'" and "store_ok f'" and "bt_get (sf_rows f) oid = Some row"
    and "or_operation_id row = oid"
    and "bt_get (sf_rows f') oid = Some row'"
  shows "row_le row row'"
proof -
  have "tombstone (ident row) f' \<Longrightarrow> bt_get (sf_rows f') oid = None"
    using tombstone_excludes [OF assms(2)] assms(4) by (metis fst_conv ident_def)
  then show ?thesis
    using assms(1,3,5) unfolding evolves_def by (metis option.inject option.simps(3))
qed

section \<open>Properties\<close>

definition no_faults :: faults where
  "no_faults = \<lparr>gate_poisoned = False, lock_fails = False, open_fails = False,
                persist_fault = PersistOk, unlock_fails = False\<rparr>"

definition sample_row :: OperationRow where
  "sample_row = (OperationRow_new ''op'')\<lparr>or_idempotency_key_digest := Some ''key'',
     or_lease_holder := Some ''w1'', or_lease_generation := 1, or_heartbeat := 1, or_state := Authorized\<rparr>"

definition sample_store :: StoreFile where
  "sample_store = \<lparr>sf_rows = [(''op'', sample_row)], sf_quarantined = []\<rparr>"

definition sample_grant :: LeaseGrantV1 where
  "sample_grant = \<lparr>lg_operation_id = ''op'', lg_holder = ''w1'', lg_generation = 1\<rparr>"

definition sample_handle :: SchedulerStore where
  "sample_handle = \<lparr>ss_file = StoreFile_default, ss_uncertain = False\<rparr>"

definition sample_system :: sched_system where
  "sample_system = \<lparr>sys_disk = Stored sample_store, sys_handles = (\<lambda>_. sample_handle)\<rparr>"

definition small :: "StoreFile \<Rightarrow> nat" where
  "small f = 0"

lemma sample_store_ok: "store_ok sample_store"
  by code_simp

lemma sample_perform:
  assumes "op_change op sample_store = Ok (c', out)" and "op_precheck op = None"
  shows "perform small no_faults op (Stored sample_store) sample_handle =
         (Stored c', sample_handle\<lparr>ss_file := c', ss_uncertain := False\<rparr>, Ok out)"
  using assms sample_store_ok
  by (intro perform_without_faults) (simp_all add: no_faults_def sample_handle_def small_def store_ok_def)

text \<open>C29 atomic publication.  Whatever the file system and the lock do during a call, the stored file is
  afterwards either unchanged or exactly the operation applied to the validated current file.  A
  call that answers successfully has published its change and its handle shows it; a call that
  fails although the file changed leaves its handle unusable until recovery.\<close>

theorem publication_is_atomic:
  assumes "perform len F op disk h = (disk', h', result)"
  shows "(disk' = disk \<or>
           (\<exists>c c' out. disk = Stored c \<and> validate_store c = Ok c \<and> op_change op c = Ok (c', out)
              \<and> disk' = Stored c'))
       \<and> (\<forall>out. result = Ok out \<longrightarrow>
            (\<exists>c c'. disk = Stored c \<and> op_change op c = Ok (c', out) \<and> disk' = Stored c'
               \<and> ss_file h' = c'))
       \<and> (\<forall>e. result = Err e \<and> disk' \<noteq> disk \<longrightarrow> ss_uncertain h')"
  using assms by (cases rule: perform_cases) auto

theorem publication_is_atomic_witness:
  "case perform small no_faults (SetTerminal ''op'') (Stored sample_store) sample_handle of
     (disk', h', result) \<Rightarrow> result = Ok OutUnit \<and> disk' = Stored (ss_file h')"
proof -
  have "op_change (SetTerminal ''op'') sample_store =
          Ok (put_row (sample_row\<lparr>or_state := Terminal\<rparr>) ''op'' sample_store, OutUnit)"
    by (simp add: set_terminal_change_def get_row_def sample_store_def bt_get_def lift_out_def)
  from sample_perform [OF this] show ?thesis
    using publication_is_atomic [of small no_faults "SetTerminal ''op''" "Stored sample_store" sample_handle]
    by auto
qed

text \<open>C30 the store stays readable.  From a stored file that \<open>read_current\<close> accepts, whatever sequence of
  scheduler calls runs through any handles under any faults, the next \<open>read_current\<close> with a working open
  succeeds: the file is within the size bound, its rows carry their own identities, no identity or key is
  bound twice and only quarantined rows are in quarantine.  In particular no call can write a file
  that later calls refuse.\<close>

theorem store_stays_readable:
  assumes "sys_disk sys = Stored f" and "bt_inv (sf_rows f)" and "read_current len F0 (Stored f) = Ok f"
    and "\<not> open_fails F"
  shows "\<exists>f'. sys_disk (exec (sched_step len) sys evs) = Stored f'
    \<and> read_current len F (sys_disk (exec (sched_step len) sys evs)) = Ok f'"
proof -
  have ok: "sys_ok sys" and size: "readable len sys"
    using assms(1-3) read_current_Ok [OF assms(3)]
    by (auto simp: sys_ok_def store_ok_def readable_def read_current_def not_less split: if_splits)
  show ?thesis
    using sched.exec_invar [OF ok, of len evs] sched_size.exec_fact [OF ok size, of evs] assms(4)
    by (auto simp: sys_ok_def store_ok_def readable_def read_current_def)
qed

theorem store_stays_readable_witness:
  "\<exists>f'. sys_disk (exec (sched_step small) sample_system
           [(0, no_faults, Quarantine ''op''), (1, no_faults, Admit ''op2'' ''key2'')]) = Stored f'
        \<and> read_current small no_faults (sys_disk (exec (sched_step small) sample_system
           [(0, no_faults, Quarantine ''op''), (1, no_faults, Admit ''op2'' ''key2'')])) = Ok f'"
  by (rule store_stays_readable [of sample_system sample_store _ no_faults])
    (use sample_store_ok in \<open>simp_all add: sample_system_def store_ok_def read_current_def no_faults_def small_def\<close>)

text \<open>C2 fencing.  Once a lease has been transferred, the grant it was transferred from is refused for
  ever: after any later calls through any handles under any faults, neither effect start nor
  publication is authorised for it.  The new grant carries the next generation, without
  wrap-around.\<close>

theorem transferred_grant_is_fenced:
  assumes "store_ok f"
    and "perform len F (TransferLease g holder) (Stored f) h0 = (disk', h', Ok (OutGrant g'))"
    and "sys_disk sys = disk'"
  shows "\<not> is_ok (snd (snd (validate_grant len F' g (sys_disk (exec (sched_step len) sys evs)) h)))
       \<and> unat (lg_generation g') = unat (lg_generation g) + 1"
proof -
  obtain f1 where step: "transfer_lease_change g holder f = Ok (f1, g')" and disk: "disk' = Stored f1"
    using assms(2) by (auto elim!: perform_cases simp: lift_out_Ok_iff)
  note tr = transfer_lease_change_step [OF assms(1) step]
  obtain row1 where row1: "bt_get (sf_rows f1) (lg_operation_id g) = Some row1"
    and gen: "or_lease_generation row1 = lg_generation g'"
    using tr by (auto simp: validate_grant_in_Ok_iff)
  obtain f2 where f2: "sys_disk (exec (sched_step len) sys evs) = Stored f2"
    "store_ok f2" "evolves f1 f2"
    using exec_evolves [of sys f1 len evs] tr assms(3) disk by blast
  have "validate_grant_in f2 g \<noteq> Ok ()"
  proof
    assume "validate_grant_in f2 g = Ok ()"
    then obtain row2 where row2: "bt_get (sf_rows f2) (lg_operation_id g) = Some row2"
      and "or_lease_generation row2 = lg_generation g" by (auto simp: validate_grant_in_Ok_iff)
    moreover have "row_le row1 row2"
      using evolved_row [OF f2(3,2) row1 _ row2] store_ok_row(1) [OF _ row1] tr by blast
    ultimately show False using gen tr by (auto simp: row_le_def word_le_nat_alt)
  qed
  then show ?thesis
    using tr f2(1) validate_grant_Ok [of len F' g "Stored f2" h] by auto
qed

theorem transferred_grant_is_fenced_witness:
  "\<not> is_ok (snd (snd (validate_grant small no_faults sample_grant
       (sys_disk (exec (sched_step small)
          (sample_system\<lparr>sys_disk := fst (perform small no_faults (TransferLease sample_grant ''w2'')
                                           (Stored sample_store) sample_handle)\<rparr>)
          [(1, no_faults, AcquireLease ''op'' ''w1'')])) sample_handle)))"
proof -
  have "op_change (TransferLease sample_grant ''w2'') sample_store =
          Ok (put_row (sample_row\<lparr>or_lease_generation := 2, or_heartbeat := 2,
                                   or_lease_holder := Some ''w2''\<rparr>) ''op'' sample_store,
              OutGrant \<lparr>lg_operation_id = ''op'', lg_holder = ''w2'', lg_generation = 2\<rparr>)"
    by (simp add: transfer_lease_change_def validate_grant_in_def get_row_def sample_store_def bt_get_def
        lift_out_def sample_row_def sample_grant_def OperationRow_new_def checked_add_def)
  from sample_perform [OF this]
  obtain h' where run: "perform small no_faults (TransferLease sample_grant ''w2'')
      (Stored sample_store) sample_handle = (Stored (put_row (sample_row\<lparr>or_lease_generation := 2,
        or_heartbeat := 2, or_lease_holder := Some ''w2''\<rparr>) ''op'' sample_store), h',
      Ok (OutGrant \<lparr>lg_operation_id = ''op'', lg_holder = ''w2'', lg_generation = 2\<rparr>))" by simp
  then have disk: "sys_disk (sample_system\<lparr>sys_disk := fst (perform small no_faults
      (TransferLease sample_grant ''w2'') (Stored sample_store) sample_handle)\<rparr>) =
      Stored (put_row (sample_row\<lparr>or_lease_generation := 2,
        or_heartbeat := 2, or_lease_holder := Some ''w2''\<rparr>) ''op'' sample_store)" by simp
  show ?thesis
    using transferred_grant_is_fenced [OF sample_store_ok run disk] by blast
qed

text \<open>one holder per generation.  Two lease grants that the store ever issues for the same operation
  with the same generation name the same holder, whatever calls happen in between.\<close>

theorem generation_identifies_holder:
  assumes "sys_disk sys = Stored f" and "store_ok f"
    and "op_precheck op1 = None" and "op_change op1 f = Ok (f1, OutGrant g1)"
    and "sys_disk sys1 = Stored f1"
    and "sys_disk (exec (sched_step len) sys1 evs) = Stored f2"
    and "op_precheck op2 = None" and "op_change op2 f2 = Ok (f3, OutGrant g2)"
    and "lg_operation_id g1 = lg_operation_id g2" and "lg_generation g1 = lg_generation g2"
  shows "lg_holder g1 = lg_holder g2"
proof -
  have issued: "store_ok b \<and> evolves a b \<and> validate_grant_in b g = Ok ()"
    if "store_ok a" "op_change op a = Ok (b, OutGrant g)" for op a b g
    using that by (cases op) (auto simp: lift_out_Ok_iff
        dest: acquire_lease_change_step transfer_lease_change_step)
  have one: "store_ok f1" "validate_grant_in f1 g1 = Ok ()"
    using issued [OF assms(2,4)] by blast+
  obtain "store_ok f2" "evolves f1 f2"
    using exec_evolves [OF assms(5) one(1), of len evs] assms(6) by auto
  then have "evolves f1 f3" and "store_ok f3" and two: "validate_grant_in f3 g2 = Ok ()"
    using issued [OF _ assms(8)] evolves_trans by blast+
  obtain r1 where r1: "bt_get (sf_rows f1) (lg_operation_id g1) = Some r1"
    "or_lease_holder r1 = Some (lg_holder g1)" "or_lease_generation r1 = lg_generation g1"
    using one(2) by (auto simp: validate_grant_in_Ok_iff)
  obtain r2 where r2: "bt_get (sf_rows f3) (lg_operation_id g1) = Some r2"
    "or_lease_holder r2 = Some (lg_holder g2)" "or_lease_generation r2 = lg_generation g2"
    using two assms(9) by (auto simp: validate_grant_in_Ok_iff)
  have "row_le r1 r2"
    using evolved_row [OF \<open>evolves f1 f3\<close> \<open>store_ok f3\<close> r1(1) _ r2(1)] store_ok_row(1) [OF one(1) r1(1)]
    by blast
  then show ?thesis using r1 r2 assms(10) by (simp add: row_le_def)
qed

theorem generation_identifies_holder_witness:
  "lg_holder sample_grant = ''w1''"
proof -
  let ?f1 = "put_row (sample_row\<lparr>or_heartbeat := 2\<rparr>) ''op'' sample_store"
  let ?f2 = "put_row (sample_row\<lparr>or_heartbeat := 3\<rparr>) ''op'' sample_store"
  have 1: "op_change (AcquireLease ''op'' ''w1'') sample_store = Ok (?f1, OutGrant sample_grant)"
    by (simp add: acquire_lease_change_def get_row_def sample_store_def bt_get_def put_row_def
        lift_out_def sample_row_def sample_grant_def OperationRow_new_def checked_add_def)
  have 2: "op_change (AcquireLease ''op'' ''w1'') ?f1
           = Ok (?f2, OutGrant \<lparr>lg_operation_id = ''op'', lg_holder = ''w1'', lg_generation = 1\<rparr>)"
    by (simp add: acquire_lease_change_def get_row_def sample_store_def bt_get_def put_row_def
        lift_out_def sample_row_def OperationRow_new_def checked_add_def)
  show ?thesis
    using generation_identifies_holder [OF _ sample_store_ok _ 1 _ _ _ 2, of sample_system
        "sample_system\<lparr>sys_disk := Stored ?f1\<rparr>" small "[]"]
    by (simp add: sample_system_def sample_grant_def)
qed

text \<open>C31 cancelled and terminal operations are inert.  After a cancellation request or a terminal marking
  has been published, no later call through any handle leases the operation, and no grant for it
  authorises an effect or a publication.\<close>

theorem stopped_operation_is_inert:
  assumes "store_ok f" and "op = RequestCancel oid \<or> op = SetTerminal oid"
    and "perform len F op (Stored f) h0 = (disk', h', Ok out)" and "sys_disk sys = disk'"
  shows "\<not> is_ok (snd (snd (perform len F' (AcquireLease oid holder)
                             (sys_disk (exec (sched_step len) sys evs)) h)))
       \<and> (lg_operation_id g = oid \<longrightarrow>
           \<not> is_ok (snd (snd (validate_grant len F' g (sys_disk (exec (sched_step len) sys evs)) h))))"
proof -
  obtain f1 where f1: "disk' = Stored f1" and step: "op_change op f = Ok (f1, out)"
    using perform_Ok [OF assms(3)] by blast
  have "store_ok f1 \<and> (\<exists>row. bt_get (sf_rows f1) oid = Some row
          \<and> (or_cancel_requested row \<or> or_state row = Terminal))"
    using assms(2)
  proof
    assume "op = RequestCancel oid"
    then show ?thesis
      using step request_cancel_change_step [OF assms(1), of oid f1 "()"] by (auto simp: lift_out_Ok_iff)
  next
    assume "op = SetTerminal oid"
    then show ?thesis
      using step set_terminal_change_step [OF assms(1), of oid f1 "()"] by (auto simp: lift_out_Ok_iff)
  qed
  then obtain row1 where ok1: "store_ok f1" and row1: "bt_get (sf_rows f1) oid = Some row1"
    and stopped: "or_cancel_requested row1 \<or> or_state row1 = Terminal" by blast
  obtain f2 where f2: "sys_disk (exec (sched_step len) sys evs) = Stored f2" "store_ok f2" "evolves f1 f2"
    using exec_evolves [of sys f1 len evs] f1 ok1 assms(4) by blast
  have inert: "or_cancel_requested row2 \<or> or_state row2 = Terminal"
    if "bt_get (sf_rows f2) oid = Some row2" for row2
    using evolved_row [OF f2(3,2) row1 _ that] store_ok_row(1) [OF ok1 row1] stopped
    by (auto simp: row_le_def)
  have "acquire_lease_change oid holder f2 \<noteq> Ok r" for r
    using inert by (auto simp: acquire_lease_change_def attempt_Ok_iff get_row_Ok_iff if_Err_Ok_iff)
  then have "\<not> is_ok (snd (snd (perform len F' (AcquireLease oid holder) (Stored f2) h)))"
    using perform_refused [of "AcquireLease oid holder" f2] by (auto simp: is_ok_iff lift_out_Ok_iff)
  moreover have "lg_operation_id g = oid \<longrightarrow> validate_grant_in f2 g \<noteq> Ok ()"
    using inert by (auto simp: validate_grant_in_Ok_iff)
  ultimately show ?thesis
    using f2(1) validate_grant_Ok [of len F' g "Stored f2" h] by auto
qed

theorem stopped_operation_is_inert_witness:
  "\<not> is_ok (snd (snd (perform small no_faults (AcquireLease ''op'' ''w1'')
       (sys_disk (exec (sched_step small) (sample_system\<lparr>sys_disk :=
          Stored (put_row (sample_row\<lparr>or_state := Terminal\<rparr>) ''op'' sample_store)\<rparr>)
          [(3, no_faults, RequestCancel ''op'')])) sample_handle)))"
proof -
  have "op_change (SetTerminal ''op'') sample_store =
          Ok (put_row (sample_row\<lparr>or_state := Terminal\<rparr>) ''op'' sample_store, OutUnit)"
    by (simp add: set_terminal_change_def get_row_def sample_store_def bt_get_def lift_out_def)
  from sample_perform [OF this] obtain h' where run: "perform small no_faults (SetTerminal ''op'')
      (Stored sample_store) sample_handle =
      (Stored (put_row (sample_row\<lparr>or_state := Terminal\<rparr>) ''op'' sample_store), h', Ok OutUnit)" by simp
  have "sys_disk (sample_system\<lparr>sys_disk :=
          Stored (put_row (sample_row\<lparr>or_state := Terminal\<rparr>) ''op'' sample_store)\<rparr>) =
        Stored (put_row (sample_row\<lparr>or_state := Terminal\<rparr>) ''op'' sample_store)" by simp
  from stopped_operation_is_inert [OF sample_store_ok _ run this] show ?thesis by blast
qed

text \<open>C32 quarantine is a tombstone.  After an operation has been quarantined, no later admission of its
  identifier and no admission of any operation under its idempotency key succeeds.\<close>

theorem quarantine_is_a_tombstone:
  assumes "store_ok f" and "bt_get (sf_rows f) oid = Some row"
    and "perform len F (Quarantine oid) (Stored f) h0 = (disk', h', Ok out)" and "sys_disk sys = disk'"
    and "oid' = oid \<or> or_idempotency_key_digest row = Some key"
  shows "\<not> is_ok (snd (snd (perform len F' (Admit oid' key)
                             (sys_disk (exec (sched_step len) sys evs)) h)))"
proof -
  have ident: "fst (ident row) = oid" "snd (ident row) = or_idempotency_key_digest row"
    using store_ok_row(1) [OF assms(1,2)] by (simp_all add: ident_def)
  obtain f1 where f1: "disk' = Stored f1" "store_ok f1" and tomb: "tombstone (ident row) f1"
    using perform_Ok [OF assms(3)] quarantine_change_step [OF assms(1)] assms(2)
    by (fastforce simp: lift_out_Ok_iff)
  obtain f2 where f2: "sys_disk (exec (sched_step len) sys evs) = Stored f2" "store_ok f2" "evolves f1 f2"
    using exec_evolves [of sys f1 len evs] f1 assms(4) by blast
  then have tomb2: "tombstone (ident row) f2" using tomb unfolding evolves_def by blast
  then obtain q where q: "q \<in> set (sf_quarantined f2)" "or_operation_id q = oid"
    "or_idempotency_key_digest q = or_idempotency_key_digest row"
    using ident by (auto simp: tombstone_def ident_def)
  have "admit_change oid' key f2 \<noteq> Ok r" for r
  proof
    assume ok: "admit_change oid' key f2 = Ok r"
    then have ne: "oid' \<noteq> oid" using q by (auto simp: admit_change_def list_ex_iff split: if_splits)
    then have "or_idempotency_key_digest q = Some key" using assms(5) q by simp
    then have "list_ex (\<lambda>row. or_idempotency_key_digest row = Some key) (all_rows f2)"
      using q(1) by (auto simp: list_ex_iff all_rows_def)
    then obtain row' where "bt_get (sf_rows f2) oid' = Some row'"
      and "or_idempotency_key_digest row' = Some key"
      using ok by (auto simp: admit_change_def split: if_splits option.splits)
    then show False
      using quarantined_key_reserved [OF f2(2) bt_get_in_values q(1)]
        \<open>or_idempotency_key_digest q = Some key\<close> by blast
  qed
  then have "\<not> is_ok (snd (snd (perform len F' (Admit oid' key) (Stored f2) h)))"
    using perform_refused [of "Admit oid' key" f2] by (auto simp: is_ok_iff lift_out_Ok_iff)
  then show ?thesis using f2(1) by simp
qed

theorem quarantine_is_a_tombstone_witness:
  "\<not> is_ok (snd (snd (perform small no_faults (Admit ''other'' ''key'')
       (sys_disk (exec (sched_step small) (sample_system\<lparr>sys_disk :=
          Stored \<lparr>sf_rows = [], sf_quarantined = [sample_row\<lparr>or_state := Quarantined\<rparr>]\<rparr>\<rparr>)
          [(3, no_faults, Admit ''a'' ''b'')])) sample_handle)))"
proof -
  have row: "bt_get (sf_rows sample_store) ''op'' = Some sample_row"
    by (simp add: sample_store_def bt_get_def)
  have "op_change (Quarantine ''op'') sample_store =
          Ok (\<lparr>sf_rows = [], sf_quarantined = [sample_row\<lparr>or_state := Quarantined\<rparr>]\<rparr>, OutUnit)"
    by (simp add: quarantine_change_def get_row_def sample_store_def bt_get_def bt_remove_def lift_out_def)
  from sample_perform [OF this] obtain h' where run: "perform small no_faults (Quarantine ''op'')
      (Stored sample_store) sample_handle =
      (Stored \<lparr>sf_rows = [], sf_quarantined = [sample_row\<lparr>or_state := Quarantined\<rparr>]\<rparr>, h', Ok OutUnit)" by simp
  have "sys_disk (sample_system\<lparr>sys_disk :=
          Stored \<lparr>sf_rows = [], sf_quarantined = [sample_row\<lparr>or_state := Quarantined\<rparr>]\<rparr>\<rparr>) =
        Stored \<lparr>sf_rows = [], sf_quarantined = [sample_row\<lparr>or_state := Quarantined\<rparr>]\<rparr>" by simp
  moreover have "or_idempotency_key_digest sample_row = Some ''key''" by (simp add: sample_row_def)
  ultimately show ?thesis
    using quarantine_is_a_tombstone [OF sample_store_ok row run] by blast
qed

end
