(* ===== verification/Ingress.thy ===== *)
theory Ingress
  imports Samples
begin

text \<open>
  Run-spec ingress of \<open>recursive-agent-contracts/src/lib.rs\<close>: strict JSON parsing, decoding of the
  closed run-spec shape, and the semantic limits on names, steps and tool arguments.  Parsing and
  canonicalisation are owned by \<open>boundary-compiler\<close> and come with the environment; opening a file
  is a walk along the components of its path over an abstract \<open>openat2\<close>.
\<close>

section \<open>Limits and errors\<close>

abbreviation MAX_RUN_SPEC_INPUT_BYTES :: nat where
  "MAX_RUN_SPEC_INPUT_BYTES \<equiv> 1024 * 1024"
abbreviation MAX_RUN_SPEC_STEPS :: nat where
  "MAX_RUN_SPEC_STEPS \<equiv> 4"
abbreviation MAX_RUN_SPEC_MATERIAL_BYTES :: nat where
  "MAX_RUN_SPEC_MATERIAL_BYTES \<equiv> 512 * 1024"
abbreviation MAX_RUN_NAME_BYTES :: nat where
  "MAX_RUN_NAME_BYTES \<equiv> 256"
abbreviation MAX_STEP_NAME_BYTES :: nat where
  "MAX_STEP_NAME_BYTES \<equiv> 256"
abbreviation MAX_POLICY_VERSION_BYTES :: nat where
  "MAX_POLICY_VERSION_BYTES \<equiv> 64"
abbreviation MAX_TOOL_NAME_BYTES :: nat where
  "MAX_TOOL_NAME_BYTES \<equiv> 64"
abbreviation MAX_ECHO_TEXT_BYTES :: nat where
  "MAX_ECHO_TEXT_BYTES \<equiv> 64 * 1024"
abbreviation MAX_TIME_LABEL_BYTES :: nat where
  "MAX_TIME_LABEL_BYTES \<equiv> 256"
abbreviation MAX_SHELL_COMMAND_BYTES :: nat where
  "MAX_SHELL_COMMAND_BYTES \<equiv> 4096"
abbreviation MAX_SHELL_ARGS :: nat where
  "MAX_SHELL_ARGS \<equiv> 64"
abbreviation MAX_SHELL_ARG_BYTES :: nat where
  "MAX_SHELL_ARG_BYTES \<equiv> 16 * 1024"
abbreviation MAX_SHELL_ROOTS_PER_MODE :: nat where
  "MAX_SHELL_ROOTS_PER_MODE \<equiv> 32"
abbreviation MAX_SHELL_PATH_BYTES :: nat where
  "MAX_SHELL_PATH_BYTES \<equiv> 4096"
abbreviation MAX_SHELL_TIMEOUT_MS :: u64 where
  "MAX_SHELL_TIMEOUT_MS \<equiv> 300000"
abbreviation MAX_SHELL_OUTPUT_BYTES :: u64 where
  "MAX_SHELL_OUTPUT_BYTES \<equiv> 65536"

datatype RunSpecIngressError =
    InputTooLarge nat
  | NotRegularFile
  | IngressIo
  | IngressDuplicateKey
  | IngressMalformed
  | CanonicalBoundary
  | TooManySteps nat
  | MaterialTooLarge nat
  | FieldTooLarge string nat
  | TooManyItems string nat
  | InvalidSemanticField string
  | InvalidToolArguments

record ShellArgsIngressV1 =
  sh_command :: string
  sh_args :: "string list"
  sh_allowed_read_paths :: "string list"
  sh_allowed_write_paths :: "string list"
  sh_allow_network :: bool
  sh_timeout_ms :: u64
  sh_max_output_bytes :: u64

abbreviation default_ingress_output_limit :: u64 where
  "default_ingress_output_limit \<equiv> 65536"

datatype StrictJsonError = StrictDuplicateKey | StrictMalformed

section \<open>Decoding\<close>

definition decode_time :: "env \<Rightarrow> json \<Rightarrow> time option" where
  "decode_time E v = Option.bind (as_str v) (time_parse E)"

definition decode_tool_call :: "env \<Rightarrow> json \<Rightarrow> ToolCallSpecV1 option" where
  "decode_tool_call E v =
     do { fs \<leftarrow> struct_fields [''tool'', ''args'', ''frozen_clock''] v;
          t \<leftarrow> field as_str ''tool'' fs;
          a \<leftarrow> field Some ''args'' fs;
          c \<leftarrow> field_opt (decode_time E) ''frozen_clock'' fs;
          Some \<lparr>tc_tool = t, tc_args = a, tc_frozen_clock = c\<rparr> }"

definition decode_step_spec :: "env \<Rightarrow> json \<Rightarrow> StepSpecV1 option" where
  "decode_step_spec E v =
     do { fs \<leftarrow> struct_fields [''name'', ''call''] v;
          n \<leftarrow> field as_str ''name'' fs;
          c \<leftarrow> field (decode_tool_call E) ''call'' fs;
          Some \<lparr>ss_name = n, ss_call = c\<rparr> }"

definition decode_run_spec :: "env \<Rightarrow> json \<Rightarrow> RunSpecV1 option" where
  "decode_run_spec E v =
     do { fs \<leftarrow> struct_fields [''name'', ''steps'', ''frozen_clock'', ''policy_version''] v;
          n \<leftarrow> field as_str ''name'' fs;
          ss \<leftarrow> field (decode_list (decode_step_spec E)) ''steps'' fs;
          c \<leftarrow> field_opt (decode_time E) ''frozen_clock'' fs;
          p \<leftarrow> field as_str ''policy_version'' fs;
          Some \<lparr>rs_name = n, rs_steps = ss, rs_frozen_clock = c, rs_policy_version = p\<rparr> }"

definition decode_echo_args :: "json \<Rightarrow> string option" where
  "decode_echo_args v = Option.bind (struct_fields [''text''] v) (field as_str ''text'')"

definition decode_time_now_args :: "json \<Rightarrow> string option option" where
  "decode_time_now_args v = Option.bind (struct_fields [''label''] v) (field_opt as_str ''label'')"

definition decode_repo_audit_args :: "json \<Rightarrow> string option" where
  "decode_repo_audit_args v =
     Option.bind (struct_fields [''scope_digest''] v) (field as_str ''scope_digest'')"

definition decode_shell_args :: "json \<Rightarrow> ShellArgsIngressV1 option" where
  "decode_shell_args v =
     do { fs \<leftarrow> struct_fields [''command'', ''args'', ''allowed_read_paths'', ''allowed_write_paths'',
                            ''allow_network'', ''timeout_ms'', ''max_output_bytes''] v;
          c \<leftarrow> field as_str ''command'' fs;
          a \<leftarrow> field_default [] (decode_list as_str) ''args'' fs;
          r \<leftarrow> field_default [] (decode_list as_str) ''allowed_read_paths'' fs;
          w \<leftarrow> field_default [] (decode_list as_str) ''allowed_write_paths'' fs;
          n \<leftarrow> field_default False as_bool ''allow_network'' fs;
          t \<leftarrow> field as_u64 ''timeout_ms'' fs;
          m \<leftarrow> field_default default_ingress_output_limit as_u64 ''max_output_bytes'' fs;
          Some \<lparr>sh_command = c, sh_args = a, sh_allowed_read_paths = r, sh_allowed_write_paths = w,
                sh_allow_network = n, sh_timeout_ms = t, sh_max_output_bytes = m\<rparr> }"

section \<open>Semantic validation\<close>

definition validate_bytes :: "string \<Rightarrow> string \<Rightarrow> nat \<Rightarrow> RunSpecIngressError + unit" where
  "validate_bytes value name maximum_bytes =
     (if length value > maximum_bytes then Err (FieldTooLarge name maximum_bytes) else Ok ())"

definition validate_identifier :: "string \<Rightarrow> string \<Rightarrow> nat \<Rightarrow> RunSpecIngressError + unit" where
  "validate_identifier value name maximum_bytes =
     attempt (validate_bytes value name maximum_bytes) (\<lambda>_.
       if value = [] \<or> trims value \<or> has_control value \<or> CHR 0x00 \<in> set value
       then Err (InvalidSemanticField name) else Ok ())"

definition validate_item_count :: "nat \<Rightarrow> string \<Rightarrow> nat \<Rightarrow> RunSpecIngressError + unit" where
  "validate_item_count actual name maximum_items =
     (if actual > maximum_items then Err (TooManyItems name maximum_items) else Ok ())"

definition validate_absolute_path :: "string \<Rightarrow> string \<Rightarrow> nat \<Rightarrow> RunSpecIngressError + unit" where
  "validate_absolute_path value name maximum_bytes =
     attempt (validate_bytes value name maximum_bytes) (\<lambda>_.
       if value = [] \<or> CHR 0x00 \<in> set value \<or> has_control value \<or> \<not> is_absolute value
          \<or> components value = components ''/''
          \<or> list_ex (\<lambda>c. c = CurDir \<or> c = ParentDir) (components value)
       then Err (InvalidSemanticField name) else Ok ())"

definition validate_repo_audit_args :: "json \<Rightarrow> RunSpecIngressError + unit" where
  "validate_repo_audit_args value =
     attempt (ok_or InvalidToolArguments (decode_repo_audit_args value)) (\<lambda>scope_digest.
       if length scope_digest \<noteq> 64 \<or> \<not> list_all is_ascii_hexdigit scope_digest
       then Err InvalidToolArguments else Ok ())"

definition validate_echo_args :: "json \<Rightarrow> RunSpecIngressError + unit" where
  "validate_echo_args value =
     attempt (ok_or InvalidToolArguments (decode_echo_args value)) (\<lambda>txt.
       validate_bytes txt ''echo.text'' MAX_ECHO_TEXT_BYTES)"

definition validate_time_args :: "json \<Rightarrow> RunSpecIngressError + unit" where
  "validate_time_args value =
     attempt (ok_or InvalidToolArguments (decode_time_now_args value)) (\<lambda>label.
       case label of
         None \<Rightarrow> Ok ()
       | Some l \<Rightarrow> validate_identifier l ''time_now.label'' MAX_TIME_LABEL_BYTES)"

abbreviation validate_shell_arg :: "string \<Rightarrow> RunSpecIngressError + unit" where
  "validate_shell_arg argument \<equiv>
     attempt (validate_bytes argument ''shell.args[]'' MAX_SHELL_ARG_BYTES) (\<lambda>_.
       if CHR 0x00 \<in> set argument then Err (InvalidSemanticField ''shell.args[]'') else Ok ())"

fun validate_shell_roots :: "string set \<Rightarrow> string list \<Rightarrow> RunSpecIngressError + unit" where
  "validate_shell_roots roots [] = Ok ()"
| "validate_shell_roots roots (path # paths) =
     attempt (validate_absolute_path path ''shell.allowed_paths[]'' MAX_SHELL_PATH_BYTES) (\<lambda>_.
       if path \<in> roots then Err (InvalidSemanticField ''shell.allowed_paths[]'')
       else validate_shell_roots (insert path roots) paths)"

definition validate_shell_args :: "json \<Rightarrow> RunSpecIngressError + unit" where
  "validate_shell_args value =
     attempt (ok_or InvalidToolArguments (decode_shell_args value)) (\<lambda>a.
     attempt (validate_absolute_path (sh_command a) ''shell.command'' MAX_SHELL_COMMAND_BYTES) (\<lambda>_.
     attempt (validate_item_count (length (sh_args a)) ''shell.args'' MAX_SHELL_ARGS) (\<lambda>_.
     attempt (try_for_each validate_shell_arg (sh_args a)) (\<lambda>_.
     attempt (validate_item_count (length (sh_allowed_read_paths a)) ''shell.allowed_read_paths''
                MAX_SHELL_ROOTS_PER_MODE) (\<lambda>_.
     attempt (validate_item_count (length (sh_allowed_write_paths a)) ''shell.allowed_write_paths''
                MAX_SHELL_ROOTS_PER_MODE) (\<lambda>_.
     attempt (validate_shell_roots {} (sh_allowed_read_paths a @ sh_allowed_write_paths a)) (\<lambda>_.
       if sh_allow_network a then Err (InvalidSemanticField ''shell.allow_network'')
       else if sh_timeout_ms a = 0 \<or> sh_timeout_ms a > MAX_SHELL_TIMEOUT_MS
       then Err (InvalidSemanticField ''shell.timeout_ms'')
       else if sh_max_output_bytes a = 0 \<or> sh_max_output_bytes a > MAX_SHELL_OUTPUT_BYTES
       then Err (InvalidSemanticField ''shell.max_output_bytes'')
       else Ok ())))))))"

definition validate_tool_args :: "ToolCallSpecV1 \<Rightarrow> RunSpecIngressError + unit" where
  "validate_tool_args c =
     (if tc_tool c = ''echo'' then validate_echo_args (tc_args c)
      else if tc_tool c = ''time_now'' then validate_time_args (tc_args c)
      else if tc_tool c = ''repo_audit'' then validate_repo_audit_args (tc_args c)
      else if tc_tool c = ''shell'' then validate_shell_args (tc_args c)
      else Err InvalidToolArguments)"

fun validate_ingress_steps ::
    "env \<Rightarrow> string set \<Rightarrow> StepSpecV1 list \<Rightarrow> RunSpecIngressError + unit" where
  "validate_ingress_steps E step_names [] = Ok ()"
| "validate_ingress_steps E step_names (step # rest) =
     attempt (validate_identifier (ss_name step) ''steps[].name'' MAX_STEP_NAME_BYTES) (\<lambda>_.
       if ss_name step \<in> step_names then Err (InvalidSemanticField ''steps[].name'')
       else
         attempt (validate_identifier (tc_tool (ss_call step)) ''steps[].call.tool''
                    MAX_TOOL_NAME_BYTES) (\<lambda>_.
         attempt (map_err (\<lambda>_. CanonicalBoundary) (jcs_canonical E (tc_args (ss_call step))))
           (\<lambda>args_bytes.
             if length args_bytes > MAX_RUN_SPEC_MATERIAL_BYTES
             then Err (MaterialTooLarge MAX_RUN_SPEC_MATERIAL_BYTES)
             else attempt (validate_tool_args (ss_call step)) (\<lambda>_.
               validate_ingress_steps E (insert (ss_name step) step_names) rest))))"

definition validate_ingress_spec :: "env \<Rightarrow> RunSpecV1 \<Rightarrow> RunSpecIngressError + unit" where
  "validate_ingress_spec E spec =
     attempt (validate_identifier (rs_name spec) ''name'' MAX_RUN_NAME_BYTES) (\<lambda>_.
     attempt (validate_identifier (rs_policy_version spec) ''policy_version''
                MAX_POLICY_VERSION_BYTES) (\<lambda>_.
       if rs_steps spec = [] then Err (InvalidSemanticField ''steps'')
       else if length (rs_steps spec) > MAX_RUN_SPEC_STEPS then Err (TooManySteps MAX_RUN_SPEC_STEPS)
       else validate_ingress_steps E {} (rs_steps spec)))"

section \<open>Byte and file ingress\<close>

definition parse_strict_json_value :: "env \<Rightarrow> bytes \<Rightarrow> StrictJsonError + json" where
  "parse_strict_json_value E input =
     (if \<not> from_utf8 input then Err StrictMalformed
      else map_err (\<lambda>e. case e of JcsDuplicateKey \<Rightarrow> StrictDuplicateKey | _ \<Rightarrow> StrictMalformed)
             (parse_and_validate E input))"

definition parse_run_spec_bytes :: "env \<Rightarrow> bytes \<Rightarrow> RunSpecIngressError + RunSpecV1" where
  "parse_run_spec_bytes E input =
     (if length input > MAX_RUN_SPEC_INPUT_BYTES then Err (InputTooLarge MAX_RUN_SPEC_INPUT_BYTES)
      else
        attempt (map_err (\<lambda>e. case e of StrictDuplicateKey \<Rightarrow> IngressDuplicateKey
                                      | StrictMalformed \<Rightarrow> IngressMalformed)
                   (parse_strict_json_value E input)) (\<lambda>parsed.
        attempt (map_err (\<lambda>_. CanonicalBoundary) (canonicalize_bytes E parsed)) (\<lambda>canonical.
          if length canonical > MAX_RUN_SPEC_MATERIAL_BYTES
          then Err (MaterialTooLarge MAX_RUN_SPEC_MATERIAL_BYTES)
          else
            attempt (ok_or IngressMalformed (decode_run_spec E parsed)) (\<lambda>spec.
            attempt (validate_ingress_spec E spec) (\<lambda>_. Ok spec)))))"

text \<open>The file system: opening the start directory, opening one component beneath a handle without
  following links (the flag marks the final component), a handle's metadata (regular file, length),
  and reading at most so many bytes.\<close>

record 'h spec_fs =
  fs_open_start :: "string \<Rightarrow> 'h option"
  fs_openat2 :: "'h \<Rightarrow> string \<Rightarrow> bool \<Rightarrow> 'h option"
  fs_metadata :: "'h \<Rightarrow> (bool \<times> nat) option"
  fs_read :: "'h \<Rightarrow> nat \<Rightarrow> bytes option"

fun walk_names :: "path_component list \<Rightarrow> RunSpecIngressError + string list" where
  "walk_names [] = Ok []"
| "walk_names (c # cs) =
     (case c of
        RootDir \<Rightarrow> walk_names cs
      | CurDir \<Rightarrow> walk_names cs
      | Normal name \<Rightarrow> attempt (walk_names cs) (\<lambda>names. Ok (name # names))
      | ParentDir \<Rightarrow> Err NotRegularFile)"

fun open_walk :: "'h spec_fs \<Rightarrow> 'h \<Rightarrow> string list \<Rightarrow> RunSpecIngressError + 'h" where
  "open_walk fs current [] = Ok current"
| "open_walk fs current (name # names) =
     attempt (ok_or IngressIo (fs_openat2 fs current name (names = []))) (\<lambda>next. open_walk fs next names)"

definition open_run_spec_no_follow :: "'h spec_fs \<Rightarrow> string \<Rightarrow> RunSpecIngressError + 'h" where
  "open_run_spec_no_follow fs path =
     (if path = [] \<or> components path = components ''/'' then Err NotRegularFile
      else
        attempt (ok_or IngressIo (fs_open_start fs (if is_absolute path then ''/'' else ''.'')))
          (\<lambda>start.
        attempt (walk_names (components path)) (\<lambda>names. open_walk fs start names)))"

definition parse_run_spec_file ::
    "env \<Rightarrow> 'h spec_fs \<Rightarrow> string \<Rightarrow> RunSpecIngressError + RunSpecV1" where
  "parse_run_spec_file E fs path =
     attempt (open_run_spec_no_follow fs path) (\<lambda>file.
     attempt (ok_or IngressIo (fs_metadata fs file)) (\<lambda>(is_file, len).
       if \<not> is_file then Err NotRegularFile
       else if len > MAX_RUN_SPEC_INPUT_BYTES then Err (InputTooLarge MAX_RUN_SPEC_INPUT_BYTES)
       else
         attempt (ok_or IngressIo (fs_read fs file (MAX_RUN_SPEC_INPUT_BYTES + 1))) (\<lambda>content.
           if length content > MAX_RUN_SPEC_INPUT_BYTES then Err (InputTooLarge MAX_RUN_SPEC_INPUT_BYTES)
           else parse_run_spec_bytes E content)))"

section \<open>Inversion\<close>

lemma validate_bytes_Ok_iff [result_simps]:
  "validate_bytes v n b = Ok () \<longleftrightarrow> length v \<le> b"
  by (simp add: validate_bytes_def)

lemma validate_identifier_Ok_iff [result_simps]:
  "validate_identifier v n b = Ok () \<longleftrightarrow>
     length v \<le> b \<and> v \<noteq> [] \<and> \<not> trims v \<and> \<not> has_control v \<and> CHR 0x00 \<notin> set v"
  by (auto simp: validate_identifier_def attempt_Ok_iff validate_bytes_Ok_iff)

lemma validate_item_count_Ok_iff [result_simps]: "validate_item_count k n b = Ok () \<longleftrightarrow> k \<le> b"
  by (simp add: validate_item_count_def)

lemma components_root: "components ''/'' = [RootDir]"
  by code_simp

definition confined_path :: "string \<Rightarrow> bool" where
  "confined_path p \<longleftrightarrow> is_absolute p \<and> \<not> has_control p \<and> components p \<noteq> [RootDir]
     \<and> ParentDir \<notin> set (components p)"

lemma validate_absolute_path_Ok:
  "validate_absolute_path v n b = Ok () \<Longrightarrow> confined_path v \<and> length v \<le> b"
  by (auto simp: validate_absolute_path_def attempt_Ok_iff validate_bytes_Ok_iff confined_path_def
      components_root list_ex_iff split: if_splits)

lemma validate_shell_roots_Ok:
  "validate_shell_roots roots ps = Ok () \<Longrightarrow>
     distinct ps \<and> set ps \<inter> roots = {} \<and> (\<forall>p \<in> set ps. confined_path p \<and> length p \<le> MAX_SHELL_PATH_BYTES)"
  by (induction roots ps rule: validate_shell_roots.induct)
    (auto simp: attempt_Ok_iff split: if_splits dest!: validate_absolute_path_Ok)

lemma validate_ingress_steps_Cons:
  assumes "validate_ingress_steps E seen (s # ss) = Ok ()"
  shows "ss_name s \<notin> seen" and "ss_name s \<noteq> []" and "length (ss_name s) \<le> MAX_STEP_NAME_BYTES"
    and "\<not> has_control (ss_name s)" and "validate_tool_args (ss_call s) = Ok ()"
    and "validate_ingress_steps E (insert (ss_name s) seen) ss = Ok ()"
  using assms
  by (simp_all add: attempt_Ok_iff if_Err_Ok_iff validate_identifier_Ok_iff) blast+

lemma validate_ingress_steps_Ok:
  "validate_ingress_steps E seen ss = Ok () \<Longrightarrow>
     distinct (map ss_name ss) \<and> ss_name ` set ss \<inter> seen = {}
     \<and> (\<forall>s \<in> set ss. validate_tool_args (ss_call s) = Ok ()
          \<and> ss_name s \<noteq> [] \<and> length (ss_name s) \<le> MAX_STEP_NAME_BYTES \<and> \<not> has_control (ss_name s))"
proof (induction ss arbitrary: seen)
  case (Cons s ss)
  note step = validate_ingress_steps_Cons [OF Cons.prems]
  from Cons.IH [OF step(6)] step(1-5) show ?case by auto
qed simp

lemma parse_run_spec_bytes_Ok:
  assumes "parse_run_spec_bytes E input = Ok spec"
  shows "length input \<le> MAX_RUN_SPEC_INPUT_BYTES" and "validate_ingress_spec E spec = Ok ()"
  using assms
  by (auto simp: parse_run_spec_bytes_def attempt_Ok_iff if_Err_Ok_iff)

lemma validate_ingress_spec_Ok:
  assumes "validate_ingress_spec E spec = Ok ()"
  shows "rs_steps spec \<noteq> []" and "length (rs_steps spec) \<le> MAX_RUN_SPEC_STEPS"
    and "validate_ingress_steps E {} (rs_steps spec) = Ok ()"
    and "rs_name spec \<noteq> []" and "length (rs_name spec) \<le> MAX_RUN_NAME_BYTES"
    and "\<not> has_control (rs_name spec)"
  using assms
  by (auto simp: validate_ingress_spec_def attempt_Ok_iff if_Err_Ok_iff validate_identifier_Ok_iff
      split: if_splits)

lemma validate_shell_args_Ok:
  assumes "validate_shell_args v = Ok ()"
  shows "\<exists>a. decode_shell_args v = Some a \<and> \<not> sh_allow_network a
     \<and> 0 < sh_timeout_ms a \<and> sh_timeout_ms a \<le> MAX_SHELL_TIMEOUT_MS
     \<and> 0 < sh_max_output_bytes a \<and> sh_max_output_bytes a \<le> MAX_SHELL_OUTPUT_BYTES
     \<and> confined_path (sh_command a)
     \<and> length (sh_args a) \<le> MAX_SHELL_ARGS
     \<and> distinct (sh_allowed_read_paths a @ sh_allowed_write_paths a)
     \<and> (\<forall>p \<in> set (sh_allowed_read_paths a @ sh_allowed_write_paths a). confined_path p)"
proof -
  obtain a where a: "decode_shell_args v = Some a"
    and cmd: "validate_absolute_path (sh_command a) ''shell.command'' MAX_SHELL_COMMAND_BYTES = Ok ()"
    and cnt: "length (sh_args a) \<le> MAX_SHELL_ARGS"
    and roots: "validate_shell_roots {} (sh_allowed_read_paths a @ sh_allowed_write_paths a) = Ok ()"
    and rest: "\<not> sh_allow_network a" "sh_timeout_ms a \<noteq> 0" "\<not> sh_timeout_ms a > MAX_SHELL_TIMEOUT_MS"
      "sh_max_output_bytes a \<noteq> 0" "\<not> sh_max_output_bytes a > MAX_SHELL_OUTPUT_BYTES"
    using assms unfolding validate_shell_args_def
    by (auto simp: attempt_Ok_iff if_Err_Ok_iff ok_or_Ok_iff validate_item_count_Ok_iff)
  then show ?thesis
    using validate_absolute_path_Ok [OF cmd] validate_shell_roots_Ok [OF roots]
    by (auto simp: word_gt_0 not_less)
qed

lemma walk_names_ParentDir: "ParentDir \<in> set cs \<Longrightarrow> walk_names cs = Err NotRegularFile"
  by (induction cs) (auto split: path_component.splits)

section \<open>Properties\<close>

definition positional_env :: env where
  "positional_env = sample_env\<lparr>
     parse_and_validate := (\<lambda>s. Ok (JObj
       [(''name'', JStr ''run''), (''policy_version'', JStr ''1''),
        (''steps'', JArr [JObj
          [(''call'', JObj [(''args'', JObj [(''command'', JStr ''/bin/ls''), (''timeout_ms'', JNum 5)]),
                           (''tool'', JStr ''shell'')]),
           (''name'', JStr ''s'')]])])),
     time_parse := (\<lambda>s. case s of [] \<Rightarrow> None | c # r \<Rightarrow>
        Some (if c = CHR ''-'' then - int (length r) else int (length r)))\<rparr>"

definition sample_spec :: RunSpecV1 where
  "sample_spec =
     \<lparr>rs_name = ''run'',
      rs_steps = [\<lparr>ss_name = ''s'',
        ss_call = \<lparr>tc_tool = ''shell'',
                   tc_args = JObj [(''command'', JStr ''/bin/ls''), (''timeout_ms'', JNum 5)],
                   tc_frozen_clock = None\<rparr>\<rparr>],
      rs_frozen_clock = None, rs_policy_version = ''1''\<rparr>"

lemma sample_spec_decodes:
  "decode_run_spec positional_env (JObj
       [(''name'', JStr ''run''), (''policy_version'', JStr ''1''),
        (''steps'', JArr [JObj
          [(''call'', JObj [(''args'', JObj [(''command'', JStr ''/bin/ls''), (''timeout_ms'', JNum 5)]),
                           (''tool'', JStr ''shell'')]),
           (''name'', JStr ''s'')]])]) = Some sample_spec"
  by (simp add: decode_run_spec_def decode_step_spec_def decode_tool_call_def decode_list_def field_def
      field_opt_def sample_spec_def)

lemma sample_shell_decodes:
  "decode_shell_args (JObj [(''command'', JStr ''/bin/ls''), (''timeout_ms'', JNum 5)]) =
      Some \<lparr>sh_command = ''/bin/ls'', sh_args = [], sh_allowed_read_paths = [],
            sh_allowed_write_paths = [], sh_allow_network = False, sh_timeout_ms = 5,
            sh_max_output_bytes = 65536\<rparr>"
  by (simp add: decode_shell_args_def field_def field_default_def)

lemma sample_path:
  "\<not> has_control ''/bin/ls''" "is_absolute ''/bin/ls''"
  "components ''/bin/ls'' = [RootDir, Normal ''bin'', Normal ''ls'']"
  by (simp_all add: byte_of_def is_absolute_def starts_with_def components_def)

lemma sample_idents:
  assumes "v \<in> {''run'', ''1'', ''s'', ''shell''}"
  shows "\<not> trims v \<and> \<not> has_control v"
  using assms
  by (auto simp: byte_of_def trims_def whitespace_encodings_def starts_with_def ends_with_def)

lemma sample_shell_valid:
  "validate_shell_args (JObj [(''command'', JStr ''/bin/ls''), (''timeout_ms'', JNum 5)]) = Ok ()"
  unfolding validate_shell_args_def sample_shell_decodes
  using sample_path
  by (simp add: validate_absolute_path_def validate_bytes_def components_root
      validate_item_count_def)

lemma sample_identifier_valid:
  assumes "v \<in> {''run'', ''1'', ''s'', ''shell''}" and "5 \<le> b"
  shows "validate_identifier v n b = Ok ()"
proof -
  have "v \<noteq> [] \<and> length v \<le> 5 \<and> CHR 0x00 \<notin> set v" using assms(1) by auto
  then show ?thesis
    using sample_idents [OF assms(1)] assms(2) by (simp add: validate_identifier_Ok_iff)
qed

lemma sample_spec_valid_in:
  assumes "canonicalize_bytes E = (\<lambda>v. Ok ''{}'')"
  shows "validate_ingress_spec E sample_spec = Ok ()"
  using assms
  by (simp add: validate_ingress_spec_def sample_spec_def sample_identifier_valid jcs_canonical_def
      validate_tool_args_def
      sample_shell_valid)

lemma positional_env_simps [simp]:
  "canonicalize_bytes positional_env = (\<lambda>v. Ok ''{}'')"
  "digest_json positional_env = JStr"
  "time_text positional_env = unary_text"
  by (simp_all add: positional_env_def sample_env_def)

lemma sample_spec_valid: "validate_ingress_spec positional_env sample_spec = Ok ()"
  by (simp add: sample_spec_valid_in)

lemma sample_spec_admitted: "parse_run_spec_bytes positional_env ''x'' = Ok sample_spec"
  using sample_spec_decodes sample_spec_valid
  by (simp add: parse_run_spec_bytes_def parse_strict_json_value_def
        positional_env_def sample_env_def byte_of_def)

text \<open>C34 admitted run specs are bounded.  A run spec that byte ingress admits came from at most one
  mebibyte, has a printable bounded name, between one and four steps with distinct printable bounded
  names, and only calls of the four Phase 1 tools whose arguments passed their validator.\<close>

theorem admitted_spec_is_bounded:
  assumes "parse_run_spec_bytes E input = Ok spec"
  shows "length input \<le> 1048576
       \<and> rs_name spec \<noteq> [] \<and> length (rs_name spec) \<le> 256 \<and> \<not> has_control (rs_name spec)
       \<and> 1 \<le> length (rs_steps spec) \<and> length (rs_steps spec) \<le> 4
       \<and> distinct (map ss_name (rs_steps spec))
       \<and> (\<forall>s \<in> set (rs_steps spec).
            tc_tool (ss_call s) \<in> {''echo'', ''time_now'', ''repo_audit'', ''shell''}
            \<and> ss_name s \<noteq> [] \<and> length (ss_name s) \<le> 256 \<and> \<not> has_control (ss_name s))"
proof -
  note parsed = parse_run_spec_bytes_Ok [OF assms]
  note spec = validate_ingress_spec_Ok [OF parsed(2)]
  have "tc_tool c \<in> {''echo'', ''time_now'', ''repo_audit'', ''shell''}"
    if "validate_tool_args c = Ok ()" for c
    using that by (auto simp: validate_tool_args_def split: if_splits)
  then show ?thesis
    using parsed(1) spec validate_ingress_steps_Ok [OF spec(3)]
    by (auto simp: Suc_le_eq)
qed

theorem admitted_spec_is_bounded_witness:
  "length (rs_steps sample_spec) \<le> 4 \<and> distinct (map ss_name (rs_steps sample_spec))"
  using admitted_spec_is_bounded [OF sample_spec_admitted] by simp

text \<open>C33 admitted shell calls are confined.  Every shell call of an admitted run spec decodes to
  arguments without network access, with a positive timeout of at most five minutes, an output limit
  of at most 64 KiB, an absolute command and absolute, pairwise different read and write roots, none
  of which is the root directory or climbs through a parent component.\<close>

theorem admitted_shell_is_confined:
  assumes "parse_run_spec_bytes E input = Ok spec" and "s \<in> set (rs_steps spec)"
    and "tc_tool (ss_call s) = ''shell''"
  shows "\<exists>a. decode_shell_args (tc_args (ss_call s)) = Some a \<and> \<not> sh_allow_network a
       \<and> 0 < sh_timeout_ms a \<and> sh_timeout_ms a \<le> 300000
       \<and> 0 < sh_max_output_bytes a \<and> sh_max_output_bytes a \<le> 65536
       \<and> confined_path (sh_command a)
       \<and> distinct (sh_allowed_read_paths a @ sh_allowed_write_paths a)
       \<and> (\<forall>p \<in> set (sh_allowed_read_paths a @ sh_allowed_write_paths a). confined_path p)"
proof -
  have "validate_tool_args (ss_call s) = Ok ()"
    using assms(2) validate_ingress_steps_Ok [OF validate_ingress_spec_Ok(3)
        [OF parse_run_spec_bytes_Ok(2) [OF assms(1)]]] by blast
  then have "validate_shell_args (tc_args (ss_call s)) = Ok ()"
    using assms(3) by (simp add: validate_tool_args_def)
  from validate_shell_args_Ok [OF this] show ?thesis
    by blast
qed

theorem admitted_shell_is_confined_witness:
  "\<exists>a. decode_shell_args (tc_args (ss_call (hd (rs_steps sample_spec)))) = Some a \<and> \<not> sh_allow_network a"
  using admitted_shell_is_confined [OF sample_spec_admitted, of "hd (rs_steps sample_spec)"]
  by (auto simp: sample_spec_def)

text \<open>No escape from the walked directories.  Whatever the file system answers, a run-spec path with
  a parent component is refused, and so is every path whose file is not regular or is longer than
  the input limit.\<close>

theorem spec_file_refusals:
  assumes "ParentDir \<in> set (components path)
     \<or> (\<forall>h. open_run_spec_no_follow fs path = Ok h \<longrightarrow>
          (\<exists>is_file len. fs_metadata fs h = Some (is_file, len)
             \<and> (\<not> is_file \<or> len > MAX_RUN_SPEC_INPUT_BYTES)))"
  shows "\<not> is_ok (parse_run_spec_file E fs path)"
  using assms
proof
  assume "ParentDir \<in> set (components path)"
  then have "\<not> is_ok (open_run_spec_no_follow fs path)"
    by (auto simp: open_run_spec_no_follow_def walk_names_ParentDir is_ok_iff attempt_Ok_iff)
  then show ?thesis
    by (cases "open_run_spec_no_follow fs path") (auto simp: parse_run_spec_file_def)
next
  assume *: "\<forall>h. open_run_spec_no_follow fs path = Ok h \<longrightarrow>
          (\<exists>is_file len. fs_metadata fs h = Some (is_file, len)
             \<and> (\<not> is_file \<or> len > MAX_RUN_SPEC_INPUT_BYTES))"
  show ?thesis
  proof (cases "open_run_spec_no_follow fs path")
    case (Inr h)
    then obtain is_file len where "fs_metadata fs h = Some (is_file, len)"
      and "\<not> is_file \<or> len > MAX_RUN_SPEC_INPUT_BYTES" using * by blast
    with Inr show ?thesis by (auto simp: parse_run_spec_file_def)
  qed (simp add: parse_run_spec_file_def)
qed

theorem spec_file_refusals_witness:
  "\<not> is_ok (parse_run_spec_file sample_env
      \<lparr>fs_open_start = (\<lambda>_. Some (0::nat)), fs_openat2 = (\<lambda>h _ _. Some (h + 1)),
       fs_metadata = (\<lambda>_. Some (True, 10)), fs_read = (\<lambda>_ _. Some ''{}'')\<rparr> ''a/../b'')"
proof -
  have "ParentDir \<in> set (components ''a/../b'')" by code_simp
  then show ?thesis using spec_file_refusals by blast
qed

end
