(* ===== verification/Events.thy ===== *)
theory Events
  imports Lifecycle
begin

text \<open>
  Runtime events of \<open>recursive-agent-contracts/src/event.rs\<close>: the client-facing projection of a
  committed receipt chain, and the check that a list of events is exactly that projection.
\<close>

section \<open>Event data\<close>

datatype RuntimeEventSchemaV1 = EventSchemaV1

datatype RuntimeEventKindV1 =
    EvSubmitted
  | EvProviderEgressAdmitted step_id "ArtifactDescriptorV1 list"
  | EvStarted step_id
  | EvAuthorizationIssued step_id
  | EvAuthorized step_id
  | EvAuthorizationRejected step_id
  | EvAuthorizationRevoked step_id
  | EvOutputCommitted step_id "ArtifactDescriptorV1 list"
  | EvStepCompleted step_id "ArtifactDescriptorV1 list"
  | EvFailed step_id ReceiptOutcomeV1
  | EvChildAdmissionPrepared content_digest
  | EvChildLinked content_digest "ArtifactDescriptorV1 list"
  | EvChildClosed content_digest "ArtifactDescriptorV1 list"
  | EvCompleted ReceiptOutcomeV1

record RuntimeEventV1 =
  ev_schema :: RuntimeEventSchemaV1
  ev_run_id :: run_id
  ev_sequence :: u64
  ev_causal_parent :: "receipt_id option"
  ev_kind :: RuntimeEventKindV1
  ev_evidence_receipt :: receipt_id

section \<open>Projection\<close>

definition event_kind :: "ReceiptV1 \<Rightarrow> RuntimeEventKindV1" where
  "event_kind r =
     (case rc_kind r of
        RunStarted \<Rightarrow> EvSubmitted
      | ProviderEgressAdmitted \<Rightarrow> EvProviderEgressAdmitted (rc_step_id r) (rc_artifact_refs r)
      | StepStarted \<Rightarrow> EvStarted (rc_step_id r)
      | PermitIssued \<Rightarrow> EvAuthorizationIssued (rc_step_id r)
      | PermitConsumed \<Rightarrow> EvAuthorized (rc_step_id r)
      | PermitRejected \<Rightarrow> EvAuthorizationRejected (rc_step_id r)
      | PermitRevoked \<Rightarrow> EvAuthorizationRevoked (rc_step_id r)
      | ArtifactStored \<Rightarrow> EvOutputCommitted (rc_step_id r) (rc_artifact_refs r)
      | StepCompleted \<Rightarrow> EvStepCompleted (rc_step_id r) (rc_artifact_refs r)
      | StepFailed \<Rightarrow> EvFailed (rc_step_id r) (rc_outcome r)
      | ParentCancelled \<Rightarrow> EvFailed (rc_step_id r) (rc_outcome r)
      | ChildAdmissionPrepared \<Rightarrow> EvChildAdmissionPrepared (rc_args_digest r)
      | ChildLinked \<Rightarrow> EvChildLinked (rc_args_digest r) (rc_artifact_refs r)
      | ChildClosed \<Rightarrow> EvChildClosed (rc_args_digest r) (rc_artifact_refs r)
      | RunFinalized \<Rightarrow> EvCompleted (rc_outcome r))"

definition project_event ::
    "ReceiptV1 list \<Rightarrow> nat \<times> ReceiptV1 \<Rightarrow> contract_error + RuntimeEventV1" where
  "project_event receipts = (\<lambda>(index, receipt).
     attempt (if index < 2 ^ 64 then Ok (of_nat index) else Err (Malformed EventSequenceExceedsU64))
       (\<lambda>sequence.
       Ok \<lparr>ev_schema = EventSchemaV1, ev_run_id = rc_run_id receipt, ev_sequence = sequence,
           ev_causal_parent =
             (if index = 0 then None else Some (rc_receipt_id (receipts ! (index - 1)))),
           ev_kind = event_kind receipt, ev_evidence_receipt = rc_receipt_id receipt\<rparr>))"

definition project_runtime_events ::
    "env \<Rightarrow> ReceiptV1 list \<Rightarrow> contract_error + RuntimeEventV1 list" where
  "project_runtime_events E receipts =
     attempt (validate_receipt_sequence E receipts AppendInProgress) (\<lambda>_.
       try_map (project_event receipts) (enumerate 0 receipts))"

definition validate_runtime_event_sequence ::
    "env \<Rightarrow> RuntimeEventV1 list \<Rightarrow> ReceiptV1 list \<Rightarrow> contract_error + unit" where
  "validate_runtime_event_sequence E events committed_receipts =
     attempt (project_runtime_events E committed_receipts) (\<lambda>expected.
       if events \<noteq> expected then Err (Malformed EventsMismatchReceipts) else Ok ())"

section \<open>Lemmas\<close>

lemma project_event_Ok_iff:
  "project_event rs (i, r) = Ok ev \<longleftrightarrow>
     i < 2 ^ 64
     \<and> ev = \<lparr>ev_schema = EventSchemaV1, ev_run_id = rc_run_id r, ev_sequence = of_nat i,
            ev_causal_parent = (if i = 0 then None else Some (rc_receipt_id (rs ! (i - 1)))),
            ev_kind = event_kind r, ev_evidence_receipt = rc_receipt_id r\<rparr>"
  by (auto simp: project_event_def attempt_Ok_iff)

lemma project_Ok_iff:
  "project_runtime_events E rs = Ok evs \<longleftrightarrow>
     (\<exists>v. validate_receipt_sequence E rs AppendInProgress = Ok v) \<and> length evs = length rs
     \<and> (\<forall>i < length rs. project_event rs (i, rs ! i) = Ok (evs ! i))"
  by (auto simp: project_runtime_events_def attempt_Ok_iff try_map_Ok_iff list_all2_conv_all_nth
      nth_enumerate_eq)

lemma validate_events_Ok_iff:
  "validate_runtime_event_sequence E evs rs = Ok () \<longleftrightarrow> project_runtime_events E rs = Ok evs"
  by (auto simp: validate_runtime_event_sequence_def attempt_Ok_iff)

lemma unat_event_index: "i < 2 ^ 64 \<Longrightarrow> unat (of_nat i :: u64) = i"
  by (simp add: unat_of_nat take_bit_nat_eq_self)

lemma event_kind_completed: "(\<exists>out. event_kind r = EvCompleted out) \<longleftrightarrow> rc_kind r = RunFinalized"
  by (auto simp: event_kind_def split: ReceiptKindV1.splits)

lemma sample_run_appendable:
  "validate_receipt_sequence sample_env sample_run AppendInProgress =
     Ok \<lparr>lv_run_id = Some ''run'', lv_terminal_state = Some Succeeded, lv_finalized = True\<rparr>"
  by (rule strict_accepted_for_append [OF sample_run_valid])

lemma sample_run_projects: "\<exists>evs. project_runtime_events sample_env sample_run = Ok evs"
proof -
  have "\<exists>evs. try_map (project_event rs) xs = Ok evs"
    if "\<forall>x \<in> set xs. fst x < 2 ^ 64" for rs xs
    using that by (induction xs) (auto simp: project_event_Ok_iff project_event_def)
  moreover have "\<forall>x \<in> set (enumerate 0 sample_run). fst x < 2 ^ 64"
    by (simp add: sample_run_def)
  ultimately show ?thesis
    by (auto simp: project_runtime_events_def sample_run_appendable)
qed

section \<open>Properties\<close>

text \<open>C36 events are causal evidence.  The events of a committed chain are one per receipt, numbered
  from zero without gaps, all of one run; each cites its receipt, names the preceding event's
  receipt as its causal parent, and a completion event can only be the last one.\<close>

theorem events_are_causal_evidence:
  assumes "validate_runtime_event_sequence E evs rs = Ok ()" and "i < length evs"
  shows "length evs = length rs \<and> unat (ev_sequence (evs ! i)) = i
       \<and> ev_run_id (evs ! i) = rc_run_id (hd rs)
       \<and> ev_evidence_receipt (evs ! i) = rc_receipt_id (rs ! i)
       \<and> ev_causal_parent (evs ! i) = (if i = 0 then None else Some (ev_evidence_receipt (evs ! (i - 1))))
       \<and> ((\<exists>out. ev_kind (evs ! i) = EvCompleted out) \<longrightarrow> i = length evs - 1)"
proof -
  have proj: "project_runtime_events E rs = Ok evs" using assms(1) by (simp add: validate_events_Ok_iff)
  then obtain v where v: "validate_receipt_sequence E rs AppendInProgress = Ok v"
    and len: "length evs = length rs"
    and ev: "\<And>j. j < length rs \<Longrightarrow> project_event rs (j, rs ! j) = Ok (evs ! j)"
    by (auto simp: project_Ok_iff)
  obtain s where run: "lifecycle_run E rs = Ok s" using v by (auto simp: validate_current_Ok_iff)
  have here: "i < length rs" using assms(2) len by simp
  note at = ev [OF here, unfolded project_event_Ok_iff]
  have parent: "ev_evidence_receipt (evs ! (i - 1)) = rc_receipt_id (rs ! (i - 1))" if "i \<noteq> 0"
    using ev [of "i - 1"] here that by (simp add: project_event_Ok_iff)
  have uniform: "rc_run_id (rs ! i) = rc_run_id (hd rs)"
    using run_uniform [OF run] nth_mem [OF here] by (cases rs) (auto simp: list_all_iff)
  have fin: "i = length rs - 1" if "rc_kind (rs ! i) = RunFinalized"
  proof (rule ccontr)
    assume "i \<noteq> length rs - 1"
    with here have "rs ! i \<in> set (butlast rs)"
      by (auto simp: in_set_conv_nth nth_butlast intro!: exI [of _ i])
    moreover have "rs \<noteq> []" using here by auto
    ultimately show False using run_bracketed [OF run] that by (auto simp: list_all_iff)
  qed
  show ?thesis
    using at parent uniform fin len by (auto simp: unat_event_index event_kind_completed)
qed

theorem events_are_causal_evidence_witness:
  "\<exists>evs. validate_runtime_event_sequence sample_env evs sample_run = Ok ()
     \<and> length evs = 10 \<and> unat (ev_sequence (evs ! 3)) = 3
     \<and> ev_causal_parent (evs ! 3) = Some (ev_evidence_receipt (evs ! 2))"
proof -
  obtain evs where proj: "project_runtime_events sample_env sample_run = Ok evs"
    using sample_run_projects by blast
  then have ok: "validate_runtime_event_sequence sample_env evs sample_run = Ok ()"
    by (simp add: validate_events_Ok_iff)
  have "length evs = 10" using proj by (simp add: project_Ok_iff sample_run_def)
  with events_are_causal_evidence [OF ok, of 3] ok show ?thesis by auto
qed

text \<open>C37 event streams only grow.  The events of a prefix of an accepted chain are the same prefix
  of the events of the whole chain, so a client that has read up to some cursor never sees an
  event it has read change, and events that validate against a chain are the only ones that do.\<close>

theorem event_stream_prefix_stable:
  assumes "project_runtime_events E rs = Ok evs"
  shows "project_runtime_events E (take n rs) = Ok (take n evs)
       \<and> (validate_runtime_event_sequence E other rs = Ok () \<longleftrightarrow> other = evs)"
proof -
  obtain v where v: "validate_receipt_sequence E rs AppendInProgress = Ok v"
    and len: "length evs = length rs"
    and ev: "\<And>i. i < length rs \<Longrightarrow> project_event rs (i, rs ! i) = Ok (evs ! i)"
    using assms by (auto simp: project_Ok_iff)
  obtain s where "lifecycle_run E (take n rs @ drop n rs) = Ok s"
    using v by (auto simp: validate_current_Ok_iff)
  then obtain t where "lifecycle_run E (take n rs) = Ok t" using lifecycle_run_append by blast
  then have "\<exists>w. validate_receipt_sequence E (take n rs) AppendInProgress = Ok w"
    by (simp add: validate_current_Ok_iff)
  moreover have "project_event (take n rs) (i, take n rs ! i) = Ok (take n evs ! i)"
    if "i < length (take n rs)" for i
    using ev [of i] that by (auto simp: project_event_Ok_iff)
  ultimately have "project_runtime_events E (take n rs) = Ok (take n evs)"
    using len by (simp add: project_Ok_iff)
  then show ?thesis using assms by (auto simp: validate_events_Ok_iff)
qed

theorem event_stream_prefix_stable_witness:
  "\<exists>evs. project_runtime_events sample_env (take 4 sample_run) = Ok (take 4 evs)
     \<and> length evs = 10"
proof -
  obtain evs where proj: "project_runtime_events sample_env sample_run = Ok evs"
    using sample_run_projects by blast
  have "length evs = 10" using proj by (simp add: project_Ok_iff sample_run_def)
  with event_stream_prefix_stable [OF proj, of 4] show ?thesis by blast
qed

end
