(* ===== verification/Operation.thy ===== *)
theory Operation
  imports Ingress
begin

text \<open>
  Native operation envelopes of \<open>recursive-agent-contracts/src/operation.rs\<close>: the direct V1
  operation, the V2 child proposal and the closed V2 child operation, with their validation, byte
  ingress and derived identities.  The derived JSON decoders (\<open>serde_json::from_value\<close>) are
  arguments of the ingress functions.
\<close>

section \<open>Data\<close>

datatype OperationIngressError =
    OpInputTooLarge nat
  | OpDuplicateKey
  | OpMalformed
  | OpCanonicalBoundary
  | OpSemantic contract_error

datatype OperationSchemaV1 = SchemaV1 | SchemaV2

datatype AuthorityOriginV1 = Direct | Delegated | Remote

record ActorAuthorityV1 =
  aa_principal :: string
  aa_origin :: AuthorityOriginV1

record CausalLinkV1 =
  cl_parent_operation_id :: "run_id option"
  cl_root_operation_id :: "run_id option"

record OperationBudgetV1 =
  ob_max_wall_time_ms :: u64
  ob_max_output_bytes :: u64
  ob_max_artifact_bytes :: u64
  ob_max_steps :: u32

record ChildRunAuthorityV1 =
  ca_parent_operation_id :: run_id
  ca_root_operation_id :: run_id
  ca_parent_control_permit_id :: permit_id
  ca_parent_admission_receipt_id :: receipt_id
  ca_requested_budget :: OperationBudgetV1
  ca_child_operation_digest :: content_digest

record DeclaredEffectsV1 =
  de_read_roots :: "string list"
  de_write_roots :: "string list"
  de_network_allowed :: bool
  de_action_digest :: content_digest

record ProvenanceRefV1 =
  prv_source :: string
  prv_digest :: content_digest

datatype ReplayClassV1 = Deterministic | RecordedEffect | NonReplayable

datatype ReplayIntentV1 = ExecuteOnce | ReadRecorded

record ReplaySpecV1 =
  rp_class :: ReplayClassV1
  rp_intent :: ReplayIntentV1

record OperationEnvelopeV1 =
  op_schema :: OperationSchemaV1
  op_actor :: ActorAuthorityV1
  op_causality :: CausalLinkV1
  op_budget :: OperationBudgetV1
  op_effects :: DeclaredEffectsV1
  op_provenance :: "ProvenanceRefV1 list"
  op_replay :: ReplaySpecV1
  op_run_spec :: RunSpecV1

record ChildOperationProposalV2 =
  cp_schema :: OperationSchemaV1
  cp_actor :: ActorAuthorityV1
  cp_causality :: CausalLinkV1
  cp_budget :: OperationBudgetV1
  cp_effects :: DeclaredEffectsV1
  cp_provenance :: "ProvenanceRefV1 list"
  cp_replay :: ReplaySpecV1
  cp_run_spec :: RunSpecV1

record ChildOperationEnvelopeV2 =
  ce_schema :: OperationSchemaV1
  ce_actor :: ActorAuthorityV1
  ce_causality :: CausalLinkV1
  ce_child_authority :: ChildRunAuthorityV1
  ce_budget :: OperationBudgetV1
  ce_effects :: DeclaredEffectsV1
  ce_provenance :: "ProvenanceRefV1 list"
  ce_replay :: ReplaySpecV1
  ce_run_spec :: RunSpecV1

section \<open>Encodings\<close>

fun schema_name :: "OperationSchemaV1 \<Rightarrow> string" where
  "schema_name SchemaV1 = ''recursive-agent.operation/v1''"
| "schema_name SchemaV2 = ''recursive-agent.operation/v2''"

fun authority_origin_name :: "AuthorityOriginV1 \<Rightarrow> string" where
  "authority_origin_name Direct = ''direct''"
| "authority_origin_name Delegated = ''delegated''"
| "authority_origin_name Remote = ''remote''"

fun replay_class_name :: "ReplayClassV1 \<Rightarrow> string" where
  "replay_class_name Deterministic = ''deterministic''"
| "replay_class_name RecordedEffect = ''recorded_effect''"
| "replay_class_name NonReplayable = ''non_replayable''"

fun replay_intent_name :: "ReplayIntentV1 \<Rightarrow> string" where
  "replay_intent_name ExecuteOnce = ''execute_once''"
| "replay_intent_name ReadRecorded = ''read_recorded''"

definition actor_json :: "ActorAuthorityV1 \<Rightarrow> json" where
  "actor_json a =
     JObj [(''origin'', JStr (authority_origin_name (aa_origin a))),
           (''principal'', JStr (aa_principal a))]"

definition causality_json :: "CausalLinkV1 \<Rightarrow> json" where
  "causality_json c =
     JObj [(''parent_operation_id'', json_of_option JStr (cl_parent_operation_id c)),
           (''root_operation_id'', json_of_option JStr (cl_root_operation_id c))]"

definition budget_json :: "OperationBudgetV1 \<Rightarrow> json" where
  "budget_json b =
     JObj [(''max_artifact_bytes'', json_of_word (ob_max_artifact_bytes b)),
           (''max_output_bytes'', json_of_word (ob_max_output_bytes b)),
           (''max_steps'', json_of_word (ob_max_steps b)),
           (''max_wall_time_ms'', json_of_word (ob_max_wall_time_ms b))]"

definition child_authority_json :: "env \<Rightarrow> ChildRunAuthorityV1 \<Rightarrow> json" where
  "child_authority_json E a =
     JObj [(''child_operation_digest'', digest_json E (ca_child_operation_digest a)),
           (''parent_admission_receipt_id'', JStr (ca_parent_admission_receipt_id a)),
           (''parent_control_permit_id'', JStr (ca_parent_control_permit_id a)),
           (''parent_operation_id'', JStr (ca_parent_operation_id a)),
           (''requested_budget'', budget_json (ca_requested_budget a)),
           (''root_operation_id'', JStr (ca_root_operation_id a))]"

definition effects_json :: "env \<Rightarrow> DeclaredEffectsV1 \<Rightarrow> json" where
  "effects_json E e =
     JObj [(''action_digest'', digest_json E (de_action_digest e)),
           (''network_allowed'', JBool (de_network_allowed e)),
           (''read_roots'', json_of_list JStr (de_read_roots e)),
           (''write_roots'', json_of_list JStr (de_write_roots e))]"

definition provenance_json :: "env \<Rightarrow> ProvenanceRefV1 \<Rightarrow> json" where
  "provenance_json E p =
     JObj [(''digest'', digest_json E (prv_digest p)), (''source'', JStr (prv_source p))]"

definition replay_json :: "ReplaySpecV1 \<Rightarrow> json" where
  "replay_json r =
     JObj [(''class'', JStr (replay_class_name (rp_class r))),
           (''intent'', JStr (replay_intent_name (rp_intent r)))]"

definition operation_json :: "env \<Rightarrow> OperationEnvelopeV1 \<Rightarrow> json" where
  "operation_json E o' =
     JObj [(''actor'', actor_json (op_actor o')),
           (''budget'', budget_json (op_budget o')),
           (''causality'', causality_json (op_causality o')),
           (''effects'', effects_json E (op_effects o')),
           (''provenance'', json_of_list (provenance_json E) (op_provenance o')),
           (''replay'', replay_json (op_replay o')),
           (''run_spec'', run_spec_json E (op_run_spec o')),
           (''schema'', JStr (schema_name (op_schema o')))]"

definition proposal_json :: "env \<Rightarrow> ChildOperationProposalV2 \<Rightarrow> json" where
  "proposal_json E p =
     JObj [(''actor'', actor_json (cp_actor p)),
           (''budget'', budget_json (cp_budget p)),
           (''causality'', causality_json (cp_causality p)),
           (''effects'', effects_json E (cp_effects p)),
           (''provenance'', json_of_list (provenance_json E) (cp_provenance p)),
           (''replay'', replay_json (cp_replay p)),
           (''run_spec'', run_spec_json E (cp_run_spec p)),
           (''schema'', JStr (schema_name (cp_schema p)))]"

definition child_operation_json :: "env \<Rightarrow> ChildOperationEnvelopeV2 \<Rightarrow> json" where
  "child_operation_json E c =
     JObj [(''actor'', actor_json (ce_actor c)),
           (''budget'', budget_json (ce_budget c)),
           (''causality'', causality_json (ce_causality c)),
           (''child_authority'', child_authority_json E (ce_child_authority c)),
           (''effects'', effects_json E (ce_effects c)),
           (''provenance'', json_of_list (provenance_json E) (ce_provenance c)),
           (''replay'', replay_json (ce_replay c)),
           (''run_spec'', run_spec_json E (ce_run_spec c)),
           (''schema'', JStr (schema_name (ce_schema c)))]"

section \<open>Identities\<close>

definition derive_operation_identity :: "env \<Rightarrow> json \<Rightarrow> contract_error + run_id" where
  "derive_operation_identity E envelope =
     attempt (content_digest E envelope) (\<lambda>digest.
     attempt (ok_or IdParse (id_deterministic E KernelRunId RUN_ID_DOMAIN digest)) (\<lambda>owner.
     current_id_from_owner RUN_ID_DOMAIN owner))"

definition derive_operation_id :: "env \<Rightarrow> OperationEnvelopeV1 \<Rightarrow> contract_error + run_id" where
  "derive_operation_id E envelope = derive_operation_identity E (operation_json E envelope)"

definition derive_child_operation_id ::
    "env \<Rightarrow> ChildOperationEnvelopeV2 \<Rightarrow> contract_error + run_id" where
  "derive_child_operation_id E envelope =
     derive_operation_identity E (child_operation_json E envelope)"

definition derive_child_operation_proposal_digest ::
    "env \<Rightarrow> ChildOperationProposalV2 \<Rightarrow> contract_error + content_digest" where
  "derive_child_operation_proposal_digest E proposal = content_digest E (proposal_json E proposal)"

definition envelope_proposal :: "ChildOperationEnvelopeV2 \<Rightarrow> ChildOperationProposalV2" where
  "envelope_proposal e =
     \<lparr>cp_schema = ce_schema e, cp_actor = ce_actor e, cp_causality = ce_causality e,
      cp_budget = ce_budget e, cp_effects = ce_effects e, cp_provenance = ce_provenance e,
      cp_replay = ce_replay e, cp_run_spec = ce_run_spec e\<rparr>"

definition derive_child_operation_material_digest ::
    "env \<Rightarrow> ChildOperationEnvelopeV2 \<Rightarrow> contract_error + content_digest" where
  "derive_child_operation_material_digest E envelope =
     derive_child_operation_proposal_digest E (envelope_proposal envelope)"

section \<open>Validation\<close>

definition validate_operation_identifier ::
    "string \<Rightarrow> string \<Rightarrow> nat \<Rightarrow> contract_error + unit" where
  "validate_operation_identifier value name maximum_bytes =
     map_err (\<lambda>_. Malformed (Message (''operation field '' @ name @ '' has invalid semantics'')))
       (validate_identifier value name maximum_bytes)"

fun provenance_sources_ok :: "string set \<Rightarrow> ProvenanceRefV1 list \<Rightarrow> contract_error + unit" where
  "provenance_sources_ok sources [] = Ok ()"
| "provenance_sources_ok sources (item # rest) =
     attempt (validate_operation_identifier (prv_source item) ''provenance[].source''
                MAX_SHELL_PATH_BYTES) (\<lambda>_.
       if prv_source item \<in> sources
       then Err (Malformed (Message ''operation provenance contains a duplicate source''))
       else provenance_sources_ok (insert (prv_source item) sources) rest)"

definition validate_operation_provenance :: "ProvenanceRefV1 list \<Rightarrow> contract_error + unit" where
  "validate_operation_provenance provenance =
     (if provenance = [] \<or> length provenance > MAX_SHELL_ROOTS_PER_MODE
      then Err (Malformed (Message ''operation provenance is empty or exceeds its item ceiling''))
      else provenance_sources_ok {} provenance)"

definition validate_operation_budget ::
    "OperationBudgetV1 \<Rightarrow> RunSpecV1 \<Rightarrow> contract_error + unit" where
  "validate_operation_budget budget run_spec =
     (if ob_max_wall_time_ms budget = 0 \<or> ob_max_wall_time_ms budget > MAX_SHELL_TIMEOUT_MS
      then Err (Malformed (Message ''operation wall-time budget is zero or exceeds the admitted ceiling''))
      else if ob_max_output_bytes budget = 0 \<or> ob_max_output_bytes budget > MAX_SHELL_OUTPUT_BYTES
      then Err (Malformed (Message ''operation output budget is zero or exceeds the admitted ceiling''))
      else if ob_max_artifact_bytes budget = 0 \<or> ob_max_artifact_bytes budget > MAX_SHELL_OUTPUT_BYTES
      then Err (Malformed (Message ''operation artifact budget is zero or exceeds the admitted ceiling''))
      else (let declared_steps = unat (ob_max_steps budget) in
        if declared_steps = 0 \<or> declared_steps > MAX_RUN_SPEC_STEPS
           \<or> length (rs_steps run_spec) > declared_steps
        then Err (Malformed (Message
          ''operation step budget is zero, over limit, or below the payload step count''))
        else Ok ()))"

text \<open>The loop of \<open>validate_declared_effects\<close>: the roots and network access the shell steps ask for.\<close>

record required_effects =
  re_reads :: "string set"
  re_writes :: "string set"
  re_network :: bool
  re_shell :: bool

definition require_step ::
    "required_effects \<Rightarrow> StepSpecV1 \<Rightarrow> contract_error + required_effects" where
  "require_step acc step =
     (if tc_tool (ss_call step) = ''shell'' then
        attempt (ok_or (Malformed (Message ''shell effect declaration could not be decoded''))
                   (decode_shell_args (tc_args (ss_call step)))) (\<lambda>args.
          Ok \<lparr>re_reads = re_reads acc \<union> set (sh_allowed_read_paths args),
              re_writes = re_writes acc \<union> set (sh_allowed_write_paths args),
              re_network = (re_network acc \<or> sh_allow_network args), re_shell = True\<rparr>)
      else Ok acc)"

definition replay_class_matches :: "bool \<Rightarrow> ReplayClassV1 \<Rightarrow> bool" where
  "replay_class_matches has_shell cls =
     (case (has_shell, cls) of
        (False, Deterministic) \<Rightarrow> True
      | (True, RecordedEffect) \<Rightarrow> True
      | (True, NonReplayable) \<Rightarrow> True
      | _ \<Rightarrow> False)"

definition validate_declared_effects ::
    "env \<Rightarrow> RunSpecV1 \<Rightarrow> DeclaredEffectsV1 \<Rightarrow> ReplaySpecV1 \<Rightarrow> contract_error + unit" where
  "validate_declared_effects E run_spec effects replay =
     attempt (map_err (\<lambda>_. Malformed (Message
                ''operation payload failed run-spec semantic validation''))
                (validate_ingress_spec E run_spec)) (\<lambda>_.
     attempt (content_digest E (run_spec_json E run_spec)) (\<lambda>expected_digest.
     if de_action_digest effects \<noteq> expected_digest
     then Err (Malformed (Message ''declared action digest does not bind the operation payload''))
     else
     attempt (try_fold require_step
                \<lparr>re_reads = {}, re_writes = {}, re_network = False, re_shell = False\<rparr>
                (rs_steps run_spec)) (\<lambda>req.
     if \<not> distinct (de_read_roots effects) \<or> \<not> distinct (de_write_roots effects)
     then Err (Malformed (Message ''declared effect roots contain duplicates''))
     else if set (de_read_roots effects) \<noteq> re_reads req \<or> set (de_write_roots effects) \<noteq> re_writes req
             \<or> de_network_allowed effects \<noteq> re_network req
     then Err (Malformed (Message ''declared effects do not exactly match the operation payload''))
     else if \<not> replay_class_matches (re_shell req) (rp_class replay)
     then Err (Malformed (Message ''operation replay class does not match its effect surface''))
     else if rp_class replay = NonReplayable \<and> rp_intent replay = ReadRecorded
     then Err (Malformed (Message ''non-replayable operation cannot request recorded replay''))
     else Ok ())))"

definition OperationEnvelopeV1_validate :: "env \<Rightarrow> OperationEnvelopeV1 \<Rightarrow> contract_error + unit" where
  "OperationEnvelopeV1_validate E self =
     (if op_schema self \<noteq> SchemaV1
      then Err (Malformed (Message ''V1 operation ingress requires the exact V1 schema tag''))
      else if aa_origin (op_actor self) \<noteq> Direct
              \<or> cl_parent_operation_id (op_causality self) \<noteq> None
              \<or> cl_root_operation_id (op_causality self) \<noteq> None
      then Err (Malformed (Message ''V1 operation ingress admits only direct root authority''))
      else
        attempt (validate_operation_identifier (aa_principal (op_actor self)) ''actor.principal''
                   MAX_RUN_NAME_BYTES) (\<lambda>_.
        attempt (validate_operation_provenance (op_provenance self)) (\<lambda>_.
        attempt (validate_declared_effects E (op_run_spec self) (op_effects self) (op_replay self)) (\<lambda>_.
          validate_operation_budget (op_budget self) (op_run_spec self)))))"

definition ChildOperationProposalV2_validate ::
    "env \<Rightarrow> ChildOperationProposalV2 \<Rightarrow> contract_error + unit" where
  "ChildOperationProposalV2_validate E self =
     (if cp_schema self \<noteq> SchemaV2
      then Err (Malformed (Message ''child operation requires the exact V2 schema tag''))
      else if aa_origin (cp_actor self) \<noteq> Delegated
      then Err (Malformed (Message ''child operation requires delegated authority origin''))
      else
        attempt (validate_operation_identifier (aa_principal (cp_actor self)) ''actor.principal''
                   MAX_RUN_NAME_BYTES) (\<lambda>_.
        if cl_parent_operation_id (cp_causality self) = None
           \<or> cl_root_operation_id (cp_causality self) = None
        then Err (Malformed (Message ''child operation requires parent and root lineage''))
        else
          attempt (validate_operation_provenance (cp_provenance self)) (\<lambda>_.
          attempt (validate_declared_effects E (cp_run_spec self) (cp_effects self) (cp_replay self)) (\<lambda>_.
            validate_operation_budget (cp_budget self) (cp_run_spec self)))))"

definition ChildOperationEnvelopeV2_validate ::
    "env \<Rightarrow> ChildOperationEnvelopeV2 \<Rightarrow> contract_error + unit" where
  "ChildOperationEnvelopeV2_validate E self =
     (if ce_schema self \<noteq> SchemaV2
      then Err (Malformed (Message ''child operation requires the exact V2 schema tag''))
      else if aa_origin (ce_actor self) \<noteq> Delegated
      then Err (Malformed (Message ''child operation requires delegated authority origin''))
      else
        attempt (validate_operation_identifier (aa_principal (ce_actor self)) ''actor.principal''
                   MAX_RUN_NAME_BYTES) (\<lambda>_.
        attempt (ok_or (Malformed (Message ''child operation requires parent lineage''))
                   (cl_parent_operation_id (ce_causality self))) (\<lambda>parent.
        attempt (ok_or (Malformed (Message ''child operation requires root lineage''))
                   (cl_root_operation_id (ce_causality self))) (\<lambda>root.
        if parent \<noteq> ca_parent_operation_id (ce_child_authority self)
           \<or> root \<noteq> ca_root_operation_id (ce_child_authority self)
        then Err (Malformed (Message ''child authority does not bind causal parent and root lineage''))
        else if ce_budget self \<noteq> ca_requested_budget (ce_child_authority self)
        then Err (Malformed (Message
          ''child authority budget does not exactly bind the child operation budget''))
        else
          attempt (derive_child_operation_material_digest E self) (\<lambda>digest.
          if ca_child_operation_digest (ce_child_authority self) \<noteq> digest
          then Err (Malformed (Message
            ''child authority digest does not bind the child operation material''))
          else
            attempt (validate_operation_provenance (ce_provenance self)) (\<lambda>_.
            attempt (validate_declared_effects E (ce_run_spec self) (ce_effects self)
                       (ce_replay self)) (\<lambda>_.
              validate_operation_budget (ce_budget self) (ce_run_spec self))))))))"

section \<open>Byte ingress\<close>

abbreviation op_strict_error :: "StrictJsonError \<Rightarrow> OperationIngressError" where
  "op_strict_error e \<equiv> (case e of StrictDuplicateKey \<Rightarrow> OpDuplicateKey | StrictMalformed \<Rightarrow> OpMalformed)"

definition parse_operation_envelope_value ::
    "env \<Rightarrow> (json \<Rightarrow> OperationEnvelopeV1 option) \<Rightarrow> json \<Rightarrow>
     OperationIngressError + OperationEnvelopeV1" where
  "parse_operation_envelope_value E from_value parsed =
     attempt (map_err (\<lambda>_. OpCanonicalBoundary) (jcs_canonical E parsed)) (\<lambda>canonical.
       if length canonical > MAX_RUN_SPEC_MATERIAL_BYTES then Err OpCanonicalBoundary
       else
         attempt (ok_or OpMalformed (from_value parsed)) (\<lambda>envelope.
         attempt (map_err OpSemantic (OperationEnvelopeV1_validate E envelope)) (\<lambda>_. Ok envelope)))"

definition parse_operation_envelope_bytes ::
    "env \<Rightarrow> (json \<Rightarrow> OperationEnvelopeV1 option) \<Rightarrow> bytes \<Rightarrow>
     OperationIngressError + OperationEnvelopeV1" where
  "parse_operation_envelope_bytes E from_value input =
     (if length input > MAX_RUN_SPEC_INPUT_BYTES then Err (OpInputTooLarge MAX_RUN_SPEC_INPUT_BYTES)
      else
        attempt (map_err op_strict_error (parse_strict_json_value E input)) (\<lambda>parsed.
          parse_operation_envelope_value E from_value parsed))"

definition parse_child_operation_proposal_v2_bytes ::
    "env \<Rightarrow> (json \<Rightarrow> ChildOperationProposalV2 option) \<Rightarrow> bytes \<Rightarrow>
     OperationIngressError + ChildOperationProposalV2" where
  "parse_child_operation_proposal_v2_bytes E from_value input =
     (if length input > MAX_RUN_SPEC_INPUT_BYTES then Err (OpInputTooLarge MAX_RUN_SPEC_INPUT_BYTES)
      else
        attempt (map_err op_strict_error (parse_strict_json_value E input)) (\<lambda>parsed.
        attempt (map_err (\<lambda>_. OpCanonicalBoundary) (jcs_canonical E parsed)) (\<lambda>canonical.
          if length canonical > MAX_RUN_SPEC_MATERIAL_BYTES then Err OpCanonicalBoundary
          else
            attempt (ok_or OpMalformed (from_value parsed)) (\<lambda>proposal.
            attempt (map_err OpSemantic (ChildOperationProposalV2_validate E proposal)) (\<lambda>_.
              Ok proposal)))))"

definition parse_child_operation_envelope_v2_bytes ::
    "env \<Rightarrow> (json \<Rightarrow> ChildOperationEnvelopeV2 option) \<Rightarrow> bytes \<Rightarrow>
     OperationIngressError + ChildOperationEnvelopeV2" where
  "parse_child_operation_envelope_v2_bytes E from_value input =
     (if length input > MAX_RUN_SPEC_INPUT_BYTES then Err (OpInputTooLarge MAX_RUN_SPEC_INPUT_BYTES)
      else
        attempt (map_err op_strict_error (parse_strict_json_value E input)) (\<lambda>parsed.
        attempt (map_err (\<lambda>_. OpCanonicalBoundary) (jcs_canonical E parsed)) (\<lambda>canonical.
          if length canonical > MAX_RUN_SPEC_MATERIAL_BYTES then Err OpCanonicalBoundary
          else
            attempt (ok_or OpMalformed (from_value parsed)) (\<lambda>envelope.
            attempt (map_err OpSemantic (ChildOperationEnvelopeV2_validate E envelope)) (\<lambda>_.
              Ok envelope)))))"

section \<open>Encodings are injective\<close>

lemma schema_name_eq_iff [simp]: "schema_name a = schema_name b \<longleftrightarrow> a = b"
  by (cases a; cases b) simp_all

lemma authority_origin_name_eq_iff [simp]: "authority_origin_name a = authority_origin_name b \<longleftrightarrow> a = b"
  by (cases a; cases b) simp_all

lemma replay_class_name_eq_iff [simp]: "replay_class_name a = replay_class_name b \<longleftrightarrow> a = b"
  by (cases a; cases b) simp_all

lemma replay_intent_name_eq_iff [simp]: "replay_intent_name a = replay_intent_name b \<longleftrightarrow> a = b"
  by (cases a; cases b) simp_all

interpretation actor_enc: canonical_encoding actor_json
  by unfold_locales (auto simp: actor_json_def ActorAuthorityV1.equality)

interpretation causality_enc: canonical_encoding causality_json
  by unfold_locales (auto simp: causality_json_def json_inj CausalLinkV1.equality)

interpretation budget_enc: canonical_encoding budget_json
  by unfold_locales (auto simp: budget_json_def json_inj OperationBudgetV1.equality)

interpretation replay_enc: canonical_encoding replay_json
  by unfold_locales (auto simp: replay_json_def ReplaySpecV1.equality)

lemmas operation_inj =
  actor_enc.enc_eq_iff causality_enc.enc_eq_iff budget_enc.enc_eq_iff replay_enc.enc_eq_iff

lemma effects_encoding: "encoders_ok E \<Longrightarrow> canonical_encoding (effects_json E)"
  by unfold_locales (auto simp: effects_json_def json_inj digest_json_eq_iff DeclaredEffectsV1.equality)

lemma provenance_encoding: "encoders_ok E \<Longrightarrow> canonical_encoding (provenance_json E)"
  by unfold_locales (auto simp: provenance_json_def digest_json_eq_iff ProvenanceRefV1.equality)

lemma operation_encoding: "encoders_ok E \<Longrightarrow> canonical_encoding (operation_json E)"
  by unfold_locales
    (auto simp: operation_json_def operation_inj canonical_encoding.enc_eq_iff [OF effects_encoding]
       canonical_encoding.list_eq_iff [OF provenance_encoding]
       canonical_encoding.enc_eq_iff [OF run_spec_encoding] OperationEnvelopeV1.equality)

lemma proposal_encoding: "encoders_ok E \<Longrightarrow> canonical_encoding (proposal_json E)"
  by unfold_locales
    (auto simp: proposal_json_def operation_inj canonical_encoding.enc_eq_iff [OF effects_encoding]
       canonical_encoding.list_eq_iff [OF provenance_encoding]
       canonical_encoding.enc_eq_iff [OF run_spec_encoding] ChildOperationProposalV2.equality)

section \<open>Inversion\<close>

lemma derive_operation_identity_Ok_iff [result_simps]:
  "derive_operation_identity E v = Ok i \<longleftrightarrow>
     (\<exists>d. content_digest E v = Ok d \<and> id_deterministic E KernelRunId RUN_ID_DOMAIN d = Some i
        \<and> validate_current_id i RUN_ID_DOMAIN = Ok ())"
  unfolding derive_operation_identity_def
  by (auto simp: attempt_Ok_iff ok_or_Ok_iff current_id_from_owner_Ok_iff)

text \<open>What it takes for two encoded values to share a run identifier.\<close>

definition run_id_collision :: "env \<Rightarrow> json \<Rightarrow> json \<Rightarrow> bool" where
  "run_id_collision E v w \<longleftrightarrow>
     digest_collision E v w
     \<or> (\<exists>dv dw. content_digest E v = Ok dv \<and> content_digest E w = Ok dw
          \<and> id_collision E KernelRunId RUN_ID_DOMAIN dv dw)"

lemma same_run_id:
  assumes "derive_operation_identity E v = Ok i" and "derive_operation_identity E w = Ok i"
  shows "v = w \<or> run_id_collision E v w"
  using assms
  by (auto simp: derive_operation_identity_Ok_iff run_id_collision_def digest_collision_def id_collision_def)

definition shell_calls :: "StepSpecV1 list \<Rightarrow> ShellArgsIngressV1 list" where
  "shell_calls steps =
     List.map_filter (\<lambda>s. if tc_tool (ss_call s) = ''shell'' then decode_shell_args (tc_args (ss_call s))
                          else None) steps"

lemma require_steps_Ok:
  "try_fold require_step acc steps = Ok req \<Longrightarrow>
     re_reads req = re_reads acc \<union> (\<Union>a \<in> set (shell_calls steps). set (sh_allowed_read_paths a))
     \<and> re_writes req = re_writes acc \<union> (\<Union>a \<in> set (shell_calls steps). set (sh_allowed_write_paths a))
     \<and> re_network req = (re_network acc \<or> (\<exists>a \<in> set (shell_calls steps). sh_allow_network a))
     \<and> re_shell req = (re_shell acc \<or> (\<exists>s \<in> set steps. tc_tool (ss_call s) = ''shell''))"
proof (induction steps arbitrary: acc)
  case Nil
  then show ?case by (simp add: shell_calls_def List.map_filter_simps)
next
  case (Cons s steps)
  then obtain acc' where step: "require_step acc s = Ok acc'" and rest: "try_fold require_step acc' steps = Ok req"
    by (auto simp: attempt_Ok_iff)
  from Cons.IH [OF rest] step show ?case
    by (auto simp: require_step_def attempt_Ok_iff ok_or_Ok_iff shell_calls_def List.map_filter_simps
        split: if_splits)
qed

lemma shell_calls_valid:
  assumes "validate_ingress_spec E spec = Ok ()" and "a \<in> set (shell_calls (rs_steps spec))"
  shows "\<not> sh_allow_network a
     \<and> (\<forall>p \<in> set (sh_allowed_read_paths a @ sh_allowed_write_paths a). confined_path p)"
proof -
  obtain s where s: "s \<in> set (rs_steps spec)" and tool: "tc_tool (ss_call s) = ''shell''"
    and dec: "decode_shell_args (tc_args (ss_call s)) = Some a"
    using assms(2) by (auto simp: shell_calls_def List.map_filter_def split: if_splits)
  have "validate_tool_args (ss_call s) = Ok ()"
    using s validate_ingress_steps_Ok [OF validate_ingress_spec_Ok(3) [OF assms(1)]] by blast
  then have "validate_shell_args (tc_args (ss_call s)) = Ok ()"
    using tool by (simp add: validate_tool_args_def)
  from validate_shell_args_Ok [OF this] dec show ?thesis by auto
qed

lemma validate_declared_effects_Ok:
  assumes "validate_declared_effects E spec eff rep = Ok ()"
  shows "validate_ingress_spec E spec = Ok ()"
    and "content_digest E (run_spec_json E spec) = Ok (de_action_digest eff)"
    and "\<exists>req. try_fold require_step \<lparr>re_reads = {}, re_writes = {}, re_network = False, re_shell = False\<rparr>
                 (rs_steps spec) = Ok req
           \<and> distinct (de_read_roots eff) \<and> distinct (de_write_roots eff)
           \<and> set (de_read_roots eff) = re_reads req \<and> set (de_write_roots eff) = re_writes req
           \<and> de_network_allowed eff = re_network req
           \<and> replay_class_matches (re_shell req) (rp_class rep)
           \<and> \<not> (rp_class rep = NonReplayable \<and> rp_intent rep = ReadRecorded)"
  using assms unfolding validate_declared_effects_def
  by (simp_all add: attempt_Ok_iff map_err_Ok_iff if_Err_Ok_iff) blast

lemma replay_class_matches_iff:
  "replay_class_matches sh c \<longleftrightarrow> (sh \<longleftrightarrow> c \<noteq> Deterministic)"
  by (cases sh; cases c) (simp_all add: replay_class_matches_def)

lemma validate_operation_budget_Ok_iff [result_simps]:
  "validate_operation_budget b spec = Ok () \<longleftrightarrow>
     0 < ob_max_wall_time_ms b \<and> ob_max_wall_time_ms b \<le> MAX_SHELL_TIMEOUT_MS
     \<and> 0 < ob_max_output_bytes b \<and> ob_max_output_bytes b \<le> MAX_SHELL_OUTPUT_BYTES
     \<and> 0 < ob_max_artifact_bytes b \<and> ob_max_artifact_bytes b \<le> MAX_SHELL_OUTPUT_BYTES
     \<and> 0 < unat (ob_max_steps b) \<and> unat (ob_max_steps b) \<le> MAX_RUN_SPEC_STEPS
     \<and> length (rs_steps spec) \<le> unat (ob_max_steps b)"
  by (auto simp: validate_operation_budget_def Let_def word_gt_0 not_less)

lemma OperationEnvelopeV1_validate_Ok:
  assumes "OperationEnvelopeV1_validate E op = Ok ()"
  shows "op_schema op = SchemaV1" and "aa_origin (op_actor op) = Direct"
    and "cl_parent_operation_id (op_causality op) = None"
    and "cl_root_operation_id (op_causality op) = None"
    and "validate_operation_provenance (op_provenance op) = Ok ()"
    and "validate_declared_effects E (op_run_spec op) (op_effects op) (op_replay op) = Ok ()"
    and "validate_operation_budget (op_budget op) (op_run_spec op) = Ok ()"
  using assms unfolding OperationEnvelopeV1_validate_def
  by (simp_all add: attempt_Ok_iff if_Err_Ok_iff)

lemma ChildOperationEnvelopeV2_validate_Ok:
  assumes "ChildOperationEnvelopeV2_validate E op = Ok ()"
  shows "ce_schema op = SchemaV2" and "aa_origin (ce_actor op) = Delegated"
    and "ce_budget op = ca_requested_budget (ce_child_authority op)"
    and "cl_parent_operation_id (ce_causality op) = Some (ca_parent_operation_id (ce_child_authority op))"
    and "cl_root_operation_id (ce_causality op) = Some (ca_root_operation_id (ce_child_authority op))"
    and "content_digest E (proposal_json E (envelope_proposal op)) =
           Ok (ca_child_operation_digest (ce_child_authority op))"
    and "validate_declared_effects E (ce_run_spec op) (ce_effects op) (ce_replay op) = Ok ()"
    and "validate_operation_budget (ce_budget op) (ce_run_spec op) = Ok ()"
  using assms unfolding ChildOperationEnvelopeV2_validate_def derive_child_operation_material_digest_def
    derive_child_operation_proposal_digest_def
  by (simp_all add: attempt_Ok_iff if_Err_Ok_iff ok_or_Ok_iff) (auto split: if_splits)

lemma parse_operation_envelope_bytes_Ok:
  assumes "parse_operation_envelope_bytes E dec input = Ok op"
  shows "length input \<le> MAX_RUN_SPEC_INPUT_BYTES" and "OperationEnvelopeV1_validate E op = Ok ()"
  using assms unfolding parse_operation_envelope_bytes_def parse_operation_envelope_value_def
  by (auto simp: attempt_Ok_iff if_Err_Ok_iff map_err_Ok_iff ok_or_Ok_iff)

section \<open>Properties\<close>

definition sample_effects :: DeclaredEffectsV1 where
  "sample_effects = \<lparr>de_read_roots = [], de_write_roots = [], de_network_allowed = False,
                     de_action_digest = hex64 CHR ''a''\<rparr>"

definition sample_budget :: OperationBudgetV1 where
  "sample_budget = \<lparr>ob_max_wall_time_ms = 10, ob_max_output_bytes = 10, ob_max_artifact_bytes = 10,
                    ob_max_steps = 1\<rparr>"

definition sample_operation :: OperationEnvelopeV1 where
  "sample_operation =
     \<lparr>op_schema = SchemaV1, op_actor = \<lparr>aa_principal = ''run'', aa_origin = Direct\<rparr>,
      op_causality = \<lparr>cl_parent_operation_id = None, cl_root_operation_id = None\<rparr>,
      op_budget = sample_budget, op_effects = sample_effects,
      op_provenance = [\<lparr>prv_source = ''s'', prv_digest = ''d''\<rparr>],
      op_replay = \<lparr>rp_class = RecordedEffect, rp_intent = ExecuteOnce\<rparr>, op_run_spec = sample_spec\<rparr>"

definition sample_child :: ChildOperationEnvelopeV2 where
  "sample_child =
     \<lparr>ce_schema = SchemaV2, ce_actor = \<lparr>aa_principal = ''run'', aa_origin = Delegated\<rparr>,
      ce_causality = \<lparr>cl_parent_operation_id = Some ''p'', cl_root_operation_id = Some ''r''\<rparr>,
      ce_child_authority =
        \<lparr>ca_parent_operation_id = ''p'', ca_root_operation_id = ''r'',
         ca_parent_control_permit_id = ''c'', ca_parent_admission_receipt_id = ''x'',
         ca_requested_budget = sample_budget, ca_child_operation_digest = hex64 CHR ''a''\<rparr>,
      ce_budget = sample_budget, ce_effects = sample_effects,
      ce_provenance = [\<lparr>prv_source = ''s'', prv_digest = ''d''\<rparr>],
      ce_replay = \<lparr>rp_class = RecordedEffect, rp_intent = ExecuteOnce\<rparr>, ce_run_spec = sample_spec\<rparr>"

lemma positional_content_digest [simp]: "content_digest positional_env v = Ok (hex64 CHR ''a'')"
  by (simp add: content_digest_def positional_env_def sample_env_def)

lemma sample_effects_valid_in:
  assumes "canonicalize_bytes E = (\<lambda>v. Ok ''{}'')"
    and "content_digest E (run_spec_json E sample_spec) = Ok (hex64 CHR ''a'')"
  shows "validate_declared_effects E sample_spec sample_effects
     \<lparr>rp_class = RecordedEffect, rp_intent = ExecuteOnce\<rparr> = Ok ()"
  using assms sample_spec_valid_in [OF assms(1)]
  by (simp add: validate_declared_effects_def sample_effects_def)
    (simp add: sample_spec_def require_step_def sample_shell_decodes replay_class_matches_def)

lemmas sample_effects_valid = sample_effects_valid_in [OF positional_env_simps(1) positional_content_digest]

lemma sample_budget_valid: "validate_operation_budget sample_budget sample_spec = Ok ()"
  by (simp add: validate_operation_budget_def sample_budget_def sample_spec_def)

lemma sample_operation_fields_valid:
  "validate_operation_identifier ''run'' n MAX_RUN_NAME_BYTES = Ok ()"
  "validate_operation_provenance [\<lparr>prv_source = ''s'', prv_digest = ''d''\<rparr>] = Ok ()"
  by (simp_all add: validate_operation_identifier_def validate_operation_provenance_def
      sample_identifier_valid)

lemma sample_operation_valid_in:
  assumes "canonicalize_bytes E = (\<lambda>v. Ok ''{}'')"
    and "content_digest E (run_spec_json E sample_spec) = Ok (hex64 CHR ''a'')"
  shows "OperationEnvelopeV1_validate E sample_operation = Ok ()"
  by (simp add: OperationEnvelopeV1_validate_def sample_operation_def sample_operation_fields_valid
      sample_effects_valid_in [OF assms] sample_budget_valid)

lemmas sample_operation_valid = sample_operation_valid_in [OF positional_env_simps(1) positional_content_digest]

lemma sample_child_valid: "ChildOperationEnvelopeV2_validate positional_env sample_child = Ok ()"
  by (simp add: ChildOperationEnvelopeV2_validate_def sample_child_def sample_operation_fields_valid
      sample_effects_valid sample_budget_valid derive_child_operation_material_digest_def
      derive_child_operation_proposal_digest_def)

text \<open>C26 declared effects are exact.  When the declared effects of an operation validate, the declared
  read and write roots are, without repetition, exactly the roots its shell calls ask for, all of them
  confined; network access is not declared; the action digest is the digest of the run spec; and the
  operation is classed deterministic exactly when it has no shell step.\<close>

theorem declared_effects_are_exact:
  assumes "validate_declared_effects E spec eff rep = Ok ()"
  shows "distinct (de_read_roots eff) \<and> distinct (de_write_roots eff)
       \<and> set (de_read_roots eff) = (\<Union>a \<in> set (shell_calls (rs_steps spec)). set (sh_allowed_read_paths a))
       \<and> set (de_write_roots eff) = (\<Union>a \<in> set (shell_calls (rs_steps spec)). set (sh_allowed_write_paths a))
       \<and> list_all confined_path (de_read_roots eff @ de_write_roots eff)
       \<and> \<not> de_network_allowed eff
       \<and> content_digest E (run_spec_json E spec) = Ok (de_action_digest eff)
       \<and> (rp_class rep = Deterministic \<longleftrightarrow> list_all (\<lambda>s. tc_tool (ss_call s) \<noteq> ''shell'') (rs_steps spec))"
proof -
  note eff = validate_declared_effects_Ok [OF assms]
  obtain req where fold: "try_fold require_step
      \<lparr>re_reads = {}, re_writes = {}, re_network = False, re_shell = False\<rparr> (rs_steps spec) = Ok req"
    and match: "distinct (de_read_roots eff)" "distinct (de_write_roots eff)"
      "set (de_read_roots eff) = re_reads req" "set (de_write_roots eff) = re_writes req"
      "de_network_allowed eff = re_network req" "re_shell req \<longleftrightarrow> rp_class rep \<noteq> Deterministic"
    using eff(3) by (auto simp: replay_class_matches_iff)
  show ?thesis
    using match require_steps_Ok [OF fold] shell_calls_valid [OF eff(1)] eff(2)
    by (auto simp: list_all_iff)
qed

theorem declared_effects_are_exact_witness:
  "\<not> de_network_allowed sample_effects
   \<and> content_digest positional_env (run_spec_json positional_env sample_spec) = Ok (de_action_digest sample_effects)"
  using declared_effects_are_exact [OF sample_effects_valid] by simp

text \<open>V1 ingress admits only bounded root operations.  An operation decoded from bytes is direct,
  carries no parent and no root, names a run spec that itself passes run-spec ingress validation, and
  its budget is positive, within the ceilings, and covers the number of steps.\<close>

theorem admitted_operation_is_bounded_root:
  assumes "parse_operation_envelope_bytes E dec input = Ok op"
  shows "length input \<le> 1048576 \<and> op_schema op = SchemaV1 \<and> aa_origin (op_actor op) = Direct
       \<and> cl_parent_operation_id (op_causality op) = None \<and> cl_root_operation_id (op_causality op) = None
       \<and> validate_ingress_spec E (op_run_spec op) = Ok ()
       \<and> 0 < ob_max_wall_time_ms (op_budget op) \<and> ob_max_wall_time_ms (op_budget op) \<le> 300000
       \<and> 0 < ob_max_output_bytes (op_budget op) \<and> ob_max_output_bytes (op_budget op) \<le> 65536
       \<and> 1 \<le> length (rs_steps (op_run_spec op))
       \<and> length (rs_steps (op_run_spec op)) \<le> unat (ob_max_steps (op_budget op))
       \<and> unat (ob_max_steps (op_budget op)) \<le> 4"
proof -
  note parsed = parse_operation_envelope_bytes_Ok [OF assms]
  note op = OperationEnvelopeV1_validate_Ok [OF parsed(2)]
  note spec = validate_declared_effects_Ok(1) [OF op(6)]
  show ?thesis
    using parsed(1) op(1-4) spec op(7) validate_ingress_spec_Ok(1) [OF spec]
    by (simp add: validate_operation_budget_Ok_iff
        Suc_le_eq)
qed

theorem admitted_operation_is_bounded_root_witness:
  "aa_origin (op_actor sample_operation) = Direct \<and> length (rs_steps (op_run_spec sample_operation)) \<le> 1"
proof -
  have "parse_operation_envelope_bytes positional_env (\<lambda>_. Some sample_operation) ''x'' = Ok sample_operation"
    using sample_operation_valid
    by (simp add: parse_operation_envelope_bytes_def parse_operation_envelope_value_def
        parse_strict_json_value_def
        jcs_canonical_def positional_env_def sample_env_def byte_of_def)
  from admitted_operation_is_bounded_root [OF this] show ?thesis
    by (simp add: sample_operation_def sample_budget_def)
qed

text \<open>C27 a child authority seals one operation.  Two closed child operations that validate under the
  same child authority are the same operation, or their proposals exhibit a digest collision; both
  are delegated, carry the parent and root the authority names, and have exactly its budget.\<close>

theorem child_authority_seals_operation:
  assumes "encoders_ok E"
    and "ChildOperationEnvelopeV2_validate E a = Ok ()" and "ChildOperationEnvelopeV2_validate E b = Ok ()"
    and "ce_child_authority a = ce_child_authority b"
  shows "(a = b \<or> digest_collision E (proposal_json E (envelope_proposal a))
                                    (proposal_json E (envelope_proposal b)))
       \<and> aa_origin (ce_actor a) = Delegated
       \<and> ce_budget a = ca_requested_budget (ce_child_authority a)
       \<and> cl_parent_operation_id (ce_causality a) = Some (ca_parent_operation_id (ce_child_authority a))
       \<and> cl_root_operation_id (ce_causality a) = Some (ca_root_operation_id (ce_child_authority a))"
proof -
  note va = ChildOperationEnvelopeV2_validate_Ok [OF assms(2)]
  note vb = ChildOperationEnvelopeV2_validate_Ok [OF assms(3)]
  have "a = b" if "envelope_proposal a = envelope_proposal b"
    using that assms(4) by (simp add: envelope_proposal_def ChildOperationEnvelopeV2.equality)
  then show ?thesis
    using va(2-6) vb(6) assms(4) canonical_encoding.enc_eq_iff [OF proposal_encoding [OF assms(1)]]
    by (auto simp: digest_collision_def)
qed

theorem child_authority_seals_operation_witness:
  "aa_origin (ce_actor sample_child) = Delegated
   \<and> cl_parent_operation_id (ce_causality sample_child) = Some ''p''"
proof -
  have "encoders_ok positional_env"
    using sample_encoders by (simp add: encoders_ok_def positional_env_def)
  from child_authority_seals_operation [OF this sample_child_valid sample_child_valid]
  show ?thesis by (simp add: sample_child_def)
qed

text \<open>operation identities separate operations and families.  Two direct operations with the same run
  identifier are equal unless a collision of the digest or of the identifier owner is exhibited, and a
  direct operation never shares its identifier with a child operation without such a collision.\<close>

theorem operation_identity_binds:
  assumes "encoders_ok E" and "derive_operation_id E a = Ok i"
  shows "(derive_operation_id E b = Ok i \<longrightarrow>
            a = b \<or> run_id_collision E (operation_json E a) (operation_json E b))
       \<and> (derive_child_operation_id E c = Ok i \<longrightarrow>
            run_id_collision E (operation_json E a) (child_operation_json E c))"
proof -
  have "operation_json E a \<noteq> child_operation_json E c"
    by (simp add: operation_json_def child_operation_json_def)
  then show ?thesis
    using same_run_id [of E "operation_json E a" i] assms(2)
      canonical_encoding.enc_eq_iff [OF operation_encoding [OF assms(1)]]
    unfolding derive_operation_id_def derive_child_operation_id_def by blast
qed

theorem operation_identity_binds_witness:
  "derive_operation_id sample_env sample_operation = Ok (sample_id RUN_ID_DOMAIN)
   \<and> run_id_collision sample_env (operation_json sample_env sample_operation)
        (child_operation_json sample_env sample_child)"
proof -
  have "derive_operation_id sample_env sample_operation = Ok (sample_id RUN_ID_DOMAIN)"
    and "derive_child_operation_id sample_env sample_child = Ok (sample_id RUN_ID_DOMAIN)"
    by (simp_all add: derive_operation_id_def derive_child_operation_id_def derive_operation_identity_Ok_iff)
  with operation_identity_binds [OF sample_encoders] show ?thesis by blast
qed

end
