(* ===== verification/Egress.thy ===== *)
theory Egress
  imports Operation
begin

text \<open>
  Provider-egress contracts: the sealed request binding of
  \<open>recursive-agent-contracts/src/egress.rs\<close>, the V3 operation of \<open>provider_egress_operation.rs\<close> and
  the selection of the operation family from raw bytes in \<open>native_operation.rs\<close>.  The derived JSON
  decoders are arguments of the ingress functions, and the wall clock is an argument where the source
  reads it.
\<close>

section \<open>Sealed bindings\<close>

abbreviation EGRESS_SCHEMA :: string where
  "EGRESS_SCHEMA \<equiv> ''recursive-agent.egress-binding/v1''"
abbreviation MAX_REFERENCE_BYTES :: nat where
  "MAX_REFERENCE_BYTES \<equiv> 4096"

datatype ProviderEgressBindingIngressError =
    EbInputTooLarge nat
  | EbDuplicateKey
  | EbMalformed
  | EbCanonicalBoundary
  | EbSemantic contract_error

record ProviderEgressBindingMaterialV1 =
  em_policy_basis_ref :: string
  em_policy_basis_digest :: string
  em_context_digest :: string
  em_source_revision :: string
  em_graph_obligation_ref :: string
  em_graph_obligation_digest :: string
  em_route_class :: string
  em_provider_identity :: string
  em_model_ref :: string
  em_input_tokens :: u32
  em_output_reserve :: u32
  em_request_digest :: content_digest
  em_not_after :: time

record ProviderEgressBindingV1 =
  eb_schema :: string
  eb_policy_basis_ref :: string
  eb_policy_basis_digest :: string
  eb_context_digest :: string
  eb_source_revision :: string
  eb_graph_obligation_ref :: string
  eb_graph_obligation_digest :: string
  eb_route_class :: string
  eb_provider_identity :: string
  eb_model_ref :: string
  eb_input_tokens :: u32
  eb_output_reserve :: u32
  eb_request_digest :: content_digest
  eb_not_after :: time
  eb_binding_digest :: content_digest

definition egress_binding_json :: "env \<Rightarrow> ProviderEgressBindingV1 \<Rightarrow> json" where
  "egress_binding_json E b =
     JObj [(''binding_digest'', digest_json E (eb_binding_digest b)),
           (''context_digest'', JStr (eb_context_digest b)),
           (''graph_obligation_digest'', JStr (eb_graph_obligation_digest b)),
           (''graph_obligation_ref'', JStr (eb_graph_obligation_ref b)),
           (''input_tokens'', json_of_word (eb_input_tokens b)),
           (''model_ref'', JStr (eb_model_ref b)),
           (''not_after'', time_json E (eb_not_after b)),
           (''output_reserve'', json_of_word (eb_output_reserve b)),
           (''policy_basis_digest'', JStr (eb_policy_basis_digest b)),
           (''policy_basis_ref'', JStr (eb_policy_basis_ref b)),
           (''provider_identity'', JStr (eb_provider_identity b)),
           (''request_digest'', digest_json E (eb_request_digest b)),
           (''route_class'', JStr (eb_route_class b)),
           (''schema'', JStr (eb_schema b)),
           (''source_revision'', JStr (eb_source_revision b))]"

fun json_remove :: "string \<Rightarrow> json \<Rightarrow> json" where
  "json_remove k (JObj kvs) = JObj (filter (\<lambda>(k', _). k' \<noteq> k) kvs)"
| "json_remove k v = v"

text \<open>\<open>str::split_once\<close>: the parts before and after the first occurrence of a separator.\<close>

definition split_once :: "char \<Rightarrow> string \<Rightarrow> (string \<times> string) option" where
  "split_once c s =
     (case dropWhile (\<lambda>x. x \<noteq> c) s of [] \<Rightarrow> None | _ # r \<Rightarrow> Some (takeWhile (\<lambda>x. x \<noteq> c) s, r))"

definition validate_external_digest :: "string \<Rightarrow> string \<Rightarrow> string list \<Rightarrow> contract_error + unit" where
  "validate_external_digest name value allowed_algorithms =
     (case split_once CHR '':'' value of
        None \<Rightarrow> Err (Malformed (Message (''invalid external '' @ name)))
      | Some (algorithm, hexadecimal) \<Rightarrow>
          if algorithm \<notin> set allowed_algorithms \<or> length hexadecimal \<noteq> 64
             \<or> \<not> list_all is_ascii_hexdigit hexadecimal
          then Err (Malformed (Message (''invalid external '' @ name)))
          else Ok ())"

definition validate_egress_reference :: "string \<times> string \<Rightarrow> contract_error + unit" where
  "validate_egress_reference = (\<lambda>(name, value).
     if value = [] \<or> length value > MAX_REFERENCE_BYTES
     then Err (Malformed (Message (''invalid egress '' @ name))) else Ok ())"

definition validate_egress_material :: "ProviderEgressBindingMaterialV1 \<Rightarrow> contract_error + unit" where
  "validate_egress_material m =
     attempt (try_for_each validate_egress_reference
                [(''policy_basis_ref'', em_policy_basis_ref m),
                 (''source_revision'', em_source_revision m),
                 (''graph_obligation_ref'', em_graph_obligation_ref m),
                 (''route_class'', em_route_class m),
                 (''provider_identity'', em_provider_identity m),
                 (''model_ref'', em_model_ref m)]) (\<lambda>_.
     attempt (validate_external_digest ''policy_basis_digest'' (em_policy_basis_digest m)
                [''sha256'', ''blake3'']) (\<lambda>_.
     attempt (validate_external_digest ''context_digest'' (em_context_digest m) [''sha256'']) (\<lambda>_.
     attempt (validate_external_digest ''graph_obligation_digest'' (em_graph_obligation_digest m)
                [''sha256'', ''blake3'']) (\<lambda>_.
       if em_input_tokens m = 0 \<or> em_output_reserve m = 0
       then Err (Malformed (Message ''egress token counts must be nonzero''))
       else Ok ()))))"

definition binding_material :: "ProviderEgressBindingV1 \<Rightarrow> ProviderEgressBindingMaterialV1" where
  "binding_material b =
     \<lparr>em_policy_basis_ref = eb_policy_basis_ref b, em_policy_basis_digest = eb_policy_basis_digest b,
      em_context_digest = eb_context_digest b, em_source_revision = eb_source_revision b,
      em_graph_obligation_ref = eb_graph_obligation_ref b,
      em_graph_obligation_digest = eb_graph_obligation_digest b, em_route_class = eb_route_class b,
      em_provider_identity = eb_provider_identity b, em_model_ref = eb_model_ref b,
      em_input_tokens = eb_input_tokens b, em_output_reserve = eb_output_reserve b,
      em_request_digest = eb_request_digest b, em_not_after = eb_not_after b\<rparr>"

definition expected_digest :: "env \<Rightarrow> ProviderEgressBindingV1 \<Rightarrow> contract_error + content_digest" where
  "expected_digest E b = content_digest E (json_remove ''binding_digest'' (egress_binding_json E b))"

definition unsealed_binding :: "env \<Rightarrow> ProviderEgressBindingMaterialV1 \<Rightarrow> ProviderEgressBindingV1" where
  "unsealed_binding E m =
     \<lparr>eb_schema = EGRESS_SCHEMA, eb_policy_basis_ref = em_policy_basis_ref m,
      eb_policy_basis_digest = em_policy_basis_digest m, eb_context_digest = em_context_digest m,
      eb_source_revision = em_source_revision m, eb_graph_obligation_ref = em_graph_obligation_ref m,
      eb_graph_obligation_digest = em_graph_obligation_digest m, eb_route_class = em_route_class m,
      eb_provider_identity = em_provider_identity m, eb_model_ref = em_model_ref m,
      eb_input_tokens = em_input_tokens m, eb_output_reserve = em_output_reserve m,
      eb_request_digest = em_request_digest m, eb_not_after = em_not_after m,
      eb_binding_digest = digest_compute E ''recursive-agent-egress-unsealed''\<rparr>"

definition seal :: "env \<Rightarrow> ProviderEgressBindingMaterialV1 \<Rightarrow> contract_error + ProviderEgressBindingV1" where
  "seal E m =
     attempt (validate_egress_material m) (\<lambda>_.
     attempt (expected_digest E (unsealed_binding E m)) (\<lambda>digest.
       Ok ((unsealed_binding E m)\<lparr>eb_binding_digest := digest\<rparr>)))"

definition validate_structure :: "env \<Rightarrow> ProviderEgressBindingV1 \<Rightarrow> contract_error + unit" where
  "validate_structure E self =
     (if eb_schema self \<noteq> EGRESS_SCHEMA
      then Err (Malformed (Message ''unsupported egress binding schema''))
      else
        attempt (validate_egress_material (binding_material self)) (\<lambda>_.
        attempt (expected_digest E self) (\<lambda>digest.
          if eb_binding_digest self \<noteq> digest
          then Err (Malformed (Message ''egress binding digest mismatch'')) else Ok ())))"

definition validate_at :: "env \<Rightarrow> ProviderEgressBindingV1 \<Rightarrow> time \<Rightarrow> contract_error + unit" where
  "validate_at E self now =
     attempt (validate_structure E self) (\<lambda>_.
       if eb_not_after self \<le> now then Err (Malformed (Message ''egress binding expired'')) else Ok ())"

abbreviation eb_strict_error :: "StrictJsonError \<Rightarrow> ProviderEgressBindingIngressError" where
  "eb_strict_error e \<equiv> (case e of StrictDuplicateKey \<Rightarrow> EbDuplicateKey | StrictMalformed \<Rightarrow> EbMalformed)"

definition parse_provider_egress_binding_v1_bytes ::
    "env \<Rightarrow> (json \<Rightarrow> ProviderEgressBindingV1 option) \<Rightarrow> time \<Rightarrow> bytes \<Rightarrow>
     ProviderEgressBindingIngressError + ProviderEgressBindingV1" where
  "parse_provider_egress_binding_v1_bytes E from_value now input =
     (if length input > MAX_RUN_SPEC_INPUT_BYTES then Err (EbInputTooLarge MAX_RUN_SPEC_INPUT_BYTES)
      else
        attempt (map_err eb_strict_error (parse_strict_json_value E input)) (\<lambda>parsed.
        attempt (map_err (\<lambda>_. EbCanonicalBoundary) (jcs_canonical E parsed)) (\<lambda>canonical.
          if length canonical > MAX_RUN_SPEC_MATERIAL_BYTES then Err EbCanonicalBoundary
          else
            attempt (ok_or EbMalformed (from_value parsed)) (\<lambda>binding.
            attempt (map_err EbSemantic (validate_at E binding now)) (\<lambda>_. Ok binding)))))"

section \<open>The V3 operation\<close>

abbreviation SEALED_COMPLETION_TOOL :: string where
  "SEALED_COMPLETION_TOOL \<equiv> ''sealed_completion''"

datatype ProviderEgressOperationSchemaV1 = SchemaV3

record SealedCompletionArgumentsV3 =
  sa_binding :: ProviderEgressBindingV1
  sa_request :: json

record SealedCompletionCallV3 =
  sc_tool :: string
  sc_arguments :: SealedCompletionArgumentsV3

record ProviderEgressOperationEnvelopeV3 =
  pe_schema :: ProviderEgressOperationSchemaV1
  pe_actor :: ActorAuthorityV1
  pe_budget :: OperationBudgetV1
  pe_effects :: DeclaredEffectsV1
  pe_provenance :: "ProvenanceRefV1 list"
  pe_replay :: ReplaySpecV1
  pe_sealed_completion :: SealedCompletionCallV3

datatype ProviderEgressOperationIngressError =
    PeInputTooLarge nat
  | PeDuplicateKey
  | PeMalformed
  | PeCanonicalBoundary
  | PeSemantic contract_error

definition sealed_completion_json :: "env \<Rightarrow> SealedCompletionCallV3 \<Rightarrow> json" where
  "sealed_completion_json E c =
     JObj [(''arguments'',
             JObj [(''binding'', egress_binding_json E (sa_binding (sc_arguments c))),
                   (''request'', sa_request (sc_arguments c))]),
           (''tool'', JStr (sc_tool c))]"

definition provider_egress_operation_json :: "env \<Rightarrow> ProviderEgressOperationEnvelopeV3 \<Rightarrow> json" where
  "provider_egress_operation_json E o' =
     JObj [(''actor'', actor_json (pe_actor o')),
           (''budget'', budget_json (pe_budget o')),
           (''effects'', effects_json E (pe_effects o')),
           (''provenance'', json_of_list (provenance_json E) (pe_provenance o')),
           (''replay'', replay_json (pe_replay o')),
           (''schema'', JStr ''recursive-agent.operation/v3''),
           (''sealed_completion'', sealed_completion_json E (pe_sealed_completion o'))]"

definition derive_provider_egress_operation_id ::
    "env \<Rightarrow> ProviderEgressOperationEnvelopeV3 \<Rightarrow> contract_error + run_id" where
  "derive_provider_egress_operation_id E envelope =
     attempt (content_digest E (provider_egress_operation_json E envelope)) (\<lambda>digest.
     attempt (ok_or IdParse (id_deterministic E KernelRunId RUN_ID_DOMAIN digest)) (\<lambda>owner.
     current_id_from_owner RUN_ID_DOMAIN owner))"

abbreviation v3_identifier_char :: "char \<Rightarrow> bool" where
  "v3_identifier_char c \<equiv>
     (is_ascii_digit c \<or> is_ascii_lowercase c \<or> is_ascii_uppercase c \<or> c \<in> set ''-_.:@/'')"

definition validate_v3_identifier :: "string \<Rightarrow> string \<Rightarrow> nat \<Rightarrow> contract_error + unit" where
  "validate_v3_identifier value name maximum_bytes =
     (if value = [] \<or> length value > maximum_bytes \<or> \<not> list_all v3_identifier_char value
      then Err (Malformed (Message (''V3 field '' @ name @ '' has invalid semantics'')))
      else Ok ())"

definition validate_v3_budget :: "OperationBudgetV1 \<Rightarrow> contract_error + unit" where
  "validate_v3_budget b =
     (if ob_max_wall_time_ms b = 0 \<or> ob_max_wall_time_ms b > MAX_SHELL_TIMEOUT_MS
         \<or> ob_max_output_bytes b = 0 \<or> ob_max_output_bytes b > MAX_SHELL_OUTPUT_BYTES
         \<or> ob_max_artifact_bytes b = 0 \<or> ob_max_artifact_bytes b > MAX_SHELL_OUTPUT_BYTES
         \<or> ob_max_steps b \<noteq> 1
      then Err (Malformed (Message ''invalid V3 provider-egress budget'')) else Ok ())"

fun v3_provenance_sources_ok :: "string set \<Rightarrow> ProvenanceRefV1 list \<Rightarrow> contract_error + unit" where
  "v3_provenance_sources_ok seen [] = Ok ()"
| "v3_provenance_sources_ok seen (reference # rest) =
     attempt (validate_v3_identifier (prv_source reference) ''provenance.source''
                MAX_RUN_SPEC_MATERIAL_BYTES) (\<lambda>_.
       if prv_source reference \<in> seen
       then Err (Malformed (Message ''duplicate V3 provenance source''))
       else v3_provenance_sources_ok (insert (prv_source reference) seen) rest)"

definition validate_v3_provenance :: "ProvenanceRefV1 list \<Rightarrow> contract_error + unit" where
  "validate_v3_provenance provenance =
     (if provenance = [] \<or> length provenance > MAX_SHELL_ROOTS_PER_MODE
      then Err (Malformed (Message ''invalid V3 provider-egress provenance''))
      else v3_provenance_sources_ok {} provenance)"

definition v3_validate_structure ::
    "env \<Rightarrow> ProviderEgressOperationEnvelopeV3 \<Rightarrow> contract_error + unit" where
  "v3_validate_structure E self =
     (if pe_schema self \<noteq> SchemaV3
      then Err (Malformed (Message ''unsupported provider-egress operation schema''))
      else if aa_origin (pe_actor self) \<noteq> Direct
      then Err (Malformed (Message ''V3 provider egress requires direct authority''))
      else
        attempt (validate_v3_identifier (aa_principal (pe_actor self)) ''actor.principal''
                   MAX_RUN_NAME_BYTES) (\<lambda>_.
        attempt (validate_v3_budget (pe_budget self)) (\<lambda>_.
        attempt (validate_v3_provenance (pe_provenance self)) (\<lambda>_.
        if rp_class (pe_replay self) \<noteq> RecordedEffect \<or> rp_intent (pe_replay self) \<noteq> ExecuteOnce
        then Err (Malformed (Message ''V3 provider egress requires recorded-effect execute-once replay''))
        else if sc_tool (pe_sealed_completion self) \<noteq> SEALED_COMPLETION_TOOL
        then Err (Malformed (Message ''V3 admits only sealed_completion''))
        else (let args = sc_arguments (pe_sealed_completion self) in
          if \<not> is_object (sa_request args)
          then Err (Malformed (Message ''sealed provider request must be an object''))
          else
            attempt (content_digest E (sa_request args)) (\<lambda>request_digest.
            if request_digest \<noteq> eb_request_digest (sa_binding args)
            then Err (Malformed (Message ''sealed provider request does not match the binding digest''))
            else
              attempt (validate_structure E (sa_binding args)) (\<lambda>_.
              if \<not> de_network_allowed (pe_effects self)
                 \<or> de_read_roots (pe_effects self) \<noteq> [] \<or> de_write_roots (pe_effects self) \<noteq> []
              then Err (Malformed (Message
                ''V3 declared effects do not exactly bind its sealed provider call''))
              else
                attempt (content_digest E (sealed_completion_json E (pe_sealed_completion self)))
                  (\<lambda>action_digest.
                  if de_action_digest (pe_effects self) \<noteq> action_digest
                  then Err (Malformed (Message
                    ''V3 declared effects do not exactly bind its sealed provider call''))
                  else Ok ()))))))))"

definition v3_validate_at ::
    "env \<Rightarrow> ProviderEgressOperationEnvelopeV3 \<Rightarrow> time \<Rightarrow> contract_error + unit" where
  "v3_validate_at E self now =
     attempt (v3_validate_structure E self) (\<lambda>_.
       validate_at E (sa_binding (sc_arguments (pe_sealed_completion self))) now)"

abbreviation pe_strict_error :: "StrictJsonError \<Rightarrow> ProviderEgressOperationIngressError" where
  "pe_strict_error e \<equiv> (case e of StrictDuplicateKey \<Rightarrow> PeDuplicateKey | StrictMalformed \<Rightarrow> PeMalformed)"

definition parse_provider_egress_operation_v3_value ::
    "env \<Rightarrow> (json \<Rightarrow> ProviderEgressOperationEnvelopeV3 option) \<Rightarrow> json \<Rightarrow>
     ProviderEgressOperationIngressError + ProviderEgressOperationEnvelopeV3" where
  "parse_provider_egress_operation_v3_value E from_value parsed =
     attempt (map_err (\<lambda>_. PeCanonicalBoundary) (jcs_canonical E parsed)) (\<lambda>canonical.
       if length canonical > MAX_RUN_SPEC_MATERIAL_BYTES then Err PeCanonicalBoundary
       else
         attempt (ok_or PeMalformed (from_value parsed)) (\<lambda>envelope.
         attempt (map_err PeSemantic (v3_validate_structure E envelope)) (\<lambda>_. Ok envelope)))"

definition parse_provider_egress_operation_v3_bytes ::
    "env \<Rightarrow> (json \<Rightarrow> ProviderEgressOperationEnvelopeV3 option) \<Rightarrow> bytes \<Rightarrow>
     ProviderEgressOperationIngressError + ProviderEgressOperationEnvelopeV3" where
  "parse_provider_egress_operation_v3_bytes E from_value input =
     (if length input > MAX_RUN_SPEC_INPUT_BYTES then Err (PeInputTooLarge MAX_RUN_SPEC_INPUT_BYTES)
      else
        attempt (map_err pe_strict_error (parse_strict_json_value E input)) (\<lambda>parsed.
          parse_provider_egress_operation_v3_value E from_value parsed))"

section \<open>Selecting the family\<close>

datatype NativeOperation =
    NativeV1 OperationEnvelopeV1
  | NativeProviderEgressV3 ProviderEgressOperationEnvelopeV3

datatype NativeOperationIngressError =
    NativeInputTooLarge nat
  | NativeDuplicateKey
  | NativeMalformed
  | NativeUnsupportedSchema
  | NativeV1Error OperationIngressError
  | NativeV3Error ProviderEgressOperationIngressError

abbreviation native_strict_error :: "StrictJsonError \<Rightarrow> NativeOperationIngressError" where
  "native_strict_error e \<equiv>
     (case e of StrictDuplicateKey \<Rightarrow> NativeDuplicateKey | StrictMalformed \<Rightarrow> NativeMalformed)"

definition parse_native_operation_bytes ::
    "env \<Rightarrow> (json \<Rightarrow> OperationEnvelopeV1 option) \<Rightarrow> (json \<Rightarrow> ProviderEgressOperationEnvelopeV3 option) \<Rightarrow>
     bytes \<Rightarrow> NativeOperationIngressError + NativeOperation" where
  "parse_native_operation_bytes E from_v1 from_v3 input =
     (if length input > MAX_RUN_SPEC_INPUT_BYTES then Err (NativeInputTooLarge MAX_RUN_SPEC_INPUT_BYTES)
      else
        attempt (map_err native_strict_error (parse_strict_json_value E input)) (\<lambda>value.
          let schema = Option.bind (json_get value ''schema'') as_str in
          if schema = Some ''recursive-agent.operation/v1'' then
            attempt (map_err NativeV1Error (parse_operation_envelope_value E from_v1 value)) (\<lambda>operation.
              Ok (NativeV1 operation))
          else if schema = Some ''recursive-agent.operation/v3'' then
            attempt (map_err NativeV3Error
                       (parse_provider_egress_operation_v3_value E from_v3 value)) (\<lambda>operation.
              Ok (NativeProviderEgressV3 operation))
          else Err NativeUnsupportedSchema))"

section \<open>Lemmas\<close>

lemma unsealed_json_eq_iff:
  assumes "encoders_ok E"
  shows "json_remove ''binding_digest'' (egress_binding_json E a) =
           json_remove ''binding_digest'' (egress_binding_json E b) \<longleftrightarrow>
         a\<lparr>eb_binding_digest := d\<rparr> = b\<lparr>eb_binding_digest := d\<rparr>"
proof -
  have time: "time_json E s = time_json E t \<longleftrightarrow> s = t" for s t
    using assms by (auto simp: encoders_ok_def time_json_def inj_eq)
  show ?thesis
    by (cases a; cases b)
      (auto simp: egress_binding_json_def digest_json_eq_iff [OF assms] word_enc.enc_eq_iff time)
qed

lemma expected_digest_cong:
  "a\<lparr>eb_binding_digest := d\<rparr> = b\<lparr>eb_binding_digest := d\<rparr> \<Longrightarrow> expected_digest E a = expected_digest E b"
  for a b :: ProviderEgressBindingV1
  by (cases a; cases b) (simp add: expected_digest_def egress_binding_json_def)

lemma validate_structure_Ok_iff [result_simps]:
  "validate_structure E b = Ok () \<longleftrightarrow>
     eb_schema b = EGRESS_SCHEMA \<and> validate_egress_material (binding_material b) = Ok ()
     \<and> expected_digest E b = Ok (eb_binding_digest b)"
  unfolding validate_structure_def by (auto simp: attempt_Ok_iff if_Err_Ok_iff)

lemma validate_at_Ok_iff [result_simps]:
  "validate_at E b now = Ok () \<longleftrightarrow> validate_structure E b = Ok () \<and> now < eb_not_after b"
  unfolding validate_at_def by (auto simp: attempt_Ok_iff if_Err_Ok_iff)

lemma binding_material_simps:
  "binding_material (b\<lparr>eb_binding_digest := d\<rparr>) = binding_material b"
  "binding_material (unsealed_binding E m) = m"
  "eb_schema (unsealed_binding E m) = EGRESS_SCHEMA"
  by (simp_all add: binding_material_def unsealed_binding_def)

lemma seal_Ok:
  assumes "seal E m = Ok b"
  shows "validate_structure E b = Ok () \<and> binding_material b = m"
proof -
  obtain d where mat: "validate_egress_material m = Ok ()"
    and d: "expected_digest E (unsealed_binding E m) = Ok d"
    and b: "b = (unsealed_binding E m)\<lparr>eb_binding_digest := d\<rparr>"
    using assms by (auto simp: seal_def attempt_Ok_iff)
  have "expected_digest E b = expected_digest E (unsealed_binding E m)"
    by (rule expected_digest_cong [where d = d]) (simp add: b)
  then show ?thesis
    using mat d by (simp add: validate_structure_Ok_iff) (simp add: b binding_material_simps)
qed

lemma resealed_eq:
  assumes "a\<lparr>eb_binding_digest := d\<rparr> = b\<lparr>eb_binding_digest := d\<rparr>"
    and "eb_binding_digest a = eb_binding_digest b"
  shows "a = b"
proof -
  have "a = (a\<lparr>eb_binding_digest := d\<rparr>)\<lparr>eb_binding_digest := eb_binding_digest a\<rparr>" by simp
  also have "\<dots> = (b\<lparr>eb_binding_digest := d\<rparr>)\<lparr>eb_binding_digest := eb_binding_digest b\<rparr>"
    by (simp only: assms)
  finally show ?thesis by simp
qed

lemma v3_validate_structure_Ok:
  assumes "v3_validate_structure E op = Ok ()"
  shows "aa_origin (pe_actor op) = Direct"
    and "validate_v3_budget (pe_budget op) = Ok ()"
    and "rp_class (pe_replay op) = RecordedEffect \<and> rp_intent (pe_replay op) = ExecuteOnce"
    and "sc_tool (pe_sealed_completion op) = SEALED_COMPLETION_TOOL"
    and "content_digest E (sa_request (sc_arguments (pe_sealed_completion op))) =
           Ok (eb_request_digest (sa_binding (sc_arguments (pe_sealed_completion op))))"
    and "validate_structure E (sa_binding (sc_arguments (pe_sealed_completion op))) = Ok ()"
    and "de_network_allowed (pe_effects op) \<and> de_read_roots (pe_effects op) = []
           \<and> de_write_roots (pe_effects op) = []"
    and "content_digest E (sealed_completion_json E (pe_sealed_completion op)) =
           Ok (de_action_digest (pe_effects op))"
  using assms unfolding v3_validate_structure_def
  by (simp_all add: attempt_Ok_iff if_Err_Ok_iff Let_def)

lemma validate_v3_budget_Ok_iff [result_simps]:
  "validate_v3_budget b = Ok () \<longleftrightarrow>
     0 < ob_max_wall_time_ms b \<and> ob_max_wall_time_ms b \<le> MAX_SHELL_TIMEOUT_MS
     \<and> 0 < ob_max_output_bytes b \<and> ob_max_output_bytes b \<le> MAX_SHELL_OUTPUT_BYTES
     \<and> 0 < ob_max_artifact_bytes b \<and> ob_max_artifact_bytes b \<le> MAX_SHELL_OUTPUT_BYTES
     \<and> ob_max_steps b = 1"
  by (auto simp: validate_v3_budget_def word_gt_0 not_less)

lemma parse_native_V1:
  assumes "parse_native_operation_bytes E d1 d3 input = Ok (NativeV1 op)"
  shows "OperationEnvelopeV1_validate E op = Ok ()"
    and "\<exists>v. parse_strict_json_value E input = Ok v \<and> json_get v ''schema'' = Some (JStr (schema_name SchemaV1))"
  using assms unfolding parse_native_operation_bytes_def parse_operation_envelope_value_def Let_def
  by (auto simp: attempt_Ok_iff map_err_Ok_iff if_Err_Ok_iff bind_eq_Some_conv split: if_splits
      elim!: as_str.elims)

lemma parse_native_V3:
  assumes "parse_native_operation_bytes E d1 d3 input = Ok (NativeProviderEgressV3 op)"
  shows "v3_validate_structure E op = Ok ()"
    and "\<exists>v. parse_strict_json_value E input = Ok v
           \<and> json_get v ''schema'' = Some (JStr ''recursive-agent.operation/v3'')"
  using assms unfolding parse_native_operation_bytes_def parse_provider_egress_operation_v3_value_def Let_def
  by (auto simp: attempt_Ok_iff map_err_Ok_iff if_Err_Ok_iff bind_eq_Some_conv split: if_splits
      elim!: as_str.elims)

section \<open>Properties\<close>

definition sample_egress_material :: ProviderEgressBindingMaterialV1 where
  "sample_egress_material =
     \<lparr>em_policy_basis_ref = ''p'', em_policy_basis_digest = ''sha256:'' @ hex64 CHR ''0'',
      em_context_digest = ''sha256:'' @ hex64 CHR ''0'', em_source_revision = ''r'',
      em_graph_obligation_ref = ''g'', em_graph_obligation_digest = ''blake3:'' @ hex64 CHR ''0'',
      em_route_class = ''c'', em_provider_identity = ''i'', em_model_ref = ''m'',
      em_input_tokens = 1, em_output_reserve = 1, em_request_digest = hex64 CHR ''a'',
      em_not_after = 100\<rparr>"

lemma sample_external_digests:
  "validate_external_digest n (''sha256:'' @ hex64 CHR ''0'') (''sha256'' # as) = Ok ()"
  "validate_external_digest n (''blake3:'' @ hex64 CHR ''0'') [''sha256'', ''blake3''] = Ok ()"
  by (simp_all add: validate_external_digest_def split_once_def hex64_def list_all_iff
      is_ascii_hexdigit_def is_ascii_digit_def byte_of_def)

lemma sample_material_valid: "validate_egress_material sample_egress_material = Ok ()"
  unfolding validate_egress_material_def sample_egress_material_def
  by (simp only: ProviderEgressBindingMaterialV1.simps sample_external_digests attempt_simps)
    (simp add: validate_egress_reference_def)

lemma sample_seals: "\<exists>b. seal sample_env sample_egress_material = Ok b \<and> eb_not_after b = 100"
  by (simp add: seal_def sample_material_valid expected_digest_def)
    (simp add: sample_egress_material_def unsealed_binding_def)

text \<open>Sealing and validation agree.  A sealed binding carries its material unchanged, validates, and
  validates at an instant exactly while that instant precedes its expiry.\<close>

theorem sealed_binding_validates:
  assumes "seal E m = Ok b"
  shows "binding_material b = m \<and> validate_structure E b = Ok ()
       \<and> (validate_at E b now = Ok () \<longleftrightarrow> now < em_not_after m)"
  using seal_Ok [OF assms] by (auto simp: validate_at_Ok_iff binding_material_def)

theorem sealed_binding_validates_witness:
  "\<exists>b. seal sample_env sample_egress_material = Ok b \<and> validate_at sample_env b 99 = Ok ()
     \<and> validate_at sample_env b 100 \<noteq> Ok ()"
proof -
  obtain b where b: "seal sample_env sample_egress_material = Ok b" using sample_seals by blast
  show ?thesis
    using sealed_binding_validates [OF b, of 99] sealed_binding_validates [OF b, of 100] b
    by (auto simp: sample_egress_material_def)
qed

text \<open>a binding digest names one binding.  Two structurally valid bindings with the same binding
  digest are equal in every field, or their unsealed encodings are a digest collision.\<close>

theorem binding_digest_names_binding:
  assumes "encoders_ok E" and "validate_structure E a = Ok ()" and "validate_structure E b = Ok ()"
    and "eb_binding_digest a = eb_binding_digest b"
  shows "a = b \<or> digest_collision E (json_remove ''binding_digest'' (egress_binding_json E a))
                                    (json_remove ''binding_digest'' (egress_binding_json E b))"
  using assms(2-4) unsealed_json_eq_iff [OF assms(1), of a b "eb_binding_digest a"]
    resealed_eq [where a = a and b = b and d = "eb_binding_digest a"]
  by (auto simp: digest_collision_def validate_structure_Ok_iff expected_digest_def)

theorem binding_digest_names_binding_witness:
  "\<exists>b. validate_structure sample_env b = Ok ()
     \<and> (b = b \<or> digest_collision sample_env (json_remove ''binding_digest'' (egress_binding_json sample_env b))
                  (json_remove ''binding_digest'' (egress_binding_json sample_env b)))"
proof -
  obtain b where "seal sample_env sample_egress_material = Ok b" using sample_seals by blast
  then have "validate_structure sample_env b = Ok ()" using seal_Ok by blast
  with binding_digest_names_binding [OF sample_encoders this this] show ?thesis by blast
qed

text \<open>C38 families do not mix.  Raw bytes admitted as a V1 operation name the V1 schema and never declare
  network access; raw bytes admitted as a V3 operation name the V3 schema, declare network access and
  no file roots, have a one-step budget, and carry a request with the digest its valid binding names.\<close>

theorem native_families_do_not_mix:
  assumes "parse_native_operation_bytes E d1 d3 input = Ok native"
  shows "\<exists>v. parse_strict_json_value E input = Ok v
       \<and> (case native of
            NativeV1 op \<Rightarrow>
              json_get v ''schema'' = Some (JStr ''recursive-agent.operation/v1'')
              \<and> op_schema op = SchemaV1 \<and> \<not> de_network_allowed (op_effects op)
          | NativeProviderEgressV3 op \<Rightarrow>
              json_get v ''schema'' = Some (JStr ''recursive-agent.operation/v3'')
              \<and> de_network_allowed (pe_effects op) \<and> de_read_roots (pe_effects op) = []
              \<and> de_write_roots (pe_effects op) = [] \<and> ob_max_steps (pe_budget op) = 1
              \<and> validate_structure E (sa_binding (sc_arguments (pe_sealed_completion op))) = Ok ()
              \<and> content_digest E (sa_request (sc_arguments (pe_sealed_completion op))) =
                  Ok (eb_request_digest (sa_binding (sc_arguments (pe_sealed_completion op)))))"
proof (cases native)
  case (NativeV1 op)
  note v1 = parse_native_V1 [OF assms [unfolded NativeV1]]
  note op = OperationEnvelopeV1_validate_Ok [OF v1(1)]
  note eff = validate_declared_effects_Ok [OF op(6)]
  have "\<not> de_network_allowed (op_effects op)"
    using eff(3) require_steps_Ok shell_calls_valid [OF eff(1)] by fastforce
  then show ?thesis using v1(2) op(1) NativeV1 by auto
next
  case (NativeProviderEgressV3 op)
  note v3 = parse_native_V3 [OF assms [unfolded NativeProviderEgressV3]]
  show ?thesis
    using v3(2) v3_validate_structure_Ok [OF v3(1)] NativeProviderEgressV3
    by (auto simp: validate_v3_budget_Ok_iff)
qed

definition v1_schema_env :: env where
  "v1_schema_env = positional_env\<lparr>parse_and_validate :=
     \<lambda>s. Ok (JObj [(''schema'', JStr ''recursive-agent.operation/v1'')])\<rparr>"

theorem native_families_do_not_mix_witness:
  "parse_native_operation_bytes v1_schema_env (\<lambda>_. Some sample_operation) (\<lambda>_. None) ''x''
     = Ok (NativeV1 sample_operation)
   \<and> \<not> de_network_allowed (op_effects sample_operation)"
proof -
  have env: "canonicalize_bytes v1_schema_env = (\<lambda>v. Ok ''{}'')"
    "content_digest v1_schema_env v = Ok (hex64 CHR ''a'')"
    "parse_strict_json_value v1_schema_env ''x'' = Ok (JObj [(''schema'', JStr ''recursive-agent.operation/v1'')])"
    for v
    by (simp_all add: v1_schema_env_def positional_env_def sample_env_def content_digest_def
        parse_strict_json_value_def byte_of_def)
  have "parse_native_operation_bytes v1_schema_env (\<lambda>_. Some sample_operation) (\<lambda>_. None) ''x''
     = Ok (NativeV1 sample_operation)"
    using sample_operation_valid_in [OF env(1) env(2)]
    by (simp add: parse_native_operation_bytes_def parse_operation_envelope_value_def env jcs_canonical_def)
  from native_families_do_not_mix [OF this] this show ?thesis by auto
qed

end
