(* ===== verification/NormalChat.thy ===== *)
theory NormalChat
  imports Egress
begin

text \<open>
  Normal-chat identities of \<open>recursive-agent-contracts/src/normal_chat_operation.rs\<close>: the operation,
  its attempts, their derived identities and their byte ingress.
\<close>

section \<open>Data\<close>

abbreviation ATTEMPT_ID_DOMAIN :: string where
  "ATTEMPT_ID_DOMAIN \<equiv> ''recursive-agent/normal-chat-attempt/v1''"

datatype NormalChatOperationIngressError =
    NcInputTooLarge nat
  | NcDuplicateKey
  | NcMalformed
  | NcCanonicalBoundary
  | NcSemantic contract_error

datatype NormalChatOperationSchemaV1 = NormalChatSchemaV1

datatype NormalChatReplayV1 = RecordedResponseOnly

record NormalChatBudgetV1 =
  nb_max_attempts :: u32
  nb_input_tokens :: u32
  nb_output_reserve :: u32
  nb_max_wall_time_ms :: u64

record NormalChatOperationV1 =
  nc_schema :: NormalChatOperationSchemaV1
  nc_conversation_ref :: string
  nc_parent_run_id :: "run_id option"
  nc_materialization_ref :: string
  nc_materialization_digest :: string
  nc_policy_basis_ref :: string
  nc_policy_basis_digest :: string
  nc_source_revision :: string
  nc_route_class :: string
  nc_provider_identity :: string
  nc_model_ref :: string
  nc_request_digest :: string
  nc_budget :: NormalChatBudgetV1
  nc_replay :: NormalChatReplayV1
  nc_provenance :: "ProvenanceRefV1 list"

type_synonym attempt_id = string

datatype NormalChatAttemptIngressError =
    NaInputTooLarge nat
  | NaDuplicateKey
  | NaMalformed
  | NaCanonicalBoundary
  | NaSemantic contract_error

datatype NormalChatAttemptSchemaV1 = NormalChatAttemptSchemaV1

record NormalChatAttemptV1 =
  na_schema :: NormalChatAttemptSchemaV1
  na_operation :: NormalChatOperationV1
  na_attempt_number :: u32
  na_provider_request_digest :: content_digest
  na_attempt_id :: attempt_id

record AttemptIdentityMaterial =
  aim_operation :: NormalChatOperationV1
  aim_attempt_number :: u32
  aim_provider_request_digest :: content_digest

section \<open>Encodings\<close>

definition normal_chat_budget_json :: "NormalChatBudgetV1 \<Rightarrow> json" where
  "normal_chat_budget_json b =
     JObj [(''input_tokens'', json_of_word (nb_input_tokens b)),
           (''max_attempts'', json_of_word (nb_max_attempts b)),
           (''max_wall_time_ms'', json_of_word (nb_max_wall_time_ms b)),
           (''output_reserve'', json_of_word (nb_output_reserve b))]"

definition normal_chat_operation_json :: "env \<Rightarrow> NormalChatOperationV1 \<Rightarrow> json" where
  "normal_chat_operation_json E o' =
     JObj [(''budget'', normal_chat_budget_json (nc_budget o')),
           (''conversation_ref'', JStr (nc_conversation_ref o')),
           (''materialization_digest'', JStr (nc_materialization_digest o')),
           (''materialization_ref'', JStr (nc_materialization_ref o')),
           (''model_ref'', JStr (nc_model_ref o')),
           (''parent_run_id'', json_of_option JStr (nc_parent_run_id o')),
           (''policy_basis_digest'', JStr (nc_policy_basis_digest o')),
           (''policy_basis_ref'', JStr (nc_policy_basis_ref o')),
           (''provenance'', json_of_list (provenance_json E) (nc_provenance o')),
           (''provider_identity'', JStr (nc_provider_identity o')),
           (''replay'', JStr ''recorded_response_only''),
           (''request_digest'', JStr (nc_request_digest o')),
           (''route_class'', JStr (nc_route_class o')),
           (''schema'', JStr ''recursive-agent.normal-chat/v1''),
           (''source_revision'', JStr (nc_source_revision o'))]"

definition attempt_identity_json :: "env \<Rightarrow> AttemptIdentityMaterial \<Rightarrow> json" where
  "attempt_identity_json E m =
     JObj [(''attempt_number'', json_of_word (aim_attempt_number m)),
           (''operation'', normal_chat_operation_json E (aim_operation m)),
           (''provider_request_digest'', digest_json E (aim_provider_request_digest m))]"

section \<open>Validation and identities\<close>

definition validate_reference :: "string \<times> string \<Rightarrow> contract_error + unit" where
  "validate_reference = (\<lambda>(name, value).
     if value = [] \<or> length value > MAX_REFERENCE_BYTES \<or> has_control value
     then Err (Malformed (Message (''invalid normal-chat '' @ name))) else Ok ())"

definition validate_chat_digest :: "string \<Rightarrow> string \<Rightarrow> string list \<Rightarrow> contract_error + unit" where
  "validate_chat_digest name value algorithms =
     attempt (ok_or (Malformed (Message (''invalid normal-chat '' @ name))) (split_once CHR '':'' value))
       (\<lambda>(algorithm, hex).
         if algorithm \<notin> set algorithms \<or> length hex \<noteq> 64
            \<or> \<not> list_all (\<lambda>c. is_ascii_hexdigit c \<and> \<not> is_ascii_uppercase c) hex
         then Err (Malformed (Message (''invalid normal-chat '' @ name)))
         else Ok ())"

definition NormalChatOperationV1_validate :: "NormalChatOperationV1 \<Rightarrow> contract_error + unit" where
  "NormalChatOperationV1_validate self =
     (if nc_schema self \<noteq> NormalChatSchemaV1
      then Err (Malformed (Message ''normal-chat ingress requires the exact V1 schema tag''))
      else
        attempt (try_for_each validate_reference
                   [(''conversation_ref'', nc_conversation_ref self),
                    (''materialization_ref'', nc_materialization_ref self),
                    (''policy_basis_ref'', nc_policy_basis_ref self),
                    (''source_revision'', nc_source_revision self),
                    (''route_class'', nc_route_class self),
                    (''provider_identity'', nc_provider_identity self),
                    (''model_ref'', nc_model_ref self)]) (\<lambda>_.
        attempt (validate_chat_digest ''materialization_digest'' (nc_materialization_digest self)
                   [''sha256'']) (\<lambda>_.
        attempt (validate_chat_digest ''policy_basis_digest'' (nc_policy_basis_digest self)
                   [''sha256'', ''blake3'']) (\<lambda>_.
        attempt (validate_chat_digest ''request_digest'' (nc_request_digest self) [''sha256'']) (\<lambda>_.
          if nb_max_attempts (nc_budget self) = 0 \<or> nb_input_tokens (nc_budget self) = 0
             \<or> nb_output_reserve (nc_budget self) = 0 \<or> nb_max_wall_time_ms (nc_budget self) = 0
          then Err (Malformed (Message ''normal-chat budget values must be nonzero''))
          else if nc_replay self \<noteq> RecordedResponseOnly
          then Err (Malformed (Message ''normal-chat replay must be recorded-response-only''))
          else if nc_provenance self = []
          then Err (Malformed (Message ''normal-chat provenance must be nonempty''))
          else try_for_each (\<lambda>p. validate_reference (''provenance.source'', prv_source p))
                 (nc_provenance self))))))"

definition attempt_id_from_owner :: "string \<Rightarrow> contract_error + attempt_id" where
  "attempt_id_from_owner value = current_id_from_owner ATTEMPT_ID_DOMAIN value"

text \<open>The hand-written decoder of an attempt identifier.\<close>

definition decode_attempt_id :: "env \<Rightarrow> json \<Rightarrow> attempt_id option" where
  "decode_attempt_id E v =
     (case as_str v of
        None \<Rightarrow> None
      | Some value \<Rightarrow>
          if is_ok (validate_current_id value ATTEMPT_ID_DOMAIN) then
            (case id_try_new E TrialId value of
               None \<Rightarrow> None
             | Some owner \<Rightarrow>
                 (case attempt_id_from_owner owner of Err _ \<Rightarrow> None | Ok i \<Rightarrow> Some i))
          else None)"

definition derive_normal_chat_attempt_id ::
    "env \<Rightarrow> NormalChatOperationV1 \<Rightarrow> u32 \<Rightarrow> content_digest \<Rightarrow> contract_error + attempt_id" where
  "derive_normal_chat_attempt_id E operation attempt_number provider_request_digest =
     attempt (NormalChatOperationV1_validate operation) (\<lambda>_.
       if attempt_number = 0
       then Err (Malformed (Message ''normal-chat attempt number must be at least one''))
       else if attempt_number > nb_max_attempts (nc_budget operation)
       then Err (Malformed (Message ''normal-chat attempt exceeds declared attempt ceiling''))
       else
         attempt (content_digest E (attempt_identity_json E
           \<lparr>aim_operation = operation, aim_attempt_number = attempt_number,
            aim_provider_request_digest = provider_request_digest\<rparr>)) (\<lambda>digest.
         attempt (ok_or IdParse (id_deterministic E TrialId ATTEMPT_ID_DOMAIN digest)) (\<lambda>owner.
         attempt_id_from_owner owner)))"

definition NormalChatAttemptV1_new ::
    "env \<Rightarrow> NormalChatOperationV1 \<Rightarrow> u32 \<Rightarrow> content_digest \<Rightarrow> contract_error + NormalChatAttemptV1" where
  "NormalChatAttemptV1_new E operation attempt_number provider_request_digest =
     attempt (derive_normal_chat_attempt_id E operation attempt_number provider_request_digest)
       (\<lambda>attempt_id.
         Ok \<lparr>na_schema = NormalChatAttemptSchemaV1, na_operation = operation,
             na_attempt_number = attempt_number, na_provider_request_digest = provider_request_digest,
             na_attempt_id = attempt_id\<rparr>)"

definition NormalChatAttemptV1_validate :: "env \<Rightarrow> NormalChatAttemptV1 \<Rightarrow> contract_error + unit" where
  "NormalChatAttemptV1_validate E self =
     (if na_schema self \<noteq> NormalChatAttemptSchemaV1
      then Err (Malformed (Message ''normal-chat attempt requires the exact V1 schema tag''))
      else
        attempt (derive_normal_chat_attempt_id E (na_operation self) (na_attempt_number self)
                   (na_provider_request_digest self)) (\<lambda>expected.
          if na_attempt_id self \<noteq> expected
          then Err (Malformed (Message ''normal-chat attempt identity does not bind its request''))
          else Ok ()))"

definition attempt_run_id :: "env \<Rightarrow> NormalChatAttemptV1 \<Rightarrow> contract_error + run_id" where
  "attempt_run_id E self =
     attempt (NormalChatAttemptV1_validate E self) (\<lambda>_.
     attempt (content_digest E (normal_chat_operation_json E (na_operation self))) (\<lambda>digest.
     attempt (ok_or IdParse (id_deterministic E KernelRunId RUN_ID_DOMAIN digest)) (\<lambda>owner.
     current_id_from_owner RUN_ID_DOMAIN owner)))"

section \<open>Byte ingress\<close>

definition parse_normal_chat_attempt_v1_bytes ::
    "env \<Rightarrow> (json \<Rightarrow> NormalChatAttemptV1 option) \<Rightarrow> bytes \<Rightarrow>
     NormalChatAttemptIngressError + NormalChatAttemptV1" where
  "parse_normal_chat_attempt_v1_bytes E from_value input =
     (if length input > MAX_RUN_SPEC_INPUT_BYTES then Err (NaInputTooLarge MAX_RUN_SPEC_INPUT_BYTES)
      else
        attempt (map_err (\<lambda>e. case e of StrictDuplicateKey \<Rightarrow> NaDuplicateKey | StrictMalformed \<Rightarrow> NaMalformed)
                   (parse_strict_json_value E input)) (\<lambda>parsed.
        attempt (map_err (\<lambda>_. NaCanonicalBoundary) (jcs_canonical E parsed)) (\<lambda>canonical.
          if length canonical > MAX_RUN_SPEC_MATERIAL_BYTES then Err NaCanonicalBoundary
          else
            attempt (ok_or NaMalformed (from_value parsed)) (\<lambda>att.
            attempt (map_err NaSemantic (NormalChatAttemptV1_validate E att)) (\<lambda>_. Ok att)))))"

definition parse_normal_chat_operation_v1_bytes ::
    "env \<Rightarrow> (json \<Rightarrow> NormalChatOperationV1 option) \<Rightarrow> bytes \<Rightarrow>
     NormalChatOperationIngressError + NormalChatOperationV1" where
  "parse_normal_chat_operation_v1_bytes E from_value input =
     (if length input > MAX_RUN_SPEC_INPUT_BYTES then Err (NcInputTooLarge MAX_RUN_SPEC_INPUT_BYTES)
      else
        attempt (map_err (\<lambda>e. case e of StrictDuplicateKey \<Rightarrow> NcDuplicateKey | StrictMalformed \<Rightarrow> NcMalformed)
                   (parse_strict_json_value E input)) (\<lambda>parsed.
        attempt (map_err (\<lambda>_. NcCanonicalBoundary) (jcs_canonical E parsed)) (\<lambda>canonical.
          if length canonical > MAX_RUN_SPEC_MATERIAL_BYTES then Err NcCanonicalBoundary
          else
            attempt (ok_or NcMalformed (from_value parsed)) (\<lambda>operation.
            attempt (map_err NcSemantic (NormalChatOperationV1_validate operation)) (\<lambda>_. Ok operation)))))"

section \<open>Lemmas\<close>

interpretation chat_budget_enc: canonical_encoding normal_chat_budget_json
  by unfold_locales (auto simp: normal_chat_budget_json_def json_inj NormalChatBudgetV1.equality)

lemma normal_chat_schema_unique: "(s :: NormalChatOperationSchemaV1) = t"
  by (cases s; cases t) simp

lemma normal_chat_replay_unique: "(s :: NormalChatReplayV1) = t"
  by (cases s; cases t) simp

lemma normal_chat_operation_encoding:
  assumes "encoders_ok E"
  shows "canonical_encoding (normal_chat_operation_json E)"
proof
  fix x y :: NormalChatOperationV1
  show "normal_chat_operation_json E x = normal_chat_operation_json E y \<longleftrightarrow> x = y"
    using normal_chat_schema_unique [of "nc_schema x" "nc_schema y"]
      normal_chat_replay_unique [of "nc_replay x" "nc_replay y"]
    by (auto simp: normal_chat_operation_json_def json_inj chat_budget_enc.enc_eq_iff
        canonical_encoding.list_eq_iff [OF provenance_encoding [OF assms]]
        intro!: NormalChatOperationV1.equality)
qed

lemma attempt_identity_encoding:
  assumes "encoders_ok E"
  shows "canonical_encoding (attempt_identity_json E)"
  by unfold_locales
    (auto simp: attempt_identity_json_def json_inj digest_json_eq_iff [OF assms]
       canonical_encoding.enc_eq_iff [OF normal_chat_operation_encoding [OF assms]]
       AttemptIdentityMaterial.equality)

lemma derive_attempt_id_Ok:
  assumes "derive_normal_chat_attempt_id E o' n d = Ok i"
  shows "NormalChatOperationV1_validate o' = Ok ()" and "0 < n" and "n \<le> nb_max_attempts (nc_budget o')"
    and "\<exists>h. content_digest E (attempt_identity_json E
           \<lparr>aim_operation = o', aim_attempt_number = n, aim_provider_request_digest = d\<rparr>) = Ok h
         \<and> id_deterministic E TrialId ATTEMPT_ID_DOMAIN h = Some i"
  using assms unfolding derive_normal_chat_attempt_id_def attempt_id_from_owner_def
  by (auto simp: attempt_Ok_iff if_Err_Ok_iff ok_or_Ok_iff current_id_from_owner_Ok_iff word_gt_0 not_less)

text \<open>The material of an attempt's identity, and what it takes for two materials to share one.\<close>

definition attempt_material :: "NormalChatAttemptV1 \<Rightarrow> AttemptIdentityMaterial" where
  "attempt_material a =
     \<lparr>aim_operation = na_operation a, aim_attempt_number = na_attempt_number a,
      aim_provider_request_digest = na_provider_request_digest a\<rparr>"

definition attempt_collision :: "env \<Rightarrow> json \<Rightarrow> json \<Rightarrow> bool" where
  "attempt_collision E v w \<longleftrightarrow>
     digest_collision E v w
     \<or> (\<exists>dv dw. content_digest E v = Ok dv \<and> content_digest E w = Ok dw
          \<and> id_collision E TrialId ATTEMPT_ID_DOMAIN dv dw)"

lemma NormalChatAttemptV1_validate_Ok_iff [result_simps]:
  "NormalChatAttemptV1_validate E a = Ok () \<longleftrightarrow>
     derive_normal_chat_attempt_id E (na_operation a) (na_attempt_number a)
       (na_provider_request_digest a) = Ok (na_attempt_id a)"
  by (cases "na_schema a") (auto simp: NormalChatAttemptV1_validate_def attempt_Ok_iff if_Err_Ok_iff)

lemma attempt_run_id_Ok_iff [result_simps]:
  "attempt_run_id E a = Ok i \<longleftrightarrow>
     NormalChatAttemptV1_validate E a = Ok ()
     \<and> derive_operation_identity E (normal_chat_operation_json E (na_operation a)) = Ok i"
  unfolding attempt_run_id_def derive_operation_identity_def by (auto simp: attempt_Ok_iff)

section \<open>Properties\<close>

definition sample_chat :: NormalChatOperationV1 where
  "sample_chat =
     \<lparr>nc_schema = NormalChatSchemaV1, nc_conversation_ref = ''c'', nc_parent_run_id = None,
      nc_materialization_ref = ''m'', nc_materialization_digest = ''sha256:'' @ hex64 CHR ''0'',
      nc_policy_basis_ref = ''p'', nc_policy_basis_digest = ''blake3:'' @ hex64 CHR ''0'',
      nc_source_revision = ''r'', nc_route_class = ''t'', nc_provider_identity = ''i'',
      nc_model_ref = ''m'', nc_request_digest = ''sha256:'' @ hex64 CHR ''0'',
      nc_budget = \<lparr>nb_max_attempts = 2, nb_input_tokens = 1, nb_output_reserve = 1,
                   nb_max_wall_time_ms = 1\<rparr>,
      nc_replay = RecordedResponseOnly, nc_provenance = [\<lparr>prv_source = ''s'', prv_digest = ''d''\<rparr>]\<rparr>"

lemma sample_chat_digests:
  "validate_chat_digest n (''sha256:'' @ hex64 CHR ''0'') (''sha256'' # as) = Ok ()"
  "validate_chat_digest n (''blake3:'' @ hex64 CHR ''0'') [''sha256'', ''blake3''] = Ok ()"
  by (simp_all add: validate_chat_digest_def split_once_def hex64_def list_all_iff
      is_ascii_hexdigit_def is_ascii_digit_def is_ascii_uppercase_def byte_of_def)

lemma sample_chat_valid: "NormalChatOperationV1_validate sample_chat = Ok ()"
  unfolding NormalChatOperationV1_validate_def sample_chat_def
  by (simp only: NormalChatOperationV1.simps sample_chat_digests attempt_simps)
    (simp add: validate_reference_def byte_of_def)

lemma sample_attempt:
  "n \<in> {1, 2} \<Longrightarrow>
   NormalChatAttemptV1_new sample_env sample_chat n ''d'' =
     Ok \<lparr>na_schema = NormalChatAttemptSchemaV1, na_operation = sample_chat, na_attempt_number = n,
         na_provider_request_digest = ''d'', na_attempt_id = sample_id ATTEMPT_ID_DOMAIN\<rparr>"
  using sample_chat_valid
  by (auto simp: NormalChatAttemptV1_new_def derive_normal_chat_attempt_id_def attempt_id_from_owner_def
      current_id_from_owner_def sample_chat_def)

text \<open>C39 attempt identities.  A validated attempt lies within its operation's attempt ceiling, and two
  validated attempts with the same attempt identity have the same operation, number and provider
  request, unless a collision of the digest or of the identifier owner is exhibited.\<close>

theorem attempt_identity_binds:
  assumes "encoders_ok E"
    and "NormalChatAttemptV1_validate E a = Ok ()" and "NormalChatAttemptV1_validate E b = Ok ()"
    and "na_attempt_id a = na_attempt_id b"
  shows "1 \<le> na_attempt_number a \<and> na_attempt_number a \<le> nb_max_attempts (nc_budget (na_operation a))
       \<and> (a = b
          \<or> attempt_collision E (attempt_identity_json E (attempt_material a))
                                 (attempt_identity_json E (attempt_material b)))"
proof -
  note da = derive_attempt_id_Ok [OF assms(2) [unfolded NormalChatAttemptV1_validate_Ok_iff]]
  note db = derive_attempt_id_Ok [OF assms(3) [unfolded NormalChatAttemptV1_validate_Ok_iff]]
  obtain ha hb where ha: "content_digest E (attempt_identity_json E (attempt_material a)) = Ok ha"
      "id_deterministic E TrialId ATTEMPT_ID_DOMAIN ha = Some (na_attempt_id a)"
    and hb: "content_digest E (attempt_identity_json E (attempt_material b)) = Ok hb"
      "id_deterministic E TrialId ATTEMPT_ID_DOMAIN hb = Some (na_attempt_id a)"
    using da(4) db(4) assms(4) unfolding attempt_material_def by auto
  have "attempt_material a = attempt_material b
      \<or> attempt_collision E (attempt_identity_json E (attempt_material a))
                            (attempt_identity_json E (attempt_material b))"
    using same_identity_same_material [OF attempt_identity_encoding [OF assms(1)] ha hb] ha(1) hb(1)
    unfolding attempt_collision_def by blast
  moreover have "a = b" if "attempt_material a = attempt_material b"
    using that assms(4)
    by (cases "na_schema a"; cases "na_schema b")
      (auto simp: attempt_material_def intro: NormalChatAttemptV1.equality)
  moreover have "1 \<le> na_attempt_number a"
    using da(2) by (simp add: word_le_nat_alt word_less_nat_alt)
  ultimately show ?thesis using da(3) by blast
qed

theorem attempt_identity_binds_witness:
  "\<exists>a. NormalChatAttemptV1_new sample_env sample_chat 2 ''d'' = Ok a
     \<and> na_attempt_number a \<le> nb_max_attempts (nc_budget (na_operation a))"
proof -
  obtain a where a: "NormalChatAttemptV1_new sample_env sample_chat 2 ''d'' = Ok a"
    using sample_attempt [of 2] by blast
  then have "NormalChatAttemptV1_validate sample_env a = Ok ()"
    by (auto simp: NormalChatAttemptV1_validate_Ok_iff NormalChatAttemptV1_new_def attempt_Ok_iff)
  from attempt_identity_binds [OF sample_encoders this this] a show ?thesis by blast
qed

text \<open>Retries share their run.  Attempts built for the same operation validate and report the same run
  identifier whatever their number and provider request, and an operation's run identifier is shared
  with another operation only through a collision.\<close>

theorem attempts_share_run_id:
  assumes "encoders_ok E"
    and "NormalChatAttemptV1_new E o' n d = Ok a" and "NormalChatAttemptV1_new E p m e = Ok b"
  shows "NormalChatAttemptV1_validate E a = Ok ()
       \<and> (o' = p \<longrightarrow> attempt_run_id E a = attempt_run_id E b)
       \<and> (attempt_run_id E a = Ok i \<longrightarrow> attempt_run_id E b = Ok i \<longrightarrow>
            o' = p \<or> run_id_collision E (normal_chat_operation_json E o') (normal_chat_operation_json E p))"
proof -
  have a: "NormalChatAttemptV1_validate E a = Ok ()" "na_operation a = o'"
    using assms(2) by (auto simp: NormalChatAttemptV1_validate_Ok_iff NormalChatAttemptV1_new_def attempt_Ok_iff)
  have b: "NormalChatAttemptV1_validate E b = Ok ()" "na_operation b = p"
    using assms(3) by (auto simp: NormalChatAttemptV1_validate_Ok_iff NormalChatAttemptV1_new_def attempt_Ok_iff)
  have "attempt_run_id E a = attempt_run_id E b" if "o' = p"
    using a b that by (simp add: attempt_run_id_def)
  then show ?thesis
    using a b canonical_encoding.enc_eq_iff [OF normal_chat_operation_encoding [OF assms(1)]]
    by (auto simp: attempt_run_id_Ok_iff dest: same_run_id)
qed

theorem attempts_share_run_id_witness:
  "\<exists>a b. NormalChatAttemptV1_new sample_env sample_chat 1 ''d'' = Ok a
     \<and> NormalChatAttemptV1_new sample_env sample_chat 2 ''d'' = Ok b
     \<and> attempt_run_id sample_env a = attempt_run_id sample_env b"
proof -
  obtain a b where a: "NormalChatAttemptV1_new sample_env sample_chat 1 ''d'' = Ok a"
    and b: "NormalChatAttemptV1_new sample_env sample_chat 2 ''d'' = Ok b"
    using sample_attempt [of 1] sample_attempt [of 2] by blast
  from attempts_share_run_id [OF sample_encoders a b] a b show ?thesis by blast
qed

end
