(* ===== verification/Permits.thy ===== *)
theory Permits
  imports NormalChat
begin

text \<open>
  Capability leases of \<open>recursive-agent-policy/src/lib.rs\<close>: principals, effect scopes, budgets,
  delegation ceilings, permit bindings and identities, the evidence and receipts of a permit, and the
  dispatch and delegation checks.  Everything here is pure; the durable store is in \<open>PermitStore\<close>.
\<close>

section \<open>Errors\<close>

datatype PermitRejectionReasonV1 =
    NotIssued | AlreadyConsumed | RejectedRevoked | Expired | NotYetValid | WrongActor | WrongAction
  | ChangedEffect | BudgetExceeded | WrongParent | WrongPolicy | WrongOperation | WrongStep
  | WrongTool | WrongArguments | StateCorrupted

datatype PermitTransitionStage = TempWrite | TempFsync | Rename | DirectoryFsync

datatype io_error = IoNotFound | IoOther

datatype PolicyError =
    ToolNotAllowed string
  | ArgsTooLarge nat nat
  | PolicyContract contract_error
  | FrozenClockRequired string
  | InvalidLease string
  | PermitRejected permit_id PermitRejectionReasonV1
  | PermitStateConflict
  | UnsafePermitRoot string
  | PolicyIo io_error
  | PolicyJson
  | InjectedInterruption PermitTransitionStage
  | BudgetOverrun string
  | NetworkUnavailable
  | PolicyVersionMismatch string string

definition rejected :: "permit_id \<Rightarrow> PermitRejectionReasonV1 \<Rightarrow> PolicyError" where
  "rejected permit_id reason = PermitRejected permit_id reason"

definition policy_digest :: "env \<Rightarrow> json \<Rightarrow> PolicyError + content_digest" where
  "policy_digest E v = map_err PolicyContract (content_digest E v)"

text \<open>\<open>u64::try_from\<close> of a signed number of milliseconds.\<close>

definition try_u64 :: "int \<Rightarrow> u64 option" where
  "try_u64 i = (if 0 \<le> i \<and> i < 2 ^ 64 then Some (word_of_int i) else None)"

section \<open>Principals, scopes and budgets\<close>

type_synonym principal = string

definition ActorPrincipalV1_try_new :: "string \<Rightarrow> PolicyError + principal" where
  "ActorPrincipalV1_try_new value =
     (if value = [] \<or> length value > 256 \<or> \<not> list_all v3_identifier_char value
      then Err (InvalidLease ''invalid actor principal'') else Ok value)"

record DelegationIdentityV1 =
  di_actor :: principal
  di_delegate :: principal
  di_audience :: string
  di_depth :: u32

definition DelegationIdentityV1_validate :: "DelegationIdentityV1 \<Rightarrow> PolicyError + unit" where
  "DelegationIdentityV1_validate self =
     (if di_audience self = [] \<or> has_control (di_audience self) \<or> di_depth self = 0
      then Err (InvalidLease ''invalid delegation identity'') else Ok ())"

record EffectScopeV1 =
  es_scope_name :: string
  es_read_roots :: "string list"
  es_write_roots :: "string list"
  es_network_allowed :: bool

abbreviation NORMAL_CHAT_LANE :: string where
  "NORMAL_CHAT_LANE \<equiv> ''normal_chat''"
abbreviation SEALED_COMPLETION_LANE :: string where
  "SEALED_COMPLETION_LANE \<equiv> ''sealed_completion''"

definition is_closed_normal_chat_effect :: "string \<Rightarrow> EffectScopeV1 \<Rightarrow> bool" where
  "is_closed_normal_chat_effect tool effect =
     (tool = NORMAL_CHAT_LANE \<and> es_scope_name effect = NORMAL_CHAT_LANE \<and> es_network_allowed effect
      \<and> es_read_roots effect = [] \<and> es_write_roots effect = [])"

definition is_closed_provider_egress_effect :: "string \<Rightarrow> EffectScopeV1 \<Rightarrow> bool" where
  "is_closed_provider_egress_effect tool effect =
     (tool = SEALED_COMPLETION_LANE \<and> es_scope_name effect = SEALED_COMPLETION_LANE
      \<and> es_network_allowed effect \<and> es_read_roots effect = [] \<and> es_write_roots effect = [])"

record PermitBudgetV1 =
  bg_max_wall_time_ms :: u64
  bg_max_output_bytes :: u64
  bg_max_artifact_bytes :: u64

definition is_within :: "PermitBudgetV1 \<Rightarrow> PermitBudgetV1 \<Rightarrow> bool" where
  "is_within self authorized =
     (bg_max_wall_time_ms self \<le> bg_max_wall_time_ms authorized
      \<and> bg_max_output_bytes self \<le> bg_max_output_bytes authorized
      \<and> bg_max_artifact_bytes self \<le> bg_max_artifact_bytes authorized)"

definition budget_checked_add :: "PermitBudgetV1 \<Rightarrow> PermitBudgetV1 \<Rightarrow> PolicyError + PermitBudgetV1" where
  "budget_checked_add self other =
     attempt (ok_or (BudgetOverrun ''wall-time allocation overflow'')
                (checked_add (bg_max_wall_time_ms self) (bg_max_wall_time_ms other))) (\<lambda>wall.
     attempt (ok_or (BudgetOverrun ''output allocation overflow'')
                (checked_add (bg_max_output_bytes self) (bg_max_output_bytes other))) (\<lambda>out.
     attempt (ok_or (BudgetOverrun ''artifact allocation overflow'')
                (checked_add (bg_max_artifact_bytes self) (bg_max_artifact_bytes other))) (\<lambda>art.
       Ok \<lparr>bg_max_wall_time_ms = wall, bg_max_output_bytes = out, bg_max_artifact_bytes = art\<rparr>)))"

definition budget_zero :: PermitBudgetV1 where
  "budget_zero = \<lparr>bg_max_wall_time_ms = 0, bg_max_output_bytes = 0, bg_max_artifact_bytes = 0\<rparr>"

definition budget_has_zero :: "PermitBudgetV1 \<Rightarrow> bool" where
  "budget_has_zero b =
     (bg_max_wall_time_ms b = 0 \<or> bg_max_output_bytes b = 0 \<or> bg_max_artifact_bytes b = 0)"

text \<open>The mode masks are the octal \<open>0o111\<close> (any execute bit) and \<open>0o022\<close> (group or other write).\<close>

record ExecutableAuthorityV1 =
  ea_role :: string
  ea_path :: string
  ea_descriptor_identity :: string
  ea_byte_digest :: content_digest
  ea_byte_length :: u64
  ea_owner :: u32
  ea_mode :: u32
  ea_read_only_filesystem :: bool

definition ExecutableAuthorityV1_validate :: "ExecutableAuthorityV1 \<Rightarrow> PolicyError + unit" where
  "ExecutableAuthorityV1_validate self =
     (if ea_role self = [] \<or> \<not> is_absolute (ea_path self) \<or> ea_descriptor_identity self = []
         \<or> ea_byte_length self = 0 \<or> and (ea_mode self) 73 = 0 \<or> and (ea_mode self) 18 \<noteq> 0
         \<or> (ea_owner self \<noteq> 0 \<and> \<not> ea_read_only_filesystem self)
      then Err (InvalidLease ''executable authority is not a trusted immutable source'')
      else Ok ())"

record DelegatedActionV1 =
  da_tool :: string
  da_action_digest :: content_digest
  da_args_digest :: content_digest
  da_effect :: EffectScopeV1
  da_effect_digest :: content_digest
  da_executable_authority :: "ExecutableAuthorityV1 list"

datatype DelegationTransitionV1 = ControlToEffect | ControlToControl

record DelegationCeilingV1 =
  dc_actor :: principal
  dc_policy_version :: string
  dc_run_id :: run_id
  dc_transition :: DelegationTransitionV1
  dc_audiences :: "string list"
  dc_actions :: "DelegatedActionV1 list"
  dc_budget :: PermitBudgetV1
  dc_not_before :: time
  dc_expires_at :: time

record PermitBindingV1 =
  pb_actor :: principal
  pb_action_digest :: content_digest
  pb_effect :: EffectScopeV1
  pb_effect_digest :: content_digest
  pb_budget :: PermitBudgetV1
  pb_policy_version :: string
  pb_parent_permit_id :: "permit_id option"
  pb_parent_operation_id :: "run_id option"
  pb_issued_at :: time
  pb_not_before :: time
  pb_expires_at :: time
  pb_run_id :: run_id
  pb_step_id :: step_id
  pb_tool :: string
  pb_args_digest :: content_digest

datatype PermitPurposeV1 = EffectPurpose | ControlPurpose

record ExecutionPermitV1 =
  xp_permit_id :: permit_id
  xp_binding :: PermitBindingV1
  xp_purpose :: PermitPurposeV1
  xp_delegation_ceiling :: "DelegationCeilingV1 option"
  xp_delegation_identity :: "DelegationIdentityV1 option"
  xp_executable_authority :: "ExecutableAuthorityV1 list"

section \<open>Encodings\<close>

definition effect_scope_json :: "EffectScopeV1 \<Rightarrow> json" where
  "effect_scope_json e =
     JObj [(''network_allowed'', JBool (es_network_allowed e)),
           (''read_roots'', json_of_list JStr (es_read_roots e)),
           (''scope_name'', JStr (es_scope_name e)),
           (''write_roots'', json_of_list JStr (es_write_roots e))]"

definition permit_budget_json :: "PermitBudgetV1 \<Rightarrow> json" where
  "permit_budget_json b =
     JObj [(''max_artifact_bytes'', json_of_word (bg_max_artifact_bytes b)),
           (''max_output_bytes'', json_of_word (bg_max_output_bytes b)),
           (''max_wall_time_ms'', json_of_word (bg_max_wall_time_ms b))]"

definition executable_json :: "env \<Rightarrow> ExecutableAuthorityV1 \<Rightarrow> json" where
  "executable_json E x =
     JObj [(''byte_digest'', digest_json E (ea_byte_digest x)),
           (''byte_length'', json_of_word (ea_byte_length x)),
           (''descriptor_identity'', JStr (ea_descriptor_identity x)),
           (''mode'', json_of_word (ea_mode x)),
           (''owner'', json_of_word (ea_owner x)),
           (''path'', JStr (ea_path x)),
           (''read_only_filesystem'', JBool (ea_read_only_filesystem x)),
           (''role'', JStr (ea_role x))]"

definition delegated_action_json :: "env \<Rightarrow> DelegatedActionV1 \<Rightarrow> json" where
  "delegated_action_json E a =
     JObj [(''action_digest'', digest_json E (da_action_digest a)),
           (''args_digest'', digest_json E (da_args_digest a)),
           (''effect'', effect_scope_json (da_effect a)),
           (''effect_digest'', digest_json E (da_effect_digest a)),
           (''executable_authority'', json_of_list (executable_json E) (da_executable_authority a)),
           (''tool'', JStr (da_tool a))]"

fun transition_name :: "DelegationTransitionV1 \<Rightarrow> string" where
  "transition_name ControlToEffect = ''control_to_effect''"
| "transition_name ControlToControl = ''control_to_control''"

fun purpose_name :: "PermitPurposeV1 \<Rightarrow> string" where
  "purpose_name EffectPurpose = ''effect''"
| "purpose_name ControlPurpose = ''control''"

definition delegation_identity_json :: "DelegationIdentityV1 \<Rightarrow> json" where
  "delegation_identity_json d =
     JObj [(''actor'', JStr (di_actor d)), (''audience'', JStr (di_audience d)),
           (''delegate'', JStr (di_delegate d)), (''depth'', json_of_word (di_depth d))]"

definition ceiling_json :: "env \<Rightarrow> DelegationCeilingV1 \<Rightarrow> json" where
  "ceiling_json E c =
     JObj [(''actions'', json_of_list (delegated_action_json E) (dc_actions c)),
           (''actor'', JStr (dc_actor c)),
           (''audiences'', json_of_list JStr (dc_audiences c)),
           (''budget'', permit_budget_json (dc_budget c)),
           (''expires_at'', time_json E (dc_expires_at c)),
           (''not_before'', time_json E (dc_not_before c)),
           (''policy_version'', JStr (dc_policy_version c)),
           (''run_id'', JStr (dc_run_id c)),
           (''transition'', JStr (transition_name (dc_transition c)))]"

definition permit_binding_json :: "env \<Rightarrow> PermitBindingV1 \<Rightarrow> json" where
  "permit_binding_json E b =
     JObj [(''action_digest'', digest_json E (pb_action_digest b)),
           (''actor'', JStr (pb_actor b)),
           (''args_digest'', digest_json E (pb_args_digest b)),
           (''budget'', permit_budget_json (pb_budget b)),
           (''effect'', effect_scope_json (pb_effect b)),
           (''effect_digest'', digest_json E (pb_effect_digest b)),
           (''expires_at'', time_json E (pb_expires_at b)),
           (''issued_at'', time_json E (pb_issued_at b)),
           (''not_before'', time_json E (pb_not_before b)),
           (''parent_operation_id'', json_of_option JStr (pb_parent_operation_id b)),
           (''parent_permit_id'', json_of_option JStr (pb_parent_permit_id b)),
           (''policy_version'', JStr (pb_policy_version b)),
           (''run_id'', JStr (pb_run_id b)),
           (''step_id'', JStr (pb_step_id b)),
           (''tool'', JStr (pb_tool b))]"

section \<open>Ceilings and bindings\<close>

fun audiences_ok :: "string option \<Rightarrow> string list \<Rightarrow> PolicyError + unit" where
  "audiences_ok prior [] = Ok ()"
| "audiences_ok prior (audience # rest) =
     (if audience = [] \<or> has_control audience
         \<or> (case prior of None \<Rightarrow> False | Some p \<Rightarrow> p \<ge> audience)
      then Err (InvalidLease ''delegation audiences must be nonempty, unique, and sorted'')
      else audiences_ok (Some audience) rest)"

definition open_network_effect :: "string \<Rightarrow> EffectScopeV1 \<Rightarrow> bool" where
  "open_network_effect tool effect =
     (es_network_allowed effect \<and> \<not> is_closed_provider_egress_effect tool effect
      \<and> \<not> is_closed_normal_chat_effect tool effect)"

fun actions_ok :: "env \<Rightarrow> string option \<Rightarrow> DelegatedActionV1 list \<Rightarrow> PolicyError + unit" where
  "actions_ok E prior [] = Ok ()"
| "actions_ok E prior (action # rest) =
     (if da_tool action = [] \<or> es_scope_name (da_effect action) = []
         \<or> open_network_effect (da_tool action) (da_effect action)
      then Err (InvalidLease ''delegation ceiling contains an invalid action'')
      else
        attempt (policy_digest E (effect_scope_json (da_effect action))) (\<lambda>digest.
        if da_effect_digest action \<noteq> digest
        then Err (InvalidLease ''delegation ceiling contains an invalid action'')
        else
          attempt (try_for_each ExecutableAuthorityV1_validate (da_executable_authority action)) (\<lambda>_.
          attempt (policy_digest E (delegated_action_json E action)) (\<lambda>action_key.
            if (case prior of None \<Rightarrow> False | Some p \<Rightarrow> p \<ge> action_key)
            then Err (InvalidLease ''delegation actions must be unique and canonically sorted'')
            else actions_ok E (Some action_key) rest))))"

definition DelegationCeilingV1_validate :: "env \<Rightarrow> DelegationCeilingV1 \<Rightarrow> PolicyError + unit" where
  "DelegationCeilingV1_validate E self =
     (if dc_policy_version self = [] \<or> dc_actions self = [] \<or> dc_audiences self = []
         \<or> dc_not_before self \<ge> dc_expires_at self \<or> budget_has_zero (dc_budget self)
      then Err (InvalidLease ''invalid delegation ceiling'')
      else
        attempt (audiences_ok None (dc_audiences self)) (\<lambda>_. actions_ok E None (dc_actions self)))"

abbreviation unsafe_root :: "string \<Rightarrow> bool" where
  "unsafe_root path \<equiv> (\<not> is_absolute path \<or> has_control path \<or> ParentDir \<in> set (components path))"

definition PermitBindingV1_validate :: "env \<Rightarrow> PermitBindingV1 \<Rightarrow> PolicyError + unit" where
  "PermitBindingV1_validate E self =
     (if pb_policy_version self = [] \<or> pb_tool self = []
      then Err (InvalidLease ''policy version and tool must be nonempty'')
      else if es_scope_name (pb_effect self) = [] \<or> has_control (es_scope_name (pb_effect self))
              \<or> list_ex unsafe_root (es_read_roots (pb_effect self) @ es_write_roots (pb_effect self))
      then Err (InvalidLease ''invalid effect scope'')
      else if open_network_effect (pb_tool self) (pb_effect self) then Err NetworkUnavailable
      else if pb_issued_at self > pb_not_before self \<or> pb_not_before self \<ge> pb_expires_at self
      then Err (InvalidLease ''lease times must satisfy issued <= not-before < expiry'')
      else
        attempt (policy_digest E (effect_scope_json (pb_effect self))) (\<lambda>digest.
          if digest \<noteq> pb_effect_digest self
          then Err (InvalidLease ''effect digest does not bind the complete effect scope'')
          else if budget_has_zero (pb_budget self)
          then Err (InvalidLease ''lease budgets must be nonzero'')
          else Ok ()))"

section \<open>Permit identities\<close>

definition non_temporal_binding_json :: "env \<Rightarrow> PermitBindingV1 \<Rightarrow> json" where
  "non_temporal_binding_json E b =
     JObj [(''action_digest'', digest_json E (pb_action_digest b)),
           (''actor'', JStr (pb_actor b)),
           (''args_digest'', digest_json E (pb_args_digest b)),
           (''budget'', permit_budget_json (pb_budget b)),
           (''effect'', effect_scope_json (pb_effect b)),
           (''effect_digest'', digest_json E (pb_effect_digest b)),
           (''parent_operation_id'', json_of_option JStr (pb_parent_operation_id b)),
           (''parent_permit_id'', json_of_option JStr (pb_parent_permit_id b)),
           (''policy_version'', JStr (pb_policy_version b)),
           (''run_id'', JStr (pb_run_id b)),
           (''step_id'', JStr (pb_step_id b)),
           (''tool'', JStr (pb_tool b))]"

definition binding_identity_material ::
    "env \<Rightarrow> PermitBindingV1 \<Rightarrow> PolicyError + PermitIdentityMaterialV1" where
  "binding_identity_material E self =
     attempt (ok_or (InvalidLease ''negative permit start delay'')
                (try_u64 (num_milliseconds_since (pb_not_before self) (pb_issued_at self)))) (\<lambda>delay.
     attempt (ok_or (InvalidLease ''negative permit validity'')
                (try_u64 (num_milliseconds_since (pb_expires_at self) (pb_not_before self)))) (\<lambda>validity.
     attempt (policy_digest E (non_temporal_binding_json E self)) (\<lambda>digest.
       Ok \<lparr>pim_binding_digest = digest, pim_requested_not_before_delay_ms = delay,
           pim_requested_validity_ms = validity\<rparr>)))"

definition ceiling_identity_json :: "env \<Rightarrow> DelegationCeilingV1 \<Rightarrow> u64 \<Rightarrow> u64 \<Rightarrow> json" where
  "ceiling_identity_json E c delay validity =
     JObj [(''actions'', json_of_list (delegated_action_json E) (dc_actions c)),
           (''actor'', JStr (dc_actor c)),
           (''audiences'', json_of_list JStr (dc_audiences c)),
           (''budget'', permit_budget_json (dc_budget c)),
           (''policy_version'', JStr (dc_policy_version c)),
           (''requested_not_before_delay_ms'', json_of_word delay),
           (''requested_validity_ms'', json_of_word validity),
           (''run_id'', JStr (dc_run_id c)),
           (''transition'', JStr (transition_name (dc_transition c)))]"

definition ceiling_identity ::
    "env \<Rightarrow> PermitBindingV1 \<Rightarrow> DelegationCeilingV1 option \<Rightarrow> PolicyError + json" where
  "ceiling_identity E binding delegation_ceiling =
     (case delegation_ceiling of
        None \<Rightarrow> Ok JNull
      | Some c \<Rightarrow>
          attempt (ok_or (InvalidLease ''negative delegation start delay'')
                     (try_u64 (num_milliseconds_since (dc_not_before c) (pb_issued_at binding)))) (\<lambda>delay.
          attempt (ok_or (InvalidLease ''negative delegation validity'')
                     (try_u64 (num_milliseconds_since (dc_expires_at c) (dc_not_before c)))) (\<lambda>validity.
            Ok (ceiling_identity_json E c delay validity))))"

definition execution_identity_material ::
    "env \<Rightarrow> PermitBindingV1 \<Rightarrow> PermitPurposeV1 \<Rightarrow> DelegationCeilingV1 option \<Rightarrow>
     DelegationIdentityV1 option \<Rightarrow> ExecutableAuthorityV1 list \<Rightarrow>
     PolicyError + PermitIdentityMaterialV1" where
  "execution_identity_material E binding purpose delegation_ceiling delegation_identity
       executable_authority =
     attempt (binding_identity_material E binding) (\<lambda>temporal.
     attempt (ceiling_identity E binding delegation_ceiling) (\<lambda>ceiling.
     attempt (policy_digest E (JObj
       [(''binding'', permit_identity_json E temporal),
        (''delegation_ceiling'', ceiling),
        (''delegation_identity'', json_of_option delegation_identity_json delegation_identity),
        (''executable_authority'', json_of_list (executable_json E) executable_authority),
        (''purpose'', JStr (purpose_name purpose))])) (\<lambda>digest.
       Ok \<lparr>pim_binding_digest = digest,
           pim_requested_not_before_delay_ms = pim_requested_not_before_delay_ms temporal,
           pim_requested_validity_ms = pim_requested_validity_ms temporal\<rparr>)))"

definition permit_identity_material ::
    "env \<Rightarrow> ExecutionPermitV1 \<Rightarrow> PolicyError + PermitIdentityMaterialV1" where
  "permit_identity_material E self =
     execution_identity_material E (xp_binding self) (xp_purpose self) (xp_delegation_ceiling self)
       (xp_delegation_identity self) (xp_executable_authority self)"

definition execution_permit_id ::
    "env \<Rightarrow> PermitBindingV1 \<Rightarrow> PermitPurposeV1 \<Rightarrow> DelegationCeilingV1 option \<Rightarrow>
     DelegationIdentityV1 option \<Rightarrow> ExecutableAuthorityV1 list \<Rightarrow> PolicyError + permit_id" where
  "execution_permit_id E binding purpose ceiling identity executables =
     attempt (execution_identity_material E binding purpose ceiling identity executables) (\<lambda>material.
       map_err PolicyContract (derive_permit_id E material))"

definition ExecutionPermitV1_control ::
    "env \<Rightarrow> PermitBindingV1 \<Rightarrow> DelegationCeilingV1 \<Rightarrow> PolicyError + ExecutionPermitV1" where
  "ExecutionPermitV1_control E binding ceiling =
     (if pb_parent_permit_id binding \<noteq> None
      then Err (InvalidLease ''delegated controls must be issued through DurablePermitStore'')
      else
        attempt (DelegationCeilingV1_validate E ceiling) (\<lambda>_.
        attempt (execution_permit_id E binding ControlPurpose (Some ceiling) None []) (\<lambda>permit_id.
          Ok \<lparr>xp_permit_id = permit_id, xp_binding = binding, xp_purpose = ControlPurpose,
              xp_delegation_ceiling = Some ceiling, xp_delegation_identity = None,
              xp_executable_authority = []\<rparr>)))"

definition ExecutionPermitV1_effect ::
    "env \<Rightarrow> PermitBindingV1 \<Rightarrow> ExecutableAuthorityV1 list \<Rightarrow> PolicyError + ExecutionPermitV1" where
  "ExecutionPermitV1_effect E binding executable_authority =
     (if pb_parent_permit_id binding \<noteq> None
      then Err (InvalidLease ''delegated effects must be issued through DurablePermitStore'')
      else if es_network_allowed (pb_effect binding) then Err NetworkUnavailable
      else
        attempt (execution_permit_id E binding EffectPurpose None None executable_authority) (\<lambda>permit_id.
          Ok \<lparr>xp_permit_id = permit_id, xp_binding = binding, xp_purpose = EffectPurpose,
              xp_delegation_ceiling = None, xp_delegation_identity = None,
              xp_executable_authority = executable_authority\<rparr>))"

section \<open>Permit states and evidence\<close>

datatype PermitRevocationReasonV1 = Operator | ParentRevoked | PolicySuperseded | OperationCancelled

datatype PermitStateV1 =
    PermitIssuedState
  | PermitConsumedState time
  | PermitRevokedState time PermitRevocationReasonV1

datatype PermitEvidenceStateV1 =
    EvidenceIssued
  | EvidenceConsumed time
  | EvidenceRejected time PermitRejectionReasonV1
  | EvidenceRevoked time PermitRevocationReasonV1

type_synonym allocations = "(permit_id, PermitBudgetV1) btmap"

record PermitEvidenceV1 =
  pv_permit_id :: permit_id
  pv_binding :: PermitBindingV1
  pv_binding_digest :: content_digest
  pv_purpose :: PermitPurposeV1
  pv_delegation_ceiling :: "DelegationCeilingV1 option"
  pv_delegation_identity :: "DelegationIdentityV1 option"
  pv_executable_authority :: "ExecutableAuthorityV1 list"
  pv_child_allocations :: allocations
  pv_state :: PermitEvidenceStateV1

datatype ReportedEffectStateV1 = ReportedSucceeded | ReportedFailed | OutcomeAmbiguous

record ReportedEffectOutcomeV1 =
  ro_state :: ReportedEffectStateV1
  ro_duration_ms :: u64
  ro_error_type :: "string option"

record PermitPreflightReceiptV1 =
  pp_permit_id :: permit_id
  pp_evidence :: PermitEvidenceV1
  pp_recorded_at :: time
  pp_receipt_digest :: content_digest

record PermitOutcomeReceiptV1 =
  po_permit_id :: permit_id
  po_preflight_receipt_digest :: content_digest
  po_reported :: ReportedEffectOutcomeV1
  po_recorded_at :: time
  po_receipt_digest :: content_digest

record NormalChatSettlementV1 =
  ns_outcome :: PermitOutcomeReceiptV1
  ns_response :: ArtifactDescriptorV1
  ns_observation :: ArtifactDescriptorV1

record NormalChatAdmissionRequestV1 =
  ar_schema :: string
  ar_lane :: string
  ar_attempt :: NormalChatAttemptV1
  ar_tool_arguments_digest :: content_digest

record PermitRecordV1 =
  pr_permit :: ExecutionPermitV1
  pr_state :: PermitStateV1
  pr_child_allocations :: allocations
  pr_preflight_receipt :: "PermitPreflightReceiptV1 option"
  pr_outcome_receipt :: "PermitOutcomeReceiptV1 option"
  pr_retained_normal_chat_admission :: "NormalChatAdmissionRequestV1 option"
  pr_normal_chat_settlement :: "NormalChatSettlementV1 option"

record AuthorizedContextEvidenceV1 =
  ac_permit_id :: permit_id
  ac_binding_digest :: content_digest
  ac_actor :: principal
  ac_run_id :: run_id
  ac_step_id :: step_id
  ac_tool :: string
  ac_effect_digest :: content_digest
  ac_budget :: PermitBudgetV1
  ac_parent_permit_id :: "permit_id option"
  ac_executable_authority :: "ExecutableAuthorityV1 list"

fun rejection_name :: "PermitRejectionReasonV1 \<Rightarrow> string" where
  "rejection_name NotIssued = ''not_issued''"
| "rejection_name AlreadyConsumed = ''already_consumed''"
| "rejection_name RejectedRevoked = ''revoked''"
| "rejection_name Expired = ''expired''"
| "rejection_name NotYetValid = ''not_yet_valid''"
| "rejection_name WrongActor = ''wrong_actor''"
| "rejection_name WrongAction = ''wrong_action''"
| "rejection_name ChangedEffect = ''changed_effect''"
| "rejection_name BudgetExceeded = ''budget_exceeded''"
| "rejection_name WrongParent = ''wrong_parent''"
| "rejection_name WrongPolicy = ''wrong_policy''"
| "rejection_name WrongOperation = ''wrong_operation''"
| "rejection_name WrongStep = ''wrong_step''"
| "rejection_name WrongTool = ''wrong_tool''"
| "rejection_name WrongArguments = ''wrong_arguments''"
| "rejection_name StateCorrupted = ''state_corrupted''"

fun revocation_name :: "PermitRevocationReasonV1 \<Rightarrow> string" where
  "revocation_name Operator = ''operator''"
| "revocation_name ParentRevoked = ''parent_revoked''"
| "revocation_name PolicySuperseded = ''policy_superseded''"
| "revocation_name OperationCancelled = ''operation_cancelled''"

fun evidence_state_json :: "env \<Rightarrow> PermitEvidenceStateV1 \<Rightarrow> json" where
  "evidence_state_json E EvidenceIssued = JObj [(''state'', JStr ''issued'')]"
| "evidence_state_json E (EvidenceConsumed t) =
     JObj [(''at'', time_json E t), (''state'', JStr ''consumed'')]"
| "evidence_state_json E (EvidenceRejected t r) =
     JObj [(''at'', time_json E t), (''reason'', JStr (rejection_name r)), (''state'', JStr ''rejected'')]"
| "evidence_state_json E (EvidenceRevoked t r) =
     JObj [(''at'', time_json E t), (''reason'', JStr (revocation_name r)), (''state'', JStr ''revoked'')]"

abbreviation allocations_json :: "allocations \<Rightarrow> json" where
  "allocations_json m \<equiv> JObj (map (\<lambda>(k, b). (k, permit_budget_json b)) m)"

definition permit_evidence_json :: "env \<Rightarrow> PermitEvidenceV1 \<Rightarrow> json" where
  "permit_evidence_json E v =
     JObj [(''binding'', permit_binding_json E (pv_binding v)),
           (''binding_digest'', digest_json E (pv_binding_digest v)),
           (''child_allocations'', allocations_json (pv_child_allocations v)),
           (''delegation_ceiling'', json_of_option (ceiling_json E) (pv_delegation_ceiling v)),
           (''delegation_identity'',
              json_of_option delegation_identity_json (pv_delegation_identity v)),
           (''executable_authority'', json_of_list (executable_json E) (pv_executable_authority v)),
           (''permit_id'', JStr (pv_permit_id v)),
           (''purpose'', JStr (purpose_name (pv_purpose v))),
           (''state'', evidence_state_json E (pv_state v))]"

fun reported_state_name :: "ReportedEffectStateV1 \<Rightarrow> string" where
  "reported_state_name ReportedSucceeded = ''succeeded''"
| "reported_state_name ReportedFailed = ''failed''"
| "reported_state_name OutcomeAmbiguous = ''outcome_ambiguous''"

definition reported_json :: "ReportedEffectOutcomeV1 \<Rightarrow> json" where
  "reported_json r =
     JObj [(''duration_ms'', json_of_word (ro_duration_ms r)),
           (''error_type'', json_of_option JStr (ro_error_type r)),
           (''state'', JStr (reported_state_name (ro_state r)))]"

definition evidence_permit :: "PermitEvidenceV1 \<Rightarrow> ExecutionPermitV1" where
  "evidence_permit v =
     \<lparr>xp_permit_id = pv_permit_id v, xp_binding = pv_binding v, xp_purpose = pv_purpose v,
      xp_delegation_ceiling = pv_delegation_ceiling v, xp_delegation_identity = pv_delegation_identity v,
      xp_executable_authority = pv_executable_authority v\<rparr>"

definition derivation_proof_ok :: "string \<Rightarrow> string \<Rightarrow> PermitEvidenceV1 \<Rightarrow> PolicyError + unit" where
  "derivation_proof_ok missing surplus v =
     (case (pb_parent_permit_id (pv_binding v), pv_delegation_identity v) of
        (Some _, Some identity) \<Rightarrow> DelegationIdentityV1_validate identity
      | (Some _, None) \<Rightarrow> Err (InvalidLease missing)
      | (None, Some _) \<Rightarrow> Err (InvalidLease surplus)
      | (None, None) \<Rightarrow> Ok ())"

definition validate_control_evidence :: "env \<Rightarrow> PermitEvidenceV1 \<Rightarrow> PolicyError + unit" where
  "validate_control_evidence E v =
     attempt (ok_or (InvalidLease ''control evidence lacks a delegation ceiling'')
                (pv_delegation_ceiling v)) (\<lambda>c.
     attempt (DelegationCeilingV1_validate E c) (\<lambda>_.
       if pv_executable_authority v \<noteq> [] \<or> dc_actor c \<noteq> pb_actor (pv_binding v)
          \<or> dc_policy_version c \<noteq> pb_policy_version (pv_binding v)
          \<or> dc_run_id c \<noteq> pb_run_id (pv_binding v)
          \<or> dc_not_before c < pb_not_before (pv_binding v)
          \<or> dc_expires_at c > pb_expires_at (pv_binding v)
          \<or> dc_budget c \<noteq> pb_budget (pv_binding v)
       then Err (InvalidLease ''control permit does not bind its delegation ceiling'')
       else derivation_proof_ok ''delegated control permit lacks a derivation proof''
              ''root control permit carries a delegation proof'' v))"

definition validate_effect_evidence :: "PermitEvidenceV1 \<Rightarrow> PolicyError + unit" where
  "validate_effect_evidence v =
     (if pv_delegation_ceiling v \<noteq> None
      then Err (InvalidLease ''effect permit carries a control delegation ceiling'')
      else
        attempt (derivation_proof_ok ''delegated effect permit lacks a derivation proof''
                   ''root effect permit carries a delegation proof'' v) (\<lambda>_.
          try_for_each ExecutableAuthorityV1_validate (pv_executable_authority v)))"

definition validate_evidence_state :: "PermitEvidenceV1 \<Rightarrow> PolicyError + unit" where
  "validate_evidence_state v =
     (case pv_state v of
        EvidenceIssued \<Rightarrow> Ok ()
      | EvidenceConsumed at \<Rightarrow>
          if at < pb_issued_at (pv_binding v) \<or> at < pb_not_before (pv_binding v)
             \<or> at \<ge> pb_expires_at (pv_binding v)
          then Err (InvalidLease ''permit consumption time is outside its validity window'') else Ok ()
      | EvidenceRejected at _ \<Rightarrow>
          if at < pb_issued_at (pv_binding v)
          then Err (InvalidLease ''permit terminal evidence precedes issuance'') else Ok ()
      | EvidenceRevoked at _ \<Rightarrow>
          if at < pb_issued_at (pv_binding v)
          then Err (InvalidLease ''permit terminal evidence precedes issuance'') else Ok ())"

definition PermitEvidenceV1_validate :: "env \<Rightarrow> PermitEvidenceV1 \<Rightarrow> PolicyError + unit" where
  "PermitEvidenceV1_validate E self =
     attempt (PermitBindingV1_validate E (pv_binding self)) (\<lambda>_.
     attempt (policy_digest E (permit_binding_json E (pv_binding self))) (\<lambda>binding_digest.
     if pv_binding_digest self \<noteq> binding_digest
     then Err (InvalidLease ''permit evidence identity or binding digest mismatch'')
     else
       attempt (permit_identity_material E (evidence_permit self)) (\<lambda>material.
       attempt (map_err PolicyContract (derive_permit_id E material)) (\<lambda>permit_id.
       if pv_permit_id self \<noteq> permit_id
       then Err (InvalidLease ''permit evidence identity or binding digest mismatch'')
       else
         attempt (case pv_purpose self of
                    ControlPurpose \<Rightarrow> validate_control_evidence E self
                  | EffectPurpose \<Rightarrow> validate_effect_evidence self) (\<lambda>_.
           validate_evidence_state self)))))"

fun evidence_state :: "PermitStateV1 \<Rightarrow> PermitEvidenceStateV1" where
  "evidence_state PermitIssuedState = EvidenceIssued"
| "evidence_state (PermitConsumedState consumed_at) = EvidenceConsumed consumed_at"
| "evidence_state (PermitRevokedState revoked_at reason) = EvidenceRevoked revoked_at reason"

definition evidence_of ::
    "env \<Rightarrow> ExecutionPermitV1 \<Rightarrow> allocations \<Rightarrow> PermitEvidenceStateV1 \<Rightarrow> PolicyError + PermitEvidenceV1" where
  "evidence_of E permit child_allocations st =
     attempt (policy_digest E (permit_binding_json E (xp_binding permit))) (\<lambda>digest.
       let evidence =
         \<lparr>pv_permit_id = xp_permit_id permit, pv_binding = xp_binding permit, pv_binding_digest = digest,
          pv_purpose = xp_purpose permit, pv_delegation_ceiling = xp_delegation_ceiling permit,
          pv_delegation_identity = xp_delegation_identity permit,
          pv_executable_authority = xp_executable_authority permit,
          pv_child_allocations = child_allocations, pv_state = st\<rparr>
       in attempt (PermitEvidenceV1_validate E evidence) (\<lambda>_. Ok evidence))"

definition PermitEvidenceV1_from_record :: "env \<Rightarrow> PermitRecordV1 \<Rightarrow> PolicyError + PermitEvidenceV1" where
  "PermitEvidenceV1_from_record E record =
     evidence_of E (pr_permit record) (pr_child_allocations record) (evidence_state (pr_state record))"

definition PermitEvidenceV1_rejected ::
    "env \<Rightarrow> ExecutionPermitV1 \<Rightarrow> time \<Rightarrow> PermitRejectionReasonV1 \<Rightarrow> PolicyError + PermitEvidenceV1" where
  "PermitEvidenceV1_rejected E permit at reason =
     evidence_of E permit bt_empty (EvidenceRejected at reason)"

definition validate_consumed_call ::
    "env \<Rightarrow> PermitEvidenceV1 \<Rightarrow> ToolCallSpecV1 \<Rightarrow> PolicyError + unit" where
  "validate_consumed_call E self call =
     attempt (PermitEvidenceV1_validate E self) (\<lambda>_.
     if (case pv_state self of EvidenceConsumed _ \<Rightarrow> False | _ \<Rightarrow> True)
     then Err (rejected (pv_permit_id self) StateCorrupted)
     else if pb_tool (pv_binding self) \<noteq> tc_tool call
     then Err (rejected (pv_permit_id self) WrongTool)
     else
       attempt (policy_digest E (tool_call_json E call)) (\<lambda>action_digest.
       if pb_action_digest (pv_binding self) \<noteq> action_digest
       then Err (rejected (pv_permit_id self) WrongAction)
       else
         attempt (policy_digest E (tc_args call)) (\<lambda>args_digest.
         if pb_args_digest (pv_binding self) \<noteq> args_digest
         then Err (rejected (pv_permit_id self) WrongArguments)
         else Ok ())))"

definition enforce_observation_bounds :: "PermitEvidenceV1 \<Rightarrow> u64 \<Rightarrow> u64 \<Rightarrow> PolicyError + unit" where
  "enforce_observation_bounds self output_bytes artifact_bytes =
     (if output_bytes > bg_max_output_bytes (pb_budget (pv_binding self))
         \<or> artifact_bytes > bg_max_artifact_bytes (pb_budget (pv_binding self))
      then Err (BudgetOverrun ''authorized output or artifact budget exceeded'') else Ok ())"

definition authorized_context_evidence ::
    "env \<Rightarrow> PermitEvidenceV1 \<Rightarrow> PolicyError + AuthorizedContextEvidenceV1" where
  "authorized_context_evidence E self =
     attempt (PermitEvidenceV1_validate E self) (\<lambda>_.
       Ok \<lparr>ac_permit_id = pv_permit_id self, ac_binding_digest = pv_binding_digest self,
           ac_actor = pb_actor (pv_binding self), ac_run_id = pb_run_id (pv_binding self),
           ac_step_id = pb_step_id (pv_binding self), ac_tool = pb_tool (pv_binding self),
           ac_effect_digest = pb_effect_digest (pv_binding self), ac_budget = pb_budget (pv_binding self),
           ac_parent_permit_id = pb_parent_permit_id (pv_binding self),
           ac_executable_authority = pv_executable_authority self\<rparr>)"

section \<open>Receipts of a permit\<close>

definition ReportedEffectOutcomeV1_validate :: "ReportedEffectOutcomeV1 \<Rightarrow> PolicyError + unit" where
  "ReportedEffectOutcomeV1_validate self =
     (if (case ro_error_type self of
            None \<Rightarrow> False
          | Some value \<Rightarrow> value = [] \<or> length value > 256 \<or> has_control value)
      then Err (InvalidLease ''invalid reported effect error type'')
      else if ro_state self = ReportedSucceeded \<and> ro_error_type self \<noteq> None
      then Err (InvalidLease ''successful reported effect must not carry an error type'')
      else Ok ())"

abbreviation preflight_digest ::
    "env \<Rightarrow> permit_id \<Rightarrow> PermitEvidenceV1 \<Rightarrow> time \<Rightarrow> PolicyError + content_digest" where
  "preflight_digest E permit_id evidence recorded_at \<equiv>
     policy_digest E (JArr [JStr permit_id, permit_evidence_json E evidence, time_json E recorded_at])"

definition PermitPreflightReceiptV1_create ::
    "env \<Rightarrow> PermitEvidenceV1 \<Rightarrow> time \<Rightarrow> PolicyError + PermitPreflightReceiptV1" where
  "PermitPreflightReceiptV1_create E evidence recorded_at =
     attempt (PermitEvidenceV1_validate E evidence) (\<lambda>_.
     attempt (preflight_digest E (pv_permit_id evidence) evidence recorded_at) (\<lambda>digest.
       Ok \<lparr>pp_permit_id = pv_permit_id evidence, pp_evidence = evidence, pp_recorded_at = recorded_at,
           pp_receipt_digest = digest\<rparr>))"

definition PermitPreflightReceiptV1_validate ::
    "env \<Rightarrow> PermitPreflightReceiptV1 \<Rightarrow> PolicyError + unit" where
  "PermitPreflightReceiptV1_validate E self =
     attempt (PermitEvidenceV1_validate E (pp_evidence self)) (\<lambda>_.
     if pp_permit_id self \<noteq> pv_permit_id (pp_evidence self)
     then Err (InvalidLease ''invalid permit preflight receipt'')
     else
       attempt (preflight_digest E (pp_permit_id self) (pp_evidence self) (pp_recorded_at self)) (\<lambda>digest.
         if pp_receipt_digest self \<noteq> digest
         then Err (InvalidLease ''invalid permit preflight receipt'') else Ok ()))"

abbreviation outcome_digest ::
    "env \<Rightarrow> permit_id \<Rightarrow> content_digest \<Rightarrow> ReportedEffectOutcomeV1 \<Rightarrow> time \<Rightarrow>
     PolicyError + content_digest" where
  "outcome_digest E permit_id preflight reported recorded_at \<equiv>
     policy_digest E (JArr [JStr permit_id, digest_json E preflight, reported_json reported,
                            time_json E recorded_at])"

definition PermitOutcomeReceiptV1_create ::
    "env \<Rightarrow> permit_id \<Rightarrow> content_digest \<Rightarrow> ReportedEffectOutcomeV1 \<Rightarrow> time \<Rightarrow>
     PolicyError + PermitOutcomeReceiptV1" where
  "PermitOutcomeReceiptV1_create E permit_id preflight reported recorded_at =
     attempt (ReportedEffectOutcomeV1_validate reported) (\<lambda>_.
     attempt (outcome_digest E permit_id preflight reported recorded_at) (\<lambda>digest.
       Ok \<lparr>po_permit_id = permit_id, po_preflight_receipt_digest = preflight, po_reported = reported,
           po_recorded_at = recorded_at, po_receipt_digest = digest\<rparr>))"

definition PermitOutcomeReceiptV1_validate ::
    "env \<Rightarrow> PermitOutcomeReceiptV1 \<Rightarrow> PolicyError + unit" where
  "PermitOutcomeReceiptV1_validate E self =
     attempt (ReportedEffectOutcomeV1_validate (po_reported self)) (\<lambda>_.
     attempt (outcome_digest E (po_permit_id self) (po_preflight_receipt_digest self) (po_reported self)
                (po_recorded_at self)) (\<lambda>digest.
       if po_receipt_digest self \<noteq> digest
       then Err (InvalidLease ''invalid permit outcome receipt'') else Ok ()))"

definition validate_receipt_bindings :: "env \<Rightarrow> PermitRecordV1 \<Rightarrow> PolicyError + unit" where
  "validate_receipt_bindings E self =
     (let corrupt = rejected (xp_permit_id (pr_permit self)) StateCorrupted in
      case pr_preflight_receipt self of
        None \<Rightarrow> if pr_outcome_receipt self = None then Ok () else Err corrupt
      | Some preflight \<Rightarrow>
          (case pr_state self of
             PermitConsumedState consumed_at \<Rightarrow>
               attempt (map_err (\<lambda>_. corrupt) (PermitPreflightReceiptV1_validate E preflight)) (\<lambda>_.
               if pp_permit_id preflight \<noteq> xp_permit_id (pr_permit self)
                  \<or> pp_recorded_at preflight \<noteq> consumed_at
               then Err corrupt
               else
                 attempt (map_err (\<lambda>_. corrupt) (PermitEvidenceV1_from_record E self)) (\<lambda>evidence.
                 if pp_evidence preflight \<noteq> evidence then Err corrupt
                 else
                   (case pr_outcome_receipt self of
                      None \<Rightarrow> Ok ()
                    | Some outcome \<Rightarrow>
                        attempt (map_err (\<lambda>_. corrupt) (PermitOutcomeReceiptV1_validate E outcome)) (\<lambda>_.
                        if po_permit_id outcome \<noteq> xp_permit_id (pr_permit self)
                           \<or> po_preflight_receipt_digest outcome \<noteq> pp_receipt_digest preflight
                           \<or> po_recorded_at outcome < pp_recorded_at preflight
                        then Err corrupt else Ok ()))))
           | _ \<Rightarrow> Err corrupt))"

section \<open>Dispatch and delegation\<close>

definition validate_dispatch ::
    "permit_id \<Rightarrow> PermitRecordV1 \<Rightarrow> PermitBindingV1 \<Rightarrow> time \<Rightarrow> PolicyError + unit" where
  "validate_dispatch permit_id record dispatch now =
     (let authorized = xp_binding (pr_permit record) in
      case pr_state record of
        PermitConsumedState _ \<Rightarrow> Err (rejected permit_id AlreadyConsumed)
      | PermitRevokedState _ _ \<Rightarrow> Err (rejected permit_id RejectedRevoked)
      | PermitIssuedState \<Rightarrow>
          if now < pb_not_before authorized then Err (rejected permit_id NotYetValid)
          else if now \<ge> pb_expires_at authorized then Err (rejected permit_id Expired)
          else if pb_actor dispatch \<noteq> pb_actor authorized then Err (rejected permit_id WrongActor)
          else if pb_action_digest dispatch \<noteq> pb_action_digest authorized
          then Err (rejected permit_id WrongAction)
          else if pb_effect dispatch \<noteq> pb_effect authorized
                  \<or> pb_effect_digest dispatch \<noteq> pb_effect_digest authorized
          then Err (rejected permit_id ChangedEffect)
          else if \<not> is_within (pb_budget dispatch) (pb_budget authorized)
          then Err (rejected permit_id BudgetExceeded)
          else if pb_parent_permit_id dispatch \<noteq> pb_parent_permit_id authorized
          then Err (rejected permit_id WrongParent)
          else if pb_parent_operation_id dispatch \<noteq> pb_parent_operation_id authorized
          then Err (rejected permit_id WrongParent)
          else if pb_policy_version dispatch \<noteq> pb_policy_version authorized
          then Err (rejected permit_id WrongPolicy)
          else if pb_run_id dispatch \<noteq> pb_run_id authorized then Err (rejected permit_id WrongOperation)
          else if pb_step_id dispatch \<noteq> pb_step_id authorized then Err (rejected permit_id WrongStep)
          else if pb_tool dispatch \<noteq> pb_tool authorized then Err (rejected permit_id WrongTool)
          else if pb_args_digest dispatch \<noteq> pb_args_digest authorized
          then Err (rejected permit_id WrongArguments)
          else if pb_issued_at dispatch \<noteq> pb_issued_at authorized
                  \<or> pb_not_before dispatch \<noteq> pb_not_before authorized
                  \<or> pb_expires_at dispatch \<noteq> pb_expires_at authorized
          then Err (rejected permit_id WrongAction)
          else Ok ())"

definition derive_delegation_identity ::
    "ExecutionPermitV1 \<Rightarrow> PermitBindingV1 \<Rightarrow> PolicyError + DelegationIdentityV1" where
  "derive_delegation_identity parent child_binding =
     (let parent_depth = (case xp_delegation_identity parent of None \<Rightarrow> 0 | Some i \<Rightarrow> di_depth i) in
      attempt (ok_or (InvalidLease ''delegation depth overflow'') (checked_add parent_depth 1)) (\<lambda>depth.
        let identity =
          \<lparr>di_actor = pb_actor (xp_binding parent), di_delegate = pb_actor child_binding,
           di_audience = pb_tool child_binding, di_depth = depth\<rparr>
        in attempt (DelegationIdentityV1_validate identity) (\<lambda>_. Ok identity)))"

record NormalChatFamilyReservationV1 =
  nf_parent_permit_id :: permit_id
  nf_operation_digest :: content_digest
  nf_max_attempts :: u32
  nf_attempt_number :: u32
  nf_attempt_id :: attempt_id

definition roots_subset :: "string list \<Rightarrow> string list \<Rightarrow> bool" where
  "roots_subset child_roots parent_roots = list_all (\<lambda>root. root \<in> set parent_roots) child_roots"

definition lineage_mismatch ::
    "ExecutionPermitV1 \<Rightarrow> ExecutionPermitV1 \<Rightarrow> DelegationCeilingV1 \<Rightarrow> DelegationIdentityV1 \<Rightarrow> bool \<Rightarrow>
     time \<Rightarrow> bool" where
  "lineage_mismatch child parent c expected parent_is_active now =
     (let cb = xp_binding child; pb = xp_binding parent in
      \<not> parent_is_active \<or> xp_purpose parent \<noteq> ControlPurpose
      \<or> xp_delegation_identity child \<noteq> Some expected
      \<or> now < pb_not_before pb \<or> now \<ge> pb_expires_at pb
      \<or> now < dc_not_before c \<or> now \<ge> dc_expires_at c
      \<or> pb_parent_permit_id cb \<noteq> Some (xp_permit_id parent)
      \<or> pb_parent_operation_id cb \<noteq> Some (pb_run_id pb)
      \<or> pb_run_id cb \<noteq> pb_run_id pb \<or> pb_run_id cb \<noteq> dc_run_id c
      \<or> pb_actor cb \<noteq> pb_actor pb \<or> pb_actor cb \<noteq> dc_actor c
      \<or> pb_policy_version cb \<noteq> pb_policy_version pb \<or> pb_policy_version cb \<noteq> dc_policy_version c
      \<or> pb_not_before cb < pb_not_before pb \<or> pb_not_before cb < dc_not_before c
      \<or> pb_expires_at cb > pb_expires_at pb \<or> pb_expires_at cb > dc_expires_at c
      \<or> \<not> is_within (pb_budget cb) (dc_budget c))"

definition delegated_action ::
    "ExecutionPermitV1 \<Rightarrow> ExecutionPermitV1 \<Rightarrow> DelegationCeilingV1 \<Rightarrow>
     NormalChatFamilyReservationV1 option \<Rightarrow> DelegatedActionV1 option" where
  "delegated_action child parent c family =
     (let cb = xp_binding child;
          exact_action = List.find (\<lambda>a. da_tool a = pb_tool cb \<and> da_action_digest a = pb_action_digest cb
                                        \<and> da_args_digest a = pb_args_digest cb) (dc_actions c);
          family_retry = (case family of
              None \<Rightarrow> False
            | Some f \<Rightarrow> nf_parent_permit_id f = xp_permit_id parent \<and> pb_tool cb = NORMAL_CHAT_LANE
                        \<and> is_closed_normal_chat_effect (pb_tool cb) (pb_effect cb))
      in case exact_action of
           Some a \<Rightarrow> Some a
         | None \<Rightarrow>
             if family_retry
             then List.find (\<lambda>a. da_tool a = NORMAL_CHAT_LANE \<and> da_effect a = pb_effect cb
                                 \<and> da_effect_digest a = pb_effect_digest cb) (dc_actions c)
             else None)"

definition validate_effect_child ::
    "env \<Rightarrow> ExecutionPermitV1 \<Rightarrow> ExecutionPermitV1 \<Rightarrow> DelegationCeilingV1 \<Rightarrow>
     NormalChatFamilyReservationV1 option \<Rightarrow> PolicyError + unit" where
  "validate_effect_child E child parent c family =
     (let cb = xp_binding child in
      case delegated_action child parent c family of
        None \<Rightarrow> Err (rejected (xp_permit_id child) WrongAction)
      | Some a \<Rightarrow>
          if dc_transition c \<noteq> ControlToEffect \<or> xp_delegation_ceiling child \<noteq> None
             \<or> pb_tool cb \<notin> set (dc_audiences c)
             \<or> es_scope_name (pb_effect cb) \<noteq> es_scope_name (da_effect a)
             \<or> es_network_allowed (pb_effect cb) \<noteq> es_network_allowed (da_effect a)
             \<or> \<not> roots_subset (es_read_roots (pb_effect cb)) (es_read_roots (da_effect a))
             \<or> \<not> roots_subset (es_write_roots (pb_effect cb)) (es_write_roots (da_effect a))
          then Err (rejected (xp_permit_id child) WrongParent)
          else
            attempt (policy_digest E (effect_scope_json (pb_effect cb))) (\<lambda>digest.
              if pb_effect_digest cb \<noteq> digest
                 \<or> xp_executable_authority child \<noteq> da_executable_authority a
              then Err (rejected (xp_permit_id child) WrongParent) else Ok ()))"

definition validate_control_child ::
    "env \<Rightarrow> ExecutionPermitV1 \<Rightarrow> DelegationCeilingV1 \<Rightarrow> PolicyError + unit" where
  "validate_control_child E child c =
     (let cb = xp_binding child in
      attempt (ok_or (rejected (xp_permit_id child) WrongParent) (xp_delegation_ceiling child)) (\<lambda>cc.
      attempt (DelegationCeilingV1_validate E cc) (\<lambda>_.
        let actions_within_parent = list_all (\<lambda>a. a \<in> set (dc_actions c)) (dc_actions cc);
            audiences_within_parent =
              list_all (\<lambda>audience. list_ex (\<lambda>a. da_tool a = audience) (dc_actions c)) (dc_audiences cc);
            strict_subset = (length (dc_actions cc) < length (dc_actions c) \<or> dc_budget cc \<noteq> dc_budget c
                             \<or> dc_not_before cc > dc_not_before c \<or> dc_expires_at cc < dc_expires_at c)
        in if dc_transition c \<noteq> ControlToControl \<or> pb_tool cb \<notin> set (dc_audiences c)
              \<or> dc_actor cc \<noteq> pb_actor cb \<or> dc_policy_version cc \<noteq> pb_policy_version cb
              \<or> dc_run_id cc \<noteq> pb_run_id cb
              \<or> dc_not_before cc < dc_not_before c \<or> dc_expires_at cc > dc_expires_at c
              \<or> \<not> is_within (dc_budget cc) (dc_budget c)
              \<or> \<not> actions_within_parent \<or> \<not> audiences_within_parent \<or> \<not> strict_subset
           then Err (rejected (xp_permit_id child) WrongParent) else Ok ())))"

definition validate_parent_permits ::
    "env \<Rightarrow> ExecutionPermitV1 \<Rightarrow> ExecutionPermitV1 \<Rightarrow> bool \<Rightarrow> time \<Rightarrow>
     NormalChatFamilyReservationV1 option \<Rightarrow> PolicyError + unit" where
  "validate_parent_permits E child parent parent_is_active now family =
     attempt (ok_or (rejected (xp_permit_id child) WrongParent) (xp_delegation_ceiling parent)) (\<lambda>c.
     attempt (derive_delegation_identity parent (xp_binding child)) (\<lambda>expected_identity.
       if lineage_mismatch child parent c expected_identity parent_is_active now
       then Err (rejected (xp_permit_id child) WrongParent)
       else
         (case xp_purpose child of
            EffectPurpose \<Rightarrow> validate_effect_child E child parent c family
          | ControlPurpose \<Rightarrow> validate_control_child E child c)))"

definition validate_parent_binding_with_normal_chat_family ::
    "env \<Rightarrow> ExecutionPermitV1 \<Rightarrow> PermitRecordV1 \<Rightarrow> time \<Rightarrow> NormalChatFamilyReservationV1 option \<Rightarrow>
     PolicyError + unit" where
  "validate_parent_binding_with_normal_chat_family E child parent now family =
     validate_parent_permits E child (pr_permit parent) (pr_state parent = PermitIssuedState) now family"

definition validate_parent_binding ::
    "env \<Rightarrow> ExecutionPermitV1 \<Rightarrow> PermitRecordV1 \<Rightarrow> time \<Rightarrow> PolicyError + unit" where
  "validate_parent_binding E child parent now =
     validate_parent_binding_with_normal_chat_family E child parent now None"

definition validate_delegation_evidence ::
    "env \<Rightarrow> PermitEvidenceV1 \<Rightarrow> PermitEvidenceV1 \<Rightarrow> time \<Rightarrow> PolicyError + unit" where
  "validate_delegation_evidence E parent child at =
     attempt (PermitEvidenceV1_validate E parent) (\<lambda>_.
     attempt (PermitEvidenceV1_validate E child) (\<lambda>_.
       validate_parent_permits E (evidence_permit child) (evidence_permit parent)
         (pv_state parent = EvidenceIssued) at None))"

definition validate_delegation_attenuation ::
    "env \<Rightarrow> PermitEvidenceV1 \<Rightarrow> PermitEvidenceV1 \<Rightarrow> time \<Rightarrow> PolicyError + unit" where
  "validate_delegation_attenuation E parent child at = validate_delegation_evidence E parent child at"

section \<open>Allowlist and lineage\<close>

record Allowlist =
  al_allowed :: "string set"
  al_max_arg_bytes :: nat
  al_policy_version :: string

definition Allowlist_default :: Allowlist where
  "Allowlist_default =
     \<lparr>al_allowed = {''echo'', ''time_now'', ''repo_audit'', ''shell''}, al_max_arg_bytes = 16 * 1024,
      al_policy_version = ''m0-2''\<rparr>"

definition validate_policy_version :: "Allowlist \<Rightarrow> string \<Rightarrow> PolicyError + unit" where
  "validate_policy_version self submitted =
     (if submitted \<noteq> al_policy_version self
      then Err (PolicyVersionMismatch submitted (al_policy_version self)) else Ok ())"

abbreviation asks_network :: "json \<Rightarrow> bool" where
  "asks_network args \<equiv> (Option.bind (json_get args ''allow_network'') as_bool = Some True)"

definition validate_phase_one_boundary :: "Allowlist \<Rightarrow> RunSpecV1 \<Rightarrow> PolicyError + unit" where
  "validate_phase_one_boundary self spec =
     attempt (validate_policy_version self (rs_policy_version spec)) (\<lambda>_.
       if list_ex (\<lambda>step. asks_network (tc_args (ss_call step))) (rs_steps spec)
       then Err NetworkUnavailable else Ok ())"

text \<open>The number of bytes \<open>serde_json::to_vec\<close> writes for a value is an argument.\<close>

definition Allowlist_authorize ::
    "(json \<Rightarrow> nat) \<Rightarrow> Allowlist \<Rightarrow> RunSpecV1 \<Rightarrow> ToolCallSpecV1 \<Rightarrow> PolicyError + unit" where
  "Allowlist_authorize encoded_len self spec call =
     attempt (validate_policy_version self (rs_policy_version spec)) (\<lambda>_.
       if tc_tool call \<notin> al_allowed self then Err (ToolNotAllowed (tc_tool call))
       else if encoded_len (tc_args call) > al_max_arg_bytes self
       then Err (ArgsTooLarge (encoded_len (tc_args call)) (al_max_arg_bytes self))
       else if tc_tool call = ''time_now'' \<and> tc_frozen_clock call = None \<and> rs_frozen_clock spec = None
       then Err (FrozenClockRequired (tc_tool call))
       else if asks_network (tc_args call) then Err NetworkUnavailable
       else Ok ())"

abbreviation lineage_entry ::
    "LineageOrigin \<Rightarrow> permit_id option \<Rightarrow> string \<Rightarrow> AuthorityLineageEntryV1" where
  "lineage_entry origin permit_id policy_version \<equiv>
     \<lparr>lin_origin = origin, lin_principal = ''recursive-agent'', lin_permit_id = permit_id,
      lin_policy_version = policy_version\<rparr>"

definition build_lineage :: "permit_id \<Rightarrow> string \<Rightarrow> AuthorityLineageEntryV1 list" where
  "build_lineage permit_id policy_version =
     [lineage_entry OriginRequest None policy_version, lineage_entry OriginPlan None policy_version,
      lineage_entry OriginPolicy (Some permit_id) policy_version,
      lineage_entry OriginTool (Some permit_id) policy_version,
      lineage_entry OriginEffect (Some permit_id) policy_version]"

definition assert_lineage_for_receipt :: "env \<Rightarrow> ReceiptV1 \<Rightarrow> PolicyError + unit" where
  "assert_lineage_for_receipt E receipt = map_err PolicyContract (validate_material E receipt)"

end
