(* ===== verification/Admission.thy ===== *)
theory Admission
  imports Permits
begin

text \<open>
  Current-policy admission of \<open>recursive-agent-policy/src/lib.rs\<close>: provider-egress admission,
  normal-chat admission and its reauthorisation, and the normal-chat attempt family.  The injected
  verifiers (the two traits) are arguments: a contract version and a decision.
\<close>

section \<open>Credential-like material\<close>

fun contains :: "string \<Rightarrow> string \<Rightarrow> bool" where
  "contains [] sub = (sub = [])"
| "contains (c # cs) sub = (is_prefix sub (c # cs) \<or> contains cs sub)"

definition to_ascii_lowercase :: "string \<Rightarrow> string" where
  "to_ascii_lowercase s = map (\<lambda>c. if is_ascii_uppercase c then char_of (byte_of c + 32) else c) s"

definition looks_like_credential_material :: "string \<Rightarrow> bool" where
  "looks_like_credential_material value =
     (let normalized = to_ascii_lowercase value in
      CHR ''@'' \<in> set value \<or> CHR ''?'' \<in> set value \<or> CHR ''#'' \<in> set value
      \<or> contains normalized ''token'' \<or> contains normalized ''secret''
      \<or> contains normalized ''password'' \<or> contains normalized ''credential'')"

section \<open>Provider egress\<close>

abbreviation PROVIDER_EGRESS_ADMISSION_SCHEMA :: string where
  "PROVIDER_EGRESS_ADMISSION_SCHEMA \<equiv> ''recursive-agent.provider-egress-admission/v1''"
abbreviation PROVIDER_EGRESS_ADMISSION_EVIDENCE_SCHEMA :: string where
  "PROVIDER_EGRESS_ADMISSION_EVIDENCE_SCHEMA \<equiv> ''recursive-agent.provider-egress-admission-evidence/v1''"
abbreviation DEFAULT_PROVIDER_EGRESS_VERIFIER_CONTRACT :: string where
  "DEFAULT_PROVIDER_EGRESS_VERIFIER_CONTRACT \<equiv> ''recursive-agent.provider-egress-verifier/v1''"

record ProviderEgressAdmissionRequestV1 =
  qr_schema :: string
  qr_lane :: string
  qr_binding :: ProviderEgressBindingV1
  qr_request_digest :: content_digest
  qr_tool_arguments_digest :: content_digest

record ProviderEgressAdmissionEvidenceV1 =
  qe_schema :: string
  qe_verifier_contract :: string
  qe_binding :: ProviderEgressBindingV1
  qe_request_digest :: content_digest
  qe_tool_arguments_digest :: content_digest
  qe_verified_at :: time

record ValidatedProviderEgressAdmissionV1 =
  qv_request :: ProviderEgressAdmissionRequestV1
  qv_verified_at :: time
  qv_verifier_contract :: string

record ProviderEgressAdmissionVerifier =
  egress_contract_version :: string
  egress_authorize :: "ValidatedProviderEgressAdmissionV1 \<Rightarrow> PolicyError + unit"

definition egress_validate_shape :: "ProviderEgressAdmissionRequestV1 \<Rightarrow> PolicyError + unit" where
  "egress_validate_shape self =
     (if qr_schema self \<noteq> PROVIDER_EGRESS_ADMISSION_SCHEMA
      then Err (InvalidLease ''unsupported provider-egress admission schema'')
      else if qr_lane self \<noteq> SEALED_COMPLETION_LANE then Err (ToolNotAllowed (qr_lane self))
      else Ok ())"

definition ProviderEgressAdmissionRequestV1_new ::
    "string \<Rightarrow> ProviderEgressBindingV1 \<Rightarrow> content_digest \<Rightarrow> content_digest \<Rightarrow>
     PolicyError + ProviderEgressAdmissionRequestV1" where
  "ProviderEgressAdmissionRequestV1_new lane binding request_digest tool_arguments_digest =
     (let request = \<lparr>qr_schema = PROVIDER_EGRESS_ADMISSION_SCHEMA, qr_lane = lane, qr_binding = binding,
                     qr_request_digest = request_digest,
                     qr_tool_arguments_digest = tool_arguments_digest\<rparr>
      in attempt (egress_validate_shape request) (\<lambda>_. Ok request))"

abbreviation egress_credential_free :: "string \<times> string \<Rightarrow> PolicyError + unit" where
  "egress_credential_free \<equiv> (\<lambda>(name, value).
     if looks_like_credential_material value
     then Err (InvalidLease
       (''provider-egress admission '' @ name @ '' contains credential-like material''))
     else Ok ())"

definition egress_request_validate_at ::
    "env \<Rightarrow> ProviderEgressAdmissionRequestV1 \<Rightarrow> time \<Rightarrow> PolicyError + unit" where
  "egress_request_validate_at E self now =
     attempt (egress_validate_shape self) (\<lambda>_.
     attempt (map_err PolicyContract (validate_at E (qr_binding self) now)) (\<lambda>_.
       if qr_request_digest self \<noteq> eb_request_digest (qr_binding self)
       then Err (InvalidLease
         ''provider-egress admission request digest does not match the sealed binding'')
       else try_for_each egress_credential_free
              [(''provider_identity'', eb_provider_identity (qr_binding self)),
               (''model_ref'', eb_model_ref (qr_binding self))]))"

abbreviation invalid_verifier_contract :: "string \<Rightarrow> bool" where
  "invalid_verifier_contract c \<equiv>
     (c = [] \<or> length c > 4096 \<or> looks_like_credential_material c)"

definition ProviderEgressAdmissionEvidenceV1_validate ::
    "env \<Rightarrow> ProviderEgressAdmissionEvidenceV1 \<Rightarrow> PolicyError + unit" where
  "ProviderEgressAdmissionEvidenceV1_validate E self =
     (if qe_schema self \<noteq> PROVIDER_EGRESS_ADMISSION_EVIDENCE_SCHEMA
         \<or> invalid_verifier_contract (qe_verifier_contract self)
         \<or> qe_request_digest self \<noteq> eb_request_digest (qe_binding self)
         \<or> qe_verified_at self \<ge> eb_not_after (qe_binding self)
      then Err (InvalidLease ''invalid provider-egress admission evidence'')
      else map_err PolicyContract (validate_structure E (qe_binding self)))"

definition egress_admission_evidence ::
    "env \<Rightarrow> ValidatedProviderEgressAdmissionV1 \<Rightarrow> PolicyError + ProviderEgressAdmissionEvidenceV1" where
  "egress_admission_evidence E self =
     (let evidence =
        \<lparr>qe_schema = PROVIDER_EGRESS_ADMISSION_EVIDENCE_SCHEMA,
         qe_verifier_contract = qv_verifier_contract self, qe_binding = qr_binding (qv_request self),
         qe_request_digest = qr_request_digest (qv_request self),
         qe_tool_arguments_digest = qr_tool_arguments_digest (qv_request self),
         qe_verified_at = qv_verified_at self\<rparr>
      in attempt (ProviderEgressAdmissionEvidenceV1_validate E evidence) (\<lambda>_. Ok evidence))"

definition authorize_provider_egress ::
    "env \<Rightarrow> ProviderEgressAdmissionVerifier \<Rightarrow> ProviderEgressAdmissionRequestV1 \<Rightarrow> time \<Rightarrow>
     PolicyError + ValidatedProviderEgressAdmissionV1" where
  "authorize_provider_egress E verifier request now =
     attempt (egress_request_validate_at E request now) (\<lambda>_.
       if invalid_verifier_contract (egress_contract_version verifier)
       then Err (InvalidLease ''invalid provider-egress verifier contract identity'')
       else
         (let admission = \<lparr>qv_request = request, qv_verified_at = now,
                           qv_verifier_contract = egress_contract_version verifier\<rparr>
          in attempt (egress_authorize verifier admission) (\<lambda>_. Ok admission)))"

definition DenyProviderEgressAdmission :: ProviderEgressAdmissionVerifier where
  "DenyProviderEgressAdmission =
     \<lparr>egress_contract_version = DEFAULT_PROVIDER_EGRESS_VERIFIER_CONTRACT,
      egress_authorize = (\<lambda>_. Err NetworkUnavailable)\<rparr>"

section \<open>Normal chat\<close>

abbreviation NORMAL_CHAT_ADMISSION_SCHEMA :: string where
  "NORMAL_CHAT_ADMISSION_SCHEMA \<equiv> ''recursive-agent.normal-chat-admission/v1''"
abbreviation DEFAULT_NORMAL_CHAT_VERIFIER_CONTRACT :: string where
  "DEFAULT_NORMAL_CHAT_VERIFIER_CONTRACT \<equiv> ''recursive-agent.normal-chat-verifier/v1''"
abbreviation MAX_LIVE_LEASE_MILLISECONDS :: int where
  "MAX_LIVE_LEASE_MILLISECONDS \<equiv> 300000"

record NormalChatPolicyValidityV1 =
  nv_not_before :: time
  nv_not_after :: time

record ValidatedNormalChatAdmissionV1 =
  va_request :: NormalChatAdmissionRequestV1
  va_verified_at :: time
  va_expires_at :: time
  va_verifier_contract :: string

record NormalChatAdmissionVerifier =
  chat_contract_version :: string
  chat_authorize :: "ValidatedNormalChatAdmissionV1 \<Rightarrow> PolicyError + NormalChatPolicyValidityV1"

definition chat_validate_shape :: "NormalChatAdmissionRequestV1 \<Rightarrow> PolicyError + unit" where
  "chat_validate_shape self =
     (if ar_schema self \<noteq> NORMAL_CHAT_ADMISSION_SCHEMA
      then Err (InvalidLease ''unsupported normal-chat admission schema'')
      else if ar_lane self \<noteq> NORMAL_CHAT_LANE then Err (ToolNotAllowed (ar_lane self))
      else Ok ())"

definition NormalChatAdmissionRequestV1_new ::
    "string \<Rightarrow> NormalChatAttemptV1 \<Rightarrow> content_digest \<Rightarrow> PolicyError + NormalChatAdmissionRequestV1" where
  "NormalChatAdmissionRequestV1_new lane att tool_arguments_digest =
     (let request = \<lparr>ar_schema = NORMAL_CHAT_ADMISSION_SCHEMA, ar_lane = lane, ar_attempt = att,
                     ar_tool_arguments_digest = tool_arguments_digest\<rparr>
      in attempt (chat_validate_shape request) (\<lambda>_. Ok request))"

abbreviation chat_credential_free :: "string \<times> string \<Rightarrow> PolicyError + unit" where
  "chat_credential_free \<equiv> (\<lambda>(name, value).
     if looks_like_credential_material value
     then Err (InvalidLease (''normal-chat admission '' @ name @ '' contains credential-like material''))
     else Ok ())"

definition chat_validate_structure ::
    "env \<Rightarrow> NormalChatAdmissionRequestV1 \<Rightarrow> PolicyError + unit" where
  "chat_validate_structure E self =
     attempt (chat_validate_shape self) (\<lambda>_.
     attempt (map_err PolicyContract (NormalChatAttemptV1_validate E (ar_attempt self))) (\<lambda>_.
       try_for_each chat_credential_free
         [(''provider_identity'', nc_provider_identity (na_operation (ar_attempt self))),
          (''model_ref'', nc_model_ref (na_operation (ar_attempt self)))]))"

definition authorize_normal_chat ::
    "env \<Rightarrow> NormalChatAdmissionVerifier \<Rightarrow> NormalChatAdmissionRequestV1 \<Rightarrow> time \<Rightarrow>
     PolicyError + ValidatedNormalChatAdmissionV1" where
  "authorize_normal_chat E verifier request now =
     attempt (chat_validate_structure E request) (\<lambda>_.
       if invalid_verifier_contract (chat_contract_version verifier)
       then Err (InvalidLease ''invalid normal-chat verifier contract identity'')
       else
         (let admission = \<lparr>va_request = request, va_verified_at = now, va_expires_at = now,
                           va_verifier_contract = chat_contract_version verifier\<rparr>
          in attempt (chat_authorize verifier admission) (\<lambda>validity.
               if nv_not_before validity > now \<or> nv_not_after validity \<le> now
                  \<or> nv_not_after validity \<le> nv_not_before validity
                  \<or> nv_not_after validity - nv_not_before validity
                      > MAX_LIVE_LEASE_MILLISECONDS * 1000000
               then Err (InvalidLease ''normal-chat policy validity window rejected'')
               else Ok (admission\<lparr>va_expires_at := nv_not_after validity\<rparr>))))"

definition reauthorize_normal_chat ::
    "env \<Rightarrow> NormalChatAdmissionVerifier \<Rightarrow> ValidatedNormalChatAdmissionV1 \<Rightarrow>
     NormalChatAdmissionRequestV1 \<Rightarrow> time \<Rightarrow> PolicyError + ValidatedNormalChatAdmissionV1" where
  "reauthorize_normal_chat E verifier previous request now =
     (if now < va_verified_at previous \<or> now \<ge> va_expires_at previous
      then Err (InvalidLease ''normal-chat admission expired or clock moved backward'')
      else if request \<noteq> va_request previous
              \<or> chat_contract_version verifier \<noteq> va_verifier_contract previous
      then Err (InvalidLease ''normal-chat reauthorization binding changed'')
      else
        attempt (authorize_normal_chat E verifier request now) (\<lambda>current.
          Ok (current\<lparr>va_expires_at := min (va_expires_at current) (va_expires_at previous)\<rparr>)))"

definition DenyNormalChatAdmission :: NormalChatAdmissionVerifier where
  "DenyNormalChatAdmission =
     \<lparr>chat_contract_version = DEFAULT_NORMAL_CHAT_VERIFIER_CONTRACT,
      chat_authorize = (\<lambda>_. Err NetworkUnavailable)\<rparr>"

definition attempt_json :: "env \<Rightarrow> NormalChatAttemptV1 \<Rightarrow> json" where
  "attempt_json E a =
     JObj [(''attempt_id'', JStr (na_attempt_id a)),
           (''attempt_number'', json_of_word (na_attempt_number a)),
           (''operation'', normal_chat_operation_json E (na_operation a)),
           (''provider_request_digest'', digest_json E (na_provider_request_digest a)),
           (''schema'', JStr ''recursive-agent.normal-chat-attempt/v1'')]"

text \<open>The chain of conditions on the call; a failing digest or identity ends the chain with its own
  error.\<close>

definition chat_call_matches ::
    "env \<Rightarrow> PermitBindingV1 \<Rightarrow> ValidatedNormalChatAdmissionV1 \<Rightarrow> ToolCallSpecV1 \<Rightarrow>
     (string \<times> json) list \<Rightarrow> PolicyError + bool" where
  "chat_call_matches E binding current call args =
     (let att = ar_attempt (va_request current) in
      if tc_tool call \<noteq> NORMAL_CHAT_LANE \<or> tc_frozen_clock call \<noteq> None \<or> length args \<noteq> 2
         \<or> map_of args ''attempt'' \<noteq> Some (attempt_json E att)
      then Ok False
      else
        (case map_of args ''request'' of
           None \<Rightarrow> Ok False
         | Some request \<Rightarrow>
             if \<not> is_object request then Ok False
             else
               attempt (policy_digest E (tc_args call)) (\<lambda>args_digest.
               if args_digest \<noteq> ar_tool_arguments_digest (va_request current) then Ok False
               else
                 attempt (policy_digest E request) (\<lambda>request_digest.
                 if request_digest \<noteq> na_provider_request_digest att then Ok False
                 else
                   attempt (policy_digest E (tool_call_json E call)) (\<lambda>action_digest.
                   if pb_action_digest binding \<noteq> action_digest then Ok False
                   else
                     attempt (map_err PolicyContract
                                (derive_step_id E (pb_run_id binding) 0 NORMAL_CHAT_LANE call)) (\<lambda>step_id.
                       Ok (pb_step_id binding = step_id)))))))"

definition validate_normal_chat_permit_binding ::
    "env \<Rightarrow> PermitBindingV1 \<Rightarrow> ValidatedNormalChatAdmissionV1 \<Rightarrow> ToolCallSpecV1 \<Rightarrow>
     PolicyError + unit" where
  "validate_normal_chat_permit_binding E binding current call =
     (let att = ar_attempt (va_request current) in
      attempt (map_err PolicyContract (attempt_run_id E att)) (\<lambda>run_id.
      if pb_run_id binding \<noteq> run_id
      then Err (InvalidLease ''normal-chat permit run identity differs from admitted attempt'')
      else
        (case tc_args call of
           JObj args \<Rightarrow>
             attempt (chat_call_matches E binding current call args) (\<lambda>matches.
             if \<not> matches then Err (InvalidLease ''normal-chat dispatch binding mismatch'')
             else if pb_parent_permit_id binding = None
                     \<or> \<not> is_closed_normal_chat_effect (pb_tool binding) (pb_effect binding)
                     \<or> pb_args_digest binding \<noteq> ar_tool_arguments_digest (va_request current)
                     \<or> pb_expires_at binding > va_expires_at current
                     \<or> bg_max_wall_time_ms (pb_budget binding)
                         > nb_max_wall_time_ms (nc_budget (na_operation att))
             then Err (InvalidLease ''normal-chat permit does not bind current admission'')
             else Ok ())
         | _ \<Rightarrow> Err (InvalidLease ''normal-chat dispatch binding mismatch''))))"

section \<open>Attempt families\<close>

abbreviation NORMAL_CHAT_FAMILY_SCHEMA :: string where
  "NORMAL_CHAT_FAMILY_SCHEMA \<equiv> ''recursive-agent.normal-chat-attempt-family/v1''"
abbreviation NORMAL_CHAT_FAMILY_STATE_NAME :: string where
  "NORMAL_CHAT_FAMILY_STATE_NAME \<equiv> ''normal-chat-attempt-family.json''"
abbreviation MAX_NORMAL_CHAT_FAMILY_STATE_BYTES :: nat where
  "MAX_NORMAL_CHAT_FAMILY_STATE_BYTES \<equiv> 1024 * 1024"

record NormalChatAttemptReservationV1 =
  nr_attempt_id :: attempt_id
  nr_permit_id :: permit_id

record NormalChatFamilyRecordV1 =
  nfr_operation_digest :: content_digest
  nfr_max_attempts :: u32
  nfr_attempts :: "(u32, NormalChatAttemptReservationV1) btmap"

record NormalChatFamilyStateV1 =
  nfs_schema :: string
  nfs_families :: "(string, NormalChatFamilyRecordV1) btmap"

definition NormalChatFamilyStateV1_empty :: NormalChatFamilyStateV1 where
  "NormalChatFamilyStateV1_empty = \<lparr>nfs_schema = NORMAL_CHAT_FAMILY_SCHEMA, nfs_families = bt_empty\<rparr>"

definition chat_attempt_ok ::
    "NormalChatFamilyRecordV1 \<Rightarrow> u32 \<times> NormalChatAttemptReservationV1 \<Rightarrow> PolicyError + unit" where
  "chat_attempt_ok family = (\<lambda>(number, reservation).
     if number = 0 \<or> number > nfr_max_attempts family then Err PermitStateConflict
     else if nr_attempt_id reservation = [] \<or> nr_permit_id reservation = [] then Err PermitStateConflict
     else Ok ())"

abbreviation chat_family_ok :: "string \<times> NormalChatFamilyRecordV1 \<Rightarrow> PolicyError + unit" where
  "chat_family_ok \<equiv> (\<lambda>(family_id, family).
     if family_id = [] \<or> nfr_max_attempts family = 0
        \<or> length (nfr_attempts family) > unat (nfr_max_attempts family)
     then Err PermitStateConflict
     else try_for_each (chat_attempt_ok family) (nfr_attempts family))"

definition NormalChatFamilyStateV1_validate :: "NormalChatFamilyStateV1 \<Rightarrow> PolicyError + unit" where
  "NormalChatFamilyStateV1_validate self =
     (if nfs_schema self \<noteq> NORMAL_CHAT_FAMILY_SCHEMA then Err PermitStateConflict
      else try_for_each chat_family_ok (nfs_families self))"

text \<open>The part of \<open>reserve_normal_chat_attempt\<close> between reading and writing the family file: either the
  attempt is already reserved for this permit, or the state to write.\<close>

definition plan_chat_attempt ::
    "NormalChatFamilyStateV1 \<Rightarrow> NormalChatFamilyReservationV1 \<Rightarrow> permit_id \<Rightarrow>
     PolicyError + NormalChatFamilyStateV1 option" where
  "plan_chat_attempt state reservation permit_id =
     (let family_id = nf_parent_permit_id reservation;
          family = (case bt_get (nfs_families state) family_id of
              Some f \<Rightarrow> f
            | None \<Rightarrow> \<lparr>nfr_operation_digest = nf_operation_digest reservation,
                       nfr_max_attempts = nf_max_attempts reservation, nfr_attempts = bt_empty\<rparr>)
      in
      if nfr_operation_digest family \<noteq> nf_operation_digest reservation
         \<or> nfr_max_attempts family \<noteq> nf_max_attempts reservation
      then Err (InvalidLease ''normal-chat attempt family binding changed'')
      else
        (case bt_get (nfr_attempts family) (nf_attempt_number reservation) of
           Some existing \<Rightarrow>
             if nr_attempt_id existing = nf_attempt_id reservation \<and> nr_permit_id existing = permit_id
             then Ok None
             else Err (InvalidLease ''normal-chat attempt already has an effect permit'')
         | None \<Rightarrow>
             if length (nfr_attempts family) \<ge> unat (nfr_max_attempts family)
             then Err (BudgetOverrun ''normal-chat attempt family ceiling exceeded'')
             else
               (let family' = family\<lparr>nfr_attempts := bt_insert (nf_attempt_number reservation)
                                      \<lparr>nr_attempt_id = nf_attempt_id reservation, nr_permit_id = permit_id\<rparr>
                                      (nfr_attempts family)\<rparr>;
                    state' = state\<lparr>nfs_families := bt_insert family_id family' (nfs_families state)\<rparr>
                in attempt (NormalChatFamilyStateV1_validate state') (\<lambda>_. Ok (Some state')))))"

section \<open>Properties\<close>

text \<open>A chain of reauthorisations: each presents a verifier, a request and the instant of the call.\<close>

definition reauthorize_all ::
    "env \<Rightarrow> ValidatedNormalChatAdmissionV1 \<Rightarrow>
     (NormalChatAdmissionVerifier \<times> NormalChatAdmissionRequestV1 \<times> time) list \<Rightarrow>
     PolicyError + ValidatedNormalChatAdmissionV1" where
  "reauthorize_all E first calls =
     try_fold (\<lambda>previous (verifier, request, now). reauthorize_normal_chat E verifier previous request now)
       first calls"

text \<open>The verifier accepted the request at an instant.\<close>

definition accepted_by ::
    "NormalChatAdmissionVerifier \<Rightarrow> NormalChatAdmissionRequestV1 \<Rightarrow> time \<Rightarrow> bool" where
  "accepted_by verifier request now =
     is_ok (chat_authorize verifier
       \<lparr>va_request = request, va_verified_at = now, va_expires_at = now,
        va_verifier_contract = chat_contract_version verifier\<rparr>)"

lemma authorize_normal_chat_Ok:
  assumes "authorize_normal_chat E verifier request now = Ok a"
  shows "chat_validate_structure E request = Ok ()" and "accepted_by verifier request now"
    and "va_request a = request" and "va_verified_at a = now"
    and "va_verifier_contract a = chat_contract_version verifier"
    and "\<not> looks_like_credential_material (chat_contract_version verifier)"
    and "now < va_expires_at a" and "va_expires_at a \<le> now + MAX_LIVE_LEASE_MILLISECONDS * 1000000"
  using assms
  by (auto simp: authorize_normal_chat_def accepted_by_def is_ok_def attempt_Ok_iff if_Err_Ok_iff Let_def not_less
      not_le)

lemma reauthorize_normal_chat_Ok:
  assumes "reauthorize_normal_chat E verifier previous request now = Ok a"
  shows "request = va_request previous" and "accepted_by verifier request now"
    and "chat_contract_version verifier = va_verifier_contract previous"
    and "va_request a = va_request previous" and "va_verifier_contract a = va_verifier_contract previous"
    and "va_verified_at previous \<le> now" and "va_verified_at a = now"
    and "now < va_expires_at a" and "va_expires_at a \<le> va_expires_at previous"
  using assms
  by (auto simp: reauthorize_normal_chat_def attempt_Ok_iff if_Err_Ok_iff not_less not_le
      dest: authorize_normal_chat_Ok)

lemma reauthorize_all_Ok:
  assumes "reauthorize_all E first calls = Ok a" and "va_verified_at first < va_expires_at first"
  shows "va_request a = va_request first \<and> va_verifier_contract a = va_verifier_contract first
    \<and> va_verified_at a = last (va_verified_at first # map (snd \<circ> snd) calls)
    \<and> sorted (va_verified_at first # map (snd \<circ> snd) calls)
    \<and> va_verified_at a < va_expires_at a \<and> va_expires_at a \<le> va_expires_at first
    \<and> list_all (\<lambda>(verifier, request, now). request = va_request first
          \<and> chat_contract_version verifier = va_verifier_contract first \<and> accepted_by verifier request now) calls"
  using assms
proof (induction calls arbitrary: first)
  case Nil
  then show ?case by (simp add: reauthorize_all_def)
next
  case (Cons call calls)
  obtain verifier request now where call: "call = (verifier, request, now)" by (cases call)
  with Cons.prems(1) obtain renewed where step: "reauthorize_normal_chat E verifier first request now = Ok renewed"
    and rest: "reauthorize_all E renewed calls = Ok a"
    by (auto simp: reauthorize_all_def attempt_Ok_iff)
  note facts = reauthorize_normal_chat_Ok [OF step]
  from Cons.IH [OF rest] facts show ?case by (auto simp: call)
qed

text \<open>C35 Reauthorisation never extends an admission.  Let a normal-chat request be admitted and the admission
  be rechecked any number of times, by any verifiers at any instants.  Whatever admission results
  is for the very request first admitted, whose attempt validated and whose provider and model names
  carry no credential-like material; every recheck presented that request, was made under the verifier
  contract first recorded and was accepted by its verifier at its own instant; the instants never move
  back; the admission is live at the last of them; and it expires no later than the first admission
  did, at most 300 seconds after the first call.\<close>

theorem reauthorisation_never_extends:
  assumes first: "authorize_normal_chat E verifier0 request0 now0 = Ok first"
    and renewed: "reauthorize_all E first calls = Ok a"
  shows "va_request a = request0 \<and> va_verifier_contract a = chat_contract_version verifier0
    \<and> ar_lane request0 = NORMAL_CHAT_LANE \<and> NormalChatAttemptV1_validate E (ar_attempt request0) = Ok ()
    \<and> \<not> looks_like_credential_material (nc_provider_identity (na_operation (ar_attempt request0)))
    \<and> \<not> looks_like_credential_material (nc_model_ref (na_operation (ar_attempt request0)))
    \<and> list_all (\<lambda>(verifier, request, now). request = request0 \<and> accepted_by verifier request now
          \<and> chat_contract_version verifier = chat_contract_version verifier0)
        ((verifier0, request0, now0) # calls)
    \<and> sorted (now0 # map (snd \<circ> snd) calls)
    \<and> va_verified_at a = last (now0 # map (snd \<circ> snd) calls) \<and> va_verified_at a < va_expires_at a
    \<and> va_expires_at a \<le> va_expires_at first \<and> va_expires_at first \<le> now0 + 300 * 1000000000"
proof -
  note facts = authorize_normal_chat_Ok [OF first]
  have shape: "ar_lane request0 = NORMAL_CHAT_LANE" "NormalChatAttemptV1_validate E (ar_attempt request0) = Ok ()"
    "\<not> looks_like_credential_material (nc_provider_identity (na_operation (ar_attempt request0)))"
    "\<not> looks_like_credential_material (nc_model_ref (na_operation (ar_attempt request0)))"
    using facts(1)
    by (auto simp: chat_validate_structure_def chat_validate_shape_def attempt_Ok_iff if_Err_Ok_iff map_err_Ok_iff)
  have "list_all (\<lambda>(verifier, request, now). request = request0 \<and> accepted_by verifier request now
      \<and> chat_contract_version verifier = chat_contract_version verifier0) calls"
    using reauthorize_all_Ok [OF renewed] facts by (auto simp: list_all_iff)
  then show ?thesis using reauthorize_all_Ok [OF renewed] facts shape by simp
qed

definition sample_chat_request :: NormalChatAdmissionRequestV1 where
  "sample_chat_request =
     \<lparr>ar_schema = NORMAL_CHAT_ADMISSION_SCHEMA, ar_lane = NORMAL_CHAT_LANE,
      ar_attempt = \<lparr>na_schema = NormalChatAttemptSchemaV1, na_operation = sample_chat, na_attempt_number = 1,
        na_provider_request_digest = ''d'', na_attempt_id = sample_id ATTEMPT_ID_DOMAIN\<rparr>,
      ar_tool_arguments_digest = ''y''\<rparr>"

definition sample_chat_verifier :: "time \<Rightarrow> NormalChatAdmissionVerifier" where
  "sample_chat_verifier until =
     \<lparr>chat_contract_version = ''v'', chat_authorize = (\<lambda>_. Ok \<lparr>nv_not_before = 0, nv_not_after = until\<rparr>)\<rparr>"

lemma sample_chat_request_valid: "chat_validate_structure sample_env sample_chat_request = Ok ()"
proof -
  have "NormalChatAttemptV1_validate sample_env (ar_attempt sample_chat_request) = Ok ()"
    using sample_attempt [of 1]
    by (auto simp: NormalChatAttemptV1_validate_Ok_iff NormalChatAttemptV1_new_def attempt_Ok_iff sample_chat_request_def)
  moreover have "\<not> looks_like_credential_material (nc_provider_identity sample_chat)"
    "\<not> looks_like_credential_material (nc_model_ref sample_chat)"
    by (simp_all add: sample_chat_def looks_like_credential_material_def to_ascii_lowercase_def
        is_ascii_uppercase_def byte_of_def)
  ultimately show ?thesis
    by (simp add: chat_validate_structure_def chat_validate_shape_def sample_chat_request_def)
qed

lemma sample_chat_authorized:
  assumes "0 \<le> now" "now < until" "until \<le> 1000"
  shows "authorize_normal_chat sample_env (sample_chat_verifier until) sample_chat_request now
    = Ok \<lparr>va_request = sample_chat_request, va_verified_at = now, va_expires_at = until, va_verifier_contract = ''v''\<rparr>"
  using assms sample_chat_request_valid
  by (simp add: authorize_normal_chat_def sample_chat_verifier_def looks_like_credential_material_def
      to_ascii_lowercase_def is_ascii_uppercase_def byte_of_def)

theorem reauthorisation_never_extends_witness:
  "\<exists>a. reauthorize_all sample_env
        \<lparr>va_request = sample_chat_request, va_verified_at = 1, va_expires_at = 10, va_verifier_contract = ''v''\<rparr>
        [(sample_chat_verifier 20, sample_chat_request, 3), (sample_chat_verifier 8, sample_chat_request, 5)] = Ok a
      \<and> va_verified_at a = 5 \<and> va_expires_at a \<le> 10"
proof -
  have first: "authorize_normal_chat sample_env (sample_chat_verifier 10) sample_chat_request 1
    = Ok \<lparr>va_request = sample_chat_request, va_verified_at = 1, va_expires_at = 10, va_verifier_contract = ''v''\<rparr>"
    by (rule sample_chat_authorized) simp_all
  have "chat_contract_version (sample_chat_verifier u) = ''v''" for u by (simp add: sample_chat_verifier_def)
  then obtain a where "reauthorize_all sample_env
        \<lparr>va_request = sample_chat_request, va_verified_at = 1, va_expires_at = 10, va_verifier_contract = ''v''\<rparr>
        [(sample_chat_verifier 20, sample_chat_request, 3), (sample_chat_verifier 8, sample_chat_request, 5)] = Ok a"
    using sample_chat_authorized
    by (simp add: reauthorize_all_def reauthorize_normal_chat_def)
  from this reauthorisation_never_extends [OF first this] show ?thesis by auto
qed

end
