(* ===== verification/Family.thy ===== *)
theory Family
  imports Permits
begin

text \<open>
  The child-run family authority of \<open>recursive-agent-policy/src/lib.rs\<close>: grants, child requests and
  \<open>FamilyAuthorityStore\<close>, the durable file in which one causal family reserves child runs out of a
  shared budget.  The file system and the locks are the record \<open>family_faults\<close>, which says for one
  call which of its steps fail; a failing write either leaves the old file or has already renamed the
  new one into place.
\<close>

section \<open>Data\<close>

abbreviation MAX_FAMILY_STATE_BYTES :: nat where
  "MAX_FAMILY_STATE_BYTES \<equiv> 1024 * 1024"

record ChildRunCeilingV1 =
  cr_max_depth :: u32
  cr_max_children :: u32
  cr_family_budget :: PermitBudgetV1
  cr_not_before :: time
  cr_expires_at :: time

definition ChildRunCeilingV1_validate :: "ChildRunCeilingV1 \<Rightarrow> PolicyError + unit" where
  "ChildRunCeilingV1_validate self =
     (if cr_max_depth self = 0 \<or> cr_max_children self = 0 \<or> cr_not_before self \<ge> cr_expires_at self
         \<or> budget_has_zero (cr_family_budget self)
      then Err (InvalidLease ''invalid child-run family ceiling'') else Ok ())"

record FamilyRootGrantV1 =
  fg_root_operation_id :: run_id
  fg_parent_control_permit_id :: permit_id
  fg_actor :: principal
  fg_policy_version :: string
  fg_effect_budget :: PermitBudgetV1
  fg_child_run_ceiling :: ChildRunCeilingV1

definition FamilyRootGrantV1_validate :: "FamilyRootGrantV1 \<Rightarrow> PolicyError + unit" where
  "FamilyRootGrantV1_validate self =
     (if fg_policy_version self = [] \<or> budget_has_zero (fg_effect_budget self)
      then Err (InvalidLease ''invalid root family control grant'')
      else ChildRunCeilingV1_validate (fg_child_run_ceiling self))"

record FamilyChildRequestV1 =
  fr_child_run_id :: run_id
  fr_parent_operation_id :: run_id
  fr_root_operation_id :: run_id
  fr_parent_control_permit_id :: permit_id
  fr_parent_admission_receipt_id :: receipt_id
  fr_requested_budget :: PermitBudgetV1
  fr_child_operation_digest :: content_digest
  fr_depth :: u32

datatype FamilyChildPermitStateV1 =
    FamilyIssued
  | FamilyRevoked time PermitRevocationReasonV1

record FamilyChildControlPermitV1 =
  fc_child_control_permit_id :: permit_id
  fc_request :: FamilyChildRequestV1
  fc_state :: FamilyChildPermitStateV1

record FamilyAuthorityStateV1 =
  fs_grant :: FamilyRootGrantV1
  fs_parent_revoked_at :: "time option"
  fs_children :: "(run_id, FamilyChildControlPermitV1) btmap"

definition family_request_json :: "env \<Rightarrow> FamilyChildRequestV1 \<Rightarrow> json" where
  "family_request_json E r =
     JObj [(''child_operation_digest'', digest_json E (fr_child_operation_digest r)),
           (''child_run_id'', JStr (fr_child_run_id r)),
           (''depth'', json_of_word (fr_depth r)),
           (''parent_admission_receipt_id'', JStr (fr_parent_admission_receipt_id r)),
           (''parent_control_permit_id'', JStr (fr_parent_control_permit_id r)),
           (''parent_operation_id'', JStr (fr_parent_operation_id r)),
           (''requested_budget'', permit_budget_json (fr_requested_budget r)),
           (''root_operation_id'', JStr (fr_root_operation_id r))]"

section \<open>Requests\<close>

definition validate_family_request ::
    "FamilyAuthorityStateV1 \<Rightarrow> FamilyChildRequestV1 \<Rightarrow> time \<Rightarrow> PolicyError + unit" where
  "validate_family_request state request trusted_now =
     (let ceiling = fg_child_run_ceiling (fs_grant state) in
      if fs_parent_revoked_at state \<noteq> None
         \<or> trusted_now < cr_not_before ceiling \<or> trusted_now \<ge> cr_expires_at ceiling
         \<or> fr_root_operation_id request \<noteq> fg_root_operation_id (fs_grant state)
         \<or> fr_child_run_id request = fr_parent_operation_id request
         \<or> fr_child_run_id request = fr_root_operation_id request
         \<or> fr_depth request = 0 \<or> fr_depth request > cr_max_depth ceiling
         \<or> \<not> is_within (fr_requested_budget request) (cr_family_budget ceiling)
      then Err (InvalidLease ''child request violates family authority or attenuation'')
      else if fr_parent_operation_id request = fg_root_operation_id (fs_grant state) then
        (if fr_parent_control_permit_id request \<noteq> fg_parent_control_permit_id (fs_grant state)
            \<or> fr_depth request \<noteq> 1
         then Err (InvalidLease ''child request does not bind the root parent control grant'')
         else Ok ())
      else
        attempt (ok_or (InvalidLease ''child request parent is not an admitted family child'')
                   (bt_get (fs_children state) (fr_parent_operation_id request))) (\<lambda>parent.
        attempt (ok_or (InvalidLease ''family depth overflow'')
                   (checked_add (fr_depth (fc_request parent)) 1)) (\<lambda>expected_depth.
          if fc_state parent \<noteq> FamilyIssued
             \<or> fr_parent_control_permit_id request \<noteq> fc_child_control_permit_id parent
             \<or> fr_depth request \<noteq> expected_depth
          then Err (InvalidLease
            ''child request does not attenuate from its admitted parent child-control permit'')
          else Ok ())))"

definition derive_family_child_permit_id ::
    "env \<Rightarrow> FamilyChildRequestV1 \<Rightarrow> FamilyRootGrantV1 \<Rightarrow> PolicyError + permit_id" where
  "derive_family_child_permit_id E request grant =
     attempt (ok_or (InvalidLease ''negative family child validity'')
                (try_u64 (num_milliseconds_since (cr_expires_at (fg_child_run_ceiling grant))
                            (cr_not_before (fg_child_run_ceiling grant))))) (\<lambda>validity.
     attempt (policy_digest E (family_request_json E request)) (\<lambda>digest.
       map_err PolicyContract (derive_permit_id E
         \<lparr>pim_binding_digest = digest, pim_requested_not_before_delay_ms = 0,
          pim_requested_validity_ms = validity\<rparr>)))"

section \<open>The store\<close>

datatype write_fault = WriteOk | WriteFailsBeforeRename | WriteFailsAfterRename

record family_faults =
  ff_gate_poisoned :: bool
  ff_lock_fails :: bool
  ff_read_fails :: bool
  ff_write :: write_fault
  ff_unlock_fails :: bool

type_synonym family_disk = "FamilyAuthorityStateV1 option"

definition family_with_lock ::
    "family_faults \<Rightarrow> (family_disk \<Rightarrow> (PolicyError + 'r) \<times> family_disk) \<Rightarrow> family_disk \<Rightarrow>
     (PolicyError + 'r) \<times> family_disk" where
  "family_with_lock F operation disk =
     (if ff_gate_poisoned F then (Err PermitStateConflict, disk)
      else if ff_lock_fails F then (Err (PolicyIo IoOther), disk)
      else
        (case operation disk of
           (Ok v, disk') \<Rightarrow> (if ff_unlock_fails F then Err (PolicyIo IoOther) else Ok v, disk')
         | (Err e, disk') \<Rightarrow> (Err e, disk')))"

text \<open>The argument \<open>encoded_len\<close> is the number of bytes a state is written with.\<close>

definition read_state ::
    "(FamilyAuthorityStateV1 \<Rightarrow> nat) \<Rightarrow> family_faults \<Rightarrow> family_disk \<Rightarrow>
     PolicyError + FamilyAuthorityStateV1" where
  "read_state encoded_len F disk =
     (if ff_read_fails F then Err (PolicyIo IoOther)
      else
        (case disk of
           None \<Rightarrow> Err (PolicyIo IoNotFound)
         | Some state \<Rightarrow>
             if encoded_len state > MAX_FAMILY_STATE_BYTES
             then Err (UnsafePermitRoot ''family authority state is not a bounded regular file'')
             else attempt (FamilyRootGrantV1_validate (fs_grant state)) (\<lambda>_. Ok state)))"

definition write_state ::
    "family_faults \<Rightarrow> FamilyAuthorityStateV1 \<Rightarrow> family_disk \<Rightarrow> (PolicyError + unit) \<times> family_disk" where
  "write_state F state disk =
     (case ff_write F of
        WriteOk \<Rightarrow> (Ok (), Some state)
      | WriteFailsBeforeRename \<Rightarrow> (Err (PolicyIo IoOther), disk)
      | WriteFailsAfterRename \<Rightarrow> (Err (PolicyIo IoOther), Some state))"

definition family_from_dir_fd ::
    "(FamilyAuthorityStateV1 \<Rightarrow> nat) \<Rightarrow> family_faults \<Rightarrow> FamilyRootGrantV1 \<Rightarrow> family_disk \<Rightarrow>
     (PolicyError + unit) \<times> family_disk" where
  "family_from_dir_fd encoded_len F grant disk =
     (case FamilyRootGrantV1_validate grant of
        Err e \<Rightarrow> (Err e, disk)
      | Ok _ \<Rightarrow>
          family_with_lock F (\<lambda>disk.
            (case read_state encoded_len F disk of
               Ok existing \<Rightarrow>
                 if fs_grant existing = grant then (Ok (), disk) else (Err PermitStateConflict, disk)
             | Err (PolicyIo IoNotFound) \<Rightarrow>
                 write_state F \<lparr>fs_grant = grant, fs_parent_revoked_at = None, fs_children = bt_empty\<rparr> disk
             | Err e \<Rightarrow> (Err e, disk))) disk)"

definition allocated_budget ::
    "(run_id, FamilyChildControlPermitV1) btmap \<Rightarrow> PolicyError + PermitBudgetV1" where
  "allocated_budget children =
     try_fold (\<lambda>total child. budget_checked_add total (fr_requested_budget (fc_request child)))
       budget_zero (bt_values children)"

text \<open>The state \<open>reserve_child\<close> writes, or the permit it returns without writing.\<close>

datatype reservation = Existing FamilyChildControlPermitV1 | Fresh FamilyChildControlPermitV1

definition plan_reservation ::
    "env \<Rightarrow> FamilyAuthorityStateV1 \<Rightarrow> FamilyChildRequestV1 \<Rightarrow> time \<Rightarrow> PolicyError + reservation" where
  "plan_reservation E state request trusted_now =
     attempt (validate_family_request state request trusted_now) (\<lambda>_.
       case bt_get (fs_children state) (fr_child_run_id request) of
         Some existing \<Rightarrow>
           if fc_request existing = request \<and> fc_state existing = FamilyIssued
           then Ok (Existing existing) else Err PermitStateConflict
       | None \<Rightarrow>
           if length (bt_values (fs_children state))
                \<ge> unat (cr_max_children (fg_child_run_ceiling (fs_grant state)))
           then Err (BudgetOverrun ''child allocation exceeds family child-count ceiling'')
           else
             attempt (allocated_budget (fs_children state)) (\<lambda>total.
             attempt (budget_checked_add total (fr_requested_budget request)) (\<lambda>allocated.
               if \<not> is_within allocated (cr_family_budget (fg_child_run_ceiling (fs_grant state)))
               then Err (BudgetOverrun ''child allocation exceeds cumulative family budget'')
               else
                 attempt (derive_family_child_permit_id E request (fs_grant state)) (\<lambda>permit_id.
                   Ok (Fresh \<lparr>fc_child_control_permit_id = permit_id, fc_request = request,
                              fc_state = FamilyIssued\<rparr>)))))"

definition reserve_child ::
    "env \<Rightarrow> (FamilyAuthorityStateV1 \<Rightarrow> nat) \<Rightarrow> family_faults \<Rightarrow> FamilyChildRequestV1 \<Rightarrow> time \<Rightarrow>
     family_disk \<Rightarrow> (PolicyError + FamilyChildControlPermitV1) \<times> family_disk" where
  "reserve_child E encoded_len F request trusted_now disk =
     family_with_lock F (\<lambda>disk.
       (case attempt (read_state encoded_len F disk) (\<lambda>state.
              attempt (plan_reservation E state request trusted_now) (\<lambda>plan. Ok (state, plan))) of
          Err e \<Rightarrow> (Err e, disk)
        | Ok (state, Existing permit) \<Rightarrow> (Ok permit, disk)
        | Ok (state, Fresh permit) \<Rightarrow>
            (case write_state F
                    (state\<lparr>fs_children := bt_insert (fr_child_run_id request) permit (fs_children state)\<rparr>)
                    disk of
               (Err e, disk') \<Rightarrow> (Err e, disk')
             | (Ok _, disk') \<Rightarrow> (Ok permit, disk')))) disk"

definition revoke_parent ::
    "(FamilyAuthorityStateV1 \<Rightarrow> nat) \<Rightarrow> family_faults \<Rightarrow> time \<Rightarrow> family_disk \<Rightarrow>
     (PolicyError + unit) \<times> family_disk" where
  "revoke_parent encoded_len F trusted_now disk =
     family_with_lock F (\<lambda>disk.
       (case read_state encoded_len F disk of
          Err e \<Rightarrow> (Err e, disk)
        | Ok state \<Rightarrow>
            if fs_parent_revoked_at state = None
            then write_state F (state\<lparr>fs_parent_revoked_at := Some trusted_now\<rparr>) disk
            else (Ok (), disk))) disk"

definition guard_child_dispatch ::
    "(FamilyAuthorityStateV1 \<Rightarrow> nat) \<Rightarrow> family_faults \<Rightarrow> run_id \<Rightarrow> permit_id \<Rightarrow> time \<Rightarrow> family_disk \<Rightarrow>
     (PolicyError + unit) \<times> family_disk" where
  "guard_child_dispatch encoded_len F child_run_id child_control_permit_id trusted_now disk =
     family_with_lock F (\<lambda>disk.
       (attempt (read_state encoded_len F disk) (\<lambda>state.
        attempt (ok_or (InvalidLease ''child dispatch has no family reservation'')
                   (bt_get (fs_children state) child_run_id)) (\<lambda>child.
          let ceiling = fg_child_run_ceiling (fs_grant state) in
          if fs_parent_revoked_at state \<noteq> None
             \<or> trusted_now < cr_not_before ceiling \<or> trusted_now \<ge> cr_expires_at ceiling
             \<or> fc_state child \<noteq> FamilyIssued
             \<or> fc_child_control_permit_id child \<noteq> child_control_permit_id
          then Err (InvalidLease ''child dispatch is no longer authorized by its family'')
          else Ok ())), disk)) disk"

definition parent_is_revoked ::
    "(FamilyAuthorityStateV1 \<Rightarrow> nat) \<Rightarrow> family_faults \<Rightarrow> family_disk \<Rightarrow> (PolicyError + bool) \<times> family_disk" where
  "parent_is_revoked encoded_len F disk =
     family_with_lock F (\<lambda>disk.
       (attempt (read_state encoded_len F disk) (\<lambda>state. Ok (fs_parent_revoked_at state \<noteq> None)), disk))
       disk"

definition effect_budget ::
    "(FamilyAuthorityStateV1 \<Rightarrow> nat) \<Rightarrow> family_faults \<Rightarrow> family_disk \<Rightarrow>
     (PolicyError + PermitBudgetV1) \<times> family_disk" where
  "effect_budget encoded_len F disk =
     family_with_lock F (\<lambda>disk.
       (attempt (read_state encoded_len F disk) (\<lambda>state. Ok (fg_effect_budget (fs_grant state))), disk))
       disk"

definition reserved_budget ::
    "(FamilyAuthorityStateV1 \<Rightarrow> nat) \<Rightarrow> family_faults \<Rightarrow> family_disk \<Rightarrow>
     (PolicyError + PermitBudgetV1) \<times> family_disk" where
  "reserved_budget encoded_len F disk =
     family_with_lock F (\<lambda>disk.
       (attempt (read_state encoded_len F disk) (\<lambda>state. allocated_budget (fs_children state)), disk))
       disk"

section \<open>Histories\<close>

datatype family_op =
    FamilyOpen FamilyRootGrantV1
  | FamilyReserve FamilyChildRequestV1 time
  | FamilyRevokeParent time

text \<open>One call with its faults; whatever it returns, the file it leaves is the next state.\<close>

definition family_step ::
    "env \<Rightarrow> (FamilyAuthorityStateV1 \<Rightarrow> nat) \<Rightarrow> family_disk \<Rightarrow> family_faults \<times> family_op \<Rightarrow>
     PolicyError + family_disk" where
  "family_step E encoded_len disk = (\<lambda>(F, op).
     Ok (case op of
           FamilyOpen grant \<Rightarrow> snd (family_from_dir_fd encoded_len F grant disk)
         | FamilyReserve request now \<Rightarrow> snd (reserve_child E encoded_len F request now disk)
         | FamilyRevokeParent now \<Rightarrow> snd (revoke_parent encoded_len F now disk)))"

section \<open>Budgets\<close>

lemma is_within_nat:
  "is_within a b \<longleftrightarrow>
     unat (bg_max_wall_time_ms a) \<le> unat (bg_max_wall_time_ms b)
     \<and> unat (bg_max_output_bytes a) \<le> unat (bg_max_output_bytes b)
     \<and> unat (bg_max_artifact_bytes a) \<le> unat (bg_max_artifact_bytes b)"
  by (simp add: is_within_def word_le_nat_alt)

lemma is_within_refl [simp]: "is_within a a"
  by (simp add: is_within_def)

lemma is_within_trans: "is_within a b \<Longrightarrow> is_within b c \<Longrightarrow> is_within a c"
  by (auto simp: is_within_def)

lemma budget_checked_add_Ok:
  assumes "budget_checked_add a b = Ok c"
  shows "unat (bg_max_wall_time_ms c) = unat (bg_max_wall_time_ms a) + unat (bg_max_wall_time_ms b)
     \<and> unat (bg_max_output_bytes c) = unat (bg_max_output_bytes a) + unat (bg_max_output_bytes b)
     \<and> unat (bg_max_artifact_bytes c) = unat (bg_max_artifact_bytes a) + unat (bg_max_artifact_bytes b)"
  using assms unfolding budget_checked_add_def
  by (auto simp: attempt_Ok_iff ok_or_Ok_iff dest!: checked_add_unat)

text \<open>The per-dimension totals of a list of budgets, as natural numbers.\<close>

definition budgets_fit :: "PermitBudgetV1 list \<Rightarrow> PermitBudgetV1 \<Rightarrow> bool" where
  "budgets_fit bs c \<longleftrightarrow>
     (\<Sum>b \<leftarrow> bs. unat (bg_max_wall_time_ms b)) \<le> unat (bg_max_wall_time_ms c)
     \<and> (\<Sum>b \<leftarrow> bs. unat (bg_max_output_bytes b)) \<le> unat (bg_max_output_bytes c)
     \<and> (\<Sum>b \<leftarrow> bs. unat (bg_max_artifact_bytes b)) \<le> unat (bg_max_artifact_bytes c)"

lemma budget_fold_Ok:
  assumes "try_fold (\<lambda>t x. budget_checked_add t (f x)) a xs = Ok c"
  shows "unat (bg_max_wall_time_ms c) = unat (bg_max_wall_time_ms a) + (\<Sum>x \<leftarrow> xs. unat (bg_max_wall_time_ms (f x)))
     \<and> unat (bg_max_output_bytes c) = unat (bg_max_output_bytes a) + (\<Sum>x \<leftarrow> xs. unat (bg_max_output_bytes (f x)))
     \<and> unat (bg_max_artifact_bytes c) = unat (bg_max_artifact_bytes a) + (\<Sum>x \<leftarrow> xs. unat (bg_max_artifact_bytes (f x)))"
  using assms
proof (induction xs arbitrary: a)
  case (Cons x xs)
  then obtain b where b: "budget_checked_add a (f x) = Ok b"
    and rest: "try_fold (\<lambda>t x. budget_checked_add t (f x)) b xs = Ok c"
    by (auto simp: attempt_Ok_iff)
  from Cons.IH [OF rest] budget_checked_add_Ok [OF b] show ?case by simp
qed simp

lemma budget_fold_fits:
  assumes "try_fold (\<lambda>t x. budget_checked_add t (f x)) budget_zero xs = Ok t" and "is_within t c"
  shows "budgets_fit (map f xs) c"
  using budget_fold_Ok [OF assms(1)] assms(2)
  by (simp add: budgets_fit_def is_within_nat budget_zero_def comp_def)

lemma budgets_fit_mset: "mset bs = mset cs \<Longrightarrow> budgets_fit bs c \<longleftrightarrow> budgets_fit cs c"
  unfolding budgets_fit_def by (simp add: sum_mset_sum_list [symmetric])

section \<open>Case analysis of the operations\<close>

lemma family_with_lock_cases:
  assumes "family_with_lock F operation disk = (r, disk')"
  obtains (refused) e where "r = Err e" and "disk' = disk"
  | (ran) r' where "operation disk = (r', disk')" and "r = r' \<or> (\<exists>e. r = Err e)"
  using assms by (auto simp: family_with_lock_def split: if_splits prod.splits sum.splits)

lemma write_state_cases:
  "write_state F state disk = (r, disk') \<Longrightarrow>
     (disk' = disk \<and> (\<exists>e. r = Err e)) \<or> (disk' = Some state \<and> (r = Ok () \<or> (\<exists>e. r = Err e)))"
  by (auto simp: write_state_def split: write_fault.splits)

lemma read_state_Ok:
  "read_state encoded_len F disk = Ok state \<Longrightarrow>
     disk = Some state \<and> FamilyRootGrantV1_validate (fs_grant state) = Ok ()"
  by (auto simp: read_state_def attempt_Ok_iff split: if_splits option.splits)

lemma read_state_NotFound: "read_state encoded_len F disk = Err (PolicyIo IoNotFound) \<Longrightarrow> disk = None"
  by (auto simp: read_state_def attempt_def FamilyRootGrantV1_validate_def ChildRunCeilingV1_validate_def
      split: if_splits option.splits)

lemma reserve_child_cases:
  assumes "reserve_child E encoded_len F request now disk = (r, disk')"
  obtains (unchanged) "disk' = disk" and "\<And>p. r = Ok p \<Longrightarrow>
      \<exists>state. disk = Some state \<and> plan_reservation E state request now = Ok (Existing p)"
  | (written) state p where "disk = Some state" and "plan_reservation E state request now = Ok (Fresh p)"
      and "disk' = Some (state\<lparr>fs_children := bt_insert (fr_child_run_id request) p (fs_children state)\<rparr>)"
      and "r = Ok p \<or> (\<exists>e. r = Err e)"
  using assms unfolding reserve_child_def
proof (cases rule: family_with_lock_cases)
  case (refused e)
  then show ?thesis using unchanged by blast
next
  case (ran r')
  note op = ran(1)
  let ?plan = "attempt (read_state encoded_len F disk) (\<lambda>state.
              attempt (plan_reservation E state request now) (\<lambda>plan. Ok (state, plan)))"
  show ?thesis
  proof (cases ?plan)
    case (Inl e)
    then show ?thesis using op ran(2) unchanged by auto
  next
    case (Inr sp)
    then obtain state plan where sp: "sp = (state, plan)"
      and rd: "read_state encoded_len F disk = Ok state"
      and pl: "plan_reservation E state request now = Ok plan"
      by (auto simp: attempt_Ok_iff)
    note disk = read_state_Ok [OF rd, THEN conjunct1]
    show ?thesis
    proof (cases plan)
      case (Existing p)
      then show ?thesis using op ran(2) Inr sp pl disk unchanged by auto
    next
      case (Fresh p)
      let ?new = "state\<lparr>fs_children := bt_insert (fr_child_run_id request) p (fs_children state)\<rparr>"
      obtain wr wd where w: "write_state F ?new disk = (wr, wd)" by (cases "write_state F ?new disk")
      have "disk' = wd" "r' = (case wr of Err e \<Rightarrow> Err e | Ok _ \<Rightarrow> Ok p)"
        using op Inr sp Fresh w by (auto split: sum.splits)
      with write_state_cases [OF w] ran(2) pl disk Fresh unchanged written [of state p] show ?thesis
        by auto
    qed
  qed
qed

lemma revoke_parent_cases:
  assumes "revoke_parent encoded_len F now disk = (r, disk')"
  obtains (unchanged) "disk' = disk"
      and "r = Ok () \<Longrightarrow> \<exists>state. disk = Some state \<and> fs_parent_revoked_at state \<noteq> None"
  | (written) state where "disk = Some state" and "fs_parent_revoked_at state = None"
      and "disk' = Some (state\<lparr>fs_parent_revoked_at := Some now\<rparr>)"
  using assms unfolding revoke_parent_def
proof (cases rule: family_with_lock_cases)
  case (refused e)
  then show ?thesis using unchanged by blast
next
  case (ran r')
  show ?thesis
  proof (cases "read_state encoded_len F disk")
    case (Inl e)
    then show ?thesis using ran unchanged by auto
  next
    case (Inr state)
    show ?thesis
      using ran Inr read_state_Ok [OF Inr] unchanged written [of state]
      by (cases "fs_parent_revoked_at state = None") (auto dest!: write_state_cases)
  qed
qed

lemma family_open_cases:
  assumes "family_from_dir_fd encoded_len F grant disk = (r, disk')"
  obtains (unchanged) "disk' = disk"
  | (written) "disk = None" and "FamilyRootGrantV1_validate grant = Ok ()"
      and "disk' = Some \<lparr>fs_grant = grant, fs_parent_revoked_at = None, fs_children = bt_empty\<rparr>"
proof (cases "FamilyRootGrantV1_validate grant")
  case (Inl e)
  then show ?thesis using assms unchanged by (simp add: family_from_dir_fd_def)
next
  case (Inr u)
  then have lock: "family_with_lock F (\<lambda>disk.
            (case read_state encoded_len F disk of
               Ok existing \<Rightarrow>
                 if fs_grant existing = grant then (Ok (), disk) else (Err PermitStateConflict, disk)
             | Err (PolicyIo IoNotFound) \<Rightarrow>
                 write_state F \<lparr>fs_grant = grant, fs_parent_revoked_at = None, fs_children = bt_empty\<rparr> disk
             | Err e \<Rightarrow> (Err e, disk))) disk = (r, disk')"
    using assms by (simp add: family_from_dir_fd_def)
  from lock show ?thesis
  proof (cases rule: family_with_lock_cases)
    case (ran r')
    then show ?thesis
      using Inr unchanged written
      by (auto split: sum.splits PolicyError.splits io_error.splits if_splits
          dest!: write_state_cases read_state_NotFound)
  qed (simp add: unchanged)
qed

lemma guard_child_dispatch_Ok:
  assumes "guard_child_dispatch encoded_len F child permit now disk = (Ok (), disk')"
  shows "\<exists>state. disk = Some state \<and> fs_parent_revoked_at state = None"
  using assms unfolding guard_child_dispatch_def
proof (cases rule: family_with_lock_cases)
  case (ran r')
  then obtain state where "read_state encoded_len F disk = Ok state"
    and "fs_parent_revoked_at state = None"
    by (auto simp: attempt_Ok_iff ok_or_Ok_iff Let_def dest!: sym [of "Ok ()"] split: if_splits)
  then show ?thesis using read_state_Ok by blast
qed simp

lemma plan_reservation_Fresh:
  assumes "plan_reservation E state request now = Ok (Fresh p)"
  shows "validate_family_request state request now = Ok ()"
    and "bt_get (fs_children state) (fr_child_run_id request) = None"
    and "length (fs_children state) < unat (cr_max_children (fg_child_run_ceiling (fs_grant state)))"
    and "fc_request p = request" and "fc_state p = FamilyIssued"
    and "\<exists>total allocated. allocated_budget (fs_children state) = Ok total
           \<and> budget_checked_add total (fr_requested_budget request) = Ok allocated
           \<and> is_within allocated (cr_family_budget (fg_child_run_ceiling (fs_grant state)))"
  using assms unfolding plan_reservation_def
  by (auto simp: attempt_Ok_iff bt_values_def not_le split: option.splits if_splits)

lemma plan_reservation_Existing:
  assumes "plan_reservation E state request now = Ok (Existing p)"
  shows "bt_get (fs_children state) (fr_child_run_id request) = Some p"
    and "fc_request p = request" and "fs_parent_revoked_at state = None"
  using assms unfolding plan_reservation_def validate_family_request_def Let_def
  by (auto simp: attempt_Ok_iff split: option.splits if_splits)

section \<open>The family invariant\<close>

definition parent_link_ok :: "FamilyAuthorityStateV1 \<Rightarrow> FamilyChildRequestV1 \<Rightarrow> bool" where
  "parent_link_ok state r \<longleftrightarrow>
     (fr_parent_operation_id r = fg_root_operation_id (fs_grant state)
      \<and> fr_parent_control_permit_id r = fg_parent_control_permit_id (fs_grant state)
      \<and> unat (fr_depth r) = 1)
     \<or> (\<exists>q. bt_get (fs_children state) (fr_parent_operation_id r) = Some q
          \<and> fr_parent_control_permit_id r = fc_child_control_permit_id q
          \<and> unat (fr_depth r) = unat (fr_depth (fc_request q)) + 1)"

definition family_child_ok :: "FamilyAuthorityStateV1 \<Rightarrow> run_id \<Rightarrow> FamilyChildControlPermitV1 \<Rightarrow> bool" where
  "family_child_ok state k p \<longleftrightarrow>
     fr_child_run_id (fc_request p) = k
     \<and> fr_root_operation_id (fc_request p) = fg_root_operation_id (fs_grant state)
     \<and> 1 \<le> unat (fr_depth (fc_request p))
     \<and> unat (fr_depth (fc_request p)) \<le> unat (cr_max_depth (fg_child_run_ceiling (fs_grant state)))
     \<and> parent_link_ok state (fc_request p)"

definition child_budgets :: "FamilyAuthorityStateV1 \<Rightarrow> PermitBudgetV1 list" where
  "child_budgets state = map (\<lambda>p. fr_requested_budget (fc_request p)) (bt_values (fs_children state))"

definition family_ok :: "family_disk \<Rightarrow> bool" where
  "family_ok disk \<longleftrightarrow>
     (case disk of
        None \<Rightarrow> True
      | Some state \<Rightarrow>
          bt_inv (fs_children state)
          \<and> length (fs_children state) \<le> unat (cr_max_children (fg_child_run_ceiling (fs_grant state)))
          \<and> budgets_fit (child_budgets state) (cr_family_budget (fg_child_run_ceiling (fs_grant state)))
          \<and> (\<forall>k p. bt_get (fs_children state) k = Some p \<longrightarrow> family_child_ok state k p))"

lemma validate_family_request_Ok:
  assumes "validate_family_request state r now = Ok ()"
  shows "fs_parent_revoked_at state = None"
    and "fr_root_operation_id r = fg_root_operation_id (fs_grant state)"
    and "1 \<le> unat (fr_depth r)"
    and "unat (fr_depth r) \<le> unat (cr_max_depth (fg_child_run_ceiling (fs_grant state)))"
    and "parent_link_ok state r" and "fr_child_run_id r \<noteq> fr_parent_operation_id r"
proof -
  have guard: "fs_parent_revoked_at state = None
      \<and> fr_root_operation_id r = fg_root_operation_id (fs_grant state)
      \<and> fr_depth r \<noteq> 0 \<and> \<not> fr_depth r > cr_max_depth (fg_child_run_ceiling (fs_grant state))
      \<and> fr_child_run_id r \<noteq> fr_parent_operation_id r"
    using assms unfolding validate_family_request_def Let_def by (auto split: if_splits)
  then show "fs_parent_revoked_at state = None"
    and "fr_root_operation_id r = fg_root_operation_id (fs_grant state)"
    and "1 \<le> unat (fr_depth r)"
    and "unat (fr_depth r) \<le> unat (cr_max_depth (fg_child_run_ceiling (fs_grant state)))"
    and "fr_child_run_id r \<noteq> fr_parent_operation_id r"
    by (auto simp: not_less word_le_nat_alt Suc_le_eq unat_gt_0)
  show "parent_link_ok state r"
    using assms unfolding validate_family_request_def Let_def parent_link_ok_def
    by (auto simp: attempt_Ok_iff ok_or_Ok_iff dest!: checked_add_unat split: if_splits)
qed

lemma parent_link_mono:
  assumes "parent_link_ok state r" and "bt_get (fs_children state) k = None"
  shows "parent_link_ok (state\<lparr>fs_children := bt_insert k p (fs_children state)\<rparr>) r"
  using assms by (auto simp: parent_link_ok_def)

lemma family_reserve_ok:
  assumes ok: "family_ok (Some state)" and plan: "plan_reservation E state request now = Ok (Fresh p)"
  shows "family_ok (Some (state\<lparr>fs_children := bt_insert (fr_child_run_id request) p (fs_children state)\<rparr>))"
    (is "family_ok (Some ?new)")
proof -
  note fresh = plan_reservation_Fresh [OF plan]
  note req = validate_family_request_Ok [OF fresh(1)]
  obtain total allocated where total: "allocated_budget (fs_children state) = Ok total"
    and add: "budget_checked_add total (fr_requested_budget request) = Ok allocated"
    and within: "is_within allocated (cr_family_budget (fg_child_run_ceiling (fs_grant state)))"
    using fresh(6) by blast
  have entries: "mset (fs_children ?new) = add_mset (fr_child_run_id request, p) (mset (fs_children state))"
    using mset_bt_insert_fresh [OF fresh(2)] by simp
  have "mset (child_budgets ?new) = mset (child_budgets state @ [fr_requested_budget request])"
    using arg_cong [OF entries, of "image_mset (\<lambda>(k, p). fr_requested_budget (fc_request p))"] fresh(4)
    by (simp add: child_budgets_def bt_values_def comp_def case_prod_unfold mset_map [symmetric] del: mset_map)
  moreover have "budgets_fit (child_budgets state @ [fr_requested_budget request])
      (cr_family_budget (fg_child_run_ceiling (fs_grant state)))"
    using budget_fold_Ok [OF total [unfolded allocated_budget_def]] budget_checked_add_Ok [OF add] within
    by (simp add: budgets_fit_def child_budgets_def is_within_nat budget_zero_def comp_def)
  ultimately have fit: "budgets_fit (child_budgets ?new) (cr_family_budget (fg_child_run_ceiling (fs_grant state)))"
    using budgets_fit_mset by blast
  have "length (fs_children ?new) = Suc (length (fs_children state))"
    using arg_cong [OF entries, of size] by simp
  moreover have "family_child_ok ?new k q" if "bt_get (fs_children ?new) k = Some q" for k q
    using that ok fresh(4) req parent_link_mono [OF _ fresh(2)]
    by (auto simp: family_ok_def family_child_ok_def split: if_splits)
  ultimately show ?thesis
    using ok fit fresh(3) by (simp add: family_ok_def bt_inv_insert)
qed

lemma family_step_ok:
  assumes "family_ok disk" and "family_step E encoded_len disk op = Ok disk'"
  shows "family_ok disk'"
proof -
  obtain F o' where op: "op = (F, o')" by (cases op)
  show ?thesis
  proof (cases o')
    case (FamilyOpen grant)
    obtain r where "family_from_dir_fd encoded_len F grant disk = (r, disk')"
      using assms(2) FamilyOpen op by (cases "family_from_dir_fd encoded_len F grant disk") (simp add: family_step_def)
    then show ?thesis
      by (cases rule: family_open_cases) (use assms(1) in \<open>auto simp: family_ok_def bt_inv_empty
          child_budgets_def bt_values_def bt_empty_def budgets_fit_def bt_get_def bt_inv_def\<close>)
  next
    case (FamilyReserve request now)
    obtain r where "reserve_child E encoded_len F request now disk = (r, disk')"
      using assms(2) FamilyReserve op by (cases "reserve_child E encoded_len F request now disk") (simp add: family_step_def)
    then show ?thesis
      by (cases rule: reserve_child_cases) (use assms(1) family_reserve_ok in auto)
  next
    case (FamilyRevokeParent now)
    obtain r where "revoke_parent encoded_len F now disk = (r, disk')"
      using assms(2) FamilyRevokeParent op by (cases "revoke_parent encoded_len F now disk") (simp add: family_step_def)
    then show ?thesis
      by (cases rule: revoke_parent_cases)
        (use assms(1) in \<open>auto simp: family_ok_def family_child_ok_def parent_link_ok_def child_budgets_def\<close>)
  qed
qed

interpretation family: guarded_machine "family_step E encoded_len" family_ok
  by unfold_locales (rule family_step_ok)

text \<open>Revocation of the parent, and the grant, never change again.\<close>

definition revoked_with :: "FamilyRootGrantV1 \<Rightarrow> time \<Rightarrow> family_disk \<Rightarrow> bool" where
  "revoked_with grant at disk \<longleftrightarrow>
     (\<exists>state. disk = Some state \<and> fs_grant state = grant \<and> fs_parent_revoked_at state = Some at)"

lemma family_step_revoked:
  assumes "revoked_with grant at disk" and "family_step E encoded_len disk op = Ok disk'"
  shows "revoked_with grant at disk'"
proof -
  obtain F o' where op: "op = (F, o')" by (cases op)
  obtain state where disk: "disk = Some state" "fs_grant state = grant" "fs_parent_revoked_at state = Some at"
    using assms(1) by (auto simp: revoked_with_def)
  show ?thesis
  proof (cases o')
    case (FamilyOpen g)
    obtain r where "family_from_dir_fd encoded_len F g disk = (r, disk')"
      using assms(2) FamilyOpen op by (cases "family_from_dir_fd encoded_len F g disk") (simp add: family_step_def)
    then show ?thesis by (cases rule: family_open_cases) (use assms(1) disk in auto)
  next
    case (FamilyReserve request now)
    obtain r where "reserve_child E encoded_len F request now disk = (r, disk')"
      using assms(2) FamilyReserve op by (cases "reserve_child E encoded_len F request now disk") (simp add: family_step_def)
    then show ?thesis
      by (cases rule: reserve_child_cases) (use assms(1) disk in \<open>auto simp: revoked_with_def\<close>)
  next
    case (FamilyRevokeParent now)
    obtain r where "revoke_parent encoded_len F now disk = (r, disk')"
      using assms(2) FamilyRevokeParent op by (cases "revoke_parent encoded_len F now disk") (simp add: family_step_def)
    then show ?thesis
      by (cases rule: revoke_parent_cases) (use assms(1) disk in auto)
  qed
qed

interpretation family_revoked:
  stable_fact "family_step E encoded_len" "\<lambda>_. True" "revoked_with grant at"
  by unfold_locales (auto intro: family_step_revoked)

section \<open>Properties\<close>

definition no_family_faults :: family_faults where
  "no_family_faults = \<lparr>ff_gate_poisoned = False, ff_lock_fails = False, ff_read_fails = False,
                       ff_write = WriteOk, ff_unlock_fails = False\<rparr>"

lemma reserve_child_without_faults:
  assumes "FamilyRootGrantV1_validate (fs_grant state) = Ok ()"
    and "plan_reservation E state request now = Ok (Fresh p)"
  shows "reserve_child E (\<lambda>_. 0) no_family_faults request now (Some state) =
     (Ok p, Some (state\<lparr>fs_children := bt_insert (fr_child_run_id request) p (fs_children state)\<rparr>))"
  using assms
  by (simp add: reserve_child_def family_with_lock_def no_family_faults_def read_state_def write_state_def)

definition sample_permit_budget :: "u64 \<Rightarrow> PermitBudgetV1" where
  "sample_permit_budget n = \<lparr>bg_max_wall_time_ms = n, bg_max_output_bytes = n, bg_max_artifact_bytes = n\<rparr>"

definition sample_root_grant :: FamilyRootGrantV1 where
  "sample_root_grant =
     \<lparr>fg_root_operation_id = ''root'', fg_parent_control_permit_id = ''ctl'', fg_actor = ''a'',
      fg_policy_version = ''1'', fg_effect_budget = sample_permit_budget 1,
      fg_child_run_ceiling = \<lparr>cr_max_depth = 2, cr_max_children = 2,
        cr_family_budget = sample_permit_budget 10, cr_not_before = 0, cr_expires_at = 5000000\<rparr>\<rparr>"

definition sample_child_request :: FamilyChildRequestV1 where
  "sample_child_request =
     \<lparr>fr_child_run_id = ''c1'', fr_parent_operation_id = ''root'', fr_root_operation_id = ''root'',
      fr_parent_control_permit_id = ''ctl'', fr_parent_admission_receipt_id = ''r'',
      fr_requested_budget = sample_permit_budget 3, fr_child_operation_digest = ''d'', fr_depth = 1\<rparr>"

definition sample_grandchild_request :: FamilyChildRequestV1 where
  "sample_grandchild_request =
     \<lparr>fr_child_run_id = ''c2'', fr_parent_operation_id = ''c1'', fr_root_operation_id = ''root'',
      fr_parent_control_permit_id = sample_id PERMIT_ID_DOMAIN, fr_parent_admission_receipt_id = ''r'',
      fr_requested_budget = sample_permit_budget 7, fr_child_operation_digest = ''d'', fr_depth = 2\<rparr>"

definition sample_family_permit :: "FamilyChildRequestV1 \<Rightarrow> FamilyChildControlPermitV1" where
  "sample_family_permit r = \<lparr>fc_child_control_permit_id = sample_id PERMIT_ID_DOMAIN, fc_request = r,
                             fc_state = FamilyIssued\<rparr>"

definition sample_family :: "(run_id \<times> FamilyChildControlPermitV1) list \<Rightarrow> FamilyAuthorityStateV1" where
  "sample_family cs = \<lparr>fs_grant = sample_root_grant, fs_parent_revoked_at = None, fs_children = cs\<rparr>"

lemma sample_grant_valid: "FamilyRootGrantV1_validate sample_root_grant = Ok ()"
  by (simp add: FamilyRootGrantV1_validate_def ChildRunCeilingV1_validate_def sample_root_grant_def
      sample_permit_budget_def budget_has_zero_def)

lemma sample_family_permit_id:
  "derive_family_child_permit_id sample_env r sample_root_grant = Ok (sample_id PERMIT_ID_DOMAIN)"
  by (simp add: derive_family_child_permit_id_def sample_root_grant_def try_u64_def num_milliseconds_since_def
      policy_digest_def derive_permit_id_def PermitIdentityMaterialV1_validate_def current_id_from_owner_def)

lemma sample_budget_add:
  "unat a + unat b < 2 ^ 64 \<Longrightarrow>
   budget_checked_add (sample_permit_budget a) (sample_permit_budget b) = Ok (sample_permit_budget (a + b))"
  by (simp add: budget_checked_add_def sample_permit_budget_def checked_add_def)

lemma sample_zero: "budget_zero = sample_permit_budget 0"
  by (simp add: budget_zero_def sample_permit_budget_def)

lemma sample_reserves_child:
  "reserve_child sample_env (\<lambda>_. 0) no_family_faults sample_child_request 1 (Some (sample_family [])) =
     (Ok (sample_family_permit sample_child_request),
      Some (sample_family [(''c1'', sample_family_permit sample_child_request)]))"
  using sample_grant_valid sample_family_permit_id [of sample_child_request]
  by (simp add: reserve_child_def family_with_lock_def no_family_faults_def read_state_def write_state_def
      plan_reservation_def validate_family_request_def sample_family_def sample_child_request_def
      sample_root_grant_def [THEN arg_cong [where f = fg_child_run_ceiling]]
      sample_root_grant_def [THEN arg_cong [where f = fg_root_operation_id]]
      sample_root_grant_def [THEN arg_cong [where f = fg_parent_control_permit_id]]
      bt_get_def bt_values_def allocated_budget_def sample_zero sample_budget_add is_within_def
      sample_family_permit_def)
    (simp add: sample_permit_budget_def)

text \<open>C3 a family never overspends.  After any sequence of calls, failing or not, starting from an empty
  directory, the children recorded in the family file are at most the granted number, the sums of
  their reserved budgets stay within the family budget in every dimension, and each child names the
  granted root, lies within the depth limit, and hangs one level below the root or below another
  recorded child whose control permit it cites.\<close>

theorem family_never_overspends:
  assumes "exec (family_step E encoded_len) None ops = Some state"
  shows "length (fs_children state) \<le> unat (cr_max_children (fg_child_run_ceiling (fs_grant state)))
       \<and> budgets_fit (child_budgets state) (cr_family_budget (fg_child_run_ceiling (fs_grant state)))
       \<and> (bt_get (fs_children state) k = Some p \<longrightarrow> family_child_ok state k p)"
  using family.exec_invar [of None E encoded_len ops] assms by (simp add: family_ok_def)

theorem family_never_overspends_witness:
  "length (fs_children (sample_family [(''c1'', sample_family_permit sample_child_request)])) \<le> 2
   \<and> budgets_fit (child_budgets (sample_family [(''c1'', sample_family_permit sample_child_request)]))
       (sample_permit_budget 10)"
proof -
  have "exec (family_step sample_env (\<lambda>_. 0)) None
      [(no_family_faults, FamilyOpen sample_root_grant), (no_family_faults, FamilyReserve sample_child_request 1)]
    = Some (sample_family [(''c1'', sample_family_permit sample_child_request)])"
    using sample_reserves_child sample_grant_valid
    by (simp add: exec1_def family_step_def family_from_dir_fd_def family_with_lock_def no_family_faults_def
        read_state_def write_state_def sample_family_def bt_empty_def)
  from family_never_overspends [OF this, of "''c1''"] show ?thesis
    by (simp add: sample_family_def sample_root_grant_def)
qed

text \<open>C25 revocation is final.  Once the family file records that the parent is revoked, every later
  sequence of calls keeps the recorded instant and the grant, no reservation succeeds, and no child
  dispatch is authorised.\<close>

theorem family_revocation_is_final:
  assumes "revoked_with grant at disk"
  shows "revoked_with grant at (exec (family_step E encoded_len) disk ops)
       \<and> \<not> is_ok (fst (reserve_child E encoded_len F request now (exec (family_step E encoded_len) disk ops)))
       \<and> \<not> is_ok (fst (guard_child_dispatch encoded_len F child permit now
                          (exec (family_step E encoded_len) disk ops)))"
proof -
  let ?d = "exec (family_step E encoded_len) disk ops"
  have r: "revoked_with grant at ?d"
    using family_revoked.exec_fact [where grant = grant and at = at] assms by blast
  obtain q d' where res: "reserve_child E encoded_len F request now ?d = (q, d')" by (cases "reserve_child E encoded_len F request now ?d")
  have "\<not> is_ok q"
    using res
  proof (cases rule: reserve_child_cases)
    case unchanged
    then show ?thesis using r by (cases q) (auto simp: revoked_with_def dest: plan_reservation_Existing(3))
  next
    case (written state p)
    then show ?thesis
      using r validate_family_request_Ok(1) [OF plan_reservation_Fresh(1) [OF written(2)]]
      by (auto simp: revoked_with_def)
  qed
  moreover have "\<not> is_ok (fst (guard_child_dispatch encoded_len F child permit now ?d))"
  proof (rule notI)
    assume "is_ok (fst (guard_child_dispatch encoded_len F child permit now ?d))"
    then obtain d'' where "guard_child_dispatch encoded_len F child permit now ?d = (Ok (), d'')"
      by (cases "guard_child_dispatch encoded_len F child permit now ?d") (auto simp: is_ok_iff)
    from guard_child_dispatch_Ok [OF this] r show False by (auto simp: revoked_with_def)
  qed
  ultimately show ?thesis using r res by simp
qed

theorem family_revocation_is_final_witness:
  "\<not> is_ok (fst (reserve_child sample_env (\<lambda>_. 0) no_family_faults sample_child_request 1
       (exec (family_step sample_env (\<lambda>_. 0)) (Some ((sample_family [])\<lparr>fs_parent_revoked_at := Some 1\<rparr>))
          [(no_family_faults, FamilyOpen sample_root_grant)])))"
proof -
  have "revoked_with sample_root_grant 1 (Some ((sample_family [])\<lparr>fs_parent_revoked_at := Some 1\<rparr>))"
    by (simp add: revoked_with_def sample_family_def)
  from family_revocation_is_final [OF this] show ?thesis by blast
qed

text \<open>C40 reservations are durable before they are acknowledged, and atomic.  Whatever fails during
  \<open>reserve_child\<close>, the file afterwards is the old one or the old one with the requested child added;
  an acknowledged permit is in the file for exactly this request; and asking again for the same child
  while the file stands returns the recorded permit without changing the file, or an error.\<close>

theorem reservation_is_durable_and_idempotent:
  assumes "reserve_child E encoded_len F request now disk = (r, disk')"
  shows "(disk' = disk
          \<or> (\<exists>state p. disk = Some state \<and> fc_request p = request
               \<and> disk' = Some (state\<lparr>fs_children := bt_insert (fr_child_run_id request) p (fs_children state)\<rparr>)))
       \<and> (r = Ok p \<longrightarrow>
            fc_request p = request
            \<and> (\<exists>state'. disk' = Some state' \<and> bt_get (fs_children state') (fr_child_run_id request) = Some p)
            \<and> (\<forall>G other later. fr_child_run_id other = fr_child_run_id request \<longrightarrow>
                 (let again = reserve_child E encoded_len G other later disk'
                  in snd again = disk' \<and> (is_ok (fst again) \<longrightarrow> fst again = Ok p \<and> other = request))))"
proof -
  have again: "snd (reserve_child E encoded_len G other later (Some state)) = Some state
        \<and> (is_ok (fst (reserve_child E encoded_len G other later (Some state))) \<longrightarrow>
             fst (reserve_child E encoded_len G other later (Some state)) = Ok p \<and> other = fc_request p)"
    if "bt_get (fs_children state) (fr_child_run_id other) = Some p" for state p G other later
  proof -
    obtain q d where q: "reserve_child E encoded_len G other later (Some state) = (q, d)"
      by (cases "reserve_child E encoded_len G other later (Some state)")
    then show ?thesis
    proof (cases rule: reserve_child_cases)
      case unchanged
      have "b = p \<and> other = fc_request p" if "q = Ok b" for b
        using unchanged(2) [OF that] plan_reservation_Existing(1,2) \<open>bt_get _ _ = Some p\<close> by fastforce
      with unchanged(1) q show ?thesis by (cases q) auto
    next
      case (written s p')
      then show ?thesis using that plan_reservation_Fresh(2) [OF written(2)] by simp
    qed
  qed
  have stored: ?thesis
    if "r = Ok p \<Longrightarrow> disk' = Some state' \<and> bt_get (fs_children state') (fr_child_run_id request) = Some p
            \<and> fc_request p = request"
      and "disk' = disk \<or> (\<exists>state p. disk = Some state \<and> fc_request p = request
               \<and> disk' = Some (state\<lparr>fs_children := bt_insert (fr_child_run_id request) p (fs_children state)\<rparr>))"
    for state'
    using that again [of state' _ p] by (auto simp: Let_def)
  from assms show ?thesis
  proof (cases rule: reserve_child_cases)
    case unchanged
    show ?thesis
    proof (cases "r = Ok p")
      case True
      then obtain state where "disk = Some state" and "plan_reservation E state request now = Ok (Existing p)"
        using unchanged(2) by blast
      with unchanged(1) plan_reservation_Existing(1,2) show ?thesis by (intro stored [of state]) auto
    qed (use unchanged(1) in simp)
  next
    case (written state q)
    let ?new = "state\<lparr>fs_children := bt_insert (fr_child_run_id request) q (fs_children state)\<rparr>"
    have "fc_request q = request" by (rule plan_reservation_Fresh(4) [OF written(2)])
    with written show ?thesis by (intro stored [of ?new]) auto
  qed
qed

theorem reservation_is_durable_and_idempotent_witness:
  "snd (reserve_child sample_env (\<lambda>_. 0) no_family_faults sample_child_request 2
          (Some (sample_family [(''c1'', sample_family_permit sample_child_request)])))
     = Some (sample_family [(''c1'', sample_family_permit sample_child_request)])"
  using reservation_is_durable_and_idempotent [OF sample_reserves_child, of "sample_family_permit sample_child_request"]
  by (auto simp: Let_def)

text \<open>The family budget is shared, not nested: a child of depth two may reserve more than the child it
  hangs below reserved itself.\<close>

lemma grandchild_budget_may_exceed_parent:
  "\<exists>p. fst (reserve_child sample_env (\<lambda>_. 0) no_family_faults sample_grandchild_request 1
              (Some (sample_family [(''c1'', sample_family_permit sample_child_request)]))) = Ok p
     \<and> \<not> is_within (fr_requested_budget (fc_request p)) (fr_requested_budget sample_child_request)"
proof -
  let ?disk = "sample_family [(''c1'', sample_family_permit sample_child_request)]"
  have valid: "validate_family_request ?disk sample_grandchild_request 1 = Ok ()"
    by (simp add: validate_family_request_def sample_family_def sample_grandchild_request_def sample_root_grant_def
        sample_family_permit_def sample_child_request_def bt_get_def checked_add_def is_within_def
        sample_permit_budget_def)
  have total: "allocated_budget (fs_children ?disk) = Ok (sample_permit_budget 3)"
    by (simp add: allocated_budget_def sample_family_def bt_values_def sample_family_permit_def
        sample_child_request_def sample_zero sample_budget_add)
  have "plan_reservation sample_env ?disk sample_grandchild_request 1
      = Ok (Fresh (sample_family_permit sample_grandchild_request))"
  proof -
    have "fr_child_run_id sample_grandchild_request = ''c2''"
      and "fr_requested_budget sample_grandchild_request = sample_permit_budget 7"
      and "fs_grant ?disk = sample_root_grant"
      and "fs_children ?disk = [(''c1'', sample_family_permit sample_child_request)]"
      and "cr_max_children (fg_child_run_ceiling sample_root_grant) = 2"
      and "cr_family_budget (fg_child_run_ceiling sample_root_grant) = sample_permit_budget 10"
      by (simp_all add: sample_grandchild_request_def sample_family_def sample_root_grant_def)
    then show ?thesis
      using total sample_family_permit_id [of sample_grandchild_request]
      by (simp add: plan_reservation_def valid sample_budget_add bt_get_def bt_values_def)
        (simp add: is_within_def sample_permit_budget_def sample_family_permit_def)
  qed
  moreover have "FamilyRootGrantV1_validate (fs_grant ?disk) = Ok ()"
    using sample_grant_valid by (simp add: sample_family_def)
  ultimately have "fst (reserve_child sample_env (\<lambda>_. 0) no_family_faults sample_grandchild_request 1
      (Some ?disk)) = Ok (sample_family_permit sample_grandchild_request)"
    by (simp add: reserve_child_without_faults)
  then show ?thesis
    by (simp add: sample_family_permit_def sample_grandchild_request_def sample_child_request_def
        is_within_def sample_permit_budget_def)
qed

end
