(* ===== verification/PermitStore.thy ===== *)
theory PermitStore
  imports Admission Family
begin

text \<open>
  The durable permit store of \<open>recursive-agent-policy/src/lib.rs\<close> (\<open>DurablePermitStore\<close>): one file
  per permit, the normal-chat family journal, and the operations that issue, consume, revoke, report on
  and settle a permit.  The disk is explicit state; what the operating system answers during one call
  (locks, reads, the stages of each replacement, the directory listing, the context-authority file) is
  the record \<open>permit_io\<close>.  What the operations guarantee is proved in \<open>PermitLife\<close>.
\<close>

section \<open>Disk and operating system\<close>

abbreviation MAX_PERMIT_RECORD_BYTES :: nat where
  "MAX_PERMIT_RECORD_BYTES \<equiv> 1024 * 1024"

text \<open>The last instant \<open>chrono::DateTime<Utc>\<close> represents, in nanoseconds since the epoch.\<close>

definition max_instant :: time where "max_instant = 8210266876799999999999"

definition checked_add_millis :: "time \<Rightarrow> int \<Rightarrow> time option" where
  "checked_add_millis t ms = (let t' = t + ms * 1000000 in if t' \<le> max_instant then Some t' else None)"

record permit_disk =
  pd_files :: "string \<Rightarrow> PermitRecordV1 option"
  pd_chat :: "NormalChatFamilyStateV1 option"

datatype replace_fault = ReplaceOk | WriteFails | SyncFails | RenameFails | DirectorySyncFails

text \<open>\<open>io_context\<close> is what reading the context-authority file gives: an error, or whether it exists.
  \<open>io_entries\<close> is the listing of the permit directory.\<close>

record permit_io =
  io_gate_poisoned :: bool
  io_lock_fails :: bool
  io_unlock_fails :: bool
  io_context :: "PolicyError + bool"
  io_read_fails :: "string \<Rightarrow> bool"
  io_replace :: "string \<Rightarrow> replace_fault"
  io_entries :: "io_error + (io_error + string) list"
  io_record_len :: "PermitRecordV1 \<Rightarrow> nat"
  io_chat_len :: "NormalChatFamilyStateV1 \<Rightarrow> nat"

type_synonym 'a permit_result = "(PolicyError + 'a) \<times> permit_disk"

definition bind_op :: "'a permit_result \<Rightarrow> ('a \<Rightarrow> permit_disk \<Rightarrow> 'b permit_result) \<Rightarrow> 'b permit_result" where
  "bind_op r f = (case r of (Err e, d) \<Rightarrow> (Err e, d) | (Ok x, d) \<Rightarrow> f x d)"

definition permit_with_lock ::
    "permit_io \<Rightarrow> (permit_disk \<Rightarrow> 'a permit_result) \<Rightarrow> permit_disk \<Rightarrow> 'a permit_result" where
  "permit_with_lock IO operation d =
     (if io_gate_poisoned IO then (Err PermitStateConflict, d)
      else if io_lock_fails IO then (Err (PolicyIo IoOther), d)
      else bind_op (operation d) (\<lambda>v d'.
             (if io_unlock_fails IO then Err (PolicyIo IoOther) else Ok v, d')))"

section \<open>Opening the store\<close>

record dir_metadata =
  dm_is_dir :: bool
  dm_mode :: u32
  dm_dev :: u64
  dm_ino :: u64
  dm_uid :: u32

record DurablePermitStore =
  ds_run_root :: "u64 \<times> u64"
  ds_permit_root :: "u64 \<times> u64"

definition directory_identity :: "io_error + dir_metadata \<Rightarrow> PolicyError + u64 \<times> u64 \<times> u32" where
  "directory_identity metadata =
     attempt (map_err PolicyIo metadata) (\<lambda>m.
       if \<not> dm_is_dir m \<or> and (dm_mode m) 18 \<noteq> 0
       then Err (UnsafePermitRoot ''permit directory must be a non-group/world-writable directory'')
       else Ok (dm_dev m, dm_ino m, dm_uid m))"

datatype mkdir_answer = MkdirOk | MkdirAlreadyExists | MkdirFails

text \<open>\<open>first_open\<close> and \<open>second_open\<close> are the answers to opening \<open>permits\<close> before and after creating it.\<close>

definition open_permit_child ::
    "io_error + 'd \<Rightarrow> mkdir_answer \<Rightarrow> io_error + 'd \<Rightarrow> PolicyError + 'd" where
  "open_permit_child first_open mkdir second_open =
     (case first_open of
        Ok fd \<Rightarrow> Ok fd
      | Err IoNotFound \<Rightarrow>
          if mkdir = MkdirFails then Err (PolicyIo IoOther) else map_err PolicyIo second_open
      | Err e \<Rightarrow> Err (PolicyIo e))"

text \<open>\<open>lock\<close> is the answer to opening \<open>.permit.lock\<close>: an error, or whether it is a regular file.\<close>

definition from_root_file ::
    "io_error + bool \<Rightarrow> u64 \<times> u64 \<times> u32 \<Rightarrow> u64 \<times> u64 \<times> u32 \<Rightarrow> PolicyError + DurablePermitStore" where
  "from_root_file lock run_identity permit_identity =
     attempt (map_err PolicyIo lock) (\<lambda>is_file.
       if \<not> is_file then Err (UnsafePermitRoot ''permit lock must be a regular file'')
       else Ok \<lparr>ds_run_root = (fst run_identity, fst (snd run_identity)),
                ds_permit_root = (fst permit_identity, fst (snd permit_identity))\<rparr>)"

definition from_run_root_fd ::
    "io_error + dir_metadata \<Rightarrow> io_error + (io_error + dir_metadata) \<Rightarrow> mkdir_answer \<Rightarrow>
     io_error + (io_error + dir_metadata) \<Rightarrow> io_error + bool \<Rightarrow> PolicyError + DurablePermitStore" where
  "from_run_root_fd run_root first_open mkdir second_open lock =
     attempt (directory_identity run_root) (\<lambda>run_identity.
     attempt (open_permit_child first_open mkdir second_open) (\<lambda>permit_root.
     attempt (directory_identity permit_root) (\<lambda>permit_identity.
       if snd (snd permit_identity) \<noteq> snd (snd run_identity)
       then Err (UnsafePermitRoot ''permit root owner differs from pinned run root'')
       else from_root_file lock run_identity permit_identity)))"

definition from_dir_fd ::
    "io_error + dir_metadata \<Rightarrow> io_error + bool \<Rightarrow> PolicyError + DurablePermitStore" where
  "from_dir_fd root lock =
     attempt (directory_identity root) (\<lambda>identity. from_root_file lock identity identity)"

section \<open>Reading\<close>

definition state_name :: "env \<Rightarrow> permit_id \<Rightarrow> PolicyError + string" where
  "state_name E permit_id =
     attempt (policy_digest E (JStr permit_id)) (\<lambda>digest. Ok (''permit-'' @ digest @ ''.json''))"

definition read_normal_chat_family_state ::
    "permit_io \<Rightarrow> permit_disk \<Rightarrow> PolicyError + NormalChatFamilyStateV1" where
  "read_normal_chat_family_state IO d =
     (if io_read_fails IO NORMAL_CHAT_FAMILY_STATE_NAME then Err (PolicyIo IoOther)
      else
        (case pd_chat d of
           None \<Rightarrow> Ok NormalChatFamilyStateV1_empty
         | Some state \<Rightarrow>
             if io_chat_len IO state > MAX_NORMAL_CHAT_FAMILY_STATE_BYTES then Err PermitStateConflict
             else attempt (NormalChatFamilyStateV1_validate state) (\<lambda>_. Ok state)))"

definition settlement_ok ::
    "PermitBindingV1 \<Rightarrow> PermitOutcomeReceiptV1 option \<Rightarrow> NormalChatSettlementV1 \<Rightarrow> bool" where
  "settlement_ok binding outcome_receipt settlement =
     (case outcome_receipt of
        None \<Rightarrow> False
      | Some outcome \<Rightarrow>
          ns_outcome settlement = outcome \<and> ro_state (po_reported outcome) = ReportedSucceeded
          \<and> ro_duration_ms (po_reported outcome) \<le> bg_max_wall_time_ms (pb_budget binding)
          \<and> list_all (\<lambda>descriptor.
               is_ok (ArtifactDescriptorV1_validate descriptor)
               \<and> ad_media_type descriptor = ''application/json'' \<and> ad_encoding descriptor = None
               \<and> ad_byte_length descriptor \<noteq> 0)
             [ns_response settlement, ns_observation settlement]
          \<and> (case checked_add (ad_byte_length (ns_response settlement))
                     (ad_byte_length (ns_observation settlement)) of
               None \<Rightarrow> False
             | Some bytes \<Rightarrow> bytes \<le> bg_max_artifact_bytes (pb_budget binding)))"

definition retained_admission_ok ::
    "env \<Rightarrow> permit_io \<Rightarrow> permit_disk \<Rightarrow> PermitRecordV1 \<Rightarrow> NormalChatAdmissionRequestV1 \<Rightarrow> bool" where
  "retained_admission_ok E IO d record admission =
     (let binding = xp_binding (pr_permit record); att = ar_attempt admission in
      is_ok (chat_validate_structure E admission)
      \<and> (case pr_state record of
           PermitConsumedState consumed_at \<Rightarrow>
             pr_preflight_receipt record \<noteq> None \<and> xp_purpose (pr_permit record) = EffectPurpose
             \<and> is_closed_normal_chat_effect (pb_tool binding) (pb_effect binding)
             \<and> attempt_run_id E att = Ok (pb_run_id binding)
             \<and> pb_args_digest binding = ar_tool_arguments_digest admission
             \<and> bg_max_wall_time_ms (pb_budget binding) \<le> nb_max_wall_time_ms (nc_budget (na_operation att))
             \<and> pb_issued_at binding \<le> consumed_at \<and> pb_not_before binding \<le> consumed_at
             \<and> consumed_at < pb_expires_at binding
         | _ \<Rightarrow> False)
      \<and> (case pb_parent_permit_id binding of
           None \<Rightarrow> False
         | Some parent \<Rightarrow>
             (case read_normal_chat_family_state IO d of
                Err _ \<Rightarrow> False
              | Ok state \<Rightarrow>
                  (case bt_get (nfs_families state) parent of
                     None \<Rightarrow> False
                   | Some family \<Rightarrow>
                       (case bt_get (nfr_attempts family) (na_attempt_number att) of
                          None \<Rightarrow> False
                        | Some reservation \<Rightarrow>
                            (case pr_normal_chat_settlement record of
                               None \<Rightarrow> True
                             | Some settlement \<Rightarrow>
                                 settlement_ok binding (pr_outcome_receipt record) settlement)
                            \<and> policy_digest E (normal_chat_operation_json E (na_operation att))
                                = Ok (nfr_operation_digest family)
                            \<and> nfr_max_attempts family = nb_max_attempts (nc_budget (na_operation att))
                            \<and> nr_attempt_id reservation = na_attempt_id att
                            \<and> nr_permit_id reservation = xp_permit_id (pr_permit record))))))"

definition validate_record_bindings ::
    "env \<Rightarrow> permit_io \<Rightarrow> permit_disk \<Rightarrow> PermitRecordV1 \<Rightarrow> PolicyError + unit" where
  "validate_record_bindings E IO d record =
     attempt (validate_receipt_bindings E record) (\<lambda>_.
       let corrupt = rejected (xp_permit_id (pr_permit record)) StateCorrupted in
       case pr_retained_normal_chat_admission record of
         None \<Rightarrow> if pr_normal_chat_settlement record = None then Ok () else Err corrupt
       | Some admission \<Rightarrow> if retained_admission_ok E IO d record admission then Ok () else Err corrupt)"

definition read_record ::
    "env \<Rightarrow> permit_io \<Rightarrow> permit_disk \<Rightarrow> permit_id \<Rightarrow> PolicyError + PermitRecordV1" where
  "read_record E IO d permit_id =
     attempt (state_name E permit_id) (\<lambda>name.
     if io_read_fails IO name then Err (PolicyIo IoOther)
     else
       (case pd_files d name of
          None \<Rightarrow> Err (PolicyIo IoNotFound)
        | Some record \<Rightarrow>
            let corrupt = rejected permit_id StateCorrupted in
            if io_record_len IO record > MAX_PERMIT_RECORD_BYTES then Err corrupt
            else if xp_permit_id (pr_permit record) \<noteq> permit_id then Err corrupt
            else
              attempt (permit_identity_material E (pr_permit record)) (\<lambda>material.
              attempt (map_err PolicyContract (derive_permit_id E material)) (\<lambda>derived.
                if derived \<noteq> permit_id then Err corrupt
                else attempt (validate_record_bindings E IO d record) (\<lambda>_. Ok record)))))"

definition read_record_or_reject ::
    "env \<Rightarrow> permit_io \<Rightarrow> permit_disk \<Rightarrow> permit_id \<Rightarrow> PolicyError + PermitRecordV1" where
  "read_record_or_reject E IO d permit_id =
     map_err (\<lambda>e. if e = PolicyIo IoNotFound then rejected permit_id NotIssued else e)
       (read_record E IO d permit_id)"

section \<open>Writing\<close>

text \<open>The stages of a replacement, with the interruption points of \<open>PermitTransitionStage\<close>.  Only the
  rename changes the directory; the temporary file is never read.\<close>

definition replace_record ::
    "env \<Rightarrow> permit_io \<Rightarrow> PermitRecordV1 \<Rightarrow> PermitTransitionStage option \<Rightarrow> permit_disk \<Rightarrow>
     unit permit_result" where
  "replace_record E IO record interrupt_after d =
     (case validate_record_bindings E IO d record of
        Err e \<Rightarrow> (Err e, d)
      | Ok _ \<Rightarrow>
          (case state_name E (xp_permit_id (pr_permit record)) of
             Err e \<Rightarrow>
               (if interrupt_after = Some TempWrite then (Err (InjectedInterruption TempWrite), d)
                else if interrupt_after = Some TempFsync then (Err (InjectedInterruption TempFsync), d)
                else (Err e, d))
           | Ok name \<Rightarrow>
               let fault = io_replace IO name;
                   d' = d\<lparr>pd_files := (pd_files d)(name \<mapsto> record)\<rparr>
               in
               if fault = WriteFails then (Err (PolicyIo IoOther), d)
               else if interrupt_after = Some TempWrite then (Err (InjectedInterruption TempWrite), d)
               else if fault = SyncFails then (Err (PolicyIo IoOther), d)
               else if interrupt_after = Some TempFsync then (Err (InjectedInterruption TempFsync), d)
               else if fault = RenameFails then (Err (PolicyIo IoOther), d)
               else if interrupt_after = Some Rename then (Err (InjectedInterruption Rename), d')
               else if fault = DirectorySyncFails then (Err (PolicyIo IoOther), d')
               else if interrupt_after = Some DirectoryFsync
               then (Err (InjectedInterruption DirectoryFsync), d')
               else (Ok (), d')))"

definition write_normal_chat_family_state ::
    "permit_io \<Rightarrow> NormalChatFamilyStateV1 \<Rightarrow> permit_disk \<Rightarrow> unit permit_result" where
  "write_normal_chat_family_state IO state d =
     (case io_replace IO NORMAL_CHAT_FAMILY_STATE_NAME of
        ReplaceOk \<Rightarrow> (Ok (), d\<lparr>pd_chat := Some state\<rparr>)
      | DirectorySyncFails \<Rightarrow> (Err (PolicyIo IoOther), d\<lparr>pd_chat := Some state\<rparr>)
      | _ \<Rightarrow> (Err (PolicyIo IoOther), d))"

definition scan_entry ::
    "env \<Rightarrow> permit_io \<Rightarrow> permit_disk \<Rightarrow> nat \<times> (io_error + string) \<Rightarrow> PolicyError + unit" where
  "scan_entry E IO d = (\<lambda>(index, entry).
     if index \<ge> 4096 then Err (InvalidLease ''normal-chat permit directory scan limit exceeded'')
     else
       attempt (map_err PolicyIo entry) (\<lambda>name.
       if \<not> starts_with name ''permit-'' \<or> \<not> ends_with name ''.json'' then Ok ()
       else if \<not> from_utf8 name then Err PermitStateConflict
       else if io_read_fails IO name then Err (PolicyIo IoOther)
       else
         (case pd_files d name of
            None \<Rightarrow> Err (PolicyIo IoNotFound)
          | Some record \<Rightarrow>
              if io_record_len IO record > MAX_PERMIT_RECORD_BYTES then Err PermitStateConflict
              else
                attempt (validate_record_bindings E IO d record) (\<lambda>_.
                attempt (state_name E (xp_permit_id (pr_permit record))) (\<lambda>expected.
                if expected \<noteq> name then Err PermitStateConflict
                else
                  attempt (permit_identity_material E (pr_permit record)) (\<lambda>material.
                  attempt (map_err PolicyContract (derive_permit_id E material)) (\<lambda>derived.
                    if derived \<noteq> xp_permit_id (pr_permit record) then Err PermitStateConflict
                    else Ok ())))))))"

definition validate_normal_chat_permit_directory ::
    "env \<Rightarrow> permit_io \<Rightarrow> permit_disk \<Rightarrow> PolicyError + unit" where
  "validate_normal_chat_permit_directory E IO d =
     attempt (map_err PolicyIo (io_entries IO)) (\<lambda>entries.
       try_for_each (scan_entry E IO d) (enumerate 0 entries))"

definition reserve_normal_chat_attempt ::
    "env \<Rightarrow> permit_io \<Rightarrow> NormalChatFamilyReservationV1 \<Rightarrow> permit_id \<Rightarrow> permit_disk \<Rightarrow>
     unit permit_result" where
  "reserve_normal_chat_attempt E IO reservation permit_id d =
     (case attempt (validate_normal_chat_permit_directory E IO d) (\<lambda>_.
             if nf_attempt_number reservation = 0
                \<or> nf_attempt_number reservation > nf_max_attempts reservation
                \<or> nf_max_attempts reservation = 0
             then Err (BudgetOverrun ''normal-chat attempt exceeds its family ceiling'')
             else
               attempt (read_normal_chat_family_state IO d) (\<lambda>state.
                 plan_chat_attempt state reservation permit_id)) of
        Err e \<Rightarrow> (Err e, d)
      | Ok None \<Rightarrow> (Ok (), d)
      | Ok (Some state) \<Rightarrow> write_normal_chat_family_state IO state d)"

section \<open>Issuing\<close>

definition reject_legacy_context_admission :: "permit_io \<Rightarrow> PolicyError + unit" where
  "reject_legacy_context_admission IO =
     attempt (io_context IO) (\<lambda>present.
       if present then Err (InvalidLease ''context authority: legacy admission fenced'') else Ok ())"

definition fresh_record :: "ExecutionPermitV1 \<Rightarrow> PermitRecordV1" where
  "fresh_record permit =
     \<lparr>pr_permit = permit, pr_state = PermitIssuedState, pr_child_allocations = bt_empty,
      pr_preflight_receipt = None, pr_outcome_receipt = None,
      pr_retained_normal_chat_admission = None, pr_normal_chat_settlement = None\<rparr>"

definition issue_precheck ::
    "env \<Rightarrow> PermitBindingV1 \<Rightarrow> DelegationCeilingV1 option \<Rightarrow> ExecutableAuthorityV1 list \<Rightarrow> time \<Rightarrow>
     PolicyError + unit" where
  "issue_precheck E binding ceiling executables now =
     attempt (PermitBindingV1_validate E binding) (\<lambda>_.
     attempt (case ceiling of None \<Rightarrow> Ok () | Some c \<Rightarrow> DelegationCeilingV1_validate E c) (\<lambda>_.
     attempt (try_for_each ExecutableAuthorityV1_validate executables) (\<lambda>_.
       if pb_issued_at binding > now
       then Err (InvalidLease ''issued_at must not be in the future of the trusted clock'')
       else
         attempt (ok_or (InvalidLease ''lease maximum overflow'')
                    (checked_add_millis now MAX_LIVE_LEASE_MILLISECONDS)) (\<lambda>maximum_expiry.
           if pb_not_before binding > now \<or> pb_expires_at binding \<le> now
              \<or> pb_expires_at binding > maximum_expiry
           then Err (InvalidLease ''requested permit validity is outside the trusted policy window'')
           else Ok ()))))"

definition read_parent ::
    "env \<Rightarrow> permit_io \<Rightarrow> permit_disk \<Rightarrow> PermitBindingV1 \<Rightarrow> PolicyError + PermitRecordV1 option" where
  "read_parent E IO d binding =
     (case pb_parent_permit_id binding of
        None \<Rightarrow> Ok None
      | Some parent_id \<Rightarrow>
          attempt (map_err (\<lambda>_. rejected parent_id WrongParent) (read_record E IO d parent_id))
            (\<lambda>r. Ok (Some r)))"

definition existing_child :: "env \<Rightarrow> permit_io \<Rightarrow> permit_disk \<Rightarrow> ExecutionPermitV1 \<Rightarrow> PolicyError + bool" where
  "existing_child E IO d permit =
     (case read_record E IO d (xp_permit_id permit) of
        Ok existing \<Rightarrow> if existing = fresh_record permit then Ok True else Err PermitStateConflict
      | Err e \<Rightarrow> if e = PolicyIo IoNotFound then Ok False else Err e)"

text \<open>The permit with its parent record and whether its file already exists.\<close>

definition prepare_permit ::
    "env \<Rightarrow> permit_io \<Rightarrow> permit_disk \<Rightarrow> PermitBindingV1 \<Rightarrow> PermitPurposeV1 \<Rightarrow>
     DelegationCeilingV1 option \<Rightarrow> ExecutableAuthorityV1 list \<Rightarrow>
     PolicyError + (ExecutionPermitV1 \<times> PermitRecordV1 option \<times> bool)" where
  "prepare_permit E IO d binding purpose ceiling executables =
     attempt (reject_legacy_context_admission IO) (\<lambda>_.
     attempt (read_parent E IO d binding) (\<lambda>parent.
     attempt (case parent of
                None \<Rightarrow> Ok None
              | Some r \<Rightarrow> attempt (derive_delegation_identity (pr_permit r) binding)
                            (\<lambda>i. Ok (Some i))) (\<lambda>identity.
     attempt (execution_permit_id E binding purpose ceiling identity executables) (\<lambda>permit_id.
       let permit = \<lparr>xp_permit_id = permit_id, xp_binding = binding, xp_purpose = purpose,
                     xp_delegation_ceiling = ceiling, xp_delegation_identity = identity,
                     xp_executable_authority = executables\<rparr> in
       attempt (PermitEvidenceV1_from_record E (fresh_record permit)) (\<lambda>_.
       attempt (existing_child E IO d permit) (\<lambda>existing. Ok (permit, parent, existing)))))))"

definition allocate_child ::
    "env \<Rightarrow> ExecutionPermitV1 \<Rightarrow> PermitRecordV1 \<Rightarrow> time \<Rightarrow> NormalChatFamilyReservationV1 option \<Rightarrow>
     PolicyError + PermitRecordV1" where
  "allocate_child E permit parent now family =
     attempt (validate_parent_binding_with_normal_chat_family E permit parent now family) (\<lambda>_.
       let budget = pb_budget (xp_binding permit);
           previous = bt_get (pr_child_allocations parent) (xp_permit_id permit);
           allocations = bt_insert (xp_permit_id permit) budget (pr_child_allocations parent)
       in
       if previous \<noteq> None \<and> previous \<noteq> Some budget then Err PermitStateConflict
       else
         attempt (try_fold budget_checked_add budget_zero (bt_values allocations)) (\<lambda>allocated.
         attempt (ok_or (rejected (xp_permit_id permit) WrongParent)
                    (xp_delegation_ceiling (pr_permit parent))) (\<lambda>ceiling.
           if \<not> is_within allocated (dc_budget ceiling)
           then Err (rejected (xp_permit_id permit) BudgetExceeded)
           else Ok (parent\<lparr>pr_child_allocations := allocations\<rparr>))))"

definition reserve_family ::
    "env \<Rightarrow> permit_io \<Rightarrow> NormalChatFamilyReservationV1 option \<Rightarrow> permit_id \<Rightarrow> permit_disk \<Rightarrow>
     unit permit_result" where
  "reserve_family E IO family permit_id d =
     (case family of
        None \<Rightarrow> (Ok (), d)
      | Some reservation \<Rightarrow> reserve_normal_chat_attempt E IO reservation permit_id d)"

definition allocate_from_parent ::
    "env \<Rightarrow> permit_io \<Rightarrow> ExecutionPermitV1 \<Rightarrow> PermitRecordV1 option \<Rightarrow> time \<Rightarrow>
     NormalChatFamilyReservationV1 option \<Rightarrow> permit_disk \<Rightarrow> unit permit_result" where
  "allocate_from_parent E IO permit parent now family d =
     (case parent of
        None \<Rightarrow> (Ok (), d)
      | Some r \<Rightarrow>
          bind_op (allocate_child E permit r now family, d) (\<lambda>r' d.
          bind_op (reserve_family E IO family (xp_permit_id permit) d) (\<lambda>_ d.
            replace_record E IO r' None d)))"

definition issue_authority ::
    "env \<Rightarrow> permit_io \<Rightarrow> PermitBindingV1 \<Rightarrow> PermitPurposeV1 \<Rightarrow> DelegationCeilingV1 option \<Rightarrow>
     ExecutableAuthorityV1 list \<Rightarrow> time \<Rightarrow> NormalChatFamilyReservationV1 option \<Rightarrow> permit_disk \<Rightarrow>
     ExecutionPermitV1 permit_result" where
  "issue_authority E IO binding purpose ceiling executables now family d =
     bind_op (issue_precheck E binding ceiling executables now, d) (\<lambda>_ d.
     permit_with_lock IO (\<lambda>d.
       bind_op (prepare_permit E IO d binding purpose ceiling executables, d)
         (\<lambda>(permit, parent, existing) d.
       bind_op (allocate_from_parent E IO permit parent now family d) (\<lambda>_ d.
         if existing then (Ok permit, d)
         else bind_op (replace_record E IO (fresh_record permit) None d) (\<lambda>_ d. (Ok permit, d))))) d)"

definition issue ::
    "env \<Rightarrow> permit_io \<Rightarrow> PermitBindingV1 \<Rightarrow> time \<Rightarrow> permit_disk \<Rightarrow> ExecutionPermitV1 permit_result" where
  "issue E IO binding now d =
     (if pb_parent_permit_id binding \<noteq> None
      then (Err (InvalidLease ''child effect issuance requires explicit executable authority''), d)
      else if es_network_allowed (pb_effect binding) then (Err NetworkUnavailable, d)
      else issue_authority E IO binding EffectPurpose None [] now None d)"

definition issue_control ::
    "env \<Rightarrow> permit_io \<Rightarrow> PermitBindingV1 \<Rightarrow> DelegationCeilingV1 \<Rightarrow> time \<Rightarrow> permit_disk \<Rightarrow>
     ExecutionPermitV1 permit_result" where
  "issue_control E IO binding ceiling now d =
     issue_authority E IO binding ControlPurpose (Some ceiling) [] now None d"

definition issue_effect ::
    "env \<Rightarrow> permit_io \<Rightarrow> PermitBindingV1 \<Rightarrow> ExecutableAuthorityV1 list \<Rightarrow> time \<Rightarrow> permit_disk \<Rightarrow>
     ExecutionPermitV1 permit_result" where
  "issue_effect E IO binding executables now d =
     (if pb_parent_permit_id binding = None
      then (Err (InvalidLease ''delegated effect permit requires a control parent''), d)
      else if es_network_allowed (pb_effect binding) then (Err NetworkUnavailable, d)
      else issue_authority E IO binding EffectPurpose None executables now None d)"

definition issue_provider_egress ::
    "env \<Rightarrow> permit_io \<Rightarrow> PermitBindingV1 \<Rightarrow> ValidatedProviderEgressAdmissionV1 \<Rightarrow> time \<Rightarrow> permit_disk \<Rightarrow>
     ExecutionPermitV1 permit_result" where
  "issue_provider_egress E IO binding admission now d =
     (if now < qv_verified_at admission
      then (Err (InvalidLease ''provider-egress permit clock precedes the current sealed admission''), d)
      else
        bind_op (egress_request_validate_at E (qv_request admission) now, d) (\<lambda>_ d.
          if pb_parent_permit_id binding = None
             \<or> \<not> is_closed_provider_egress_effect (pb_tool binding) (pb_effect binding)
             \<or> qr_lane (qv_request admission) \<noteq> SEALED_COMPLETION_LANE
             \<or> pb_args_digest binding \<noteq> qr_tool_arguments_digest (qv_request admission)
             \<or> pb_expires_at binding > eb_not_after (qr_binding (qv_request admission))
          then (Err (InvalidLease ''provider-egress permit does not bind the current sealed admission''), d)
          else issue_authority E IO binding EffectPurpose None [] now None d))"

definition chat_reservation ::
    "env \<Rightarrow> permit_id \<Rightarrow> NormalChatAttemptV1 \<Rightarrow> PolicyError + NormalChatFamilyReservationV1" where
  "chat_reservation E parent_permit_id att =
     attempt (policy_digest E (normal_chat_operation_json E (na_operation att))) (\<lambda>digest.
       Ok \<lparr>nf_parent_permit_id = parent_permit_id, nf_operation_digest = digest,
           nf_max_attempts = nb_max_attempts (nc_budget (na_operation att)),
           nf_attempt_number = na_attempt_number att, nf_attempt_id = na_attempt_id att\<rparr>)"

definition issue_normal_chat ::
    "env \<Rightarrow> permit_io \<Rightarrow> PermitBindingV1 \<Rightarrow> ValidatedNormalChatAdmissionV1 \<Rightarrow> ToolCallSpecV1 \<Rightarrow>
     NormalChatAdmissionVerifier \<Rightarrow> time \<Rightarrow> permit_disk \<Rightarrow> ExecutionPermitV1 permit_result" where
  "issue_normal_chat E IO binding admission call verifier now d =
     bind_op
       (attempt (reauthorize_normal_chat E verifier admission (va_request admission) now) (\<lambda>current.
        attempt (validate_normal_chat_permit_binding E binding current call) (\<lambda>_.
        attempt (ok_or (InvalidLease ''normal-chat permit requires a control parent'')
                   (pb_parent_permit_id binding)) (\<lambda>parent.
          chat_reservation E parent (ar_attempt (va_request current))))), d)
       (\<lambda>family d. issue_authority E IO binding EffectPurpose None [] now (Some family) d)"

section \<open>Consuming, revoking and reporting\<close>

text \<open>Each of these calls computes, from the disk under the lock, an answer and possibly the record to
  write; \<open>commit_plan\<close> writes it.\<close>

type_synonym 'a record_plan = "PolicyError + PermitRecordV1 option \<times> 'a"

definition commit_plan ::
    "env \<Rightarrow> permit_io \<Rightarrow> PermitTransitionStage option \<Rightarrow> 'a record_plan \<Rightarrow> permit_disk \<Rightarrow>
     'a permit_result" where
  "commit_plan E IO interrupt_after plan d =
     (case plan of
        Err e \<Rightarrow> (Err e, d)
      | Ok (None, v) \<Rightarrow> (Ok v, d)
      | Ok (Some record, v) \<Rightarrow>
          bind_op (replace_record E IO record interrupt_after d) (\<lambda>_ d. (Ok v, d)))"

definition check_parent ::
    "env \<Rightarrow> permit_io \<Rightarrow> permit_disk \<Rightarrow> PermitRecordV1 \<Rightarrow> (PolicyError \<Rightarrow> PolicyError) \<Rightarrow> time \<Rightarrow>
     PolicyError + unit" where
  "check_parent E IO d record on_error now =
     (case pb_parent_permit_id (xp_binding (pr_permit record)) of
        None \<Rightarrow> Ok ()
      | Some parent_id \<Rightarrow>
          attempt (map_err on_error (read_record E IO d parent_id)) (\<lambda>parent.
            validate_parent_binding E (pr_permit record) parent now))"

definition plan_consume ::
    "env \<Rightarrow> permit_io \<Rightarrow> permit_id \<Rightarrow> PermitBindingV1 \<Rightarrow> time \<Rightarrow> permit_disk \<Rightarrow>
     PermitRecordV1 record_plan" where
  "plan_consume E IO permit_id dispatch now d =
     attempt (reject_legacy_context_admission IO) (\<lambda>_.
     attempt (read_record_or_reject E IO d permit_id) (\<lambda>record.
     if pb_tool (xp_binding (pr_permit record)) = NORMAL_CHAT_LANE
     then Err (InvalidLease ''normal-chat requires current-policy consumption'')
     else
       attempt (validate_dispatch permit_id record dispatch now) (\<lambda>_.
       attempt (check_parent E IO d record (\<lambda>_. rejected permit_id WrongParent) now) (\<lambda>_.
         let record' = record\<lparr>pr_state := PermitConsumedState now\<rparr>
         in Ok (Some record', record')))))"

definition consume_with_interruption ::
    "env \<Rightarrow> permit_io \<Rightarrow> permit_id \<Rightarrow> PermitBindingV1 \<Rightarrow> time \<Rightarrow> PermitTransitionStage option \<Rightarrow>
     permit_disk \<Rightarrow> PermitRecordV1 permit_result" where
  "consume_with_interruption E IO permit_id dispatch now interrupt_after d =
     bind_op (PermitBindingV1_validate E dispatch, d) (\<lambda>_ d.
       permit_with_lock IO (\<lambda>d.
         commit_plan E IO interrupt_after (plan_consume E IO permit_id dispatch now d) d) d)"

definition consume ::
    "env \<Rightarrow> permit_io \<Rightarrow> permit_id \<Rightarrow> PermitBindingV1 \<Rightarrow> time \<Rightarrow> permit_disk \<Rightarrow>
     PermitEvidenceV1 permit_result" where
  "consume E IO permit_id dispatch now d =
     bind_op (consume_with_interruption E IO permit_id dispatch now None d) (\<lambda>record d.
       (PermitEvidenceV1_from_record E record, d))"

text \<open>\<open>now\<close> and \<open>final_now\<close> are the two samples of the clock.\<close>

definition plan_consume_with_preflight ::
    "env \<Rightarrow> permit_io \<Rightarrow> permit_id \<Rightarrow> PermitBindingV1 \<Rightarrow> time \<Rightarrow> time \<Rightarrow> permit_disk \<Rightarrow>
     PermitPreflightReceiptV1 record_plan" where
  "plan_consume_with_preflight E IO permit_id dispatch now final_now d =
     attempt (reject_legacy_context_admission IO) (\<lambda>_.
     attempt (read_record_or_reject E IO d permit_id) (\<lambda>record.
     if pb_tool (xp_binding (pr_permit record)) = NORMAL_CHAT_LANE
     then Err (InvalidLease ''normal-chat requires current-policy consumption'')
     else
       attempt (validate_dispatch permit_id record dispatch now) (\<lambda>_.
       attempt (check_parent E IO d record (\<lambda>_. rejected permit_id WrongParent) now) (\<lambda>_.
       if final_now < now then Err (InvalidLease ''trusted clock regressed'')
       else
         attempt (validate_dispatch permit_id record dispatch final_now) (\<lambda>_.
         attempt (check_parent E IO d record (\<lambda>e. e) final_now) (\<lambda>_.
           let consumed = record\<lparr>pr_state := PermitConsumedState final_now\<rparr> in
           attempt (PermitEvidenceV1_from_record E consumed) (\<lambda>evidence.
           attempt (PermitPreflightReceiptV1_create E evidence final_now) (\<lambda>receipt.
             Ok (Some (consumed\<lparr>pr_preflight_receipt := Some receipt\<rparr>), receipt)))))))))"

definition consume_with_preflight ::
    "env \<Rightarrow> permit_io \<Rightarrow> permit_id \<Rightarrow> PermitBindingV1 \<Rightarrow> time \<Rightarrow> time \<Rightarrow> permit_disk \<Rightarrow>
     PermitPreflightReceiptV1 permit_result" where
  "consume_with_preflight E IO permit_id dispatch now final_now d =
     bind_op (PermitBindingV1_validate E dispatch, d) (\<lambda>_ d.
       permit_with_lock IO (\<lambda>d.
         commit_plan E IO None (plan_consume_with_preflight E IO permit_id dispatch now final_now d) d) d)"

record NormalChatConsumption =
  cn_permit_id :: permit_id
  cn_preflight_digest :: content_digest
  cn_run_identity :: "u64 \<times> u64"

definition plan_consume_normal_chat ::
    "env \<Rightarrow> DurablePermitStore \<Rightarrow> permit_io \<Rightarrow> permit_id \<Rightarrow> ValidatedNormalChatAdmissionV1 \<Rightarrow>
     ToolCallSpecV1 \<Rightarrow> NormalChatAdmissionVerifier \<Rightarrow> time \<Rightarrow> time \<Rightarrow> permit_disk \<Rightarrow>
     (PermitEvidenceV1 \<times> NormalChatConsumption) record_plan" where
  "plan_consume_normal_chat E self IO permit_id admission call verifier now final_now d =
     attempt (reject_legacy_context_admission IO) (\<lambda>_.
     attempt (read_record_or_reject E IO d permit_id) (\<lambda>record.
     let binding = xp_binding (pr_permit record) in
     attempt (validate_dispatch permit_id record binding now) (\<lambda>_.
     attempt (reauthorize_normal_chat E verifier admission (va_request admission) now) (\<lambda>current.
     attempt (validate_normal_chat_permit_binding E binding current call) (\<lambda>_.
     if xp_purpose (pr_permit record) \<noteq> EffectPurpose
     then Err (InvalidLease ''normal-chat requires an effect permit'')
     else
       attempt (case pb_parent_permit_id binding of
                  None \<Rightarrow> Ok None
                | Some parent_id \<Rightarrow>
                    attempt (read_record_or_reject E IO d parent_id) (\<lambda>parent.
                    attempt (chat_reservation E parent_id (ar_attempt (va_request current))) (\<lambda>family.
                      Ok (Some (parent, family))))) (\<lambda>parent_family.
       if final_now < now \<or> final_now \<ge> va_expires_at current
       then Err (InvalidLease ''normal-chat validity changed during consumption checks'')
       else
         attempt (validate_dispatch permit_id record binding final_now) (\<lambda>_.
         attempt (case parent_family of
                    None \<Rightarrow> Ok ()
                  | Some (parent, family) \<Rightarrow>
                      validate_parent_binding_with_normal_chat_family E (pr_permit record) parent
                        final_now (Some family)) (\<lambda>_.
           let consumed = record\<lparr>pr_state := PermitConsumedState final_now\<rparr> in
           attempt (PermitEvidenceV1_from_record E consumed) (\<lambda>evidence.
           attempt (PermitPreflightReceiptV1_create E evidence final_now) (\<lambda>receipt.
             Ok (Some (consumed\<lparr>pr_preflight_receipt := Some receipt,
                        pr_retained_normal_chat_admission := Some (va_request current)\<rparr>),
                 evidence,
                 \<lparr>cn_permit_id = permit_id, cn_preflight_digest = pp_receipt_digest receipt,
                  cn_run_identity = ds_run_root self\<rparr>)))))))))))"

definition consume_normal_chat_for_execution ::
    "env \<Rightarrow> DurablePermitStore \<Rightarrow> permit_io \<Rightarrow> permit_id \<Rightarrow> ValidatedNormalChatAdmissionV1 \<Rightarrow>
     ToolCallSpecV1 \<Rightarrow> NormalChatAdmissionVerifier \<Rightarrow> time \<Rightarrow> time \<Rightarrow> permit_disk \<Rightarrow>
     (PermitEvidenceV1 \<times> NormalChatConsumption) permit_result" where
  "consume_normal_chat_for_execution E self IO permit_id admission call verifier now final_now d =
     permit_with_lock IO (\<lambda>d. commit_plan E IO None
       (plan_consume_normal_chat E self IO permit_id admission call verifier now final_now d) d) d"

definition consume_normal_chat ::
    "env \<Rightarrow> DurablePermitStore \<Rightarrow> permit_io \<Rightarrow> permit_id \<Rightarrow> ValidatedNormalChatAdmissionV1 \<Rightarrow>
     ToolCallSpecV1 \<Rightarrow> NormalChatAdmissionVerifier \<Rightarrow> time \<Rightarrow> time \<Rightarrow> permit_disk \<Rightarrow>
     PermitEvidenceV1 permit_result" where
  "consume_normal_chat E self IO permit_id admission call verifier now final_now d =
     bind_op (consume_normal_chat_for_execution E self IO permit_id admission call verifier now final_now d)
       (\<lambda>(evidence, _) d. (Ok evidence, d))"

definition normal_chat_preflight ::
    "env \<Rightarrow> permit_io \<Rightarrow> permit_id \<Rightarrow> permit_disk \<Rightarrow> PermitPreflightReceiptV1 permit_result" where
  "normal_chat_preflight E IO permit_id d =
     permit_with_lock IO (\<lambda>d.
       (attempt (read_record_or_reject E IO d permit_id) (\<lambda>record.
        if pb_tool (xp_binding (pr_permit record)) \<noteq> NORMAL_CHAT_LANE
        then Err (InvalidLease ''not a normal-chat permit'')
        else
          attempt (ok_or PermitStateConflict (pr_preflight_receipt record)) (\<lambda>receipt.
          attempt (PermitPreflightReceiptV1_validate E receipt) (\<lambda>_. Ok receipt))), d)) d"

text \<open>\<open>held\<close> is the metadata of the directory the consumption holds open.\<close>

definition plan_settle_normal_chat ::
    "env \<Rightarrow> permit_io \<Rightarrow> NormalChatConsumption \<Rightarrow> ArtifactDescriptorV1 \<Rightarrow> ArtifactDescriptorV1 \<Rightarrow>
     permit_disk \<Rightarrow> NormalChatSettlementV1 record_plan" where
  "plan_settle_normal_chat E IO continuation response observation d =
     attempt (read_record_or_reject E IO d (cn_permit_id continuation)) (\<lambda>record.
     attempt (ok_or PermitStateConflict (pr_preflight_receipt record)) (\<lambda>preflight.
     if pp_receipt_digest preflight \<noteq> cn_preflight_digest continuation then Err PermitStateConflict
     else
       attempt (ok_or PermitStateConflict (pr_outcome_receipt record)) (\<lambda>outcome.
         let proposed = \<lparr>ns_outcome = outcome, ns_response = response, ns_observation = observation\<rparr> in
         case pr_normal_chat_settlement record of
           Some existing \<Rightarrow>
             if existing = proposed then Ok (None, existing) else Err PermitStateConflict
         | None \<Rightarrow> Ok (Some (record\<lparr>pr_normal_chat_settlement := Some proposed\<rparr>), proposed))))"

definition settle_normal_chat ::
    "env \<Rightarrow> DurablePermitStore \<Rightarrow> permit_io \<Rightarrow> io_error + dir_metadata \<Rightarrow> NormalChatConsumption \<Rightarrow>
     ArtifactDescriptorV1 \<Rightarrow> ArtifactDescriptorV1 \<Rightarrow> permit_disk \<Rightarrow> NormalChatSettlementV1 permit_result" where
  "settle_normal_chat E self IO held_metadata continuation response observation d =
     bind_op
       (attempt (directory_identity held_metadata) (\<lambda>held.
          if cn_run_identity continuation \<noteq> ds_run_root self
             \<or> (fst held, fst (snd held)) \<noteq> ds_permit_root self
          then Err PermitStateConflict else Ok ()), d)
       (\<lambda>_ d. permit_with_lock IO (\<lambda>d. commit_plan E IO None
          (plan_settle_normal_chat E IO continuation response observation d) d) d)"

definition plan_reported_outcome ::
    "env \<Rightarrow> permit_io \<Rightarrow> permit_id \<Rightarrow> content_digest \<Rightarrow> ReportedEffectOutcomeV1 \<Rightarrow> time \<Rightarrow>
     permit_disk \<Rightarrow> PermitOutcomeReceiptV1 record_plan" where
  "plan_reported_outcome E IO permit_id preflight_receipt_digest reported now d =
     attempt (read_record_or_reject E IO d permit_id) (\<lambda>record.
     attempt (ok_or (rejected permit_id StateCorrupted) (pr_preflight_receipt record)) (\<lambda>preflight.
     attempt (PermitPreflightReceiptV1_validate E preflight) (\<lambda>_.
     if pp_receipt_digest preflight \<noteq> preflight_receipt_digest
     then Err (rejected permit_id WrongAction)
     else if now < pp_recorded_at preflight
     then Err (InvalidLease ''reported outcome precedes permit consumption'')
     else
       (case pr_outcome_receipt record of
          Some existing \<Rightarrow>
            attempt (PermitOutcomeReceiptV1_validate E existing) (\<lambda>_.
              if po_reported existing = reported then Ok (None, existing) else Err PermitStateConflict)
        | None \<Rightarrow>
            attempt (PermitOutcomeReceiptV1_create E permit_id preflight_receipt_digest reported now)
              (\<lambda>receipt. Ok (Some (record\<lparr>pr_outcome_receipt := Some receipt\<rparr>), receipt))))))"

definition record_reported_outcome ::
    "env \<Rightarrow> permit_io \<Rightarrow> permit_id \<Rightarrow> content_digest \<Rightarrow> ReportedEffectOutcomeV1 \<Rightarrow> time \<Rightarrow>
     permit_disk \<Rightarrow> PermitOutcomeReceiptV1 permit_result" where
  "record_reported_outcome E IO permit_id preflight_receipt_digest reported now d =
     bind_op (ReportedEffectOutcomeV1_validate reported, d) (\<lambda>_ d.
       permit_with_lock IO (\<lambda>d. commit_plan E IO None
         (plan_reported_outcome E IO permit_id preflight_receipt_digest reported now d) d) d)"

definition plan_revoke ::
    "env \<Rightarrow> permit_io \<Rightarrow> permit_id \<Rightarrow> PermitRevocationReasonV1 \<Rightarrow> time \<Rightarrow> permit_disk \<Rightarrow>
     PermitRecordV1 record_plan" where
  "plan_revoke E IO permit_id reason now d =
     attempt (read_record_or_reject E IO d permit_id) (\<lambda>record.
     if now < pb_issued_at (xp_binding (pr_permit record)) then Err (rejected permit_id NotYetValid)
     else
       (case pr_state record of
          PermitIssuedState \<Rightarrow>
            let record' = record\<lparr>pr_state := PermitRevokedState now reason\<rparr>
            in Ok (Some record', record')
        | PermitConsumedState _ \<Rightarrow> Err (rejected permit_id AlreadyConsumed)
        | PermitRevokedState _ _ \<Rightarrow> Err (rejected permit_id RejectedRevoked)))"

definition revoke_with_interruption ::
    "env \<Rightarrow> permit_io \<Rightarrow> permit_id \<Rightarrow> PermitRevocationReasonV1 \<Rightarrow> time \<Rightarrow>
     PermitTransitionStage option \<Rightarrow> permit_disk \<Rightarrow> PermitRecordV1 permit_result" where
  "revoke_with_interruption E IO permit_id reason now interrupt_after d =
     permit_with_lock IO (\<lambda>d.
       commit_plan E IO interrupt_after (plan_revoke E IO permit_id reason now d) d) d"

definition revoke ::
    "env \<Rightarrow> permit_io \<Rightarrow> permit_id \<Rightarrow> PermitRevocationReasonV1 \<Rightarrow> time \<Rightarrow> permit_disk \<Rightarrow>
     PermitRecordV1 permit_result" where
  "revoke E IO permit_id reason now d = revoke_with_interruption E IO permit_id reason now None d"

section \<open>Reading back\<close>

definition permit_state ::
    "env \<Rightarrow> permit_io \<Rightarrow> permit_id \<Rightarrow> permit_disk \<Rightarrow> PermitRecordV1 permit_result" where
  "permit_state E IO permit_id d =
     permit_with_lock IO (\<lambda>d. (read_record_or_reject E IO d permit_id, d)) d"

record ExternalPermitReadbackV1 =
  xr_permit_id :: permit_id
  xr_binding :: PermitBindingV1
  xr_state :: PermitStateV1
  xr_preflight :: "PermitPreflightReceiptV1 option"
  xr_outcome :: "PermitOutcomeReceiptV1 option"

definition read_external_permit ::
    "env \<Rightarrow> permit_io \<Rightarrow> permit_id \<Rightarrow> PermitBindingV1 \<Rightarrow> content_digest option \<Rightarrow> permit_disk \<Rightarrow>
     ExternalPermitReadbackV1 permit_result" where
  "read_external_permit E IO permit_id expected_binding expected_preflight d =
     bind_op (PermitBindingV1_validate E expected_binding, d) (\<lambda>_ d.
     permit_with_lock IO (\<lambda>d.
       (attempt (read_record_or_reject E IO d permit_id) (\<lambda>record.
        if xp_binding (pr_permit record) \<noteq> expected_binding
           \<or> pb_tool (xp_binding (pr_permit record)) = NORMAL_CHAT_LANE
           \<or> (case expected_preflight of
                None \<Rightarrow> False
              | Some digest \<Rightarrow>
                  map_option pp_receipt_digest (pr_preflight_receipt record) \<noteq> Some digest)
        then Err (rejected permit_id WrongAction)
        else Ok \<lparr>xr_permit_id = permit_id, xr_binding = xp_binding (pr_permit record),
                 xr_state = pr_state record, xr_preflight = pr_preflight_receipt record,
                 xr_outcome = pr_outcome_receipt record\<rparr>), d)) d)"

definition validate_parent_authority ::
    "env \<Rightarrow> permit_io \<Rightarrow> permit_id \<Rightarrow> time \<Rightarrow> permit_disk \<Rightarrow> PermitEvidenceV1 permit_result" where
  "validate_parent_authority E IO child_permit_id now d =
     permit_with_lock IO (\<lambda>d.
       (attempt (read_record_or_reject E IO d child_permit_id) (\<lambda>child.
        attempt (ok_or (rejected child_permit_id WrongParent)
                   (pb_parent_permit_id (xp_binding (pr_permit child)))) (\<lambda>parent_id.
        attempt (map_err (\<lambda>_. rejected child_permit_id WrongParent) (read_record E IO d parent_id)) (\<lambda>parent.
        attempt (validate_parent_binding E (pr_permit child) parent now) (\<lambda>_.
          PermitEvidenceV1_from_record E parent)))), d)) d"

section \<open>Histories\<close>

datatype permit_op =
    OpIssue PermitBindingV1 time
  | OpIssueControl PermitBindingV1 DelegationCeilingV1 time
  | OpIssueEffect PermitBindingV1 "ExecutableAuthorityV1 list" time
  | OpIssueProviderEgress PermitBindingV1 ValidatedProviderEgressAdmissionV1 time
  | OpIssueNormalChat PermitBindingV1 ValidatedNormalChatAdmissionV1 ToolCallSpecV1
      NormalChatAdmissionVerifier time
  | OpConsume permit_id PermitBindingV1 time "PermitTransitionStage option"
  | OpConsumeWithPreflight permit_id PermitBindingV1 time time
  | OpConsumeNormalChat permit_id ValidatedNormalChatAdmissionV1 ToolCallSpecV1
      NormalChatAdmissionVerifier time time
  | OpSettle "io_error + dir_metadata" NormalChatConsumption ArtifactDescriptorV1 ArtifactDescriptorV1
  | OpReport permit_id content_digest ReportedEffectOutcomeV1 time
  | OpRevoke permit_id PermitRevocationReasonV1 time "PermitTransitionStage option"

text \<open>One call with the answers of the operating system; whatever it returns, the disk it leaves is the
  next state.\<close>

definition permit_step ::
    "env \<Rightarrow> DurablePermitStore \<Rightarrow> permit_disk \<Rightarrow> permit_io \<times> permit_op \<Rightarrow> PolicyError + permit_disk" where
  "permit_step E self d = (\<lambda>(IO, op).
     Ok (case op of
           OpIssue binding now \<Rightarrow> snd (issue E IO binding now d)
         | OpIssueControl binding ceiling now \<Rightarrow> snd (issue_control E IO binding ceiling now d)
         | OpIssueEffect binding executables now \<Rightarrow> snd (issue_effect E IO binding executables now d)
         | OpIssueProviderEgress binding admission now \<Rightarrow>
             snd (issue_provider_egress E IO binding admission now d)
         | OpIssueNormalChat binding admission call verifier now \<Rightarrow>
             snd (issue_normal_chat E IO binding admission call verifier now d)
         | OpConsume permit_id dispatch now interrupt \<Rightarrow>
             snd (consume_with_interruption E IO permit_id dispatch now interrupt d)
         | OpConsumeWithPreflight permit_id dispatch now final_now \<Rightarrow>
             snd (consume_with_preflight E IO permit_id dispatch now final_now d)
         | OpConsumeNormalChat permit_id admission call verifier now final_now \<Rightarrow>
             snd (consume_normal_chat_for_execution E self IO permit_id admission call verifier now
                    final_now d)
         | OpSettle held continuation response observation \<Rightarrow>
             snd (settle_normal_chat E self IO held continuation response observation d)
         | OpReport permit_id preflight reported now \<Rightarrow>
             snd (record_reported_outcome E IO permit_id preflight reported now d)
         | OpRevoke permit_id reason now interrupt \<Rightarrow>
             snd (revoke_with_interruption E IO permit_id reason now interrupt d)))"

end
