(* ===== verification/PermitLife.thy ===== *)
theory PermitLife
  imports PermitStore
begin

text \<open>
  What the durable permit store guarantees.  The life of one permit file is an abstract machine, the
  step relation \<open>record_step\<close>; every operation of the store, whatever fails during it and wherever it
  is interrupted, moves every file along that machine.  Single use, write-once receipts and budget
  conservation are properties of the machine and hold of the store through the simulation.
\<close>

section \<open>The life of a permit file\<close>

text \<open>What may happen to the file of one permit: it appears as issued; while issued, children are
  allocated out of its ceiling, or it is consumed inside its validity window, or revoked; once its
  consumption has a preflight receipt, one outcome is reported and then one settlement recorded.\<close>

inductive record_step :: "PermitRecordV1 option \<Rightarrow> PermitRecordV1 option \<Rightarrow> bool" where
  issued: "record_step None (Some (fresh_record permit))"
| allocated:
    "pr_state r = PermitIssuedState \<Longrightarrow> xp_delegation_ceiling (pr_permit r) = Some ceiling \<Longrightarrow>
     bt_get (pr_child_allocations r) child \<in> {None, Some budget} \<Longrightarrow>
     budgets_fit (bt_values (bt_insert child budget (pr_child_allocations r))) (dc_budget ceiling) \<Longrightarrow>
     record_step (Some r)
       (Some (r\<lparr>pr_child_allocations := bt_insert child budget (pr_child_allocations r)\<rparr>))"
| consumed:
    "pr_state r = PermitIssuedState \<Longrightarrow> pb_not_before (xp_binding (pr_permit r)) \<le> t \<Longrightarrow>
     t < pb_expires_at (xp_binding (pr_permit r)) \<Longrightarrow>
     (\<And>receipt. preflight = Some receipt \<Longrightarrow>
        pp_permit_id receipt = xp_permit_id (pr_permit r) \<and> pp_recorded_at receipt = t) \<Longrightarrow>
     record_step (Some r)
       (Some (r\<lparr>pr_state := PermitConsumedState t, pr_preflight_receipt := preflight,
               pr_retained_normal_chat_admission := admission\<rparr>))"
| revoked:
    "pr_state r = PermitIssuedState \<Longrightarrow> pb_issued_at (xp_binding (pr_permit r)) \<le> t \<Longrightarrow>
     record_step (Some r) (Some (r\<lparr>pr_state := PermitRevokedState t reason\<rparr>))"
| reported:
    "pr_preflight_receipt r = Some preflight \<Longrightarrow> pr_outcome_receipt r = None \<Longrightarrow>
     po_preflight_receipt_digest outcome = pp_receipt_digest preflight \<Longrightarrow>
     pp_recorded_at preflight \<le> po_recorded_at outcome \<Longrightarrow>
     record_step (Some r) (Some (r\<lparr>pr_outcome_receipt := Some outcome\<rparr>))"
| settled:
    "pr_outcome_receipt r = Some outcome \<Longrightarrow> pr_normal_chat_settlement r = None \<Longrightarrow>
     ns_outcome settlement = outcome \<Longrightarrow>
     record_step (Some r) (Some (r\<lparr>pr_normal_chat_settlement := Some settlement\<rparr>))"

inductive_cases record_stepE: "record_step a b"

definition files_move :: "permit_disk \<Rightarrow> permit_disk \<Rightarrow> bool" where
  "files_move d d' \<longleftrightarrow> (\<forall>name. record_step\<^sup>*\<^sup>* (pd_files d name) (pd_files d' name))"

lemma files_move_refl [simp, intro]: "files_move d d"
  by (simp add: files_move_def)

lemma files_move_trans: "files_move d d' \<Longrightarrow> files_move d' d'' \<Longrightarrow> files_move d d''"
  unfolding files_move_def by (meson rtranclp_trans)

lemma files_move_chat: "files_move d (d\<lparr>pd_chat := s\<rparr>)"
  by (simp add: files_move_def)

lemma files_move_update:
  "record_step (pd_files d name) (Some r) \<Longrightarrow> files_move d (d\<lparr>pd_files := (pd_files d)(name \<mapsto> r)\<rparr>)"
  by (auto simp: files_move_def)

section \<open>Case analysis of the operations\<close>

lemma snd_bind_op:
  assumes "Q (snd r)" and "\<And>x d'. r = (Ok x, d') \<Longrightarrow> Q (snd (f x d'))"
  shows "Q (snd (bind_op r f))"
  using assms by (cases r) (auto simp: bind_op_def split: sum.splits)

lemma bind_op_simps [simp]:
  "bind_op (Ok x, d) f = f x d" "bind_op (Err e, d) f = (Err e, d)"
  by (simp_all add: bind_op_def)

lemma snd_permit_with_lock:
  "snd (permit_with_lock IO operation d) \<in> {d, snd (operation d)}"
  by (auto simp: permit_with_lock_def bind_op_def split: prod.splits sum.splits)

lemma files_move_with_lock:
  "files_move d (snd (operation d)) \<Longrightarrow> files_move d (snd (permit_with_lock IO operation d))"
  using snd_permit_with_lock [of IO operation d] by auto

lemma read_record_Ok:
  assumes "read_record E IO d permit_id = Ok r"
  obtains name where "state_name E permit_id = Ok name" and "pd_files d name = Some r"
    and "xp_permit_id (pr_permit r) = permit_id" and "validate_record_bindings E IO d r = Ok ()"
  using assms unfolding read_record_def
  by (auto simp: result_simps Let_def split: if_splits option.splits)

lemma read_record_or_reject_Ok:
  "read_record_or_reject E IO d permit_id = Ok r \<longleftrightarrow> read_record E IO d permit_id = Ok r"
  by (simp add: read_record_or_reject_def result_simps)

text \<open>Results that are never an error of the file system.\<close>

definition no_io :: "PolicyError + 'a \<Rightarrow> bool" where
  "no_io r \<longleftrightarrow> (\<forall>e. r \<noteq> Err (PolicyIo e))"

lemma no_io_attempt: "no_io r \<Longrightarrow> (\<And>x. no_io (f x)) \<Longrightarrow> no_io (attempt r f)"
  by (cases r) (auto simp: no_io_def attempt_def)

lemma no_io_branches:
  "no_io a \<Longrightarrow> no_io b \<Longrightarrow> no_io (if c then a else b)"
  "no_io a \<Longrightarrow> (\<And>x. no_io (f x)) \<Longrightarrow> no_io (case x of None \<Rightarrow> a | Some x \<Rightarrow> f x)"
  "no_io a \<Longrightarrow> (\<And>t. no_io (g t)) \<Longrightarrow> (\<And>t r. no_io (h t r)) \<Longrightarrow>
     no_io (case st of PermitIssuedState \<Rightarrow> a | PermitConsumedState t \<Rightarrow> g t | PermitRevokedState t r \<Rightarrow> h t r)"
  by (cases x; cases st; simp)+

lemma no_io_simps [simp]:
  "no_io (Ok y)" "no_io (Err (InvalidLease m))" "no_io (Err (rejected i reason))"
  "no_io (map_err PolicyContract r)" "no_io (map_err (\<lambda>_. rejected i reason) r')" "no_io (policy_digest E v)"
  "no_io (ok_or (InvalidLease m) x)" "no_io (ok_or (rejected i reason) x')"
  by (auto simp: no_io_def policy_digest_def map_err_def rejected_def ok_or_def
      split: sum.splits option.splits)

lemmas no_io_intros = no_io_attempt no_io_branches

lemma no_io_identity: "no_io (permit_identity_material E permit)"
  unfolding permit_identity_material_def execution_identity_material_def binding_identity_material_def
    ceiling_identity_def
  by (intro no_io_intros no_io_simps)

lemma no_io_receipts: "no_io (validate_receipt_bindings E r)"
  unfolding validate_receipt_bindings_def Let_def by (intro no_io_intros no_io_simps)

lemma no_io_bindings: "no_io (validate_record_bindings E IO d r)"
  unfolding validate_record_bindings_def Let_def by (intro no_io_intros no_io_simps no_io_receipts)

lemma read_record_NotFound:
  assumes "read_record E IO d permit_id = Err (PolicyIo IoNotFound)" and "state_name E permit_id = Ok name"
  shows "pd_files d name = None"
proof (rule ccontr)
  assume "pd_files d name \<noteq> None"
  then obtain r where r: "pd_files d name = Some r" by blast
  have "no_io (read_record E IO d permit_id) \<or> read_record E IO d permit_id = Err (PolicyIo IoOther)"
    using assms(2) r unfolding read_record_def Let_def
    by (auto intro!: no_io_intros no_io_identity no_io_bindings)
  then show False using assms(1) by (auto simp: no_io_def)
qed

lemma replace_record_files:
  assumes "\<And>name. state_name E (xp_permit_id (pr_permit r)) = Ok name \<Longrightarrow>
             record_step (pd_files d name) (Some r)"
  shows "files_move d (snd (replace_record E IO r interrupt_after d))"
  using files_move_update assms
  by (auto simp: replace_record_def Let_def split: sum.splits)

lemma validate_dispatch_Ok:
  assumes "validate_dispatch permit_id r dispatch now = Ok ()"
  shows "pr_state r = PermitIssuedState \<and> pb_not_before (xp_binding (pr_permit r)) \<le> now
     \<and> now < pb_expires_at (xp_binding (pr_permit r))"
  using assms by (auto simp: validate_dispatch_def Let_def split: PermitStateV1.splits if_splits)

lemma issued_has_no_preflight:
  assumes "validate_record_bindings E IO d r = Ok ()" and "pr_state r = PermitIssuedState"
  shows "pr_preflight_receipt r = None"
  using assms
  by (auto simp: validate_record_bindings_def validate_receipt_bindings_def Let_def attempt_Ok_iff
      split: option.splits)

lemma PermitPreflightReceiptV1_create_Ok:
  assumes "PermitPreflightReceiptV1_create E evidence t = Ok receipt"
  shows "pp_permit_id receipt = pv_permit_id evidence \<and> pp_recorded_at receipt = t
     \<and> pp_evidence receipt = evidence"
  using assms by (auto simp: PermitPreflightReceiptV1_create_def attempt_Ok_iff)

lemma from_record_permit_id:
  "PermitEvidenceV1_from_record E r = Ok evidence \<Longrightarrow> pv_permit_id evidence = xp_permit_id (pr_permit r)"
  by (auto simp: PermitEvidenceV1_from_record_def evidence_of_def attempt_Ok_iff Let_def)

lemma PermitOutcomeReceiptV1_create_Ok:
  assumes "PermitOutcomeReceiptV1_create E permit_id digest reported t = Ok receipt"
  shows "po_preflight_receipt_digest receipt = digest \<and> po_recorded_at receipt = t
     \<and> po_reported receipt = reported"
  using assms by (auto simp: PermitOutcomeReceiptV1_create_def attempt_Ok_iff)

text \<open>A consumption step of an issued record, with and without new receipts.\<close>

lemma consume_step:
  assumes "validate_dispatch permit_id r dispatch t = Ok ()"
    and "validate_record_bindings E IO d r = Ok ()"
  shows "record_step (Some r) (Some (r\<lparr>pr_state := PermitConsumedState t\<rparr>))"
proof -
  have none: "pr_preflight_receipt r = None"
    using issued_has_no_preflight assms validate_dispatch_Ok by blast
  have "record_step (Some r) (Some (r\<lparr>pr_state := PermitConsumedState t, pr_preflight_receipt := None,
      pr_retained_normal_chat_admission := pr_retained_normal_chat_admission r\<rparr>))"
    using validate_dispatch_Ok [OF assms(1)] by (intro record_step.consumed) auto
  moreover have "r\<lparr>pr_state := PermitConsumedState t, pr_preflight_receipt := None,
      pr_retained_normal_chat_admission := pr_retained_normal_chat_admission r\<rparr>
      = r\<lparr>pr_state := PermitConsumedState t\<rparr>"
    using none by (cases r) simp
  ultimately show ?thesis by simp
qed

lemma consume_step_with_receipt:
  assumes "validate_dispatch permit_id r dispatch t = Ok ()"
    and "PermitEvidenceV1_from_record E (r\<lparr>pr_state := PermitConsumedState t\<rparr>) = Ok evidence"
    and "PermitPreflightReceiptV1_create E evidence t = Ok receipt"
  shows "record_step (Some r)
    (Some (r\<lparr>pr_state := PermitConsumedState t, pr_preflight_receipt := Some receipt,
            pr_retained_normal_chat_admission := admission\<rparr>))"
  using validate_dispatch_Ok [OF assms(1)] from_record_permit_id [OF assms(2)]
    PermitPreflightReceiptV1_create_Ok [OF assms(3)]
  by (intro record_step.consumed) auto

text \<open>Every plan that writes a record continues the record it has read.\<close>

definition continues :: "env \<Rightarrow> permit_io \<Rightarrow> permit_disk \<Rightarrow> permit_id \<Rightarrow> 'a record_plan \<Rightarrow> bool" where
  "continues E IO d permit_id plan \<longleftrightarrow>
     (\<forall>r v. plan = Ok (Some r, v) \<longrightarrow>
        (\<exists>old. read_record E IO d permit_id = Ok old \<and> record_step (Some old) (Some r)
              \<and> pr_permit r = pr_permit old))"

lemma continuesI:
  assumes "\<And>r v. plan = Ok (Some r, v) \<Longrightarrow>
    \<exists>old. read_record E IO d permit_id = Ok old \<and> record_step (Some old) (Some r) \<and> pr_permit r = pr_permit old"
  shows "continues E IO d permit_id plan"
  using assms by (simp add: continues_def)

lemma plan_consume_continues: "continues E IO d permit_id (plan_consume E IO permit_id dispatch now d)"
proof (rule continuesI)
  fix r v assume "plan_consume E IO permit_id dispatch now d = Ok (Some r, v)"
  then obtain old where old: "read_record E IO d permit_id = Ok old"
    and dispatch: "validate_dispatch permit_id old dispatch now = Ok ()"
    and r: "r = old\<lparr>pr_state := PermitConsumedState now\<rparr>"
    by (auto simp: plan_consume_def attempt_Ok_iff read_record_or_reject_Ok Let_def split: if_splits)
  from old have "validate_record_bindings E IO d old = Ok ()" by (rule read_record_Ok)
  with old consume_step [OF dispatch] r show "\<exists>old. read_record E IO d permit_id = Ok old \<and>
      record_step (Some old) (Some r) \<and> pr_permit r = pr_permit old" by auto
qed

lemma plan_consume_with_preflight_continues:
  "continues E IO d permit_id (plan_consume_with_preflight E IO permit_id dispatch now final_now d)"
proof (rule continuesI)
  fix r v assume "plan_consume_with_preflight E IO permit_id dispatch now final_now d = Ok (Some r, v)"
  then obtain old evidence where old: "read_record E IO d permit_id = Ok old"
    and dispatch: "validate_dispatch permit_id old dispatch final_now = Ok ()"
    and evidence: "PermitEvidenceV1_from_record E (old\<lparr>pr_state := PermitConsumedState final_now\<rparr>)
                   = Ok evidence"
    and receipt: "PermitPreflightReceiptV1_create E evidence final_now = Ok v"
    and r: "r = old\<lparr>pr_state := PermitConsumedState final_now, pr_preflight_receipt := Some v\<rparr>"
    by (auto simp: plan_consume_with_preflight_def attempt_Ok_iff read_record_or_reject_Ok Let_def
        split: if_splits)
  have r': "r = old\<lparr>pr_state := PermitConsumedState final_now, pr_preflight_receipt := Some v,
           pr_retained_normal_chat_admission := pr_retained_normal_chat_admission old\<rparr>"
    unfolding r by (cases old) simp
  have "record_step (Some old) (Some r)"
    unfolding r' by (rule consume_step_with_receipt [OF dispatch evidence receipt])
  with old r show "\<exists>old. read_record E IO d permit_id = Ok old \<and>
      record_step (Some old) (Some r) \<and> pr_permit r = pr_permit old" by auto
qed

lemma plan_consume_normal_chat_continues:
  "continues E IO d permit_id
     (plan_consume_normal_chat E self IO permit_id admission call verifier now final_now d)"
proof (rule continuesI)
  fix r v
  assume "plan_consume_normal_chat E self IO permit_id admission call verifier now final_now d
            = Ok (Some r, v)"
  then obtain old evidence receipt adm binding where old: "read_record E IO d permit_id = Ok old"
    and dispatch: "validate_dispatch permit_id old binding final_now = Ok ()"
    and evidence: "PermitEvidenceV1_from_record E (old\<lparr>pr_state := PermitConsumedState final_now\<rparr>)
                   = Ok evidence"
    and receipt: "PermitPreflightReceiptV1_create E evidence final_now = Ok receipt"
    and r: "r = old\<lparr>pr_state := PermitConsumedState final_now, pr_preflight_receipt := Some receipt,
                   pr_retained_normal_chat_admission := Some adm\<rparr>"
    by (auto simp: plan_consume_normal_chat_def attempt_Ok_iff read_record_or_reject_Ok Let_def
        split: if_splits)
  with consume_step_with_receipt [OF dispatch evidence receipt]
  show "\<exists>old. read_record E IO d permit_id = Ok old \<and>
      record_step (Some old) (Some r) \<and> pr_permit r = pr_permit old" by auto
qed

lemma plan_revoke_continues: "continues E IO d permit_id (plan_revoke E IO permit_id reason now d)"
proof (rule continuesI)
  fix r v assume "plan_revoke E IO permit_id reason now d = Ok (Some r, v)"
  then obtain old where "read_record E IO d permit_id = Ok old" "pr_state old = PermitIssuedState"
    "pb_issued_at (xp_binding (pr_permit old)) \<le> now" "r = old\<lparr>pr_state := PermitRevokedState now reason\<rparr>"
    by (auto simp: plan_revoke_def attempt_Ok_iff read_record_or_reject_Ok Let_def
        split: if_splits PermitStateV1.split_asm)
  then show "\<exists>old. read_record E IO d permit_id = Ok old \<and> record_step (Some old) (Some r)
      \<and> pr_permit r = pr_permit old"
    using record_step.revoked by auto
qed

lemma plan_reported_outcome_continues:
  "continues E IO d permit_id (plan_reported_outcome E IO permit_id digest reported now d)"
proof (rule continuesI)
  fix r v assume "plan_reported_outcome E IO permit_id digest reported now d = Ok (Some r, v)"
  then obtain old preflight where "read_record E IO d permit_id = Ok old"
    "pr_preflight_receipt old = Some preflight" "pp_receipt_digest preflight = digest"
    "pp_recorded_at preflight \<le> now" "pr_outcome_receipt old = None"
    "PermitOutcomeReceiptV1_create E permit_id digest reported now = Ok v"
    "r = old\<lparr>pr_outcome_receipt := Some v\<rparr>"
    by (auto simp: plan_reported_outcome_def attempt_Ok_iff ok_or_Ok_iff read_record_or_reject_Ok
        split: if_splits option.split_asm)
  then show "\<exists>old. read_record E IO d permit_id = Ok old \<and> record_step (Some old) (Some r)
      \<and> pr_permit r = pr_permit old"
    using record_step.reported [of old preflight v] PermitOutcomeReceiptV1_create_Ok [of E permit_id digest reported now v]
    by auto
qed

lemma plan_settle_continues:
  "continues E IO d (cn_permit_id continuation)
     (plan_settle_normal_chat E IO continuation response observation d)"
proof (rule continuesI)
  fix r v assume plan: "plan_settle_normal_chat E IO continuation response observation d = Ok (Some r, v)"
  then obtain old outcome where old: "read_record E IO d (cn_permit_id continuation) = Ok old"
    and outcome: "pr_outcome_receipt old = Some outcome"
    by (auto simp: plan_settle_normal_chat_def attempt_Ok_iff ok_or_Ok_iff read_record_or_reject_Ok
        split: if_splits)
  with plan have "pr_normal_chat_settlement old = None \<and> ns_outcome v = outcome
      \<and> r = old\<lparr>pr_normal_chat_settlement := Some v\<rparr>"
    by (cases "pr_normal_chat_settlement old")
      (auto simp: plan_settle_normal_chat_def attempt_Ok_iff ok_or_Ok_iff read_record_or_reject_Ok
        Let_def split: if_splits)
  with old outcome show "\<exists>old. read_record E IO d (cn_permit_id continuation) = Ok old
      \<and> record_step (Some old) (Some r) \<and> pr_permit r = pr_permit old"
    using record_step.settled [of old outcome v] by auto
qed

lemma commit_plan_files:
  assumes "continues E IO d permit_id plan"
  shows "files_move d (snd (commit_plan E IO interrupt_after plan d))"
proof (cases "\<exists>r v. plan = Ok (Some r, v)")
  case True
  then obtain r v where plan: "plan = Ok (Some r, v)" by blast
  with assms obtain old where old: "read_record E IO d permit_id = Ok old"
    and step: "record_step (Some old) (Some r)" and same: "pr_permit r = pr_permit old"
    unfolding continues_def by blast
  from old obtain name where name: "state_name E permit_id = Ok name" "pd_files d name = Some old"
    "xp_permit_id (pr_permit old) = permit_id"
    by (rule read_record_Ok)
  have "files_move d (snd (replace_record E IO r interrupt_after d))"
    using name step same by (intro replace_record_files) auto
  then show ?thesis
    using plan by (auto simp: commit_plan_def intro: snd_bind_op)
next
  case False
  then have "snd (commit_plan E IO interrupt_after plan d) = d"
    by (auto simp: commit_plan_def split: sum.splits prod.splits option.splits)
  then show ?thesis by simp
qed

section \<open>Issuing\<close>

lemma replace_record_disk:
  obtains "snd (replace_record E IO r interrupt_after d) = d"
  | name where "state_name E (xp_permit_id (pr_permit r)) = Ok name"
      and "snd (replace_record E IO r interrupt_after d) = d\<lparr>pd_files := (pd_files d)(name \<mapsto> r)\<rparr>"
proof -
  have "snd (replace_record E IO r interrupt_after d) = d
    \<or> (\<exists>name. state_name E (xp_permit_id (pr_permit r)) = Ok name
         \<and> snd (replace_record E IO r interrupt_after d) = d\<lparr>pd_files := (pd_files d)(name \<mapsto> r)\<rparr>)"
    by (auto simp: replace_record_def Let_def split: sum.splits)
  then show ?thesis using that by blast
qed

lemma reserve_family_files [simp]: "pd_files (snd (reserve_family E IO family permit_id d)) = pd_files d"
  by (auto simp: reserve_family_def reserve_normal_chat_attempt_def write_normal_chat_family_state_def
      split: option.splits sum.splits replace_fault.splits)

lemma allocate_child_Ok:
  assumes "allocate_child E permit parent now family = Ok r"
  shows "record_step (Some parent) (Some r) \<and> pr_permit r = pr_permit parent"
proof -
  let ?b = "pb_budget (xp_binding permit)" and ?i = "xp_permit_id permit"
  let ?a = "bt_insert ?i ?b (pr_child_allocations parent)"
  from assms obtain total ceiling where
    parent: "validate_parent_binding_with_normal_chat_family E permit parent now family = Ok ()"
    and previous: "bt_get (pr_child_allocations parent) ?i \<in> {None, Some ?b}"
    and total: "try_fold budget_checked_add budget_zero (bt_values ?a) = Ok total"
    and ceiling: "xp_delegation_ceiling (pr_permit parent) = Some ceiling"
    and fits: "is_within total (dc_budget ceiling)"
    and r: "r = parent\<lparr>pr_child_allocations := ?a\<rparr>"
    by (auto simp: allocate_child_def attempt_Ok_iff ok_or_Ok_iff Let_def split: if_splits)
  from parent have "pr_state parent = PermitIssuedState"
    by (auto simp: validate_parent_binding_with_normal_chat_family_def validate_parent_permits_def
        attempt_Ok_iff lineage_mismatch_def Let_def split: if_splits)
  moreover have "budgets_fit (bt_values ?a) (dc_budget ceiling)"
    using budget_fold_fits [where f = "\<lambda>x. x", OF _ fits] total by simp
  ultimately show ?thesis
    using record_step.allocated [of parent ceiling ?i ?b] ceiling previous r by simp
qed

lemma allocate_from_parent_files:
  assumes "\<And>r. parent = Some r \<Longrightarrow> \<exists>parent_id. read_record E IO d parent_id = Ok r"
  shows "files_move d (snd (allocate_from_parent E IO permit parent now family d))
    \<and> (\<forall>name. pd_files d name = None \<longrightarrow>
          pd_files (snd (allocate_from_parent E IO permit parent now family d)) name = None)"
proof (cases "\<exists>r r'. parent = Some r \<and> allocate_child E permit r now family = Ok r'")
  case True
  then obtain r r' where r: "parent = Some r" "allocate_child E permit r now family = Ok r'" by blast
  then obtain parent_id name where name: "state_name E parent_id = Ok name" "pd_files d name = Some r"
    "xp_permit_id (pr_permit r) = parent_id"
    using assms [of r] read_record_Ok [of E IO d _ r] by blast
  obtain res d1 where d1: "reserve_family E IO family (xp_permit_id permit) d = (res, d1)"
    by (cases "reserve_family E IO family (xp_permit_id permit) d")
  then have files: "pd_files d1 = pd_files d"
    using reserve_family_files [of E IO family "xp_permit_id permit" d] by simp
  note step = allocate_child_Ok [OF r(2)]
  have same: "snd (allocate_from_parent E IO permit parent now family d)
      \<in> {d1, snd (replace_record E IO r' None d1)}"
    using r d1 by (cases res) (auto simp: allocate_from_parent_def)
  have "files_move d1 (snd (replace_record E IO r' None d1))"
    using name step files by (intro replace_record_files) auto
  moreover have "files_move d d1"
    using files by (simp add: files_move_def)
  moreover have "pd_files (snd (replace_record E IO r' None d1)) n = None" if "pd_files d n = None" for n
  proof (rule replace_record_disk [of E IO r' None d1])
    fix m assume "state_name E (xp_permit_id (pr_permit r')) = Ok m"
      and d2: "snd (replace_record E IO r' None d1) = d1\<lparr>pd_files := (pd_files d1)(m \<mapsto> r')\<rparr>"
    then have "m = name" using step name by simp
    then show ?thesis using d2 that name files by auto
  qed (use that files in simp)
  ultimately show ?thesis
    using same files files_move_trans by auto
next
  case False
  then have "snd (allocate_from_parent E IO permit parent now family d) = d"
    by (cases parent; cases "allocate_child E permit (the parent) now family")
      (auto simp: allocate_from_parent_def)
  then show ?thesis by simp
qed

lemma prepare_permit_Ok:
  assumes "prepare_permit E IO d binding purpose ceiling executables = Ok (permit, parent, existing)"
  shows "(\<forall>r. parent = Some r \<longrightarrow> (\<exists>parent_id. read_record E IO d parent_id = Ok r))
    \<and> (\<not> existing \<longrightarrow> (\<forall>name. state_name E (xp_permit_id permit) = Ok name \<longrightarrow> pd_files d name = None))"
proof -
  from assms have "read_parent E IO d binding = Ok parent" "existing_child E IO d permit = Ok existing"
    by (auto simp: prepare_permit_def attempt_Ok_iff Let_def)
  moreover have "parent = Some r \<Longrightarrow> \<exists>parent_id. read_record E IO d parent_id = Ok r"
    if "read_parent E IO d binding = Ok parent" for r
    using that by (auto simp: read_parent_def attempt_Ok_iff map_err_Ok_iff split: option.split_asm)
  moreover have "read_record E IO d (xp_permit_id permit) = Err (PolicyIo IoNotFound)"
    if "existing_child E IO d permit = Ok False"
    using that by (auto simp: existing_child_def split: sum.split_asm if_splits)
  ultimately show ?thesis using read_record_NotFound by (cases existing) auto
qed

lemma issue_locked_files:
  "files_move d (snd (bind_op (prepare_permit E IO d binding purpose ceiling executables, d)
         (\<lambda>(permit, parent, existing) d.
       bind_op (allocate_from_parent E IO permit parent now family d) (\<lambda>_ d.
         if existing then (Ok permit, d)
         else bind_op (replace_record E IO (fresh_record permit) None d) (\<lambda>_ d. (Ok permit, d))))))"
proof (cases "prepare_permit E IO d binding purpose ceiling executables")
  case (Inr p)
  obtain permit parent existing where P: "p = (permit, parent, existing)" by (cases p)
  note prep = prepare_permit_Ok [OF Inr [unfolded P]]
  let ?alloc = "allocate_from_parent E IO permit parent now family d"
  have alloc: "files_move d (snd ?alloc)"
    "\<And>name. pd_files d name = None \<Longrightarrow> pd_files (snd ?alloc) name = None"
    using allocate_from_parent_files [of parent E IO d permit now family] prep by blast+
  have fresh: "files_move d (snd (replace_record E IO (fresh_record permit) None (snd ?alloc)))"
    if "\<not> existing"
  proof (rule files_move_trans [OF alloc(1)], rule replace_record_files)
    fix name assume "state_name E (xp_permit_id (pr_permit (fresh_record permit))) = Ok name"
    then show "record_step (pd_files (snd ?alloc) name) (Some (fresh_record permit))"
      using alloc(2) prep that record_step.issued by (auto simp: fresh_record_def)
  qed
  obtain res d1 where d1: "?alloc = (res, d1)" by (cases ?alloc)
  then show ?thesis
    using alloc(1) fresh unfolding Inr P
    by (cases res) (auto intro!: snd_bind_op [where Q = "files_move d"])
qed simp

lemma issue_authority_files:
  "files_move d (snd (issue_authority E IO binding purpose ceiling executables now family d))"
proof (cases "issue_precheck E binding ceiling executables now")
  case (Inr u)
  then show ?thesis
    by (simp add: issue_authority_def files_move_with_lock issue_locked_files)
qed (simp add: issue_authority_def)

section \<open>The store follows the life of its files\<close>

lemma permit_step_files:
  assumes "permit_step E self d call = Ok d'"
  shows "files_move d d'"
proof -
  obtain IO op where call: "call = (IO, op)" by (cases call)
  note committed = files_move_with_lock commit_plan_files snd_bind_op [where Q = "files_move d"]
    plan_consume_continues plan_consume_with_preflight_continues plan_consume_normal_chat_continues
    plan_revoke_continues plan_reported_outcome_continues plan_settle_continues
  have "files_move d (snd (issue E IO b now d))"
    and "files_move d (snd (issue_control E IO b c now d))"
    and "files_move d (snd (issue_effect E IO b xs now d))" for b c now xs
    by (simp_all add: issue_def issue_control_def issue_effect_def issue_authority_files)
  moreover have "files_move d (snd (issue_provider_egress E IO b qa now d))"
    and "files_move d (snd (issue_normal_chat E IO b va tc v now d))" for b qa now va tc v
    unfolding issue_provider_egress_def issue_normal_chat_def
    by (auto intro!: snd_bind_op [where Q = "files_move d"] simp: issue_authority_files)
  moreover have "files_move d (snd (consume_with_interruption E IO i b now stage d))"
    and "files_move d (snd (consume_with_preflight E IO i b now fin d))"
    and "files_move d (snd (consume_normal_chat_for_execution E self IO i va tc v now fin d))"
    and "files_move d (snd (settle_normal_chat E self IO held n resp obs d))"
    and "files_move d (snd (record_reported_outcome E IO i dg rep now d))"
    and "files_move d (snd (revoke_with_interruption E IO i reason now stage d))"
    for i b now stage fin va tc v held n resp obs dg rep reason
    unfolding consume_with_interruption_def consume_with_preflight_def
      consume_normal_chat_for_execution_def settle_normal_chat_def record_reported_outcome_def
      revoke_with_interruption_def
    by (auto intro!: committed)
  ultimately show ?thesis
    using assms unfolding call permit_step_def by (auto split: permit_op.splits)
qed

interpretation permit_files:
  simulation "permit_step E self" pd_files record_step
  using permit_step_files by unfold_locales (auto simp: files_move_def)

section \<open>What the life of a file guarantees\<close>

text \<open>A record and a later version of it: same permit, a left state and a written receipt stay.\<close>

definition succeeds :: "PermitRecordV1 \<Rightarrow> PermitRecordV1 option \<Rightarrow> bool" where
  "succeeds r later =
     (case later of
        None \<Rightarrow> False
      | Some r' \<Rightarrow>
          pr_permit r' = pr_permit r
          \<and> (pr_state r \<noteq> PermitIssuedState \<longrightarrow>
               pr_state r' = pr_state r \<and> pr_preflight_receipt r' = pr_preflight_receipt r
               \<and> pr_child_allocations r' = pr_child_allocations r)
          \<and> (pr_outcome_receipt r \<noteq> None \<longrightarrow> pr_outcome_receipt r' = pr_outcome_receipt r)
          \<and> (pr_normal_chat_settlement r \<noteq> None \<longrightarrow>
               pr_normal_chat_settlement r' = pr_normal_chat_settlement r))"

lemma succeeds_step: "succeeds r a \<Longrightarrow> record_step a b \<Longrightarrow> succeeds r b"
  by (erule record_stepE) (auto simp: succeeds_def)

lemma succeeds_refl: "succeeds r (Some r)"
  by (simp add: succeeds_def)

text \<open>Allocations out of a permit stay within its ceiling, and it is consumed inside its window.\<close>

fun allocations_fit :: "DelegationCeilingV1 option \<Rightarrow> allocations \<Rightarrow> bool" where
  "allocations_fit None a = (a = bt_empty)"
| "allocations_fit (Some ceiling) a = budgets_fit (bt_values a) (dc_budget ceiling)"

fun state_in_window :: "PermitBindingV1 \<Rightarrow> PermitStateV1 \<Rightarrow> bool" where
  "state_in_window b PermitIssuedState = True"
| "state_in_window b (PermitConsumedState t) = (pb_not_before b \<le> t \<and> t < pb_expires_at b)"
| "state_in_window b (PermitRevokedState t _) = (pb_issued_at b \<le> t)"

definition record_ok :: "PermitRecordV1 option \<Rightarrow> bool" where
  "record_ok file \<longleftrightarrow>
     (\<forall>r. file = Some r \<longrightarrow>
        allocations_fit (xp_delegation_ceiling (pr_permit r)) (pr_child_allocations r)
        \<and> state_in_window (xp_binding (pr_permit r)) (pr_state r))"

lemma allocations_fit_empty: "allocations_fit c bt_empty"
  by (cases c) (simp_all add: budgets_fit_def bt_values_def bt_empty_def)

lemma record_ok_step: "record_ok a \<Longrightarrow> record_step a b \<Longrightarrow> record_ok b"
  by (erule record_stepE) (auto simp: record_ok_def fresh_record_def allocations_fit_empty)

text \<open>A permit that has left the issued state passes no dispatch.\<close>

lemma settled_read:
  assumes "state_name E permit_id = Ok name" and "pd_files d name = Some r"
    and "pr_state r \<noteq> PermitIssuedState" and "read_record E IO d permit_id = Ok r'"
  shows "pr_state r' \<noteq> PermitIssuedState"
  using assms(4) by (rule read_record_Ok) (use assms in auto)

lemma with_lock_blocked: "\<not> is_ok (fst (operation d)) \<Longrightarrow> \<not> is_ok (fst (permit_with_lock IO operation d))"
  by (cases "operation d") (auto simp: permit_with_lock_def is_ok_def split: sum.splits)

lemma commit_blocked: "(\<And>v. plan \<noteq> Ok v) \<Longrightarrow> \<not> is_ok (fst (commit_plan E IO stage plan d))"
  by (cases plan) (auto simp: commit_plan_def)

lemma bind_blocked: "\<not> is_ok (fst (f x d)) \<Longrightarrow> \<not> is_ok (fst (bind_op (r, d) (\<lambda>_ d. f x d)))"
  by (cases r) auto

lemma settled_blocks:
  assumes "state_name E permit_id = Ok name" and "pd_files d name = Some r"
    and "pr_state r \<noteq> PermitIssuedState"
  shows "\<not> is_ok (fst (consume_with_interruption E IO permit_id dispatch now stage d))"
    and "\<not> is_ok (fst (consume_with_preflight E IO permit_id dispatch now final_now d))"
    and "\<not> is_ok (fst (consume_normal_chat_for_execution E self IO permit_id admission call verifier
                         now final_now d))"
    and "\<not> is_ok (fst (revoke_with_interruption E IO permit_id reason now stage d))"
proof -
  note state = settled_read [OF assms]
  note blocked = with_lock_blocked commit_blocked bind_blocked
  have dispatch: "validate_dispatch permit_id r' b t \<noteq> Ok ()"
    if "read_record E IO d permit_id = Ok r'" for r' b t
    using state [OF that] validate_dispatch_Ok [of permit_id r' b t] by blast
  show "\<not> is_ok (fst (consume_with_interruption E IO permit_id dispatch now stage d))"
    unfolding consume_with_interruption_def
    by (intro bind_blocked blocked)
      (use dispatch in \<open>auto simp: plan_consume_def attempt_Ok_iff read_record_or_reject_Ok split: if_splits\<close>)
  show "\<not> is_ok (fst (consume_with_preflight E IO permit_id dispatch now final_now d))"
    unfolding consume_with_preflight_def
    by (intro bind_blocked blocked)
      (use dispatch in \<open>auto simp: plan_consume_with_preflight_def attempt_Ok_iff
        read_record_or_reject_Ok split: if_splits\<close>)
  show "\<not> is_ok (fst (consume_normal_chat_for_execution E self IO permit_id admission call verifier
                         now final_now d))"
    unfolding consume_normal_chat_for_execution_def
    by (intro blocked)
      (use dispatch in \<open>auto simp: plan_consume_normal_chat_def attempt_Ok_iff
        read_record_or_reject_Ok Let_def split: if_splits\<close>)
  show "\<not> is_ok (fst (revoke_with_interruption E IO permit_id reason now stage d))"
    unfolding revoke_with_interruption_def
    by (intro blocked)
      (use state in \<open>auto simp: plan_revoke_def attempt_Ok_iff read_record_or_reject_Ok
        split: if_splits PermitStateV1.splits\<close>)
qed

section \<open>Consumption stage by stage\<close>

lemma consumed_bindings_ok:
  assumes "validate_record_bindings E IO d r = Ok ()" and "pr_state r = PermitIssuedState"
  shows "validate_record_bindings E IO d (r\<lparr>pr_state := PermitConsumedState t\<rparr>) = Ok ()"
proof -
  have "pr_preflight_receipt r = None" by (rule issued_has_no_preflight [OF assms])
  moreover have "pr_outcome_receipt r = None"
    using assms(1) calculation
    by (auto simp: validate_record_bindings_def validate_receipt_bindings_def attempt_Ok_iff Let_def
        split: if_splits)
  moreover have "pr_retained_normal_chat_admission r = None" and "pr_normal_chat_settlement r = None"
    using assms
    by (auto simp: validate_record_bindings_def attempt_Ok_iff Let_def retained_admission_ok_def
        split: if_splits option.splits)
  ultimately show ?thesis
    by (simp add: validate_record_bindings_def validate_receipt_bindings_def)
qed

definition quiet_locks :: "permit_io \<Rightarrow> bool" where
  "quiet_locks IO \<longleftrightarrow> \<not> io_gate_poisoned IO \<and> \<not> io_lock_fails IO \<and> \<not> io_unlock_fails IO"

lemma with_quiet_locks: "quiet_locks IO \<Longrightarrow> permit_with_lock IO operation d = operation d"
  by (cases "operation d"; cases "fst (operation d)") (auto simp: quiet_locks_def permit_with_lock_def)

section \<open>Properties\<close>

definition sample_binding :: PermitBindingV1 where
  "sample_binding =
     \<lparr>pb_actor = ''a'', pb_action_digest = ''x'',
      pb_effect = \<lparr>es_scope_name = ''echo'', es_read_roots = [], es_write_roots = [],
                   es_network_allowed = False\<rparr>,
      pb_effect_digest = hex64 CHR ''a'', pb_budget = sample_permit_budget 5, pb_policy_version = ''1'',
      pb_parent_permit_id = None, pb_parent_operation_id = None, pb_issued_at = 0, pb_not_before = 0,
      pb_expires_at = 9000000, pb_run_id = ''run'', pb_step_id = ''step'', pb_tool = ''echo'',
      pb_args_digest = ''y''\<rparr>"

definition sample_permit :: ExecutionPermitV1 where
  "sample_permit =
     \<lparr>xp_permit_id = sample_id PERMIT_ID_DOMAIN, xp_binding = sample_binding, xp_purpose = EffectPurpose,
      xp_delegation_ceiling = None, xp_delegation_identity = None, xp_executable_authority = []\<rparr>"

definition sample_file :: string where
  "sample_file = ''permit-'' @ hex64 CHR ''a'' @ ''.json''"

definition quiet_io :: permit_io where
  "quiet_io =
     \<lparr>io_gate_poisoned = False, io_lock_fails = False, io_unlock_fails = False, io_context = Ok False,
      io_read_fails = (\<lambda>_. False), io_replace = (\<lambda>_. ReplaceOk), io_entries = Ok [],
      io_record_len = (\<lambda>_. 0), io_chat_len = (\<lambda>_. 0)\<rparr>"

definition disk_with :: "PermitRecordV1 \<Rightarrow> permit_disk" where
  "disk_with r = \<lparr>pd_files = [sample_file \<mapsto> r], pd_chat = None\<rparr>"

lemma sample_state_name: "state_name sample_env i = Ok sample_file"
  by (simp add: state_name_def policy_digest_def sample_file_def)

lemma sample_binding_valid: "PermitBindingV1_validate sample_env sample_binding = Ok ()"
  by (simp add: PermitBindingV1_validate_def sample_binding_def open_network_effect_def byte_of_def
      policy_digest_def budget_has_zero_def sample_permit_budget_def)

lemma sample_permit_derives:
  "permit_identity_material sample_env sample_permit =
     Ok \<lparr>pim_binding_digest = hex64 CHR ''a'', pim_requested_not_before_delay_ms = 0,
         pim_requested_validity_ms = 9\<rparr>
   \<and> derive_permit_id sample_env
       \<lparr>pim_binding_digest = hex64 CHR ''a'', pim_requested_not_before_delay_ms = 0,
        pim_requested_validity_ms = 9\<rparr> = Ok (sample_id PERMIT_ID_DOMAIN)"
  by (simp add: permit_identity_material_def execution_identity_material_def binding_identity_material_def
      ceiling_identity_def sample_permit_def sample_binding_def try_u64_def num_milliseconds_since_def
      policy_digest_def derive_permit_id_def PermitIdentityMaterialV1_validate_def current_id_from_owner_def)

lemma sample_read:
  "read_record sample_env quiet_io (disk_with (fresh_record sample_permit)) (sample_id PERMIT_ID_DOMAIN)
     = Ok (fresh_record sample_permit)"
proof -
  have permit: "pr_permit (fresh_record sample_permit) = sample_permit"
    and id: "xp_permit_id sample_permit = sample_id PERMIT_ID_DOMAIN"
    by (simp_all add: fresh_record_def sample_permit_def)
  have "validate_record_bindings sample_env quiet_io (disk_with (fresh_record sample_permit))
          (fresh_record sample_permit) = Ok ()"
    by (simp add: validate_record_bindings_def validate_receipt_bindings_def fresh_record_def)
  then show ?thesis
    by (simp add: read_record_def sample_state_name disk_with_def quiet_io_def permit id
        sample_permit_derives)
qed

text \<open>C7 the permit store refines the life of a permit.  Whatever sequence of calls is made, whatever
  fails during them and wherever they are interrupted, every permit file only moves along the abstract
  life of a permit.\<close>

theorem store_refines_permit_life:
  "record_step\<^sup>*\<^sup>* (pd_files d name) (pd_files (exec (permit_step E self) d calls) name)"
  by (rule permit_files.exec_moves)

text \<open>C6 a permit is used once.  After a permit has been consumed or revoked, every later sequence of
  calls leaves its file with the same permit, state, preflight receipt and allocations and keeps any
  written outcome and settlement, and no call consumes or revokes it again.\<close>

theorem permit_is_used_once:
  assumes "pd_files d name = Some r" and "pr_state r \<noteq> PermitIssuedState"
    and "state_name E permit_id = Ok name"
  shows "succeeds r (pd_files (exec (permit_step E self) d calls) name)
    \<and> (let d' = exec (permit_step E self) d calls in
        \<not> is_ok (fst (consume_with_interruption E IO permit_id dispatch now stage d'))
      \<and> \<not> is_ok (fst (consume_with_preflight E IO permit_id dispatch now final_now d'))
      \<and> \<not> is_ok (fst (consume_normal_chat_for_execution E self IO permit_id admission call verifier
                         now final_now d'))
      \<and> \<not> is_ok (fst (revoke_with_interruption E IO permit_id reason now stage d')))"
proof -
  let ?d = "exec (permit_step E self) d calls"
  have later: "succeeds r (pd_files ?d name)"
    using permit_files.exec_keeps [where P = "succeeds r" and s = d and k = name]
      succeeds_refl succeeds_step assms(1) by metis
  then obtain r' where "pd_files ?d name = Some r'" "pr_state r' \<noteq> PermitIssuedState"
    using assms(2) by (auto simp: succeeds_def split: option.splits)
  with settled_blocks [OF assms(3)] later show ?thesis by (simp add: Let_def)
qed

theorem permit_is_used_once_witness:
  "\<not> is_ok (fst (consume_with_interruption sample_env quiet_io (sample_id PERMIT_ID_DOMAIN) sample_binding
       1 None (disk_with ((fresh_record sample_permit)\<lparr>pr_state := PermitConsumedState 1\<rparr>))))"
  using permit_is_used_once [of "disk_with ((fresh_record sample_permit)\<lparr>pr_state := PermitConsumedState 1\<rparr>)"
      sample_file "(fresh_record sample_permit)\<lparr>pr_state := PermitConsumedState 1\<rparr>" sample_env
      "sample_id PERMIT_ID_DOMAIN" _ "[]"]
  by (simp add: disk_with_def sample_state_name Let_def)

text \<open>C17 allocations conserve the ceiling.  Starting from an empty permit directory, after any sequence
  of calls the budgets allocated to the children of a permit sum, in every dimension, to at most its
  delegation ceiling, a permit without a ceiling has no children, and a consumed permit was consumed
  inside its validity window.\<close>

theorem allocations_conserve_ceiling:
  assumes "pd_files (exec (permit_step E self) \<lparr>pd_files = Map.empty, pd_chat = None\<rparr> calls) name = Some r"
  shows "allocations_fit (xp_delegation_ceiling (pr_permit r)) (pr_child_allocations r)
       \<and> state_in_window (xp_binding (pr_permit r)) (pr_state r)"
proof -
  have "record_ok (pd_files (exec (permit_step E self) \<lparr>pd_files = Map.empty, pd_chat = None\<rparr> calls) name)"
    by (rule permit_files.exec_keeps [where P = record_ok])
      (auto simp: record_ok_def [of None] intro: record_ok_step)
  then show ?thesis using assms by (simp add: record_ok_def)
qed

lemma sample_evidence_valid:
  "PermitEvidenceV1_from_record sample_env (fresh_record sample_permit) =
     Ok \<lparr>pv_permit_id = sample_id PERMIT_ID_DOMAIN, pv_binding = sample_binding,
         pv_binding_digest = hex64 CHR ''a'', pv_purpose = EffectPurpose, pv_delegation_ceiling = None,
         pv_delegation_identity = None, pv_executable_authority = [], pv_child_allocations = bt_empty,
         pv_state = EvidenceIssued\<rparr>"
  using sample_binding_valid sample_permit_derives
  by (simp add: PermitEvidenceV1_from_record_def evidence_of_def policy_digest_def fresh_record_def
      PermitEvidenceV1_validate_def evidence_permit_def sample_permit_def validate_effect_evidence_def
      derivation_proof_ok_def validate_evidence_state_def
      sample_binding_def [THEN arg_cong [where f = pb_parent_permit_id]])

lemma sample_issue:
  "issue sample_env quiet_io sample_binding 1 \<lparr>pd_files = Map.empty, pd_chat = None\<rparr>
     = (Ok sample_permit, disk_with (fresh_record sample_permit))"
proof -
  let ?d = "\<lparr>pd_files = Map.empty, pd_chat = None\<rparr> :: permit_disk"
  have parent: "pb_parent_permit_id sample_binding = None"
    and network: "\<not> es_network_allowed (pb_effect sample_binding)"
    by (simp_all add: sample_binding_def)
  have pre: "issue_precheck sample_env sample_binding None [] 1 = Ok ()"
    using sample_binding_valid
    by (simp add: issue_precheck_def checked_add_millis_def max_instant_def
        sample_binding_def)
  have id: "execution_permit_id sample_env sample_binding EffectPurpose None None []
      = Ok (sample_id PERMIT_ID_DOMAIN)"
    using sample_permit_derives
    by (simp add: execution_permit_id_def permit_identity_material_def sample_permit_def)
  have "existing_child sample_env quiet_io ?d sample_permit = Ok False"
    by (simp add: existing_child_def read_record_def sample_state_name quiet_io_def)
  then have "prepare_permit sample_env quiet_io ?d sample_binding EffectPurpose None []
      = Ok (sample_permit, None, False)"
    using id sample_evidence_valid parent
    by (simp add: prepare_permit_def reject_legacy_context_admission_def read_parent_def quiet_io_def
        sample_permit_def)
  moreover have "replace_record sample_env quiet_io (fresh_record sample_permit) None ?d
      = (Ok (), disk_with (fresh_record sample_permit))"
    by (simp add: replace_record_def validate_record_bindings_def validate_receipt_bindings_def
        fresh_record_def sample_state_name quiet_io_def disk_with_def)
  ultimately show ?thesis
    using pre parent network
    by (simp add: issue_def issue_authority_def with_quiet_locks [of quiet_io] quiet_locks_def
        allocate_from_parent_def quiet_io_def [THEN arg_cong [where f = io_gate_poisoned]]
        quiet_io_def [THEN arg_cong [where f = io_lock_fails]]
        quiet_io_def [THEN arg_cong [where f = io_unlock_fails]])
qed

theorem allocations_conserve_ceiling_witness:
  "allocations_fit None (pr_child_allocations (fresh_record sample_permit))"
  using allocations_conserve_ceiling [of sample_env _ "[(quiet_io, OpIssue sample_binding 1)]" sample_file
      "fresh_record sample_permit"] sample_issue
  by (simp add: exec1_def permit_step_def disk_with_def fresh_record_def sample_permit_def)

text \<open>C19 consumption is decided at the rename.  When a dispatch is admissible and the file system is
  sound, an uninterrupted consumption succeeds and leaves the record consumed; one interrupted after
  writing or syncing the temporary file leaves the disk as it was, so that it can be repeated; one
  interrupted after the rename or the directory sync has consumed the permit although it reports an
  error.\<close>

theorem consumption_decided_at_rename:
  assumes "read_record E IO d permit_id = Ok r" and "state_name E permit_id = Ok name"
    and "pb_tool (xp_binding (pr_permit r)) \<noteq> NORMAL_CHAT_LANE"
    and "PermitBindingV1_validate E dispatch = Ok ()"
    and "validate_dispatch permit_id r dispatch now = Ok ()"
    and "check_parent E IO d r (\<lambda>_. rejected permit_id WrongParent) now = Ok ()"
    and "quiet_locks IO" and "io_context IO = Ok False" and "io_replace IO name = ReplaceOk"
  shows "consume_with_interruption E IO permit_id dispatch now stage d =
    (let consumed = r\<lparr>pr_state := PermitConsumedState now\<rparr>;
         d' = d\<lparr>pd_files := (pd_files d)(name \<mapsto> consumed)\<rparr>
     in case stage of
          None \<Rightarrow> (Ok consumed, d')
        | Some s \<Rightarrow> (Err (InjectedInterruption s), if s \<in> {Rename, DirectoryFsync} then d' else d))"
proof -
  let ?r = "r\<lparr>pr_state := PermitConsumedState now\<rparr>"
  from assms(1) have same: "xp_permit_id (pr_permit r) = permit_id"
    and valid: "validate_record_bindings E IO d r = Ok ()"
    by (auto elim: read_record_Ok)
  have "validate_record_bindings E IO d ?r = Ok ()"
    using consumed_bindings_ok [OF valid] validate_dispatch_Ok [OF assms(5)] by blast
  moreover have "plan_consume E IO permit_id dispatch now d = Ok (Some ?r, ?r)"
    using assms by (simp add: plan_consume_def reject_legacy_context_admission_def
        read_record_or_reject_def map_err_def Let_def)
  ultimately show ?thesis
    using assms same
    by (cases stage; cases "the stage")
      (simp_all add: consume_with_interruption_def with_quiet_locks commit_plan_def replace_record_def Let_def)
qed

theorem consumption_decided_at_rename_witness:
  "consume_with_interruption sample_env quiet_io (sample_id PERMIT_ID_DOMAIN) sample_binding 1 None
     (disk_with (fresh_record sample_permit))
   = (Ok ((fresh_record sample_permit)\<lparr>pr_state := PermitConsumedState 1\<rparr>),
      disk_with ((fresh_record sample_permit)\<lparr>pr_state := PermitConsumedState 1\<rparr>))"
proof -
  have "validate_dispatch (sample_id PERMIT_ID_DOMAIN) (fresh_record sample_permit) sample_binding 1 = Ok ()"
    by (simp add: validate_dispatch_def fresh_record_def sample_permit_def sample_binding_def is_within_def)
  moreover have "pb_tool (xp_binding (pr_permit (fresh_record sample_permit))) \<noteq> NORMAL_CHAT_LANE"
    and "check_parent sample_env quiet_io (disk_with (fresh_record sample_permit)) (fresh_record sample_permit)
           (\<lambda>_. rejected (sample_id PERMIT_ID_DOMAIN) WrongParent) 1 = Ok ()"
    and "quiet_locks quiet_io" and "io_context quiet_io = Ok False" and "io_replace quiet_io sample_file = ReplaceOk"
    by (simp_all add: fresh_record_def sample_permit_def sample_binding_def
        check_parent_def quiet_locks_def quiet_io_def)
  ultimately show ?thesis
    using consumption_decided_at_rename [OF sample_read sample_state_name _ sample_binding_valid, of 1 None]
    by (simp add: Let_def disk_with_def)
qed

end
