(* ===== verification/Delegation.thy ===== *)
theory Delegation
  imports PermitLife
begin

text \<open>
  What the pure dispatch and delegation checks of \<open>recursive-agent-policy/src/lib.rs\<close> guarantee: a
  dispatch is exactly the permitted one, a delegated permit never exceeds its parent, and delegation of
  control cannot go on for ever.
\<close>

section \<open>Ceilings\<close>

lemma actions_ok_distinct:
  "actions_ok E prior xs = Ok () \<Longrightarrow>
     distinct xs \<and> (\<forall>x \<in> set xs. \<forall>p. prior = Some p \<longrightarrow>
       (\<exists>k. policy_digest E (delegated_action_json E x) = Ok k \<and> p < k))"
proof (induction E prior xs rule: actions_ok.induct)
  case (2 E prior a xs)
  then obtain k where key: "policy_digest E (delegated_action_json E a) = Ok k"
    and prior: "\<And>p. prior = Some p \<Longrightarrow> p < k"
    and rest: "actions_ok E (Some k) xs = Ok ()"
    by (auto simp: attempt_Ok_iff not_le split: if_splits option.split_asm)
  have later: "distinct xs \<and> (\<forall>x \<in> set xs. \<exists>k'. policy_digest E (delegated_action_json E x) = Ok k' \<and> k < k')"
    using 2 key rest by (auto simp: attempt_Ok_iff split: if_splits)
  then have "a \<notin> set xs" using key by fastforce
  with later key prior show ?case by (fastforce intro: less_trans)
qed simp

lemma DelegationCeilingV1_validate_Ok:
  assumes "DelegationCeilingV1_validate E c = Ok ()"
  shows "distinct (dc_actions c)" and "dc_not_before c < dc_expires_at c"
  using assms actions_ok_distinct [of E None "dc_actions c"]
  by (auto simp: DelegationCeilingV1_validate_def attempt_Ok_iff split: if_splits)

text \<open>What a ceiling still allows to hand on, as a number.\<close>

definition budget_size :: "PermitBudgetV1 \<Rightarrow> nat" where
  "budget_size b = unat (bg_max_wall_time_ms b) + unat (bg_max_output_bytes b) + unat (bg_max_artifact_bytes b)"

definition ceiling_size :: "DelegationCeilingV1 \<Rightarrow> nat" where
  "ceiling_size c = length (dc_actions c) + budget_size (dc_budget c) + nat (dc_expires_at c - dc_not_before c)"

lemma budget_size_within:
  assumes "is_within a b"
  shows "budget_size a \<le> budget_size b" and "a \<noteq> b \<Longrightarrow> budget_size a < budget_size b"
proof -
  show "budget_size a \<le> budget_size b"
    using assms by (simp add: is_within_nat budget_size_def)
  assume "a \<noteq> b"
  then have "unat (bg_max_wall_time_ms a) \<noteq> unat (bg_max_wall_time_ms b)
      \<or> unat (bg_max_output_bytes a) \<noteq> unat (bg_max_output_bytes b)
      \<or> unat (bg_max_artifact_bytes a) \<noteq> unat (bg_max_artifact_bytes b)"
    by (cases a; cases b) (auto simp: word_unat_eq_iff)
  then show "budget_size a < budget_size b"
    using assms by (auto simp: is_within_nat budget_size_def)
qed

section \<open>Children\<close>

lemma control_child_narrows:
  assumes "validate_control_child E child c = Ok ()"
  obtains cc where "xp_delegation_ceiling child = Some cc" and "set (dc_actions cc) \<subseteq> set (dc_actions c)"
    and "is_within (dc_budget cc) (dc_budget c)" and "dc_not_before c \<le> dc_not_before cc"
    and "dc_expires_at cc \<le> dc_expires_at c" and "ceiling_size cc < ceiling_size c"
    and "dc_run_id cc = pb_run_id (xp_binding child)" and "dc_actor cc = pb_actor (xp_binding child)"
    and "dc_policy_version cc = pb_policy_version (xp_binding child)"
    and "set (dc_audiences cc) \<subseteq> da_tool ` set (dc_actions c)"
proof -
  from assms obtain cc where cc: "xp_delegation_ceiling child = Some cc"
    "DelegationCeilingV1_validate E cc = Ok ()" "set (dc_actions cc) \<subseteq> set (dc_actions c)"
    "is_within (dc_budget cc) (dc_budget c)" "dc_not_before c \<le> dc_not_before cc"
    "dc_expires_at cc \<le> dc_expires_at c"
    and strict: "length (dc_actions cc) < length (dc_actions c) \<or> dc_budget cc \<noteq> dc_budget c
        \<or> dc_not_before cc > dc_not_before c \<or> dc_expires_at cc < dc_expires_at c"
    and owner: "dc_run_id cc = pb_run_id (xp_binding child)" "dc_actor cc = pb_actor (xp_binding child)"
      "dc_policy_version cc = pb_policy_version (xp_binding child)"
      "\<forall>t \<in> set (dc_audiences cc). \<exists>a \<in> set (dc_actions c). da_tool a = t"
    by (auto simp: list_ex_iff validate_control_child_def attempt_Ok_iff ok_or_Ok_iff Let_def list_all_iff
        subset_iff not_less split: if_splits)
  note valid = DelegationCeilingV1_validate_Ok [OF cc(2)]
  have "length (dc_actions cc) \<le> length (dc_actions c)"
    using valid(1) cc(3) by (metis card_length card_mono distinct_card finite_set order_trans)
  then have "ceiling_size cc < ceiling_size c"
    using strict budget_size_within [OF cc(4)] cc(5,6) valid(2) by (auto simp: ceiling_size_def)
  moreover have "set (dc_audiences cc) \<subseteq> da_tool ` set (dc_actions c)" using owner(4) by fastforce
  ultimately show ?thesis using cc owner(1-3) that by blast
qed

text \<open>The action of the ceiling a child effect performs: its tool, action and arguments are the ones of the
  action; only a further attempt of a normal-chat family reserved under this very parent may differ in
  action and arguments, and then the whole effect is the action's.\<close>

definition performs_action ::
    "ExecutionPermitV1 \<Rightarrow> ExecutionPermitV1 \<Rightarrow> NormalChatFamilyReservationV1 option \<Rightarrow> DelegatedActionV1 \<Rightarrow> bool" where
  "performs_action child parent family a \<longleftrightarrow>
     pb_tool (xp_binding child) = da_tool a
     \<and> (pb_action_digest (xp_binding child) = da_action_digest a
          \<and> pb_args_digest (xp_binding child) = da_args_digest a
        \<or> pb_tool (xp_binding child) = NORMAL_CHAT_LANE
          \<and> (\<exists>f. family = Some f \<and> nf_parent_permit_id f = xp_permit_id parent)
          \<and> pb_effect (xp_binding child) = da_effect a \<and> pb_effect_digest (xp_binding child) = da_effect_digest a)"

lemma delegated_action_in:
  "delegated_action child parent c family = Some a \<Longrightarrow>
     a \<in> set (dc_actions c) \<and> performs_action child parent family a"
  by (auto simp: delegated_action_def performs_action_def Let_def find_Some_iff split: option.splits if_splits)

lemma effect_child_narrows:
  assumes "validate_effect_child E child parent c family = Ok ()"
  shows "dc_transition c = ControlToEffect \<and> xp_delegation_ceiling child = None
    \<and> (\<exists>a \<in> set (dc_actions c). performs_action child parent family a
        \<and> pb_tool (xp_binding child) \<in> set (dc_audiences c)
        \<and> es_scope_name (pb_effect (xp_binding child)) = es_scope_name (da_effect a)
        \<and> set (es_read_roots (pb_effect (xp_binding child))) \<subseteq> set (es_read_roots (da_effect a))
        \<and> set (es_write_roots (pb_effect (xp_binding child))) \<subseteq> set (es_write_roots (da_effect a))
        \<and> es_network_allowed (pb_effect (xp_binding child)) = es_network_allowed (da_effect a)
        \<and> xp_executable_authority child = da_executable_authority a)
    \<and> policy_digest E (effect_scope_json (pb_effect (xp_binding child))) = Ok (pb_effect_digest (xp_binding child))"
proof -
  from assms obtain a where a: "delegated_action child parent c family = Some a"
    and facts: "dc_transition c = ControlToEffect" "xp_delegation_ceiling child = None"
      "pb_tool (xp_binding child) \<in> set (dc_audiences c)"
      "es_scope_name (pb_effect (xp_binding child)) = es_scope_name (da_effect a)"
      "roots_subset (es_read_roots (pb_effect (xp_binding child))) (es_read_roots (da_effect a))"
      "roots_subset (es_write_roots (pb_effect (xp_binding child))) (es_write_roots (da_effect a))"
      "es_network_allowed (pb_effect (xp_binding child)) = es_network_allowed (da_effect a)"
      "xp_executable_authority child = da_executable_authority a"
      "policy_digest E (effect_scope_json (pb_effect (xp_binding child))) = Ok (pb_effect_digest (xp_binding child))"
    by (auto simp: validate_effect_child_def Let_def attempt_Ok_iff split: option.splits if_splits)
  then show ?thesis
    using delegated_action_in [OF a] by (auto simp: roots_subset_def list_all_iff subset_iff)
qed

lemma validate_parent_permits_Ok:
  assumes "validate_parent_permits E child parent active now family = Ok ()"
  obtains c identity where "xp_delegation_ceiling parent = Some c"
    and "derive_delegation_identity parent (xp_binding child) = Ok identity"
    and "\<not> lineage_mismatch child parent c identity active now"
    and "xp_purpose child = EffectPurpose \<Longrightarrow> validate_effect_child E child parent c family = Ok ()"
    and "xp_purpose child = ControlPurpose \<Longrightarrow> validate_control_child E child c = Ok ()"
  using assms
  by (cases "xp_purpose child")
    (auto simp: validate_parent_permits_def attempt_Ok_iff ok_or_Ok_iff split: if_splits)

lemma same_up_to_budget:
  fixes a b :: PermitBindingV1
  shows "a = b\<lparr>pb_budget := pb_budget a\<rparr> \<longleftrightarrow>
     pb_actor a = pb_actor b \<and> pb_action_digest a = pb_action_digest b \<and> pb_effect a = pb_effect b
     \<and> pb_effect_digest a = pb_effect_digest b \<and> pb_policy_version a = pb_policy_version b
     \<and> pb_parent_permit_id a = pb_parent_permit_id b \<and> pb_parent_operation_id a = pb_parent_operation_id b
     \<and> pb_issued_at a = pb_issued_at b \<and> pb_not_before a = pb_not_before b
     \<and> pb_expires_at a = pb_expires_at b \<and> pb_run_id a = pb_run_id b \<and> pb_step_id a = pb_step_id b
     \<and> pb_tool a = pb_tool b \<and> pb_args_digest a = pb_args_digest b" (is "?l = ?r")
proof
  assume ?r
  then show ?l by (intro PermitBindingV1.equality) simp_all
next
  assume ?l
  then obtain x where "a = b\<lparr>pb_budget := x\<rparr>" by blast
  then show ?r by simp
qed

lemma derive_delegation_identity_depth:
  assumes "derive_delegation_identity parent b = Ok identity"
  shows "unat (di_depth identity) =
    Suc (case xp_delegation_identity parent of None \<Rightarrow> 0 | Some i \<Rightarrow> unat (di_depth i))"
  using assms
  by (auto simp: derive_delegation_identity_def attempt_Ok_iff ok_or_Ok_iff Let_def
      dest!: checked_add_unat split: option.splits)

section \<open>Properties\<close>

lemma guard_Ok_iff: "(if c then Err e else r) = Ok v \<longleftrightarrow> \<not> c \<and> r = Ok v"
  by simp

text \<open>C20 a dispatch is exactly what was permitted.  A dispatch validates against a permit record exactly
  when the permit is still issued, the instant lies in its validity window, every field of the dispatch
  other than the budget equals the permitted one, and its budget is within the permitted one.\<close>

theorem dispatch_is_exact:
  "validate_dispatch permit_id r dispatch now = Ok () \<longleftrightarrow>
     pr_state r = PermitIssuedState
     \<and> pb_not_before (xp_binding (pr_permit r)) \<le> now \<and> now < pb_expires_at (xp_binding (pr_permit r))
     \<and> dispatch = (xp_binding (pr_permit r))\<lparr>pb_budget := pb_budget dispatch\<rparr>
     \<and> is_within (pb_budget dispatch) (pb_budget (xp_binding (pr_permit r)))"
  unfolding same_up_to_budget
  by (cases "pr_state r") (simp_all add: validate_dispatch_def Let_def guard_Ok_iff not_less not_le, blast)

text \<open>C8 delegation attenuates.  A permit that validates against its parent belongs to the same run,
  actor and policy; the parent is an active control permit valid at that instant; the child's window lies
  within the parent's and within its ceiling, its budget within the ceiling, and its depth is one more,
  without wrap-around.  A child effect delegates nothing further and performs an action of the ceiling
  with the same action and arguments digests (or is a further attempt of a normal-chat family
  reserved under this parent, with the action's whole effect), in the ceiling's audience, with no root and
  no network access the action lacks, with the action's executables, and its effect digest is the digest
  of its effect.  A child control permit has a ceiling of its own, for the same run, actor and policy,
  within the parent's in actions, audiences, window and budget, and smaller.\<close>

theorem delegation_attenuates:
  assumes "validate_parent_permits E child parent active now family = Ok ()"
  shows "\<exists>c. xp_delegation_ceiling parent = Some c \<and> active \<and> xp_purpose parent = ControlPurpose
    \<and> pb_parent_permit_id (xp_binding child) = Some (xp_permit_id parent)
    \<and> pb_parent_operation_id (xp_binding child) = Some (pb_run_id (xp_binding parent))
    \<and> pb_run_id (xp_binding child) = pb_run_id (xp_binding parent) \<and> pb_run_id (xp_binding child) = dc_run_id c
    \<and> pb_actor (xp_binding child) = pb_actor (xp_binding parent) \<and> pb_actor (xp_binding child) = dc_actor c
    \<and> pb_policy_version (xp_binding child) = pb_policy_version (xp_binding parent)
    \<and> pb_policy_version (xp_binding child) = dc_policy_version c
    \<and> pb_not_before (xp_binding parent) \<le> pb_not_before (xp_binding child)
    \<and> pb_expires_at (xp_binding child) \<le> pb_expires_at (xp_binding parent)
    \<and> dc_not_before c \<le> pb_not_before (xp_binding child) \<and> pb_expires_at (xp_binding child) \<le> dc_expires_at c
    \<and> pb_not_before (xp_binding parent) \<le> now \<and> now < pb_expires_at (xp_binding parent)
    \<and> dc_not_before c \<le> now \<and> now < dc_expires_at c
    \<and> is_within (pb_budget (xp_binding child)) (dc_budget c)
    \<and> (\<exists>i. xp_delegation_identity child = Some i \<and> unat (di_depth i) =
          Suc (case xp_delegation_identity parent of None \<Rightarrow> 0 | Some j \<Rightarrow> unat (di_depth j)))
    \<and> (xp_purpose child = EffectPurpose \<longrightarrow>
        dc_transition c = ControlToEffect \<and> xp_delegation_ceiling child = None
      \<and> (\<exists>a \<in> set (dc_actions c). performs_action child parent family a
          \<and> pb_tool (xp_binding child) \<in> set (dc_audiences c)
          \<and> es_scope_name (pb_effect (xp_binding child)) = es_scope_name (da_effect a)
          \<and> set (es_read_roots (pb_effect (xp_binding child))) \<subseteq> set (es_read_roots (da_effect a))
          \<and> set (es_write_roots (pb_effect (xp_binding child))) \<subseteq> set (es_write_roots (da_effect a))
          \<and> es_network_allowed (pb_effect (xp_binding child)) = es_network_allowed (da_effect a)
          \<and> xp_executable_authority child = da_executable_authority a)
      \<and> policy_digest E (effect_scope_json (pb_effect (xp_binding child))) = Ok (pb_effect_digest (xp_binding child)))
    \<and> (xp_purpose child = ControlPurpose \<longrightarrow> (\<exists>cc. xp_delegation_ceiling child = Some cc
        \<and> dc_run_id cc = pb_run_id (xp_binding child) \<and> dc_actor cc = pb_actor (xp_binding child)
        \<and> dc_policy_version cc = pb_policy_version (xp_binding child)
        \<and> set (dc_actions cc) \<subseteq> set (dc_actions c) \<and> set (dc_audiences cc) \<subseteq> da_tool ` set (dc_actions c)
        \<and> dc_not_before c \<le> dc_not_before cc \<and> dc_expires_at cc \<le> dc_expires_at c
        \<and> is_within (dc_budget cc) (dc_budget c) \<and> ceiling_size cc < ceiling_size c))"
proof -
  from assms obtain c identity where c: "xp_delegation_ceiling parent = Some c"
    and identity: "derive_delegation_identity parent (xp_binding child) = Ok identity"
    and lineage: "\<not> lineage_mismatch child parent c identity active now"
    and eff: "xp_purpose child = EffectPurpose \<Longrightarrow> validate_effect_child E child parent c family = Ok ()"
    and ctl: "xp_purpose child = ControlPurpose \<Longrightarrow> validate_control_child E child c = Ok ()"
    by (rule validate_parent_permits_Ok) blast
  note effect = effect_child_narrows [OF eff]
  have control: "\<exists>cc. xp_delegation_ceiling child = Some cc
        \<and> dc_run_id cc = pb_run_id (xp_binding child) \<and> dc_actor cc = pb_actor (xp_binding child)
        \<and> dc_policy_version cc = pb_policy_version (xp_binding child)
        \<and> set (dc_actions cc) \<subseteq> set (dc_actions c) \<and> set (dc_audiences cc) \<subseteq> da_tool ` set (dc_actions c)
        \<and> dc_not_before c \<le> dc_not_before cc \<and> dc_expires_at cc \<le> dc_expires_at c
        \<and> is_within (dc_budget cc) (dc_budget c) \<and> ceiling_size cc < ceiling_size c"
    if "xp_purpose child = ControlPurpose"
    using control_child_narrows [OF ctl [OF that]] by metis
  have depth: "xp_delegation_identity child = Some identity"
    using lineage by (simp add: lineage_mismatch_def Let_def)
  show ?thesis
    by (rule exI [of _ c], intro conjI impI effect control)
      (use c lineage depth derive_delegation_identity_depth [OF identity] in
        \<open>simp_all add: lineage_mismatch_def Let_def\<close>)
qed

definition sample_ceiling :: DelegationCeilingV1 where
  "sample_ceiling =
     \<lparr>dc_actor = ''a'', dc_policy_version = ''1'', dc_run_id = ''run'', dc_transition = ControlToEffect,
      dc_audiences = [''echo''],
      dc_actions = [\<lparr>da_tool = ''echo'', da_action_digest = ''x'', da_args_digest = ''y'',
                      da_effect = pb_effect sample_binding, da_effect_digest = hex64 CHR ''a'',
                      da_executable_authority = []\<rparr>],
      dc_budget = sample_permit_budget 5, dc_not_before = 0, dc_expires_at = 9000000\<rparr>"

definition sample_parent :: ExecutionPermitV1 where
  "sample_parent =
     \<lparr>xp_permit_id = ''parent'', xp_binding = sample_binding, xp_purpose = ControlPurpose,
      xp_delegation_ceiling = Some sample_ceiling, xp_delegation_identity = None,
      xp_executable_authority = []\<rparr>"

definition sample_child_permit :: ExecutionPermitV1 where
  "sample_child_permit =
     \<lparr>xp_permit_id = ''child'',
      xp_binding = sample_binding\<lparr>pb_parent_permit_id := Some ''parent'', pb_parent_operation_id := Some ''run''\<rparr>,
      xp_purpose = EffectPurpose, xp_delegation_ceiling = None,
      xp_delegation_identity = Some \<lparr>di_actor = ''a'', di_delegate = ''a'', di_audience = ''echo'', di_depth = 1\<rparr>,
      xp_executable_authority = []\<rparr>"

lemma sample_delegation:
  "validate_parent_permits sample_env sample_child_permit sample_parent True 1 None = Ok ()"
  by (simp add: validate_parent_permits_def sample_parent_def sample_child_permit_def sample_ceiling_def
      sample_binding_def derive_delegation_identity_def checked_add_def DelegationIdentityV1_validate_def
      byte_of_def lineage_mismatch_def validate_effect_child_def delegated_action_def roots_subset_def
      policy_digest_def is_within_def)

theorem delegation_attenuates_witness:
  "is_within (pb_budget (xp_binding sample_child_permit)) (sample_permit_budget 5)
   \<and> (\<exists>a \<in> set (dc_actions sample_ceiling). performs_action sample_child_permit sample_parent None a
        \<and> pb_action_digest (xp_binding sample_child_permit) = da_action_digest a)"
proof -
  have "xp_delegation_ceiling sample_parent = Some sample_ceiling" "xp_purpose sample_child_permit = EffectPurpose"
    "dc_budget sample_ceiling = sample_permit_budget 5"
    by (simp_all add: sample_parent_def sample_child_permit_def sample_ceiling_def)
  with delegation_attenuates [OF sample_delegation] show ?thesis
    by (auto simp: performs_action_def)
qed

text \<open>C18 delegation of control ends.  The relation between a control permit and the parent it validates
  against, at any instant and in any state, is well-founded: there is no infinite chain of delegated
  control permits.\<close>

theorem delegation_of_control_ends:
  "wfp (\<lambda>child parent. xp_purpose child = ControlPurpose
     \<and> (\<exists>active now family. validate_parent_permits E child parent active now family = Ok ()))"
proof (rule wfp_if_convertible_to_nat)
  fix child parent
  assume "xp_purpose child = ControlPurpose
     \<and> (\<exists>active now family. validate_parent_permits E child parent active now family = Ok ())"
  then obtain c cc where "xp_delegation_ceiling parent = Some c" "xp_delegation_ceiling child = Some cc"
    "ceiling_size cc < ceiling_size c"
    by (metis control_child_narrows validate_parent_permits_Ok)
  then show "(case xp_delegation_ceiling child of None \<Rightarrow> 0 | Some c \<Rightarrow> ceiling_size c)
      < (case xp_delegation_ceiling parent of None \<Rightarrow> 0 | Some c \<Rightarrow> ceiling_size c)"
    by simp
qed

end
