(* ===== verification/Artifacts.thy ===== *)
theory Artifacts
  imports Admission Lifecycle
begin

text \<open>
  The content-addressed artifact store of \<open>recursive-agent-ledger/src/lib.rs\<close> (\<open>ArtifactStore\<close>).  The
  artifact directory is a map from file names to bytes; what the operating system answers during one
  call is the record \<open>artifact_io\<close>.  The typed JSON decoders and the hash of the crates \<open>serde_json\<close> and
  \<open>blake3\<close> are the fields of \<open>ledger_codec\<close>.
\<close>

section \<open>Errors and codecs\<close>

datatype AppendStage =
    ArtifactWrite | PartialRecord | FullReceiptAppend | LogFsync | MetadataTempWrite | MetadataFsync
  | MetadataRename | AppendDirectoryFsync

datatype RunPackExportStage = CopyComplete | VerifyComplete | ReceiptPersisted | Published

text \<open>The text a third-party decoder appends to a reason is left out of it.\<close>

datatype LedgerError =
    LedgerContract contract_error
  | LedgerIo io_error
  | LedgerJson
  | ChainDivergence nat string
  | AmbiguousTrailingRecord
  | NonCanonicalReceipt nat
  | DuplicateReceipt nat receipt_id
  | MetadataMissing
  | MetadataMismatch string
  | ExpectedRunMismatch run_id "run_id option"
  | DirectoryRunMismatch "run_id option"
  | ArtifactMissing artifact_id
  | ArtifactCorrupted artifact_id string
  | ArtifactTooLarge artifact_id nat nat
  | InjectedInterruption AppendStage
  | InjectedRunPackExportInterruption RunPackExportStage
  | ChildLinkInvalid string
  | RunPackInvalid string

record ChainMeta =
  cm_genesis :: content_digest
  cm_head :: content_digest
  cm_length :: u64
  cm_created_at :: time

datatype receipt_decoding = Decoded ReceiptV1 | DecodeEof | DecodeFails

record ledger_codec =
  lc_receipt :: "bytes \<Rightarrow> receipt_decoding"
  lc_descriptor :: "bytes \<Rightarrow> ArtifactDescriptorV1 option"
  lc_permit_evidence :: "bytes \<Rightarrow> PermitEvidenceV1 option"
  lc_egress_evidence :: "bytes \<Rightarrow> ProviderEgressAdmissionEvidenceV1 option"
  lc_meta :: "bytes \<Rightarrow> ChainMeta option"
  lc_hex_decode :: "string \<Rightarrow> bytes option"
  lc_blake3 :: "bytes \<Rightarrow> string"

section \<open>Directory\<close>

abbreviation MAX_ARTIFACT_SIZE :: nat where
  "MAX_ARTIFACT_SIZE \<equiv> 16 * 1024 * 1024"
abbreviation IO_BUFFER_SIZE :: nat where "IO_BUFFER_SIZE \<equiv> 64 * 1024"
abbreviation MAX_ARTIFACT_META_BYTES :: nat where "MAX_ARTIFACT_META_BYTES \<equiv> 16 * 1024"

type_synonym artifact_dir = "string \<Rightarrow> bytes option"

datatype create_fault = CreateOk | CreateFails | WriteStops nat | CreateSyncFails

record artifact_io =
  ai_read_fails :: "string \<Rightarrow> bool"
  ai_create :: "string \<Rightarrow> create_fault"

text \<open>Opening with \<open>CREATE | EXCL\<close> and writing: \<open>Ok False\<close> when the name exists already.\<close>

definition create_exclusive ::
    "artifact_io \<Rightarrow> string \<Rightarrow> bytes \<Rightarrow> artifact_dir \<Rightarrow> (LedgerError + bool) \<times> artifact_dir" where
  "create_exclusive IO name content dir =
     (if ai_create IO name = CreateFails then (Err (LedgerIo IoOther), dir)
      else if dir name \<noteq> None then (Ok False, dir)
      else
        (case ai_create IO name of
           CreateOk \<Rightarrow> (Ok True, dir(name \<mapsto> content))
         | CreateFails \<Rightarrow> (Err (LedgerIo IoOther), dir)
         | WriteStops n \<Rightarrow> (Err (LedgerIo IoOther), dir(name \<mapsto> take n content))
         | CreateSyncFails \<Rightarrow> (Err (LedgerIo IoOther), dir(name \<mapsto> content))))"

abbreviation corrupt :: "ArtifactDescriptorV1 \<Rightarrow> string \<Rightarrow> LedgerError" where
  "corrupt descriptor reason \<equiv> ArtifactCorrupted (ad_owner_id descriptor) reason"

definition artifact_name :: "ArtifactDescriptorV1 \<Rightarrow> LedgerError + string" where
  "artifact_name descriptor =
     attempt (ok_or (corrupt descriptor ''wrong artifact owner domain'')
                (strip_prefix ''v1:recursive-agent/artifact/v1:det:'' (ad_owner_id descriptor))) (\<lambda>suffix.
       if suffix \<noteq> ad_digest descriptor
       then Err (corrupt descriptor ''artifact owner id and digest disagree'') else Ok suffix)"

section \<open>Reading\<close>

definition read_stored_descriptor ::
    "env \<Rightarrow> ledger_codec \<Rightarrow> artifact_io \<Rightarrow> artifact_dir \<Rightarrow> ArtifactDescriptorV1 \<Rightarrow>
     LedgerError + ArtifactDescriptorV1" where
  "read_stored_descriptor E C IO dir descriptor =
     attempt (artifact_name descriptor) (\<lambda>base.
       let name = base @ ''.meta'' in
       if ai_read_fails IO name then Err (LedgerIo IoOther)
       else
         (case dir name of
            None \<Rightarrow> Err (ArtifactMissing (ad_owner_id descriptor))
          | Some content \<Rightarrow>
              if length content > MAX_ARTIFACT_META_BYTES
              then Err (corrupt descriptor ''descriptor metadata is not a bounded regular file'')
              else
                attempt (ok_or (corrupt descriptor ''descriptor metadata is malformed'')
                           (lc_descriptor C content)) (\<lambda>stored.
                attempt (map_err LedgerContract (jcs_canonical E (artifact_descriptor_json E stored)))
                  (\<lambda>canonical.
                    if canonical \<noteq> content
                    then Err (corrupt descriptor ''descriptor metadata is noncanonical'')
                    else Ok stored))))"

definition open_verified ::
    "env \<Rightarrow> ledger_codec \<Rightarrow> artifact_io \<Rightarrow> artifact_dir \<Rightarrow> ArtifactDescriptorV1 \<Rightarrow> LedgerError + bytes" where
  "open_verified E C IO dir descriptor =
     attempt (map_err LedgerContract (ArtifactDescriptorV1_validate descriptor)) (\<lambda>_.
     attempt (read_stored_descriptor E C IO dir descriptor) (\<lambda>stored.
     if stored \<noteq> descriptor then Err (corrupt descriptor ''stored descriptor metadata mismatch'')
     else if unat (ad_byte_length descriptor) > MAX_ARTIFACT_SIZE
     then Err (ArtifactTooLarge (ad_owner_id descriptor) (unat (ad_byte_length descriptor)) MAX_ARTIFACT_SIZE)
     else
       attempt (artifact_name descriptor) (\<lambda>name.
       if ai_read_fails IO name then Err (LedgerIo IoOther)
       else
         (case dir name of
            None \<Rightarrow> Err (ArtifactMissing (ad_owner_id descriptor))
          | Some content \<Rightarrow>
              if length content > MAX_ARTIFACT_SIZE
              then Err (ArtifactTooLarge (ad_owner_id descriptor) (length content) MAX_ARTIFACT_SIZE)
              else if length content \<noteq> unat (ad_byte_length descriptor)
              then Err (corrupt descriptor ''opened descriptor length mismatch'')
              else Ok content))))"

definition verify_observed_bytes ::
    "env \<Rightarrow> ArtifactDescriptorV1 \<Rightarrow> bytes \<Rightarrow> LedgerError + unit" where
  "verify_observed_bytes E descriptor content =
     (if length content \<noteq> unat (ad_byte_length descriptor)
      then Err (corrupt descriptor ''byte length mismatch'')
      else if digest_compute E content \<noteq> ad_digest descriptor
      then Err (corrupt descriptor ''content digest mismatch'')
      else
        attempt (map_err LedgerContract (derive_artifact_id E content)) (\<lambda>owner.
          if owner \<noteq> ad_owner_id descriptor then Err (corrupt descriptor ''artifact owner mismatch'')
          else Ok ()))"

definition artifact_get ::
    "env \<Rightarrow> ledger_codec \<Rightarrow> artifact_io \<Rightarrow> artifact_dir \<Rightarrow> ArtifactDescriptorV1 \<Rightarrow> LedgerError + bytes" where
  "artifact_get E C IO dir descriptor =
     attempt (open_verified E C IO dir descriptor) (\<lambda>file.
       let content = take (unat (ad_byte_length descriptor) + 1) file in
       if length content > unat (ad_byte_length descriptor)
       then Err (ArtifactTooLarge (ad_owner_id descriptor) (length content)
                   (unat (ad_byte_length descriptor)))
       else attempt (verify_observed_bytes E descriptor content) (\<lambda>_. Ok content))"

text \<open>The streaming loop: the bytes already given to the hasher, and those still unread.\<close>

function hash_stream :: "ArtifactDescriptorV1 \<Rightarrow> bytes \<Rightarrow> bytes \<Rightarrow> LedgerError + bytes" where
  "hash_stream descriptor hashed rest =
     (let buffer = take IO_BUFFER_SIZE rest; observed = length hashed + length buffer in
      if buffer = [] then Ok hashed
      else if observed > MAX_ARTIFACT_SIZE \<or> observed > unat (ad_byte_length descriptor)
      then Err (ArtifactTooLarge (ad_owner_id descriptor) observed
                  (min MAX_ARTIFACT_SIZE (unat (ad_byte_length descriptor))))
      else hash_stream descriptor (hashed @ buffer) (drop IO_BUFFER_SIZE rest))"
  by pat_completeness auto
termination
  by (relation "measure (\<lambda>(d, hashed, rest). length rest)") auto

declare hash_stream.simps [simp del]

definition verify_descriptor ::
    "env \<Rightarrow> ledger_codec \<Rightarrow> artifact_io \<Rightarrow> artifact_dir \<Rightarrow> ArtifactDescriptorV1 \<Rightarrow> LedgerError + unit" where
  "verify_descriptor E C IO dir descriptor =
     attempt (open_verified E C IO dir descriptor) (\<lambda>file.
     attempt (hash_stream descriptor [] file) (\<lambda>hashed.
       if length hashed \<noteq> unat (ad_byte_length descriptor)
       then Err (corrupt descriptor ''byte length mismatch'')
       else if lc_blake3 C hashed \<noteq> ad_digest descriptor
       then Err (corrupt descriptor ''content digest mismatch'')
       else Ok ()))"

section \<open>Writing\<close>

definition persist_descriptor ::
    "env \<Rightarrow> ledger_codec \<Rightarrow> artifact_io \<Rightarrow> ArtifactDescriptorV1 \<Rightarrow> artifact_dir \<Rightarrow>
     (LedgerError + unit) \<times> artifact_dir" where
  "persist_descriptor E C IO descriptor dir =
     (case attempt (artifact_name descriptor) (\<lambda>base.
             attempt (map_err LedgerContract (jcs_canonical E (artifact_descriptor_json E descriptor)))
               (\<lambda>content. Ok (base @ ''.meta'', content))) of
        Err e \<Rightarrow> (Err e, dir)
      | Ok (name, content) \<Rightarrow>
          (case create_exclusive IO name content dir of
             (Err e, dir') \<Rightarrow> (Err e, dir')
           | (Ok True, dir') \<Rightarrow> (Ok (), dir')
           | (Ok False, dir') \<Rightarrow>
               (attempt (read_stored_descriptor E C IO dir' descriptor) (\<lambda>stored.
                  if stored \<noteq> descriptor then Err (corrupt descriptor ''descriptor metadata conflict'')
                  else Ok ()), dir')))"

definition describe_artifact ::
    "env \<Rightarrow> bytes \<Rightarrow> string \<Rightarrow> string option \<Rightarrow> LedgerError + ArtifactDescriptorV1" where
  "describe_artifact E content media_type encoding =
     (if length content \<ge> 2 ^ 64
      then Err (ArtifactTooLarge ''pending'' (2 ^ 64 - 1) MAX_ARTIFACT_SIZE)
      else
        attempt (map_err LedgerContract (derive_artifact_id E content)) (\<lambda>owner_id.
        if length content > MAX_ARTIFACT_SIZE
        then Err (ArtifactTooLarge owner_id (length content) MAX_ARTIFACT_SIZE)
        else
          (let descriptor = \<lparr>ad_owner_id = owner_id, ad_digest = digest_compute E content,
                             ad_byte_length = of_nat (length content), ad_media_type = media_type,
                             ad_encoding = encoding\<rparr>
           in attempt (map_err LedgerContract (ArtifactDescriptorV1_validate descriptor)) (\<lambda>_.
                Ok descriptor))))"

definition artifact_put ::
    "env \<Rightarrow> ledger_codec \<Rightarrow> artifact_io \<Rightarrow> bytes \<Rightarrow> string \<Rightarrow> string option \<Rightarrow> artifact_dir \<Rightarrow>
     (LedgerError + ArtifactDescriptorV1) \<times> artifact_dir" where
  "artifact_put E C IO content media_type encoding dir =
     (case attempt (describe_artifact E content media_type encoding) (\<lambda>descriptor.
             attempt (artifact_name descriptor) (\<lambda>name. Ok (descriptor, name))) of
        Err e \<Rightarrow> (Err e, dir)
      | Ok (descriptor, name) \<Rightarrow>
          (case create_exclusive IO name content dir of
             (Err e, dir') \<Rightarrow> (Err e, dir')
           | (Ok created, dir') \<Rightarrow>
               (case (if created then Ok content else artifact_get E C IO dir' descriptor) of
                  Err e \<Rightarrow> (Err e, dir')
                | Ok existing \<Rightarrow>
                    if existing \<noteq> content
                    then (Err (corrupt descriptor ''existing content-addressed bytes differ''), dir')
                    else
                      (case persist_descriptor E C IO descriptor dir' of
                         (Err e, dir'') \<Rightarrow> (Err e, dir'')
                       | (Ok _, dir'') \<Rightarrow> (Ok descriptor, dir'')))))"

section \<open>Facts on the store\<close>

lemma artifact_name_Ok_iff [result_simps]:
  "artifact_name d = Ok name \<longleftrightarrow>
     name = ad_digest d \<and> strip_prefix ''v1:recursive-agent/artifact/v1:det:'' (ad_owner_id d) = Some name"
  unfolding artifact_name_def by (auto simp: result_simps if_Err_Ok_iff)

lemma create_exclusive_extends: "dir \<subseteq>\<^sub>m snd (create_exclusive IO name content dir)"
  unfolding create_exclusive_def by (auto simp: map_le_def split: create_fault.splits)

lemma create_exclusive_Ok:
  assumes "create_exclusive IO name content dir = (Ok created, dir')"
  shows "(created \<and> dir name = None \<and> dir' = dir(name \<mapsto> content)) \<or> (\<not> created \<and> dir' = dir \<and> dir name \<noteq> None)"
  using assms unfolding create_exclusive_def by (auto split: create_fault.splits if_splits)

lemma persist_descriptor_extends: "dir \<subseteq>\<^sub>m snd (persist_descriptor E C IO d dir)"
proof -
  have "dir \<subseteq>\<^sub>m dir'" if "create_exclusive IO name content dir = (r, dir')" for name content r dir'
    using create_exclusive_extends [of dir IO name content] that by simp
  then show ?thesis
    unfolding persist_descriptor_def by (auto split: sum.split prod.split bool.split)
qed

lemma artifact_put_extends: "dir \<subseteq>\<^sub>m snd (artifact_put E C IO content media_type encoding dir)"
proof -
  have created: "dir \<subseteq>\<^sub>m dir'" if "create_exclusive IO name content dir = (r, dir')" for name r dir'
    using create_exclusive_extends [of dir IO name content] that by simp
  have "dir \<subseteq>\<^sub>m dir''"
    if "create_exclusive IO name content dir = (r, dir')" "persist_descriptor E C IO d dir' = (r', dir'')"
    for name r dir' d r' dir''
    using map_le_trans [OF created [OF that(1)] persist_descriptor_extends [of dir' E C IO d]] that(2)
    by simp
  with created show ?thesis
    unfolding artifact_put_def by (auto split: sum.split prod.split)
qed

text \<open>A stored artifact: its bytes under its name, and a readable sidecar that decodes to its descriptor.\<close>

lemma read_stored_descriptor_Ok_iff [result_simps]:
  "read_stored_descriptor E C IO dir d = Ok stored \<longleftrightarrow>
     (\<exists>base content. artifact_name d = Ok base \<and> \<not> ai_read_fails IO (base @ ''.meta'')
        \<and> dir (base @ ''.meta'') = Some content \<and> length content \<le> MAX_ARTIFACT_META_BYTES
        \<and> lc_descriptor C content = Some stored
        \<and> jcs_canonical E (artifact_descriptor_json E stored) = Ok content)"
  unfolding read_stored_descriptor_def Let_def
  by (auto simp: attempt_Ok_iff ok_or_Ok_iff map_err_Ok_iff if_Err_Ok_iff split: option.splits)

lemma open_verified_Ok_iff [result_simps]:
  "open_verified E C IO dir d = Ok file \<longleftrightarrow>
     ArtifactDescriptorV1_validate d = Ok () \<and> read_stored_descriptor E C IO dir d = Ok d
     \<and> unat (ad_byte_length d) \<le> MAX_ARTIFACT_SIZE
     \<and> (\<exists>name. artifact_name d = Ok name \<and> \<not> ai_read_fails IO name \<and> dir name = Some file
          \<and> length file = unat (ad_byte_length d))"
  unfolding open_verified_def
  by (auto simp: attempt_Ok_iff map_err_Ok_iff if_Err_Ok_iff split: option.splits)

lemma verify_observed_bytes_Ok_iff [result_simps]:
  "verify_observed_bytes E d content = Ok () \<longleftrightarrow>
     length content = unat (ad_byte_length d) \<and> digest_compute E content = ad_digest d
     \<and> derive_artifact_id E content = Ok (ad_owner_id d)"
  unfolding verify_observed_bytes_def by (auto simp: attempt_Ok_iff map_err_Ok_iff if_Err_Ok_iff)

lemma artifact_get_Ok_iff [result_simps]:
  "artifact_get E C IO dir d = Ok content \<longleftrightarrow>
     open_verified E C IO dir d = Ok content \<and> verify_observed_bytes E d content = Ok ()"
  unfolding artifact_get_def Let_def
  by (auto simp: attempt_Ok_iff if_Err_Ok_iff open_verified_Ok_iff)

lemma describe_artifact_Ok:
  assumes "describe_artifact E content media_type encoding = Ok d"
  shows "ArtifactDescriptorV1_validate d = Ok ()" "length content = unat (ad_byte_length d)"
    "length content \<le> MAX_ARTIFACT_SIZE" "digest_compute E content = ad_digest d"
    "derive_artifact_id E content = Ok (ad_owner_id d)"
  using assms unfolding describe_artifact_def Let_def
  by (auto simp: attempt_Ok_iff map_err_Ok_iff if_Err_Ok_iff unat_of_nat)

lemma persist_descriptor_Ok:
  assumes "persist_descriptor E C IO d dir = (Ok (), dir')" and "artifact_name d = Ok base"
  obtains content where "jcs_canonical E (artifact_descriptor_json E d) = Ok content"
    and "dir' = dir(base @ ''.meta'' \<mapsto> content)"
proof -
  obtain content where canonical: "jcs_canonical E (artifact_descriptor_json E d) = Ok content"
    using assms unfolding persist_descriptor_def
    by (cases "jcs_canonical E (artifact_descriptor_json E d)") (auto simp: map_err_def)
  obtain r where created: "create_exclusive IO (base @ ''.meta'') content dir = (Ok r, dir')"
    using assms canonical unfolding persist_descriptor_def
    by (auto simp: map_err_def split: sum.splits prod.splits bool.splits)
  show ?thesis
  proof (cases r)
    case True
    with create_exclusive_Ok [OF created] canonical that show ?thesis by blast
  next
    case False
    with assms canonical created have "read_stored_descriptor E C IO dir' d = Ok d"
      unfolding persist_descriptor_def
      by (auto simp: map_err_def attempt_Ok_iff if_Err_Ok_iff)
    with canonical assms(2) have "dir' (base @ ''.meta'') = Some content"
      by (auto simp: read_stored_descriptor_Ok_iff)
    moreover have "dir' = dir" using create_exclusive_Ok [OF created] False by blast
    ultimately show ?thesis using that [OF canonical] by (simp add: fun_upd_idem)
  qed
qed

lemma artifact_put_Ok:
  assumes "artifact_put E C IO content media_type encoding dir = (Ok d, dir')"
  obtains name canonical where "describe_artifact E content media_type encoding = Ok d"
    and "artifact_name d = Ok name" and "jcs_canonical E (artifact_descriptor_json E d) = Ok canonical"
    and "dir' name = Some content" and "dir' (name @ ''.meta'') = Some canonical"
proof -
  obtain name r dir1 where put: "describe_artifact E content media_type encoding = Ok d"
      "artifact_name d = Ok name" "create_exclusive IO name content dir = (Ok r, dir1)"
      "\<not> r \<longrightarrow> artifact_get E C IO dir1 d = Ok content"
      "persist_descriptor E C IO d dir1 = (Ok (), dir')"
    using assms unfolding artifact_put_def
    by (auto simp: attempt_Ok_iff split: sum.splits prod.splits if_splits)
  obtain canonical where meta: "jcs_canonical E (artifact_descriptor_json E d) = Ok canonical"
      "dir' = dir1(name @ ''.meta'' \<mapsto> canonical)"
    using persist_descriptor_Ok [OF put(5,2)] .
  have "dir1 name = Some content"
    using create_exclusive_Ok [OF put(3)] put(2,4)
    by (auto simp: artifact_get_Ok_iff open_verified_Ok_iff)
  with put meta show ?thesis by (intro that) auto
qed

section \<open>Properties\<close>

text \<open>C23 A put artifact can be read back, and nothing stored is ever overwritten.  Whatever the outcome
  of \<open>put\<close> (a refused create, a write that stops half way, a failed sync), every file the directory had
  keeps its bytes.  When \<open>put\<close> returns a descriptor, every later \<open>get\<close> with that descriptor on the
  directory it leaves, or on any directory further puts extend it to, returns exactly the bytes that
  were put, provided the reads do not fail, the descriptor's canonical encoding fits the sidecar bound
  and decodes to the descriptor again.\<close>

theorem artifact_put_get:
  assumes "artifact_put E C IO content media_type encoding dir = (result, dir1)"
    and "\<And>d canonical. result = Ok d \<Longrightarrow>
      jcs_canonical E (artifact_descriptor_json E d) = Ok canonical \<Longrightarrow>
      length canonical \<le> MAX_ARTIFACT_META_BYTES \<and> lc_descriptor C canonical = Some d"
    and "\<And>n. \<not> ai_read_fails IO' n" and "dir1 \<subseteq>\<^sub>m dir2"
  shows "dir \<subseteq>\<^sub>m dir1 \<and> (\<forall>d. result = Ok d \<longrightarrow> artifact_get E C IO' dir2 d = Ok content)"
proof (intro conjI allI impI)
  show "dir \<subseteq>\<^sub>m dir1"
    using artifact_put_extends [of dir E C IO content media_type encoding] assms(1) by simp
next
  fix d assume d: "result = Ok d"
  from assms(1) [unfolded d] obtain name canonical
    where stored: "describe_artifact E content media_type encoding = Ok d"
      "artifact_name d = Ok name" "jcs_canonical E (artifact_descriptor_json E d) = Ok canonical"
      "dir1 name = Some content" "dir1 (name @ ''.meta'') = Some canonical"
    by (rule artifact_put_Ok)
  have "dir2 name = Some content" "dir2 (name @ ''.meta'') = Some canonical"
    using assms(4) stored(4,5) by (auto simp: map_le_def dom_def)
  with stored assms(2) [OF d stored(3)] describe_artifact_Ok [OF stored(1)] assms(3)
  show "artifact_get E C IO' dir2 d = Ok content"
    by (auto simp: artifact_get_Ok_iff open_verified_Ok_iff read_stored_descriptor_Ok_iff
        verify_observed_bytes_Ok_iff)
qed

definition sample_stored :: ArtifactDescriptorV1 where
  "sample_stored =
     \<lparr>ad_owner_id = ''v1:recursive-agent/artifact/v1:det:'' @ hex64 CHR ''b'',
      ad_digest = hex64 CHR ''b'', ad_byte_length = 2, ad_media_type = ''text/plain'', ad_encoding = None\<rparr>"

definition sample_codec :: ledger_codec where
  "sample_codec =
     \<lparr>lc_receipt = (\<lambda>b. DecodeEof), lc_descriptor = (\<lambda>b. Some sample_stored),
      lc_permit_evidence = (\<lambda>b. None), lc_egress_evidence = (\<lambda>b. None), lc_meta = (\<lambda>b. None),
      lc_hex_decode = Some, lc_blake3 = (\<lambda>b. hex64 CHR ''b'')\<rparr>"

definition quiet_artifact_io :: artifact_io where
  "quiet_artifact_io = \<lparr>ai_read_fails = (\<lambda>n. False), ai_create = (\<lambda>n. CreateOk)\<rparr>"

lemma sample_stored_owner:
  "derive_artifact_id sample_env content = Ok (ad_owner_id sample_stored)"
  by code_simp

lemma sample_stored_valid: "ArtifactDescriptorV1_validate sample_stored = Ok ()"
  by code_simp

lemma sample_describe:
  "describe_artifact sample_env ''hi'' ''text/plain'' None = Ok sample_stored"
  "artifact_name sample_stored = Ok (hex64 CHR ''b'')"
  "jcs_canonical sample_env (artifact_descriptor_json sample_env sample_stored) = Ok ''{}''"
proof -
  have stored: "\<lparr>ad_owner_id = ad_owner_id sample_stored, ad_digest = hex64 CHR ''b'',
      ad_byte_length = 2, ad_media_type = ''text/plain'', ad_encoding = None\<rparr> = sample_stored"
    by (simp add: sample_stored_def)
  have "digest_compute sample_env content = hex64 CHR ''b''" for content
    by (simp add: sample_env_def)
  then show "describe_artifact sample_env ''hi'' ''text/plain'' None = Ok sample_stored"
    by (simp add: describe_artifact_def sample_stored_owner stored
        sample_stored_valid)
  show "artifact_name sample_stored = Ok (hex64 CHR ''b'')" by code_simp
  show "jcs_canonical sample_env (artifact_descriptor_json sample_env sample_stored) = Ok ''{}''"
    by (simp add: jcs_canonical_def sample_env_def)
qed

lemma sample_artifact_put:
  "artifact_put sample_env sample_codec quiet_artifact_io ''hi'' ''text/plain'' None Map.empty
   = (Ok sample_stored, [hex64 CHR ''b'' \<mapsto> ''hi'', hex64 CHR ''b'' @ ''.meta'' \<mapsto> ''{}''])"
  by (simp add: artifact_put_def sample_describe create_exclusive_def persist_descriptor_def
      quiet_artifact_io_def)

theorem artifact_put_get_witness:
  "artifact_get sample_env sample_codec quiet_artifact_io
     [hex64 CHR ''b'' \<mapsto> ''hi'', hex64 CHR ''b'' @ ''.meta'' \<mapsto> ''{}''] sample_stored = Ok ''hi''"
proof -
  have "length canonical \<le> MAX_ARTIFACT_META_BYTES \<and> lc_descriptor sample_codec canonical = Some d"
    if "(Ok sample_stored :: LedgerError + ArtifactDescriptorV1) = Ok d"
      "jcs_canonical sample_env (artifact_descriptor_json sample_env d) = Ok canonical" for d canonical
    using that sample_describe(3) by (auto simp: sample_codec_def)
  then show ?thesis
    using artifact_put_get [OF sample_artifact_put _ _ map_le_refl, of quiet_artifact_io]
    by (simp add: quiet_artifact_io_def)
qed

text \<open>C24 An interrupted \<open>put\<close> blocks the same bytes for good.  When the content file was written but
  its sidecar could not be created, a retry finds the content file, reads it back through \<open>get\<close>, and
  \<open>get\<close> requires the sidecar: every later \<open>put\<close> of these bytes fails with \<open>ArtifactMissing\<close> and leaves
  the directory as it is, however well the file system then behaves.\<close>

theorem interrupted_put_blocks_retry:
  assumes "describe_artifact E content media_type encoding = Ok d" and "artifact_name d = Ok name"
    and "jcs_canonical E (artifact_descriptor_json E d) = Ok canonical"
    and "dir name = None" and "dir (name @ ''.meta'') = None"
    and "ai_create IO name = CreateOk" and "ai_create IO (name @ ''.meta'') = CreateFails"
    and "ai_create IO' name \<noteq> CreateFails" and "\<And>n. \<not> ai_read_fails IO' n"
  shows "artifact_put E C IO content media_type encoding dir
           = (Err (LedgerIo IoOther), dir(name \<mapsto> content))
         \<and> artifact_put E C IO' content media_type encoding (dir(name \<mapsto> content))
           = (Err (ArtifactMissing (ad_owner_id d)), dir(name \<mapsto> content))"
  using assms describe_artifact_Ok [OF assms(1)]
  by (simp add: artifact_put_def create_exclusive_def persist_descriptor_def artifact_get_def
      open_verified_def read_stored_descriptor_def)

theorem interrupted_put_blocks_retry_witness:
  "fst (artifact_put sample_env sample_codec quiet_artifact_io ''hi'' ''text/plain'' None
          [hex64 CHR ''b'' \<mapsto> ''hi'']) = Err (ArtifactMissing (ad_owner_id sample_stored))"
proof -
  have "\<not> ai_read_fails quiet_artifact_io n" "ai_create quiet_artifact_io n \<noteq> CreateFails" for n
    by (simp_all add: quiet_artifact_io_def)
  then show ?thesis
    using interrupted_put_blocks_retry [OF sample_describe, of Map.empty
        "\<lparr>ai_read_fails = \<lambda>n. False,
          ai_create = (\<lambda>n. if n = hex64 CHR ''b'' then CreateOk else CreateFails)\<rparr>"
        quiet_artifact_io sample_codec]
    by simp
qed

end
