(* ===== verification/Continuity.thy ===== *)
theory Continuity
  imports Artifacts Delegation
begin

text \<open>
  The permit continuity check of \<open>recursive-agent-ledger/src/lib.rs\<close> (\<open>validate_permit_continuity\<close>): the
  replay of a receipt log against the permit evidence its receipts reference.  The four ordered maps
  of the loop are the fields of \<open>continuity\<close>; one iteration is \<open>continuity_step\<close>.
\<close>

section \<open>State\<close>

datatype ObservedPermitState = ObservedIssued | ObservedConsumed | ObservedRejected | ObservedRevoked

record RetainedPermit =
  rp_permit_id :: permit_id
  rp_binding_digest :: content_digest
  rp_purpose :: PermitPurposeV1
  rp_issued_at :: time
  rp_not_before :: time
  rp_expires_at :: time
  rp_state :: ObservedPermitState
  rp_evidence :: PermitEvidenceV1

record continuity =
  ct_retained :: "(step_id, RetainedPermit) btmap"
  ct_controls :: "(permit_id, PermitEvidenceV1) btmap"
  ct_control_states :: "(permit_id, PermitEvidenceStateV1) btmap"
  ct_computed_allocations :: "(permit_id, allocations) btmap"

type_synonym admissions = "(step_id, nat \<times> ProviderEgressAdmissionEvidenceV1) btmap"

definition permit_divergence :: "nat \<Rightarrow> string \<Rightarrow> LedgerError" where
  "permit_divergence index reason = ChainDivergence index reason"

section \<open>Provider-egress admissions\<close>

definition provider_admission ::
    "env \<Rightarrow> ledger_codec \<Rightarrow> artifact_io \<Rightarrow> artifact_dir \<Rightarrow> admissions \<Rightarrow> nat \<times> ReceiptV1 \<Rightarrow>
     LedgerError + admissions" where
  "provider_admission E C IO dir admitted = (\<lambda>(index, receipt).
     if rc_kind receipt \<noteq> ProviderEgressAdmitted then Ok admitted
     else
       attempt (case rc_artifact_refs receipt of
                  [] \<Rightarrow> Err (permit_divergence index ''provider-egress admission evidence is missing'')
                | d # _ \<Rightarrow> Ok d) (\<lambda>descriptor.
       attempt (artifact_get E C IO dir descriptor) (\<lambda>content.
       attempt (ok_or (permit_divergence index ''provider-egress admission evidence is malformed'')
                  (lc_egress_evidence C content)) (\<lambda>evidence.
       attempt (map_err (\<lambda>_. permit_divergence index ''provider-egress admission evidence validation failed'')
                  (ProviderEgressAdmissionEvidenceV1_validate E evidence)) (\<lambda>_.
         if qe_verified_at evidence \<noteq> rc_valid_time receipt
            \<or> qe_tool_arguments_digest evidence \<noteq> rc_args_digest receipt
            \<or> bt_contains_key admitted (rc_step_id receipt)
         then Err (permit_divergence index ''provider-egress admission evidence does not bind its receipt'')
         else Ok (bt_insert (rc_step_id receipt) (index, evidence) admitted))))))"

abbreviation provider_admissions ::
    "env \<Rightarrow> ledger_codec \<Rightarrow> artifact_io \<Rightarrow> artifact_dir \<Rightarrow> ReceiptV1 list \<Rightarrow> LedgerError + admissions" where
  "provider_admissions E C IO dir receipts \<equiv>
     try_fold (provider_admission E C IO dir) bt_empty (enumerate 0 receipts)"

section \<open>Observed effects and finalization\<close>

definition check_observed_effect :: "continuity \<Rightarrow> nat \<Rightarrow> ReceiptV1 \<Rightarrow> LedgerError + unit" where
  "check_observed_effect s index receipt =
     (if rc_kind receipt \<noteq> ArtifactStored \<and> rc_kind receipt \<noteq> StepCompleted then Ok ()
      else
        attempt (ok_or (permit_divergence index ''observed effect has no retained permit transition'')
                   (bt_get (ct_retained s) (rc_step_id receipt))) (\<lambda>permit.
        if rp_purpose permit \<noteq> EffectPurpose \<or> rp_state permit \<noteq> ObservedConsumed
        then Err (permit_divergence index ''observed effect requires one consumed effect permit'')
        else
          attempt (ok_or (permit_divergence index ''effect omits control parent'')
                     (pb_parent_permit_id (pv_binding (rp_evidence permit)))) (\<lambda>parent_id.
          attempt (ok_or (permit_divergence index ''effect control parent evidence is absent'')
                     (bt_get (ct_controls s) parent_id)) (\<lambda>parent.
            if bt_get (ct_control_states s) parent_id \<noteq> Some EvidenceIssued
               \<or> rc_valid_time receipt < pb_not_before (pv_binding parent)
               \<or> rc_valid_time receipt \<ge> pb_expires_at (pv_binding parent)
            then Err (permit_divergence index ''parent expiry or revocation dominates observed effect success'')
            else Ok ()))))"

definition check_finalization :: "continuity \<Rightarrow> nat \<Rightarrow> ReceiptV1 \<Rightarrow> LedgerError + unit" where
  "check_finalization s index receipt =
     (if rc_kind receipt = RunFinalized \<and> rc_outcome receipt = OutcomeOk
         \<and> list_ex (\<lambda>permit. rp_purpose permit = EffectPurpose \<and> rp_state permit \<noteq> ObservedConsumed)
             (bt_values (ct_retained s))
      then Err (permit_divergence index
                  ''successful finalization contradicts a rejected or revoked effect permit'')
      else if rc_kind receipt = RunFinalized \<and> rc_outcome receipt = OutcomeOk
         \<and> list_ex (\<lambda>state. case state of EvidenceRevoked _ reason \<Rightarrow> reason \<noteq> Operator | _ \<Rightarrow> True)
             (bt_values (ct_control_states s))
      then Err (permit_divergence index ''successful finalization requires orderly control closure'')
      else Ok ())"

section \<open>Permit evidence\<close>

fun expected_state :: "ReceiptKindV1 \<Rightarrow> string option" where
  "expected_state PermitIssued = Some ''issued''"
| "expected_state PermitConsumed = Some ''consumed''"
| "expected_state ReceiptKindV1.PermitRejected = Some ''rejected''"
| "expected_state PermitRevoked = Some ''revoked''"
| "expected_state kind = None"

fun evidence_state_matches :: "ReceiptKindV1 \<Rightarrow> PermitEvidenceStateV1 \<Rightarrow> bool" where
  "evidence_state_matches PermitIssued EvidenceIssued = True"
| "evidence_state_matches PermitConsumed (EvidenceConsumed at) = True"
| "evidence_state_matches ReceiptKindV1.PermitRejected (EvidenceRejected at reason) = True"
| "evidence_state_matches PermitRevoked (EvidenceRevoked at reason) = True"
| "evidence_state_matches kind state = False"

fun evidence_state_time :: "PermitEvidenceV1 \<Rightarrow> PermitEvidenceStateV1 \<Rightarrow> time" where
  "evidence_state_time evidence EvidenceIssued = pb_issued_at (pv_binding evidence)"
| "evidence_state_time evidence (EvidenceConsumed at) = at"
| "evidence_state_time evidence (EvidenceRejected at reason) = at"
| "evidence_state_time evidence (EvidenceRevoked at reason) = at"

definition receipt_permit_evidence ::
    "env \<Rightarrow> ledger_codec \<Rightarrow> artifact_io \<Rightarrow> artifact_dir \<Rightarrow> string \<Rightarrow> nat \<Rightarrow>
     ReceiptV1 \<Rightarrow> LedgerError + PermitEvidenceV1" where
  "receipt_permit_evidence E C IO dir expected index receipt =
     (case rc_artifact_refs receipt of
        [descriptor] \<Rightarrow>
          attempt (artifact_get E C IO dir descriptor) (\<lambda>content.
          attempt (ok_or (permit_divergence index ''permit evidence is malformed'')
                     (lc_permit_evidence C content)) (\<lambda>evidence.
          attempt (map_err (\<lambda>_. permit_divergence index ''permit evidence validation failed'')
                     (PermitEvidenceV1_validate E evidence)) (\<lambda>_.
            if \<not> evidence_state_matches (rc_kind receipt) (pv_state evidence)
               \<or> evidence_state_time evidence (pv_state evidence) \<noteq> rc_valid_time receipt
               \<or> pb_run_id (pv_binding evidence) \<noteq> rc_run_id receipt
               \<or> pb_step_id (pv_binding evidence) \<noteq> rc_step_id receipt
               \<or> pb_action_digest (pv_binding evidence) \<noteq> rc_spec_digest receipt
               \<or> pb_args_digest (pv_binding evidence) \<noteq> rc_args_digest receipt
               \<or> \<not> list_all (\<lambda>entry. lin_permit_id entry = None
                                      \<or> lin_permit_id entry = Some (pv_permit_id evidence))
                     (rc_lineage receipt)
            then Err (permit_divergence index
                        ''permit evidence does not bind its receipt and neighboring lifecycle'')
            else Ok evidence)))
      | _ \<Rightarrow> Err (permit_divergence index
                   (expected @ '' permit event requires exactly one evidence artifact'')))"

section \<open>Issued permits\<close>

definition check_network_admission ::
    "admissions \<Rightarrow> nat \<Rightarrow> ReceiptV1 \<Rightarrow> PermitEvidenceV1 \<Rightarrow> LedgerError + unit" where
  "check_network_admission admitted index receipt evidence =
     (if \<not> es_network_allowed (pb_effect (pv_binding evidence)) then Ok ()
      else
        attempt (ok_or (permit_divergence index
                          ''network effect permit lacks provider-egress admission evidence'')
                   (bt_get admitted (rc_step_id receipt))) (\<lambda>(admission_index, admission).
          if admission_index \<ge> index
             \<or> pb_tool (pv_binding evidence) \<noteq> ''sealed_completion''
             \<or> pb_args_digest (pv_binding evidence) \<noteq> qe_tool_arguments_digest admission
             \<or> pb_issued_at (pv_binding evidence) < qe_verified_at admission
             \<or> pb_expires_at (pv_binding evidence) > eb_not_after (qe_binding admission)
          then Err (permit_divergence index
                      ''network effect permit does not bind its provider-egress admission'')
          else Ok ()))"

definition add_allocation ::
    "nat \<Rightarrow> u64 \<times> u64 \<times> u64 \<Rightarrow> PermitBudgetV1 \<Rightarrow> LedgerError + u64 \<times> u64 \<times> u64" where
  "add_allocation index = (\<lambda>(wall, out, artifact) budget.
     attempt (ok_or (permit_divergence index ''cumulative wall allocation overflow'')
                (checked_add wall (bg_max_wall_time_ms budget))) (\<lambda>wall'.
     attempt (ok_or (permit_divergence index ''cumulative output allocation overflow'')
                (checked_add out (bg_max_output_bytes budget))) (\<lambda>out'.
     attempt (ok_or (permit_divergence index ''cumulative artifact allocation overflow'')
                (checked_add artifact (bg_max_artifact_bytes budget))) (\<lambda>artifact'.
       Ok (wall', out', artifact')))))"

definition account_allocation ::
    "nat \<Rightarrow> PermitEvidenceV1 \<Rightarrow> PermitEvidenceV1 \<Rightarrow> allocations \<Rightarrow> LedgerError + allocations" where
  "account_allocation index parent evidence prior =
     (if bt_contains_key prior (pv_permit_id evidence)
      then Err (permit_divergence index ''duplicate child allocation'')
      else
        (let allocations = bt_insert (pv_permit_id evidence) (pb_budget (pv_binding evidence)) prior in
         attempt (try_fold (add_allocation index) (0, 0, 0) (bt_values allocations))
           (\<lambda>(wall, out, artifact).
         attempt (ok_or (permit_divergence index ''control permit lacks a delegation ceiling'')
                    (pv_delegation_ceiling parent)) (\<lambda>ceiling.
           if wall > bg_max_wall_time_ms (dc_budget ceiling)
              \<or> out > bg_max_output_bytes (dc_budget ceiling)
              \<or> artifact > bg_max_artifact_bytes (dc_budget ceiling)
           then Err (permit_divergence index ''cumulative child allocation exceeds the control ceiling'')
           else Ok allocations))))"

definition retained_of :: "PermitEvidenceV1 \<Rightarrow> RetainedPermit" where
  "retained_of evidence =
     \<lparr>rp_permit_id = pv_permit_id evidence, rp_binding_digest = pv_binding_digest evidence,
      rp_purpose = pv_purpose evidence, rp_issued_at = pb_issued_at (pv_binding evidence),
      rp_not_before = pb_not_before (pv_binding evidence),
      rp_expires_at = pb_expires_at (pv_binding evidence), rp_state = ObservedIssued,
      rp_evidence = evidence\<rparr>"

definition control_issued ::
    "nat \<Rightarrow> PermitEvidenceV1 \<Rightarrow> continuity \<Rightarrow> LedgerError + continuity" where
  "control_issued index evidence s =
     (if bt_contains_key (ct_controls s) (pv_permit_id evidence)
      then Err (permit_divergence index ''duplicate control permit'')
      else Ok (s\<lparr>ct_controls := bt_insert (pv_permit_id evidence) evidence (ct_controls s),
                  ct_control_states :=
                    bt_insert (pv_permit_id evidence) EvidenceIssued (ct_control_states s)\<rparr>))"

definition effect_issued ::
    "env \<Rightarrow> admissions \<Rightarrow> nat \<Rightarrow> ReceiptV1 \<Rightarrow> PermitEvidenceV1 \<Rightarrow> continuity \<Rightarrow>
     LedgerError + continuity" where
  "effect_issued E admitted index receipt evidence s =
     attempt (check_network_admission admitted index receipt evidence) (\<lambda>_.
     attempt (ok_or (permit_divergence index ''effect permit omits its control parent'')
                (pb_parent_permit_id (pv_binding evidence))) (\<lambda>parent_id.
     attempt (ok_or (permit_divergence index ''effect permit parent evidence is absent'')
                (bt_get (ct_controls s) parent_id)) (\<lambda>parent.
     attempt (map_err (\<lambda>_. permit_divergence index ''effect permit widens its control parent'')
                (validate_delegation_evidence E parent evidence (pb_issued_at (pv_binding evidence)))) (\<lambda>_.
     attempt (account_allocation index parent evidence
                (case bt_get (ct_computed_allocations s) parent_id of None \<Rightarrow> bt_empty | Some a \<Rightarrow> a))
       (\<lambda>allocations.
          Ok (s\<lparr>ct_computed_allocations :=
                  bt_insert parent_id allocations (ct_computed_allocations s)\<rparr>))))))"

definition permit_issued ::
    "env \<Rightarrow> admissions \<Rightarrow> nat \<Rightarrow> ReceiptV1 \<Rightarrow> PermitEvidenceV1 \<Rightarrow> continuity \<Rightarrow>
     LedgerError + continuity" where
  "permit_issued E admitted index receipt evidence s =
     (if bt_contains_key (ct_retained s) (rc_step_id receipt)
      then Err (permit_divergence index ''PermitIssued duplicates a retained step permit'')
      else
        attempt (if pv_purpose evidence = ControlPurpose then control_issued index evidence s
                 else effect_issued E admitted index receipt evidence s) (\<lambda>s'.
          Ok (s'\<lparr>ct_retained :=
                   bt_insert (rc_step_id receipt) (retained_of evidence) (ct_retained s')\<rparr>)))"

section \<open>Terminal transitions\<close>

fun observed_terminal :: "ReceiptKindV1 \<Rightarrow> ObservedPermitState option" where
  "observed_terminal PermitConsumed = Some ObservedConsumed"
| "observed_terminal ReceiptKindV1.PermitRejected = Some ObservedRejected"
| "observed_terminal PermitRevoked = Some ObservedRevoked"
| "observed_terminal kind = None"

definition close_control ::
    "nat \<Rightarrow> ReceiptV1 \<Rightarrow> PermitEvidenceV1 \<Rightarrow> continuity \<Rightarrow> LedgerError + continuity" where
  "close_control index receipt evidence s =
     (if rc_kind receipt = PermitRevoked \<and> pv_purpose evidence = ControlPurpose
      then
        (let expected = (case bt_get (ct_computed_allocations s) (pv_permit_id evidence) of
                           Some allocations \<Rightarrow> allocations | None \<Rightarrow> bt_empty) in
         if pv_child_allocations evidence \<noteq> expected
         then Err (permit_divergence index ''control revocation does not bind exact child allocations'')
         else Ok (s\<lparr>ct_control_states :=
                      bt_insert (pv_permit_id evidence) (pv_state evidence) (ct_control_states s)\<rparr>))
      else Ok s)"

definition permit_ended ::
    "nat \<Rightarrow> ReceiptV1 \<Rightarrow> PermitEvidenceV1 \<Rightarrow> continuity \<Rightarrow> LedgerError + continuity" where
  "permit_ended index receipt evidence s =
     attempt (ok_or (permit_divergence index ''permit terminal transition precedes issuance'')
                (bt_get (ct_retained s) (rc_step_id receipt))) (\<lambda>prior.
     if rp_permit_id prior \<noteq> pv_permit_id evidence
        \<or> rp_binding_digest prior \<noteq> pv_binding_digest evidence
        \<or> rp_purpose prior \<noteq> pv_purpose evidence
        \<or> rp_issued_at prior \<noteq> pb_issued_at (pv_binding evidence)
        \<or> rp_not_before prior \<noteq> pb_not_before (pv_binding evidence)
        \<or> rp_expires_at prior \<noteq> pb_expires_at (pv_binding evidence)
        \<or> pv_binding (rp_evidence prior) \<noteq> pv_binding evidence
        \<or> pv_delegation_ceiling (rp_evidence prior) \<noteq> pv_delegation_ceiling evidence
        \<or> pv_executable_authority (rp_evidence prior) \<noteq> pv_executable_authority evidence
     then Err (permit_divergence index ''permit transition identity or binding changed within the step'')
     else if rp_state prior \<noteq> ObservedIssued
     then Err (permit_divergence index ''permit transition contradicts an existing terminal state'')
     else
       attempt (ok_or (permit_divergence index ''unreachable permit transition'')
                  (observed_terminal (rc_kind receipt))) (\<lambda>state.
         close_control index receipt evidence
           (s\<lparr>ct_retained :=
                bt_insert (rc_step_id receipt) (prior\<lparr>rp_state := state\<rparr>) (ct_retained s)\<rparr>)))"

section \<open>The replay\<close>

definition continuity_step ::
    "env \<Rightarrow> ledger_codec \<Rightarrow> artifact_io \<Rightarrow> artifact_dir \<Rightarrow> admissions \<Rightarrow> continuity \<Rightarrow>
     nat \<times> ReceiptV1 \<Rightarrow> LedgerError + continuity" where
  "continuity_step E C IO dir admitted s = (\<lambda>(index, receipt).
     attempt (check_observed_effect s index receipt) (\<lambda>_.
     attempt (check_finalization s index receipt) (\<lambda>_.
       case expected_state (rc_kind receipt) of
         None \<Rightarrow> Ok s
       | Some expected \<Rightarrow>
           attempt (receipt_permit_evidence E C IO dir expected index receipt) (\<lambda>evidence.
             if rc_kind receipt = PermitIssued
             then permit_issued E admitted index receipt evidence s
             else permit_ended index receipt evidence s))))"

abbreviation continuity_start :: continuity where
  "continuity_start \<equiv> \<lparr>ct_retained = bt_empty, ct_controls = bt_empty, ct_control_states = bt_empty,
                       ct_computed_allocations = bt_empty\<rparr>"

definition validate_permit_continuity ::
    "env \<Rightarrow> ledger_codec \<Rightarrow> artifact_io \<Rightarrow> artifact_dir \<Rightarrow> ReceiptV1 list \<Rightarrow> LedgerError + unit" where
  "validate_permit_continuity E C IO dir receipts =
     attempt (provider_admissions E C IO dir receipts) (\<lambda>admitted.
     attempt (try_fold (continuity_step E C IO dir admitted) continuity_start (enumerate 0 receipts))
       (\<lambda>_. Ok ()))"

section \<open>One iteration\<close>

text \<open>The state after a control permit, an effect permit and a terminal transition.\<close>

abbreviation with_control :: "step_id \<Rightarrow> PermitEvidenceV1 \<Rightarrow> continuity \<Rightarrow> continuity" where
  "with_control sid e s \<equiv>
     s\<lparr>ct_controls := bt_insert (pv_permit_id e) e (ct_controls s),
       ct_control_states := bt_insert (pv_permit_id e) EvidenceIssued (ct_control_states s),
       ct_retained := bt_insert sid (retained_of e) (ct_retained s)\<rparr>"

abbreviation with_effect ::
    "step_id \<Rightarrow> PermitEvidenceV1 \<Rightarrow> permit_id \<Rightarrow> allocations \<Rightarrow> continuity \<Rightarrow> continuity" where
  "with_effect sid e pid a s \<equiv>
     s\<lparr>ct_computed_allocations := bt_insert pid a (ct_computed_allocations s),
       ct_retained := bt_insert sid (retained_of e) (ct_retained s)\<rparr>"

abbreviation with_end :: "ReceiptV1 \<Rightarrow> PermitEvidenceV1 \<Rightarrow> RetainedPermit \<Rightarrow> continuity \<Rightarrow> continuity" where
  "with_end r e prior s \<equiv>
     s\<lparr>ct_retained := bt_insert (rc_step_id r)
          (prior\<lparr>rp_state := the (observed_terminal (rc_kind r))\<rparr>) (ct_retained s),
       ct_control_states :=
         (if rc_kind r = PermitRevoked \<and> pv_purpose e = ControlPurpose
          then bt_insert (pv_permit_id e) (pv_state e) (ct_control_states s) else ct_control_states s)\<rparr>"

definition allocations_of :: "continuity \<Rightarrow> permit_id \<Rightarrow> allocations" where
  "allocations_of s pid = (case bt_get (ct_computed_allocations s) pid of None \<Rightarrow> bt_empty | Some a \<Rightarrow> a)"

lemma control_issued_Ok:
  "control_issued i e s = Ok s' \<longleftrightarrow>
     bt_get (ct_controls s) (pv_permit_id e) = None
     \<and> s' = s\<lparr>ct_controls := bt_insert (pv_permit_id e) e (ct_controls s),
              ct_control_states := bt_insert (pv_permit_id e) EvidenceIssued (ct_control_states s)\<rparr>"
  unfolding control_issued_def by (auto simp: if_Err_Ok_iff bt_contains_key_def)

lemma effect_issued_Ok:
  "effect_issued E admitted i r e s = Ok s' \<longleftrightarrow>
     (\<exists>pid parent a. check_network_admission admitted i r e = Ok ()
        \<and> pb_parent_permit_id (pv_binding e) = Some pid \<and> bt_get (ct_controls s) pid = Some parent
        \<and> validate_delegation_evidence E parent e (pb_issued_at (pv_binding e)) = Ok ()
        \<and> account_allocation i parent e (allocations_of s pid) = Ok a
        \<and> s' = s\<lparr>ct_computed_allocations := bt_insert pid a (ct_computed_allocations s)\<rparr>)"
  unfolding effect_issued_def allocations_of_def
  by (auto simp: attempt_Ok_iff ok_or_Ok_iff map_err_Ok_iff)

lemma close_control_Ok:
  assumes "close_control i r e s = Ok s'"
  shows "s' = s\<lparr>ct_control_states :=
    (if rc_kind r = PermitRevoked \<and> pv_purpose e = ControlPurpose
     then bt_insert (pv_permit_id e) (pv_state e) (ct_control_states s) else ct_control_states s)\<rparr>"
  using assms unfolding close_control_def Let_def by (auto simp: if_Err_Ok_iff split: if_splits)

lemma permit_ended_Ok:
  assumes "permit_ended i r e s = Ok s'"
  obtains prior where "bt_get (ct_retained s) (rc_step_id r) = Some prior"
    and "rp_permit_id prior = pv_permit_id e" and "rp_purpose prior = pv_purpose e"
    and "pv_binding (rp_evidence prior) = pv_binding e" and "rp_state prior = ObservedIssued"
    and "observed_terminal (rc_kind r) \<noteq> None" and "s' = with_end r e prior s"
proof -
  obtain prior st where prior: "bt_get (ct_retained s) (rc_step_id r) = Some prior"
    "rp_permit_id prior = pv_permit_id e" "rp_purpose prior = pv_purpose e"
    "pv_binding (rp_evidence prior) = pv_binding e" "rp_state prior = ObservedIssued"
    "observed_terminal (rc_kind r) = Some st"
    "close_control i r e
       (s\<lparr>ct_retained := bt_insert (rc_step_id r) (prior\<lparr>rp_state := st\<rparr>) (ct_retained s)\<rparr>) = Ok s'"
    using assms unfolding permit_ended_def
    by (auto simp: attempt_Ok_iff ok_or_Ok_iff if_Err_Ok_iff)
  show ?thesis
    using prior(1-6) close_control_Ok [OF prior(7)] by (intro that [of prior]) simp_all
qed

lemma continuity_step_cases:
  assumes "continuity_step E C IO dir admitted s (i, r) = Ok s'"
  obtains (other) "expected_state (rc_kind r) = None" "s' = s"
  | (control) e x where "receipt_permit_evidence E C IO dir x i r = Ok e" "rc_kind r = PermitIssued"
      "bt_get (ct_retained s) (rc_step_id r) = None" "pv_purpose e = ControlPurpose"
      "bt_get (ct_controls s) (pv_permit_id e) = None" "s' = with_control (rc_step_id r) e s"
  | (effect) e x pid parent a where
      "receipt_permit_evidence E C IO dir x i r = Ok e" "rc_kind r = PermitIssued"
      "bt_get (ct_retained s) (rc_step_id r) = None" "pv_purpose e = EffectPurpose"
      "pb_parent_permit_id (pv_binding e) = Some pid" "bt_get (ct_controls s) pid = Some parent"
      "validate_delegation_evidence E parent e (pb_issued_at (pv_binding e)) = Ok ()"
      "account_allocation i parent e (allocations_of s pid) = Ok a"
      "s' = with_effect (rc_step_id r) e pid a s"
  | (ended) e x prior where
      "receipt_permit_evidence E C IO dir x i r = Ok e"
      "bt_get (ct_retained s) (rc_step_id r) = Some prior" "rp_permit_id prior = pv_permit_id e"
      "rp_purpose prior = pv_purpose e" "pv_binding (rp_evidence prior) = pv_binding e"
      "rp_state prior = ObservedIssued" "observed_terminal (rc_kind r) \<noteq> None"
      "s' = with_end r e prior s"
proof (cases "expected_state (rc_kind r)")
  case None
  with assms other show ?thesis by (simp add: continuity_step_def attempt_Ok_iff)
next
  case (Some x)
  with assms obtain e where e: "receipt_permit_evidence E C IO dir x i r = Ok e"
    "(if rc_kind r = PermitIssued then permit_issued E admitted i r e s
      else permit_ended i r e s) = Ok s'"
    by (auto simp: continuity_step_def attempt_Ok_iff)
  show ?thesis
  proof (cases "rc_kind r = PermitIssued")
    case False
    with e(2) have "permit_ended i r e s = Ok s'" by simp
    then show ?thesis by (rule permit_ended_Ok) (rule ended [OF e(1)])
  next
    case True
    with e(2) have issued: "permit_issued E admitted i r e s = Ok s'" by simp
    show ?thesis
    proof (cases "pv_purpose e")
      case EffectPurpose
      with issued obtain pid parent a where "bt_get (ct_retained s) (rc_step_id r) = None"
        "pb_parent_permit_id (pv_binding e) = Some pid" "bt_get (ct_controls s) pid = Some parent"
        "validate_delegation_evidence E parent e (pb_issued_at (pv_binding e)) = Ok ()"
        "account_allocation i parent e (allocations_of s pid) = Ok a"
        "s' = with_effect (rc_step_id r) e pid a s"
        by (auto simp: permit_issued_def attempt_Ok_iff if_Err_Ok_iff bt_contains_key_def effect_issued_Ok)
      with e(1) True EffectPurpose show ?thesis by (intro effect)
    next
      case ControlPurpose
      with issued have "bt_get (ct_retained s) (rc_step_id r) = None"
        "bt_get (ct_controls s) (pv_permit_id e) = None" "s' = with_control (rc_step_id r) e s"
        by (auto simp: permit_issued_def attempt_Ok_iff if_Err_Ok_iff bt_contains_key_def control_issued_Ok)
      with e(1) True ControlPurpose show ?thesis by (intro control)
    qed
  qed
qed

section \<open>What the replay has seen\<close>

lemma try_fold_enumerate:
  assumes "try_fold f s (enumerate 0 rs) = Ok t" and "P 0 s"
    and "\<And>n s s'. n < length rs \<Longrightarrow> P n s \<Longrightarrow> f s (n, rs ! n) = Ok s' \<Longrightarrow> P (Suc n) s'"
  shows "P (length rs) t" and "i < length rs \<Longrightarrow> \<exists>s s'. P i s \<and> f s (i, rs ! i) = Ok s'"
proof -
  have run: "P (length rs) t \<and> (\<forall>i. k \<le> i \<and> i < length rs \<longrightarrow> (\<exists>s s'. P i s \<and> f s (i, rs ! i) = Ok s'))"
    if "try_fold f s (enumerate k (drop k rs)) = Ok t" "P k s" "k \<le> length rs" for k s
    using that
  proof (induction "length rs - k" arbitrary: k s)
    case 0
    then show ?case by auto
  next
    case (Suc n)
    then have k: "k < length rs" by simp
    then have "enumerate k (drop k rs) = (k, rs ! k) # enumerate (Suc k) (drop (Suc k) rs)"
      by (simp add: Cons_nth_drop_Suc [symmetric])
    with Suc.prems obtain s' where s': "f s (k, rs ! k) = Ok s'"
      "try_fold f s' (enumerate (Suc k) (drop (Suc k) rs)) = Ok t"
      by (auto simp: attempt_Ok_iff)
    have rest: "P (length rs) t
        \<and> (\<forall>i. Suc k \<le> i \<and> i < length rs \<longrightarrow> (\<exists>s s'. P i s \<and> f s (i, rs ! i) = Ok s'))"
      using Suc.hyps(2) k by (intro Suc.hyps(1) [OF _ s'(2) assms(3) [OF k Suc.prems(2) s'(1)]]) simp_all
    show ?case
      using rest s'(1) Suc.prems(2) by (auto simp: le_eq_less_or_eq [of k] Suc_le_eq)
  qed
  show "P (length rs) t" and "i < length rs \<Longrightarrow> \<exists>s s'. P i s \<and> f s (i, rs ! i) = Ok s'"
    using run [of s 0] assms(1,2) by simp_all
qed

text \<open>The permit event a receipt of the log records: its kind and the evidence its artifact holds.\<close>

definition permit_event ::
    "env \<Rightarrow> ledger_codec \<Rightarrow> artifact_io \<Rightarrow> artifact_dir \<Rightarrow> ReceiptV1 list \<Rightarrow> nat \<Rightarrow> ReceiptKindV1 \<Rightarrow>
     PermitEvidenceV1 \<Rightarrow> bool" where
  "permit_event E C IO dir rs i kind e \<longleftrightarrow>
     i < length rs \<and> rc_kind (rs ! i) = kind
     \<and> receipt_permit_evidence E C IO dir (the (expected_state kind)) i (rs ! i) = Ok e"

lemma receipt_permit_evidence_Ok:
  assumes "receipt_permit_evidence E C IO dir x i r = Ok e"
  shows "receipt_permit_evidence E C IO dir y i r = Ok e"
    and "PermitEvidenceV1_validate E e = Ok ()"
    and "pb_run_id (pv_binding e) = rc_run_id r" and "pb_step_id (pv_binding e) = rc_step_id r"
    and "pb_action_digest (pv_binding e) = rc_spec_digest r"
    and "pb_args_digest (pv_binding e) = rc_args_digest r"
    and "evidence_state_matches (rc_kind r) (pv_state e)"
  using assms unfolding receipt_permit_evidence_def
  by (auto simp: attempt_Ok_iff ok_or_Ok_iff map_err_Ok_iff if_Err_Ok_iff split: list.splits)

lemma permit_eventI:
  "\<lbrakk>receipt_permit_evidence E C IO dir x i (rs ! i) = Ok e; i < length rs; rc_kind (rs ! i) = kind\<rbrakk> \<Longrightarrow>
   permit_event E C IO dir rs i kind e"
  unfolding permit_event_def by (blast intro: receipt_permit_evidence_Ok(1))

lemma permit_event_unique:
  "\<lbrakk>permit_event E C IO dir rs i kind e; permit_event E C IO dir rs i kind' e'\<rbrakk> \<Longrightarrow> kind' = kind \<and> e' = e"
  unfolding permit_event_def by auto

text \<open>What is known of a retained permit, and of the control permits, after \<open>n\<close> receipts.\<close>

definition retained_history ::
    "env \<Rightarrow> ledger_codec \<Rightarrow> artifact_io \<Rightarrow> artifact_dir \<Rightarrow> ReceiptV1 list \<Rightarrow> nat \<Rightarrow> step_id \<Rightarrow>
     RetainedPermit \<Rightarrow> bool" where
  "retained_history E C IO dir rs n sid p \<longleftrightarrow>
     (\<exists>j < n. permit_event E C IO dir rs j PermitIssued (rp_evidence p) \<and> rc_step_id (rs ! j) = sid
        \<and> (rp_state p = ObservedConsumed \<longrightarrow>
             (\<exists>k < n. \<exists>e. j < k \<and> permit_event E C IO dir rs k PermitConsumed e
                \<and> rc_step_id (rs ! k) = sid \<and> pv_permit_id e = rp_permit_id p
                \<and> pv_binding e = pv_binding (rp_evidence p))))
     \<and> rp_permit_id p = pv_permit_id (rp_evidence p) \<and> rp_purpose p = pv_purpose (rp_evidence p)"

definition retained_authority ::
    "env \<Rightarrow> (permit_id \<Rightarrow> PermitEvidenceV1 option) \<Rightarrow> RetainedPermit \<Rightarrow> bool" where
  "retained_authority E controls p \<longleftrightarrow>
     (if rp_purpose p = ControlPurpose then controls (rp_permit_id p) \<noteq> None
      else \<exists>pid parent. pb_parent_permit_id (pv_binding (rp_evidence p)) = Some pid
             \<and> controls pid = Some parent
             \<and> validate_delegation_evidence E parent (rp_evidence p)
                 (pb_issued_at (pv_binding (rp_evidence p))) = Ok ())"

definition issued_before ::
    "env \<Rightarrow> ledger_codec \<Rightarrow> artifact_io \<Rightarrow> artifact_dir \<Rightarrow> ReceiptV1 list \<Rightarrow> nat \<Rightarrow> PermitEvidenceV1 \<Rightarrow> bool" where
  "issued_before E C IO dir rs n e \<longleftrightarrow> (\<exists>m < n. permit_event E C IO dir rs m PermitIssued e)"

definition control_revoked_before ::
    "env \<Rightarrow> ledger_codec \<Rightarrow> artifact_io \<Rightarrow> artifact_dir \<Rightarrow> ReceiptV1 list \<Rightarrow> nat \<Rightarrow> permit_id \<Rightarrow> bool" where
  "control_revoked_before E C IO dir rs n pid \<longleftrightarrow>
     (\<exists>k < n. \<exists>e. permit_event E C IO dir rs k PermitRevoked e \<and> pv_purpose e = ControlPurpose
        \<and> pv_permit_id e = pid)"

definition controls_ok ::
    "env \<Rightarrow> ledger_codec \<Rightarrow> artifact_io \<Rightarrow> artifact_dir \<Rightarrow> ReceiptV1 list \<Rightarrow> nat \<Rightarrow> continuity \<Rightarrow> bool" where
  "controls_ok E C IO dir rs n s \<longleftrightarrow>
     (\<forall>pid e. bt_get (ct_controls s) pid = Some e \<longrightarrow>
        pv_permit_id e = pid \<and> pv_purpose e = ControlPurpose \<and> issued_before E C IO dir rs n e)
     \<and> (\<forall>pid. control_revoked_before E C IO dir rs n pid \<longrightarrow>
        bt_get (ct_controls s) pid \<noteq> None \<and> bt_get (ct_control_states s) pid \<noteq> Some EvidenceIssued)"

lemma issued_before_Suc:
  "issued_before E C IO dir rs (Suc n) e \<longleftrightarrow>
     issued_before E C IO dir rs n e \<or> permit_event E C IO dir rs n PermitIssued e"
  unfolding issued_before_def less_Suc_eq by blast

lemma control_revoked_before_Suc:
  "control_revoked_before E C IO dir rs (Suc n) pid \<longleftrightarrow>
     control_revoked_before E C IO dir rs n pid
     \<or> (\<exists>e. permit_event E C IO dir rs n PermitRevoked e \<and> pv_purpose e = ControlPurpose
           \<and> pv_permit_id e = pid)"
  unfolding control_revoked_before_def less_Suc_eq by blast

definition replay_inv ::
    "env \<Rightarrow> ledger_codec \<Rightarrow> artifact_io \<Rightarrow> artifact_dir \<Rightarrow> ReceiptV1 list \<Rightarrow> nat \<Rightarrow> continuity \<Rightarrow> bool" where
  "replay_inv E C IO dir rs n s \<longleftrightarrow>
     (\<forall>sid p. bt_get (ct_retained s) sid = Some p \<longrightarrow>
        retained_history E C IO dir rs n sid p \<and> retained_authority E (bt_get (ct_controls s)) p)
     \<and> controls_ok E C IO dir rs n s"

lemma retained_history_Suc:
  "retained_history E C IO dir rs n sid p \<Longrightarrow> retained_history E C IO dir rs (Suc n) sid p"
  unfolding retained_history_def using less_SucI [of _ n] by blast

lemma retained_history_issued:
  "permit_event E C IO dir rs n PermitIssued e \<Longrightarrow>
   retained_history E C IO dir rs (Suc n) (rc_step_id (rs ! n)) (retained_of e)"
  unfolding retained_history_def retained_of_def by auto

lemma retained_history_ended:
  assumes "retained_history E C IO dir rs n (rc_step_id (rs ! n)) p"
    and "permit_event E C IO dir rs n kind e" and "observed_terminal kind = Some st"
    and "rp_permit_id p = pv_permit_id e" and "pv_binding (rp_evidence p) = pv_binding e"
  shows "retained_history E C IO dir rs (Suc n) (rc_step_id (rs ! n)) (p\<lparr>rp_state := st\<rparr>)"
proof -
  have "kind = PermitConsumed" if "st = ObservedConsumed"
    using assms(3) that by (cases kind) simp_all
  with assms(2) have now: "permit_event E C IO dir rs n PermitConsumed e" if "st = ObservedConsumed"
    using that by blast
  from assms(1) obtain j where j: "j < n" "permit_event E C IO dir rs j PermitIssued (rp_evidence p)"
    "rc_step_id (rs ! j) = rc_step_id (rs ! n)" "rp_permit_id p = pv_permit_id (rp_evidence p)"
    "rp_purpose p = pv_purpose (rp_evidence p)"
    unfolding retained_history_def by blast
  with now assms(4,5) show ?thesis
    unfolding retained_history_def
    by (intro conjI exI [of _ j] impI exI [of _ n] exI [of _ e]) simp_all
qed

lemma retained_authority_mono:
  assumes "retained_authority E controls p" and "controls \<subseteq>\<^sub>m controls'"
  shows "retained_authority E controls' p"
proof -
  have keep: "controls pid = Some e \<Longrightarrow> controls' pid = Some e" for pid e
    using assms(2) by (auto simp: map_le_def dom_def)
  show ?thesis
    using assms(1) keep unfolding retained_authority_def by (auto split: if_splits)
qed

lemma controls_ok_Suc:
  assumes "controls_ok E C IO dir rs n s" and "ct_controls s' = ct_controls s"
    and "ct_control_states s' = ct_control_states s"
    and "\<And>e. \<not> permit_event E C IO dir rs n PermitRevoked e"
  shows "controls_ok E C IO dir rs (Suc n) s'"
  using assms(1,4) unfolding controls_ok_def assms(2,3) issued_before_Suc control_revoked_before_Suc
  by blast

lemma controls_ok_control:
  assumes "controls_ok E C IO dir rs n s" and "permit_event E C IO dir rs n PermitIssued e"
    and "pv_purpose e = ControlPurpose" and "bt_get (ct_controls s) (pv_permit_id e) = None"
  shows "controls_ok E C IO dir rs (Suc n) (with_control sid e s)"
proof -
  have "\<not> permit_event E C IO dir rs n PermitRevoked e'" for e'
    using permit_event_unique [OF assms(2)] by blast
  then have same: "control_revoked_before E C IO dir rs (Suc n) = control_revoked_before E C IO dir rs n"
    by (intro ext) (simp add: control_revoked_before_Suc)
  have fresh: "\<not> control_revoked_before E C IO dir rs n (pv_permit_id e)"
    using assms(1,4) unfolding controls_ok_def by blast
  show ?thesis
    using assms fresh unfolding controls_ok_def same
    by (simp add: bt.get_insert issued_before_Suc)
qed

lemma controls_ok_ended:
  assumes ok: "controls_ok E C IO dir rs n s"
    and event: "permit_event E C IO dir rs n (rc_kind (rs ! n)) e"
    and known: "pv_purpose e = ControlPurpose \<Longrightarrow> bt_get (ct_controls s) (pv_permit_id e) \<noteq> None"
    and ends: "observed_terminal (rc_kind (rs ! n)) \<noteq> None"
  shows "controls_ok E C IO dir rs (Suc n) (with_end (rs ! n) e prior s)"
proof (cases "rc_kind (rs ! n) = PermitRevoked \<and> pv_purpose e = ControlPurpose")
  case True
  then have "pv_state e \<noteq> EvidenceIssued"
    using receipt_permit_evidence_Ok(7) event unfolding permit_event_def by fastforce
  moreover have "control_revoked_before E C IO dir rs (Suc n) pid \<longleftrightarrow>
      control_revoked_before E C IO dir rs n pid \<or> pid = pv_permit_id e" for pid
    using event True permit_event_unique [OF event] unfolding control_revoked_before_Suc by metis
  ultimately show ?thesis
    using ok True known [OF conjunct2 [OF True]] unfolding controls_ok_def
    by (simp add: bt.get_insert issued_before_Suc)
next
  case False
  have "\<not> (permit_event E C IO dir rs n PermitRevoked e' \<and> pv_purpose e' = ControlPurpose)" for e'
    using False permit_event_unique [OF event] by metis
  then have "control_revoked_before E C IO dir rs (Suc n) = control_revoked_before E C IO dir rs n"
    by (intro ext) (auto simp: control_revoked_before_Suc)
  with ok False show ?thesis unfolding controls_ok_def by (simp add: issued_before_Suc) blast
qed

lemma replay_inv_step:
  assumes inv: "replay_inv E C IO dir rs n s" and n: "n < length rs"
    and step: "continuity_step E C IO dir admitted s (n, rs ! n) = Ok s'"
  shows "replay_inv E C IO dir rs (Suc n) s'"
  using step
proof (cases rule: continuity_step_cases)
  case other
  then have "\<not> permit_event E C IO dir rs n PermitRevoked e" for e
    by (auto simp: permit_event_def)
  with inv other show ?thesis
    unfolding replay_inv_def by (auto intro: retained_history_Suc controls_ok_Suc)
next
  case (control e x)
  note event = permit_eventI [OF control(1) n control(2)]
  have grown: "bt_get (ct_controls s) \<subseteq>\<^sub>m bt_get (ct_controls s')"
    using control(5,6) by (auto simp: map_le_def bt.get_insert)
  have "retained_authority E (bt_get (ct_controls s')) (retained_of e)"
    using control(4,6) by (simp add: retained_authority_def retained_of_def bt.get_insert)
  moreover have "controls_ok E C IO dir rs (Suc n) s'"
    using controls_ok_control [OF _ event control(4,5)] inv control(6) by (simp add: replay_inv_def)
  ultimately show ?thesis
    using inv grown control(6) retained_history_issued [OF event]
    unfolding replay_inv_def
    by (auto simp: bt.get_insert intro: retained_history_Suc retained_authority_mono split: if_splits)
next
  case (effect e x pid parent a)
  note event = permit_eventI [OF effect(1) n effect(2)]
  have "retained_authority E (bt_get (ct_controls s')) (retained_of e)"
    using effect(4-7,9) by (simp add: retained_authority_def retained_of_def)
  moreover have "controls_ok E C IO dir rs (Suc n) s'"
    using inv effect(9) permit_event_unique [OF event] unfolding replay_inv_def
    by (intro controls_ok_Suc [of E C IO dir rs n s]) auto
  ultimately show ?thesis
    using inv effect(9) retained_history_issued [OF event]
    unfolding replay_inv_def by (auto simp: bt.get_insert intro: retained_history_Suc split: if_splits)
next
  case (ended e x prior)
  note event = permit_eventI [OF ended(1) n refl]
  obtain st where st: "observed_terminal (rc_kind (rs ! n)) = Some st" using ended(7) by blast
  from inv ended(2) have prior: "retained_history E C IO dir rs n (rc_step_id (rs ! n)) prior"
    "retained_authority E (bt_get (ct_controls s)) prior" and ok: "controls_ok E C IO dir rs n s"
    unfolding replay_inv_def by blast+
  have "controls_ok E C IO dir rs (Suc n) s'"
    unfolding ended(8) using prior(2) ended(3,4)
    by (intro controls_ok_ended [OF ok event _ ended(7)]) (simp add: retained_authority_def)
  moreover have "retained_authority E (bt_get (ct_controls s')) (prior\<lparr>rp_state := st\<rparr>)"
    using prior(2) unfolding ended(8) by (auto simp: retained_authority_def split: if_splits)
  ultimately show ?thesis
    using inv ended(8) st retained_history_ended [OF prior(1) event st ended(3,5)]
    unfolding replay_inv_def by (auto simp: bt.get_insert intro: retained_history_Suc split: if_splits)
qed

lemma replay_inv_start: "replay_inv E C IO dir rs 0 continuity_start"
  by (simp add: replay_inv_def controls_ok_def bt.get_empty
      control_revoked_before_def)

lemma replay_at:
  assumes "validate_permit_continuity E C IO dir rs = Ok ()" and "i < length rs"
  obtains admitted s s' where "replay_inv E C IO dir rs i s"
    and "continuity_step E C IO dir admitted s (i, rs ! i) = Ok s'"
proof -
  obtain admitted t where
    "try_fold (continuity_step E C IO dir admitted) continuity_start (enumerate 0 rs) = Ok t"
    using assms(1) unfolding validate_permit_continuity_def by (auto simp: attempt_Ok_iff)
  from try_fold_enumerate(2) [OF this, of "replay_inv E C IO dir rs", OF replay_inv_start _ assms(2)]
  show ?thesis using replay_inv_step that by blast
qed

section \<open>Observed effects\<close>

text \<open>The effect recorded by receipt \<open>i\<close> was authorised: by a control permit issued at \<open>m\<close>, an effect
  permit issued under it at \<open>j\<close> and consumed at \<open>k\<close>.\<close>

definition effect_authorised ::
    "env \<Rightarrow> ledger_codec \<Rightarrow> artifact_io \<Rightarrow> artifact_dir \<Rightarrow> ReceiptV1 list \<Rightarrow> nat \<Rightarrow> bool" where
  "effect_authorised E C IO dir rs i \<longleftrightarrow>
    (\<exists>m j k parent e used. j < k \<and> k < i \<and> m < i
     \<and> permit_event E C IO dir rs m PermitIssued parent \<and> pv_purpose parent = ControlPurpose
     \<and> permit_event E C IO dir rs j PermitIssued e \<and> pv_purpose e = EffectPurpose
     \<and> permit_event E C IO dir rs k PermitConsumed used
     \<and> rc_step_id (rs ! j) = rc_step_id (rs ! i) \<and> rc_step_id (rs ! k) = rc_step_id (rs ! i)
     \<and> pv_permit_id used = pv_permit_id e \<and> pv_binding used = pv_binding e
     \<and> PermitEvidenceV1_validate E e = Ok ()
     \<and> pb_run_id (pv_binding e) = rc_run_id (rs ! j) \<and> pb_step_id (pv_binding e) = rc_step_id (rs ! i)
     \<and> pb_action_digest (pv_binding e) = rc_spec_digest (rs ! j)
     \<and> pb_args_digest (pv_binding e) = rc_args_digest (rs ! j)
     \<and> pb_parent_permit_id (pv_binding e) = Some (pv_permit_id parent)
     \<and> validate_delegation_evidence E parent e (pb_issued_at (pv_binding e)) = Ok ()
     \<and> pb_not_before (pv_binding parent) \<le> rc_valid_time (rs ! i)
     \<and> rc_valid_time (rs ! i) < pb_expires_at (pv_binding parent)
     \<and> \<not> control_revoked_before E C IO dir rs i (pv_permit_id parent))"

lemma observed_effect_authorised:
  assumes "validate_permit_continuity E C IO dir rs = Ok ()" and "i < length rs"
    and "rc_kind (rs ! i) = ArtifactStored \<or> rc_kind (rs ! i) = StepCompleted"
  shows "effect_authorised E C IO dir rs i"
proof -
  from assms(1,2) obtain admitted s s' where inv: "replay_inv E C IO dir rs i s"
    and step: "continuity_step E C IO dir admitted s (i, rs ! i) = Ok s'" by (rule replay_at)
  from step have "check_observed_effect s i (rs ! i) = Ok ()"
    by (auto simp: continuity_step_def attempt_Ok_iff)
  with assms(3) obtain p pid parent where p: "bt_get (ct_retained s) (rc_step_id (rs ! i)) = Some p"
      "rp_purpose p = EffectPurpose" "rp_state p = ObservedConsumed"
      "pb_parent_permit_id (pv_binding (rp_evidence p)) = Some pid"
      "bt_get (ct_controls s) pid = Some parent" "bt_get (ct_control_states s) pid = Some EvidenceIssued"
      "pb_not_before (pv_binding parent) \<le> rc_valid_time (rs ! i)"
      "rc_valid_time (rs ! i) < pb_expires_at (pv_binding parent)"
    unfolding check_observed_effect_def by (auto simp: attempt_Ok_iff ok_or_Ok_iff if_Err_Ok_iff)
  from inv p(1) have history: "retained_history E C IO dir rs i (rc_step_id (rs ! i)) p"
    and authority: "retained_authority E (bt_get (ct_controls s)) p"
    and controls: "controls_ok E C IO dir rs i s"
    unfolding replay_inv_def by blast+
  from history p(3) obtain j k used where j: "permit_event E C IO dir rs j PermitIssued (rp_evidence p)"
      "rc_step_id (rs ! j) = rc_step_id (rs ! i)" "rp_purpose p = pv_purpose (rp_evidence p)"
    and k: "j < k" "k < i" "permit_event E C IO dir rs k PermitConsumed used"
      "rc_step_id (rs ! k) = rc_step_id (rs ! i)" "pv_permit_id used = pv_permit_id (rp_evidence p)"
      "pv_binding used = pv_binding (rp_evidence p)"
    unfolding retained_history_def by auto
  from controls p(5) obtain m where m: "m < i" "permit_event E C IO dir rs m PermitIssued parent"
      "pv_permit_id parent = pid" "pv_purpose parent = ControlPurpose"
    unfolding controls_ok_def issued_before_def by blast
  have unrevoked: "\<not> control_revoked_before E C IO dir rs i (pv_permit_id parent)"
    using controls p(6) m(3) unfolding controls_ok_def by blast
  have attenuates: "validate_delegation_evidence E parent (rp_evidence p)
      (pb_issued_at (pv_binding (rp_evidence p))) = Ok ()"
    using authority p(2,4,5) by (auto simp: retained_authority_def)
  have "receipt_permit_evidence E C IO dir ''issued'' j (rs ! j) = Ok (rp_evidence p)"
    using j(1) by (simp add: permit_event_def)
  note bound = receipt_permit_evidence_Ok(2-6) [OF this]
  show ?thesis unfolding effect_authorised_def
    by (rule exI [of _ m], rule exI [of _ j], rule exI [of _ k], rule exI [of _ parent],
        rule exI [of _ "rp_evidence p"], rule exI [of _ used])
      (use bound j k m p(2,4,7,8) unrevoked attenuates in simp)
qed

text \<open>C9 In a log that passes the continuity check every observed effect was authorised.  For each
  receipt that stores an artifact or completes a step, an earlier receipt of the same step issued an
  effect permit, a receipt between the two consumed that very permit, and an earlier receipt issued
  the control permit it names as its parent.  The permit's evidence is valid and binds the run,
  the step, the action and the arguments of its receipt; it attenuates the control permit; and at the
  time of the effect the control permit was inside its validity window and no earlier receipt had
  revoked it.\<close>

theorem observed_effects_are_authorised:
  assumes "validate_permit_continuity E C IO dir rs = Ok ()" and "i < length rs"
    and "rc_kind (rs ! i) = ArtifactStored \<or> rc_kind (rs ! i) = StepCompleted"
  shows "\<exists>m j k parent e used. j < k \<and> k < i \<and> m < i
     \<and> permit_event E C IO dir rs m PermitIssued parent \<and> pv_purpose parent = ControlPurpose
     \<and> permit_event E C IO dir rs j PermitIssued e \<and> pv_purpose e = EffectPurpose
     \<and> permit_event E C IO dir rs k PermitConsumed used
     \<and> rc_step_id (rs ! j) = rc_step_id (rs ! i) \<and> rc_step_id (rs ! k) = rc_step_id (rs ! i)
     \<and> pv_permit_id used = pv_permit_id e \<and> pv_binding used = pv_binding e
     \<and> PermitEvidenceV1_validate E e = Ok ()
     \<and> pb_run_id (pv_binding e) = rc_run_id (rs ! j) \<and> pb_step_id (pv_binding e) = rc_step_id (rs ! i)
     \<and> pb_action_digest (pv_binding e) = rc_spec_digest (rs ! j)
     \<and> pb_args_digest (pv_binding e) = rc_args_digest (rs ! j)
     \<and> pb_parent_permit_id (pv_binding e) = Some (pv_permit_id parent)
     \<and> validate_delegation_evidence E parent e (pb_issued_at (pv_binding e)) = Ok ()
     \<and> pb_not_before (pv_binding parent) \<le> rc_valid_time (rs ! i)
     \<and> rc_valid_time (rs ! i) < pb_expires_at (pv_binding parent)
     \<and> \<not> control_revoked_before E C IO dir rs i (pv_permit_id parent)"
  using observed_effect_authorised [OF assms] unfolding effect_authorised_def .

section \<open>Budgets of a log\<close>

text \<open>The effect permits issued under a control permit in the first \<open>n\<close> receipts.\<close>

definition issued_under ::
    "env \<Rightarrow> ledger_codec \<Rightarrow> artifact_io \<Rightarrow> artifact_dir \<Rightarrow> ReceiptV1 list \<Rightarrow> nat \<Rightarrow> permit_id \<Rightarrow>
     (nat \<times> PermitEvidenceV1) set" where
  "issued_under E C IO dir rs n pid =
     {(j, e). j < n \<and> permit_event E C IO dir rs j PermitIssued e \<and> pv_purpose e = EffectPurpose
        \<and> pb_parent_permit_id (pv_binding e) = Some pid}"

abbreviation budget_parts :: "(PermitBudgetV1 \<Rightarrow> nat) set" where
  "budget_parts \<equiv> {\<lambda>b. unat (bg_max_wall_time_ms b), \<lambda>b. unat (bg_max_output_bytes b),
                   \<lambda>b. unat (bg_max_artifact_bytes b)}"

lemma issued_under_Suc_same:
  assumes "\<And>e. \<lbrakk>permit_event E C IO dir rs n PermitIssued e; pv_purpose e = EffectPurpose\<rbrakk> \<Longrightarrow>
      pb_parent_permit_id (pv_binding e) \<noteq> Some pid"
  shows "issued_under E C IO dir rs (Suc n) pid = issued_under E C IO dir rs n pid"
  using assms unfolding issued_under_def by (auto simp: less_Suc_eq)

lemma issued_under_Suc_new:
  assumes "permit_event E C IO dir rs n PermitIssued e" and "pv_purpose e = EffectPurpose"
    and "pb_parent_permit_id (pv_binding e) = Some pid"
  shows "issued_under E C IO dir rs (Suc n) pid = insert (n, e) (issued_under E C IO dir rs n pid)"
proof -
  have "permit_event E C IO dir rs n PermitIssued e' \<longleftrightarrow> e' = e" for e'
    using assms(1) permit_event_unique [OF assms(1)] by blast
  then show ?thesis
    using assms(2,3) unfolding issued_under_def by (auto simp: less_Suc_eq)
qed

lemma issued_under_finite: "finite (issued_under E C IO dir rs n pid)"
proof (induction n)
  case 0
  show ?case by (simp add: issued_under_def)
next
  case (Suc n)
  show ?case
  proof (cases "\<exists>e. permit_event E C IO dir rs n PermitIssued e \<and> pv_purpose e = EffectPurpose
      \<and> pb_parent_permit_id (pv_binding e) = Some pid")
    case True
    then show ?thesis using issued_under_Suc_new Suc by fastforce
  next
    case False
    then have "issued_under E C IO dir rs (Suc n) pid = issued_under E C IO dir rs n pid"
      by (intro issued_under_Suc_same) blast
    with Suc show ?thesis by simp
  qed
qed

lemma add_allocation_sums:
  assumes "try_fold (add_allocation i) (w, out, a) bs = Ok (w', out', a')"
  shows "unat w' = unat w + (\<Sum>b\<leftarrow>bs. unat (bg_max_wall_time_ms b))"
    and "unat out' = unat out + (\<Sum>b\<leftarrow>bs. unat (bg_max_output_bytes b))"
    and "unat a' = unat a + (\<Sum>b\<leftarrow>bs. unat (bg_max_artifact_bytes b))"
  using assms
  by (induction bs arbitrary: w out a)
    (auto simp: attempt_Ok_iff ok_or_Ok_iff add_allocation_def dest!: checked_add_unat)

lemma account_allocation_Ok:
  assumes "account_allocation i parent e prior = Ok a"
  shows "bt_get prior (pv_permit_id e) = None"
    and "a = bt_insert (pv_permit_id e) (pb_budget (pv_binding e)) prior"
    and "\<exists>c. pv_delegation_ceiling parent = Some c
      \<and> (\<forall>f \<in> budget_parts. (\<Sum>b\<leftarrow>bt_values a. f b) \<le> f (dc_budget c))"
proof -
  from assms obtain w out art c where *: "bt_get prior (pv_permit_id e) = None"
      "a = bt_insert (pv_permit_id e) (pb_budget (pv_binding e)) prior"
      "pv_delegation_ceiling parent = Some c"
      "try_fold (add_allocation i) (0, 0, 0) (bt_values a) = Ok (w, out, art)"
      "w \<le> bg_max_wall_time_ms (dc_budget c)" "out \<le> bg_max_output_bytes (dc_budget c)"
      "art \<le> bg_max_artifact_bytes (dc_budget c)"
    unfolding account_allocation_def Let_def
    by (auto simp: attempt_Ok_iff ok_or_Ok_iff if_Err_Ok_iff bt_contains_key_def not_less)
  show "bt_get prior (pv_permit_id e) = None"
    and "a = bt_insert (pv_permit_id e) (pb_budget (pv_binding e)) prior" by (fact *(1) *(2))+
  show "\<exists>c. pv_delegation_ceiling parent = Some c
      \<and> (\<forall>f \<in> budget_parts. (\<Sum>b\<leftarrow>bt_values a. f b) \<le> f (dc_budget c))"
    using *(3) *(5-7) [unfolded word_le_nat_alt] add_allocation_sums [OF *(4)] by simp
qed

definition budget_inv ::
    "env \<Rightarrow> ledger_codec \<Rightarrow> artifact_io \<Rightarrow> artifact_dir \<Rightarrow> ReceiptV1 list \<Rightarrow> nat \<Rightarrow> continuity \<Rightarrow> bool" where
  "budget_inv E C IO dir rs n s \<longleftrightarrow>
     (\<forall>m < n. \<forall>e. permit_event E C IO dir rs m PermitIssued e \<and> pv_purpose e = ControlPurpose \<longrightarrow>
        bt_get (ct_controls s) (pv_permit_id e) = Some e)
     \<and> (\<forall>pid. bt_inv (allocations_of s pid)
          \<and> (\<forall>f :: PermitBudgetV1 \<Rightarrow> nat.
               (\<Sum>(j, e) \<in> issued_under E C IO dir rs n pid. f (pb_budget (pv_binding e)))
               = (\<Sum>b\<leftarrow>bt_values (allocations_of s pid). f b))
          \<and> (allocations_of s pid \<noteq> [] \<longrightarrow>
               (\<exists>parent c. bt_get (ct_controls s) pid = Some parent
                  \<and> pv_delegation_ceiling parent = Some c
                  \<and> (\<forall>f \<in> budget_parts. (\<Sum>b\<leftarrow>bt_values (allocations_of s pid). f b) \<le> f (dc_budget c)))))"

lemma allocations_of_effect:
  "allocations_of (with_effect sid e pid a s) = (allocations_of s)(pid := a)"
  by (rule ext) (simp add: allocations_of_def bt.get_insert)

lemma budget_inv_same:
  assumes inv: "budget_inv E C IO dir rs n s"
    and same: "ct_computed_allocations s' = ct_computed_allocations s"
    and grown: "bt_get (ct_controls s) \<subseteq>\<^sub>m bt_get (ct_controls s')"
    and no_effect: "\<And>e. permit_event E C IO dir rs n PermitIssued e \<Longrightarrow>
      pv_purpose e = ControlPurpose \<and> bt_get (ct_controls s') (pv_permit_id e) = Some e"
  shows "budget_inv E C IO dir rs (Suc n) s'"
proof -
  have under: "issued_under E C IO dir rs (Suc n) pid = issued_under E C IO dir rs n pid" for pid
    using no_effect by (intro issued_under_Suc_same) fastforce
  have alloc: "allocations_of s' = allocations_of s"
    by (rule ext) (simp add: allocations_of_def same)
  have keep: "bt_get (ct_controls s) pid = Some e \<Longrightarrow> bt_get (ct_controls s') pid = Some e" for pid e
    using grown by (auto simp: map_le_def dom_def)
  have first: "bt_get (ct_controls s') (pv_permit_id e) = Some e"
    if "m < Suc n" "permit_event E C IO dir rs m PermitIssued e" "pv_purpose e = ControlPurpose" for m e
    using that no_effect keep inv unfolding budget_inv_def less_Suc_eq by blast
  show ?thesis
    using inv keep first unfolding budget_inv_def under alloc by blast
qed

lemma budget_inv_effect:
  assumes inv: "budget_inv E C IO dir rs n s" and event: "permit_event E C IO dir rs n PermitIssued e"
    and e: "pv_purpose e = EffectPurpose" "pb_parent_permit_id (pv_binding e) = Some pid"
    and parent: "bt_get (ct_controls s) pid = Some parent"
    and account: "account_allocation i parent e (allocations_of s pid) = Ok a"
  shows "budget_inv E C IO dir rs (Suc n) (with_effect sid e pid a s)"
proof -
  note a = account_allocation_Ok [OF account]
  have sorted: "bt_inv (allocations_of s q)" for q using inv unfolding budget_inv_def by blast
  have under: "issued_under E C IO dir rs (Suc n) q
      = (if q = pid then insert (n, e) (issued_under E C IO dir rs n q) else issued_under E C IO dir rs n q)" for q
  proof (cases "q = pid")
    case True
    then show ?thesis using issued_under_Suc_new [OF event e] by simp
  next
    case False
    then show ?thesis using e(2) permit_event_unique [OF event] by (auto intro!: issued_under_Suc_same)
  qed
  have fresh: "(n, e) \<notin> issued_under E C IO dir rs n pid" by (simp add: issued_under_def)
  have values_sum: "(\<Sum>b\<leftarrow>bt_values a. f b)
      = f (pb_budget (pv_binding e)) + (\<Sum>b\<leftarrow>bt_values (allocations_of s pid). f b)"
    for f :: "PermitBudgetV1 \<Rightarrow> nat"
    using bt.sum_insert_fresh [OF sorted [of pid] a(1), of "\<lambda>x. f (snd x)" "pb_budget (pv_binding e)"]
    by (simp add: a(2) bt_values_def comp_def)
  have sums: "(\<Sum>(j, e) \<in> issued_under E C IO dir rs (Suc n) q. f (pb_budget (pv_binding e)))
      = (\<Sum>b\<leftarrow>bt_values (((allocations_of s)(pid := a)) q). f b)" for f :: "PermitBudgetV1 \<Rightarrow> nat" and q
    using inv fresh unfolding under budget_inv_def
    by (simp add: values_sum issued_under_finite)
  have controls: "bt_get (ct_controls s) (pv_permit_id e') = Some e'"
    if "m < Suc n" "permit_event E C IO dir rs m PermitIssued e'" "pv_purpose e' = ControlPurpose" for m e'
    using that inv e(1) permit_event_unique [OF event] unfolding budget_inv_def less_Suc_eq by auto
  have "bt_inv a" using a(2) bt.invar_insert [OF sorted] by simp
  then show ?thesis
    using sums controls sorted parent a(3) inv unfolding budget_inv_def allocations_of_effect by simp
qed

lemma budget_inv_step:
  assumes inv: "budget_inv E C IO dir rs n s" and n: "n < length rs"
    and step: "continuity_step E C IO dir admitted s (n, rs ! n) = Ok s'"
  shows "budget_inv E C IO dir rs (Suc n) s'"
  using step
proof (cases rule: continuity_step_cases)
  case other
  then show ?thesis by (intro budget_inv_same [OF inv]) (auto simp: permit_event_def)
next
  case (control e x)
  note event = permit_eventI [OF control(1) n control(2)]
  show ?thesis
    using control(4-6) permit_event_unique [OF event]
    by (intro budget_inv_same [OF inv]) (auto simp: map_le_def bt.get_insert)
next
  case (effect e x pid parent a)
  note event = permit_eventI [OF effect(1) n effect(2)]
  show ?thesis
    unfolding effect(9) by (rule budget_inv_effect [OF inv event effect(4-6,8)])
next
  case (ended e x prior)
  then show ?thesis by (intro budget_inv_same [OF inv]) (auto simp: permit_event_def)
qed

lemma budget_inv_start: "budget_inv E C IO dir rs 0 continuity_start"
  by (simp add: budget_inv_def allocations_of_def bt.get_empty bt.invar_empty
      issued_under_def bt_empty_def bt_values_def bt_get_def bt_inv_def)

text \<open>C10 A log that passes the continuity check never overspends a control permit.  For every control
  permit a receipt issued, with its ceiling, the budgets of all the effect permits the log issued
  under it sum to at most the ceiling, in wall time, output bytes and artifact bytes; the sums are
  those of the natural numbers, so no wrap-around is hidden in them.\<close>

theorem log_conserves_ceilings:
  assumes "validate_permit_continuity E C IO dir rs = Ok ()"
    and "permit_event E C IO dir rs m PermitIssued parent" and "pv_purpose parent = ControlPurpose"
    and "pv_delegation_ceiling parent = Some c"
    and "f \<in> {\<lambda>b. unat (bg_max_wall_time_ms b), \<lambda>b. unat (bg_max_output_bytes b),
              \<lambda>b. unat (bg_max_artifact_bytes b)}"
  shows "(\<Sum>(j, e) \<in> issued_under E C IO dir rs (length rs) (pv_permit_id parent). f (pb_budget (pv_binding e)))
         \<le> f (dc_budget c)"
proof -
  obtain admitted t where
    "try_fold (continuity_step E C IO dir admitted) continuity_start (enumerate 0 rs) = Ok t"
    using assms(1) unfolding validate_permit_continuity_def by (auto simp: attempt_Ok_iff)
  from try_fold_enumerate(1) [OF this, of "budget_inv E C IO dir rs", OF budget_inv_start]
  have inv: "budget_inv E C IO dir rs (length rs) t" using budget_inv_step by blast
  have "m < length rs" using assms(2) by (simp add: permit_event_def)
  with inv assms(2,3) have "bt_get (ct_controls t) (pv_permit_id parent) = Some parent"
    unfolding budget_inv_def by blast
  with inv assms(4,5) show ?thesis
    unfolding budget_inv_def by (cases "allocations_of t (pv_permit_id parent) = []")
      (auto simp: bt_values_def)
qed

section \<open>A concrete log\<close>

text \<open>A control permit, an effect permit under it, its consumption, and the completed step.  The three
  pieces of evidence are the artifacts with the one-byte contents \<open>1\<close>, \<open>2\<close> and \<open>3\<close>.\<close>

definition log_env :: env where
  "log_env = sample_env
     \<lparr>canonicalize_bytes := (\<lambda>v. case v of JObj (_ # (_, JStr d) # _) \<Rightarrow> Ok (take 1 d) | _ \<Rightarrow> Ok []),
      digest_compute := (\<lambda>b. case b of c # _ \<Rightarrow> hex64 c | [] \<Rightarrow> hex64 CHR ''b'')\<rparr>"

definition log_artifact :: "char \<Rightarrow> ArtifactDescriptorV1" where
  "log_artifact c =
     \<lparr>ad_owner_id = ''v1:recursive-agent/artifact/v1:det:'' @ hex64 c, ad_digest = hex64 c,
      ad_byte_length = 1, ad_media_type = ''text/plain'', ad_encoding = None\<rparr>"

definition log_evidence ::
    "step_id \<Rightarrow> permit_id option \<Rightarrow> PermitPurposeV1 \<Rightarrow> PermitEvidenceStateV1 \<Rightarrow> PermitEvidenceV1" where
  "log_evidence sid parent purpose state =
     \<lparr>pv_permit_id = sample_id PERMIT_ID_DOMAIN,
      pv_binding = sample_binding\<lparr>pb_step_id := sid, pb_parent_permit_id := parent,
                                 pb_parent_operation_id := map_option (\<lambda>_. ''run'') parent\<rparr>,
      pv_binding_digest = hex64 CHR ''a'', pv_purpose = purpose,
      pv_delegation_ceiling = (if purpose = ControlPurpose then Some sample_ceiling else None),
      pv_delegation_identity = map_option (\<lambda>_.
        \<lparr>di_actor = ''a'', di_delegate = ''a'', di_audience = ''echo'', di_depth = 1\<rparr>) parent,
      pv_executable_authority = [], pv_child_allocations = bt_empty, pv_state = state\<rparr>"

definition log_control :: PermitEvidenceV1 where
  "log_control = log_evidence ''ctl'' None ControlPurpose EvidenceIssued"

definition log_effect :: "PermitEvidenceStateV1 \<Rightarrow> PermitEvidenceV1" where
  "log_effect = log_evidence ''step'' (Some (sample_id PERMIT_ID_DOMAIN)) EffectPurpose"

definition log_codec :: ledger_codec where
  "log_codec = sample_codec
     \<lparr>lc_descriptor := (\<lambda>b. case b of [c] \<Rightarrow> Some (log_artifact c) | _ \<Rightarrow> None),
      lc_permit_evidence := (\<lambda>b. if b = ''1'' then Some log_control
        else if b = ''2'' then Some (log_effect EvidenceIssued)
        else Some (log_effect (EvidenceConsumed 1)))\<rparr>"

definition log_dir :: artifact_dir where
  "log_dir name = List.find (\<lambda>b. name = hex64 (hd b) \<or> name = hex64 (hd b) @ ''.meta'') [''1'', ''2'', ''3'']"

definition log_receipt :: "step_id \<Rightarrow> ReceiptKindV1 \<Rightarrow> time \<Rightarrow> char \<Rightarrow> ReceiptV1" where
  "log_receipt sid kind t c = (sample_receipt kind OutcomeOk [log_artifact c])
     \<lparr>rc_step_id := sid, rc_spec_digest := ''x'', rc_args_digest := ''y'', rc_valid_time := t\<rparr>"

definition sample_log :: "ReceiptV1 list" where
  "sample_log =
     [log_receipt ''ctl'' PermitIssued 0 CHR ''1'', log_receipt ''step'' PermitIssued 0 CHR ''2'',
      log_receipt ''step'' PermitConsumed 1 CHR ''3'', log_receipt ''step'' StepCompleted 2 CHR ''3'']"

lemma log_env_digest [simp]: "content_digest log_env v = Ok (hex64 CHR ''a'')"
  by (simp add: content_digest_def log_env_def sample_env_def)

lemma log_env_id [simp]:
  "id_deterministic log_env fam domain (hex64 CHR ''a'') = Some (sample_id domain)"
  by (simp add: log_env_def sample_env_def sample_id_def)

lemma log_artifact_get:
  assumes "c \<in> {CHR ''1'', CHR ''2'', CHR ''3''}"
  shows "artifact_get log_env log_codec quiet_artifact_io log_dir (log_artifact c) = Ok [c]"
proof -
  have hex: "hex64 a = hex64 b \<longleftrightarrow> a = b" "hex64 a \<noteq> hex64 b @ ''.meta''"
      "hex64 a @ ''.meta'' \<noteq> hex64 b" for a b
    by (auto simp: hex64_def dest: arg_cong [where f = length])
  have "log_dir (hex64 c) = Some [c]" "log_dir (hex64 c @ ''.meta'') = Some [c]"
    using assms by (auto simp: log_dir_def hex)
  moreover have "derive_artifact_id log_env [c] = Ok (ad_owner_id (log_artifact c))"
    using assms by safe code_simp+
  moreover have "ArtifactDescriptorV1_validate (log_artifact c) = Ok ()"
    by (simp add: ArtifactDescriptorV1_validate_def log_artifact_def byte_of_def)
  moreover have "artifact_name (log_artifact c) = Ok (hex64 c)"
    by (simp add: artifact_name_Ok_iff log_artifact_def strip_prefix_def)
  moreover have "jcs_canonical log_env (artifact_descriptor_json log_env (log_artifact c)) = Ok [c]"
    by (simp add: jcs_canonical_def artifact_descriptor_json_def log_env_def sample_env_def log_artifact_def
        hex64_def)
  moreover have "digest_compute log_env [c] = hex64 c" by (simp add: log_env_def)
  ultimately show ?thesis
    by (simp add: artifact_get_Ok_iff open_verified_Ok_iff read_stored_descriptor_Ok_iff
        verify_observed_bytes_Ok_iff quiet_artifact_io_def log_codec_def
        log_artifact_def)
qed

lemma log_binding_valid:
  "PermitBindingV1_validate log_env (pv_binding (log_evidence sid parent purpose state)) = Ok ()"
  by (simp add: PermitBindingV1_validate_def log_evidence_def sample_binding_def open_network_effect_def
      byte_of_def policy_digest_def budget_has_zero_def sample_permit_budget_def)

lemma log_identity:
  "\<exists>material. permit_identity_material log_env (evidence_permit (log_evidence sid parent purpose state)) = Ok material
     \<and> derive_permit_id log_env material = Ok (sample_id PERMIT_ID_DOMAIN)"
  by (simp add: permit_identity_material_def execution_identity_material_def binding_identity_material_def
      ceiling_identity_def evidence_permit_def log_evidence_def sample_binding_def sample_ceiling_def
      try_u64_def num_milliseconds_since_def policy_digest_def derive_permit_id_def
      PermitIdentityMaterialV1_validate_def current_id_from_owner_def)

lemma log_ceiling_valid: "DelegationCeilingV1_validate log_env sample_ceiling = Ok ()"
  by (simp add: DelegationCeilingV1_validate_def sample_ceiling_def budget_has_zero_def
      sample_permit_budget_def byte_of_def open_network_effect_def policy_digest_def sample_binding_def)

lemma log_evidence_validates:
  assumes "(case purpose of ControlPurpose \<Rightarrow> validate_control_evidence log_env | EffectPurpose \<Rightarrow> validate_effect_evidence)
      (log_evidence sid parent purpose state) = Ok ()"
    and "validate_evidence_state (log_evidence sid parent purpose state) = Ok ()"
  shows "PermitEvidenceV1_validate log_env (log_evidence sid parent purpose state) = Ok ()"
  using log_binding_valid [of sid parent purpose state] log_identity [of sid parent purpose state] assms
  by (cases purpose) (auto simp: PermitEvidenceV1_validate_def policy_digest_def
      log_evidence_def [THEN arg_cong [where f = pv_binding_digest]]
      log_evidence_def [THEN arg_cong [where f = pv_permit_id]]
      log_evidence_def [THEN arg_cong [where f = pv_purpose]])

lemma log_evidence_valid:
  "PermitEvidenceV1_validate log_env log_control = Ok ()"
  "PermitEvidenceV1_validate log_env (log_effect EvidenceIssued) = Ok ()"
  "PermitEvidenceV1_validate log_env (log_effect (EvidenceConsumed 1)) = Ok ()"
proof -
  show "PermitEvidenceV1_validate log_env log_control = Ok ()"
    unfolding log_control_def using log_ceiling_valid
    by (intro log_evidence_validates) (simp_all add: validate_control_evidence_def log_evidence_def
        derivation_proof_ok_def validate_evidence_state_def sample_binding_def
        sample_ceiling_def [THEN arg_cong [where f = dc_actor]] sample_ceiling_def [THEN arg_cong [where f = dc_run_id]]
        sample_ceiling_def [THEN arg_cong [where f = dc_policy_version]]
        sample_ceiling_def [THEN arg_cong [where f = dc_not_before]]
        sample_ceiling_def [THEN arg_cong [where f = dc_expires_at]]
        sample_ceiling_def [THEN arg_cong [where f = dc_budget]])
  show "PermitEvidenceV1_validate log_env (log_effect EvidenceIssued) = Ok ()"
    and "PermitEvidenceV1_validate log_env (log_effect (EvidenceConsumed 1)) = Ok ()"
    unfolding log_effect_def
    by (intro log_evidence_validates; simp add: validate_effect_evidence_def log_evidence_def
        derivation_proof_ok_def validate_evidence_state_def sample_binding_def
        DelegationIdentityV1_validate_def byte_of_def)+
qed

lemma log_delegation:
  "validate_delegation_evidence log_env log_control (log_effect EvidenceIssued) 0 = Ok ()"
  unfolding validate_delegation_evidence_def log_evidence_valid
  by (simp add: validate_parent_permits_def evidence_permit_def log_control_def log_effect_def log_evidence_def
      sample_ceiling_def sample_binding_def derive_delegation_identity_def checked_add_def
      DelegationIdentityV1_validate_def byte_of_def lineage_mismatch_def validate_effect_child_def
      delegated_action_def roots_subset_def policy_digest_def is_within_def)

lemma log_receipt_simps:
  "rc_kind (log_receipt sid kind t c) = kind" "rc_step_id (log_receipt sid kind t c) = sid"
  "rc_valid_time (log_receipt sid kind t c) = t" "rc_outcome (log_receipt sid kind t c) = OutcomeOk"
  "rc_artifact_refs (log_receipt sid kind t c) = [log_artifact c]" "rc_run_id (log_receipt sid kind t c) = ''run''"
  "rc_spec_digest (log_receipt sid kind t c) = ''x''" "rc_args_digest (log_receipt sid kind t c) = ''y''"
  "list_all (\<lambda>entry. lin_permit_id entry = None \<or> P entry) (rc_lineage (log_receipt sid kind t c))"
  by (simp_all add: log_receipt_def sample_receipt_def sample_entry_def)

lemma log_evidence_simps:
  "pv_permit_id (log_evidence sid parent purpose state) = sample_id PERMIT_ID_DOMAIN"
  "pv_purpose (log_evidence sid parent purpose state) = purpose"
  "pv_state (log_evidence sid parent purpose state) = state"
  "pb_step_id (pv_binding (log_evidence sid parent purpose state)) = sid"
  "pb_run_id (pv_binding (log_evidence sid parent purpose state)) = ''run''"
  "pb_action_digest (pv_binding (log_evidence sid parent purpose state)) = ''x''"
  "pb_args_digest (pv_binding (log_evidence sid parent purpose state)) = ''y''"
  "pb_issued_at (pv_binding (log_evidence sid parent purpose state)) = 0"
  "pb_not_before (pv_binding (log_evidence sid parent purpose state)) = 0"
  "pb_expires_at (pv_binding (log_evidence sid parent purpose state)) = 9000000"
  "pb_parent_permit_id (pv_binding (log_evidence sid parent purpose state)) = parent"
  "pb_budget (pv_binding (log_evidence sid parent purpose state)) = sample_permit_budget 5"
  "\<not> es_network_allowed (pb_effect (pv_binding (log_evidence sid parent purpose state)))"
  by (simp_all add: log_evidence_def sample_binding_def)

lemma log_receipt_evidence:
  "receipt_permit_evidence log_env log_codec quiet_artifact_io log_dir x i
     (log_receipt ''ctl'' PermitIssued 0 CHR ''1'') = Ok log_control"
  "receipt_permit_evidence log_env log_codec quiet_artifact_io log_dir x i
     (log_receipt ''step'' PermitIssued 0 CHR ''2'') = Ok (log_effect EvidenceIssued)"
  "receipt_permit_evidence log_env log_codec quiet_artifact_io log_dir x i
     (log_receipt ''step'' PermitConsumed 1 CHR ''3'') = Ok (log_effect (EvidenceConsumed 1))"
proof -
  have codec: "lc_permit_evidence log_codec ''1'' = Some log_control"
    "lc_permit_evidence log_codec ''2'' = Some (log_effect EvidenceIssued)"
    "lc_permit_evidence log_codec ''3'' = Some (log_effect (EvidenceConsumed 1))"
    by (simp_all add: log_codec_def)
  note log_simps = receipt_permit_evidence_def log_receipt_simps log_artifact_get codec log_evidence_valid
  show "receipt_permit_evidence log_env log_codec quiet_artifact_io log_dir x i
     (log_receipt ''ctl'' PermitIssued 0 CHR ''1'') = Ok log_control"
    by (simp add: log_simps) (simp add: log_control_def log_evidence_simps)
  show "receipt_permit_evidence log_env log_codec quiet_artifact_io log_dir x i
     (log_receipt ''step'' PermitIssued 0 CHR ''2'') = Ok (log_effect EvidenceIssued)"
    and "receipt_permit_evidence log_env log_codec quiet_artifact_io log_dir x i
     (log_receipt ''step'' PermitConsumed 1 CHR ''3'') = Ok (log_effect (EvidenceConsumed 1))"
    by (simp add: log_simps, simp add: log_effect_def log_evidence_simps)+
qed

lemma log_allocation:
  "account_allocation i log_control (log_effect EvidenceIssued) bt_empty
   = Ok [(sample_id PERMIT_ID_DOMAIN, sample_permit_budget 5)]"
proof -
  have "pv_delegation_ceiling log_control = Some sample_ceiling"
    by (simp add: log_control_def log_evidence_def)
  moreover have "dc_budget sample_ceiling = sample_permit_budget 5" by (simp add: sample_ceiling_def)
  ultimately show ?thesis
    by (simp add: account_allocation_def log_effect_def log_evidence_simps bt_contains_key_def bt_get_def
        bt_empty_def bt_values_def add_allocation_def checked_add_def sample_permit_budget_def)
qed

lemma sample_log_valid:
  "validate_permit_continuity log_env log_codec quiet_artifact_io log_dir sample_log = Ok ()"
proof -
  let ?id = "sample_id PERMIT_ID_DOMAIN"
  have facts: "pv_purpose log_control = ControlPurpose" "pv_permit_id log_control = ?id"
    "pv_purpose (log_effect st) = EffectPurpose" "pv_permit_id (log_effect st) = ?id"
    "pb_parent_permit_id (pv_binding (log_effect st)) = Some ?id"
    "pb_issued_at (pv_binding (log_effect st)) = 0" "pb_not_before (pv_binding log_control) = 0"
    "pb_expires_at (pv_binding log_control) = 9000000"
    "\<not> es_network_allowed (pb_effect (pv_binding (log_effect st)))" for st
    by (simp_all add: log_control_def log_effect_def log_evidence_simps)
  have same: "pv_binding_digest (log_effect (EvidenceConsumed 1)) = pv_binding_digest (log_effect EvidenceIssued)"
    "pv_binding (log_effect (EvidenceConsumed 1)) = pv_binding (log_effect EvidenceIssued)"
    "pv_delegation_ceiling (log_effect (EvidenceConsumed 1)) = pv_delegation_ceiling (log_effect EvidenceIssued)"
    "pv_executable_authority (log_effect (EvidenceConsumed 1)) = pv_executable_authority (log_effect EvidenceIssued)"
    by (simp_all add: log_effect_def log_evidence_def)
  note steps = continuity_step_def check_observed_effect_def check_finalization_def log_receipt_simps
    log_receipt_evidence permit_issued_def control_issued_def effect_issued_def permit_ended_def close_control_def
    check_network_admission_def bt_contains_key_def bt_get_def log_delegation log_allocation
  have "provider_admissions log_env log_codec quiet_artifact_io log_dir sample_log = Ok bt_empty"
    by (simp add: provider_admission_def sample_log_def log_receipt_simps)
  moreover have "is_ok (try_fold (continuity_step log_env log_codec quiet_artifact_io log_dir bt_empty)
      continuity_start (enumerate 0 sample_log))"
    by (simp add: sample_log_def steps bt_empty_def facts retained_of_def same
        log_allocation [unfolded bt_empty_def])
  ultimately show ?thesis
    by (auto simp: validate_permit_continuity_def is_ok_def split: sum.splits)
qed

theorem observed_effects_are_authorised_witness:
  "\<exists>j k. j < k \<and> k < 3 \<and> rc_kind (sample_log ! j) = PermitIssued \<and> rc_kind (sample_log ! k) = PermitConsumed"
proof -
  have "3 < length sample_log" "rc_kind (sample_log ! 3) = StepCompleted"
    by (simp_all add: sample_log_def log_receipt_simps)
  with observed_effects_are_authorised [OF sample_log_valid, of 3] show ?thesis
    unfolding permit_event_def by blast
qed

theorem log_conserves_ceilings_witness:
  "(\<Sum>(j, e) \<in> issued_under log_env log_codec quiet_artifact_io log_dir sample_log 4 (pv_permit_id log_control).
      unat (bg_max_wall_time_ms (pb_budget (pv_binding e)))) \<le> unat (bg_max_wall_time_ms (dc_budget sample_ceiling))"
proof -
  have "permit_event log_env log_codec quiet_artifact_io log_dir sample_log 0 PermitIssued log_control"
    by (simp add: permit_event_def sample_log_def log_receipt_simps log_receipt_evidence)
  moreover have "pv_purpose log_control = ControlPurpose" "pv_delegation_ceiling log_control = Some sample_ceiling"
    by (simp_all add: log_control_def log_evidence_def)
  moreover have "length sample_log = 4" by (simp add: sample_log_def)
  ultimately show ?thesis
    using log_conserves_ceilings [OF sample_log_valid, of 0 log_control sample_ceiling
        "\<lambda>b. unat (bg_max_wall_time_ms b)"] by simp
qed

end
