(* ===== verification/Ledger.thy ===== *)
theory Ledger
  imports Continuity Events
begin

text \<open>
  The receipt ledger of \<open>recursive-agent-ledger/src/lib.rs\<close>: the hash-chained log \<open>receipts.ndjson\<close>, its
  metadata file \<open>chain.meta\<close>, recovery of a torn tail and append with its interruption points;
  verification is in \<open>Verify\<close>.  A run directory is a \<open>run_root\<close>; what the operating system answers during one call is a
  \<open>ledger_io\<close>.  The temporary files of the metadata writer are never read and are left out.
\<close>

section \<open>Chain digests\<close>

abbreviation MAX_CHAIN_META_BYTES :: nat where "MAX_CHAIN_META_BYTES \<equiv> 16 * 1024"
abbreviation MAX_RECEIPT_LOG_BYTES :: nat where
  "MAX_RECEIPT_LOG_BYTES \<equiv> 64 * 1024 * 1024"

definition receipt_json :: "env \<Rightarrow> ReceiptV1 \<Rightarrow> json" where
  "receipt_json E r =
     JObj [(''args_digest'', digest_json E (rc_args_digest r)),
           (''artifact_refs'', json_of_list (artifact_descriptor_json E) (rc_artifact_refs r)),
           (''kind'', JStr (kind_name (rc_kind r))),
           (''lineage'', json_of_list lineage_entry_json (rc_lineage r)),
           (''outcome'', outcome_json (rc_outcome r)),
           (''prev_chain_digest'', digest_json E (rc_prev_chain_digest r)),
           (''receipt_id'', JStr (rc_receipt_id r)),
           (''recorded_time'', time_json E (rc_recorded_time r)),
           (''run_id'', JStr (rc_run_id r)),
           (''spec_digest'', digest_json E (rc_spec_digest r)),
           (''step_id'', JStr (rc_step_id r)),
           (''valid_time'', time_json E (rc_valid_time r))]"

definition receipt_canonical_bytes :: "env \<Rightarrow> ReceiptV1 \<Rightarrow> contract_error + bytes" where
  "receipt_canonical_bytes E r =
     attempt (validate_material E r) (\<lambda>_. jcs_canonical E (receipt_json E r))"

definition genesis_digest :: "env \<Rightarrow> content_digest" where
  "genesis_digest E = digest_compute E ''recursive-agent-m0-genesis''"

definition chain_digest_from_raw ::
    "env \<Rightarrow> ledger_codec \<Rightarrow> content_digest \<Rightarrow> bytes \<Rightarrow> LedgerError + content_digest" where
  "chain_digest_from_raw E C predecessor canonical_receipt =
     attempt (ok_or (LedgerContract (Malformed (Message ''predecessor digest is not hexadecimal'')))
                (lc_hex_decode C predecessor)) (\<lambda>predecessor_bytes.
       ok_or (LedgerContract (Malformed (Message ''chain digest'')))
         (digest_from_hex E (lc_blake3 C (predecessor_bytes @ canonical_receipt))))"

section \<open>Scanning the log\<close>

record LogScan =
  ls_head :: content_digest
  ls_length :: u64
  ls_receipt_ids :: "receipt_id set"
  ls_receipts :: "ReceiptV1 list"

definition empty_scan :: "env \<Rightarrow> LogScan" where
  "empty_scan E = \<lparr>ls_head = genesis_digest E, ls_length = 0, ls_receipt_ids = {}, ls_receipts = []\<rparr>"

abbreviation newline :: char where "newline \<equiv> CHR 0x0A"

definition scan_line ::
    "env \<Rightarrow> ledger_codec \<Rightarrow> LogScan \<Rightarrow> nat \<times> bytes \<Rightarrow> LedgerError + LogScan" where
  "scan_line E C scan = (\<lambda>(index, raw_line).
     if raw_line = [] then Err (ChainDivergence index ''empty receipt record'')
     else
       (case lc_receipt C raw_line of
          Decoded receipt \<Rightarrow>
            attempt (map_err LedgerContract (receipt_canonical_bytes E receipt)) (\<lambda>canonical.
            if canonical \<noteq> raw_line then Err (NonCanonicalReceipt index)
            else if rc_receipt_id receipt \<in> ls_receipt_ids scan
            then Err (DuplicateReceipt index (rc_receipt_id receipt))
            else if rc_prev_chain_digest receipt \<noteq> ls_head scan
            then Err (ChainDivergence index ''predecessor chain digest mismatch'')
            else
              attempt (chain_digest_from_raw E C (ls_head scan) canonical) (\<lambda>head.
                Ok \<lparr>ls_head = head, ls_length = ls_length scan + 1,
                    ls_receipt_ids = insert (rc_receipt_id receipt) (ls_receipt_ids scan),
                    ls_receipts = ls_receipts scan @ [receipt]\<rparr>))
        | _ \<Rightarrow> Err (ChainDivergence index ''malformed receipt JSON'')))"

definition scan_complete_bytes :: "env \<Rightarrow> ledger_codec \<Rightarrow> bytes \<Rightarrow> LedgerError + LogScan" where
  "scan_complete_bytes E C content =
     (if content = [] then Ok (empty_scan E)
      else if last content \<noteq> newline then Err AmbiguousTrailingRecord
      else
        attempt (try_fold (scan_line E C) (empty_scan E) (enumerate 0 (split_on newline (butlast content))))
          (\<lambda>scan.
        attempt (map_err LedgerContract (validate_receipt_sequence E (ls_receipts scan) AppendInProgress))
          (\<lambda>_. Ok scan)))"

section \<open>Run directories\<close>

record run_root =
  rr_log :: "bytes option"
  rr_meta :: "bytes option"
  rr_artifacts :: "artifact_dir option"

datatype log_fault = LogWriteOk | LogWriteRefused | LogWriteTorn nat | LogSyncRefused

record ledger_io =
  li_artifacts :: artifact_io
  li_lock_fails :: bool
  li_unlock_fails :: bool
  li_log_read_fails :: bool
  li_log_irregular :: bool
  li_recover :: log_fault
  li_append :: log_fault
  li_meta_read_fails :: bool
  li_meta :: log_fault
  li_now :: time

type_synonym 'a ledger_result = "(LedgerError + 'a) \<times> run_root"

definition then_op :: "'a ledger_result \<Rightarrow> ('a \<Rightarrow> run_root \<Rightarrow> 'b ledger_result) \<Rightarrow> 'b ledger_result" where
  "then_op r f = (case r of (Err e, d) \<Rightarrow> (Err e, d) | (Ok x, d) \<Rightarrow> f x d)"

definition with_exclusive_lock :: "ledger_io \<Rightarrow> (run_root \<Rightarrow> 'a ledger_result) \<Rightarrow> run_root \<Rightarrow> 'a ledger_result" where
  "with_exclusive_lock IO operation root =
     (if li_lock_fails IO then (Err (LedgerIo IoOther), root)
      else then_op (operation root) (\<lambda>v root'.
             (if li_unlock_fails IO then Err (LedgerIo IoOther) else Ok v, root')))"

section \<open>Recovery\<close>

text \<open>One past the last line break.\<close>

definition tail_start :: "bytes \<Rightarrow> nat" where
  "tail_start content = length content - length (takeWhile (\<lambda>b. b \<noteq> newline) (rev content))"

definition recover_tail ::
    "env \<Rightarrow> ledger_codec \<Rightarrow> log_fault \<Rightarrow> bytes \<Rightarrow> (LedgerError + bytes) \<times> bytes" where
  "recover_tail E C fault content =
     (let start = tail_start content; tail = drop start content in
      case lc_receipt C tail of
        Decoded receipt \<Rightarrow>
          (case map_err LedgerContract (receipt_canonical_bytes E receipt) of
             Err e \<Rightarrow> (Err e, content)
           | Ok canonical \<Rightarrow>
               if canonical \<noteq> tail then (Err AmbiguousTrailingRecord, content)
               else
                 (case fault of
                    LogWriteOk \<Rightarrow> (Ok (content @ [newline]), content @ [newline])
                  | LogWriteRefused \<Rightarrow> (Err (LedgerIo IoOther), content)
                  | LogWriteTorn n \<Rightarrow> (Err (LedgerIo IoOther), content @ take n [newline])
                  | LogSyncRefused \<Rightarrow> (Err (LedgerIo IoOther), content @ [newline])))
      | DecodeEof \<Rightarrow>
          (case fault of
             LogWriteOk \<Rightarrow> (Ok (take start content), take start content)
           | LogWriteRefused \<Rightarrow> (Err (LedgerIo IoOther), content)
           | LogWriteTorn _ \<Rightarrow> (Err (LedgerIo IoOther), content)
           | LogSyncRefused \<Rightarrow> (Err (LedgerIo IoOther), take start content))
      | DecodeFails \<Rightarrow> (Err AmbiguousTrailingRecord, content))"

definition recover_and_scan :: "env \<Rightarrow> ledger_codec \<Rightarrow> ledger_io \<Rightarrow> run_root \<Rightarrow> LogScan ledger_result" where
  "recover_and_scan E C IO root =
     (case rr_log root of
        None \<Rightarrow> (if li_log_read_fails IO then Err (LedgerIo IoOther) else Ok (empty_scan E), root)
      | Some content \<Rightarrow>
          if li_log_read_fails IO then (Err (LedgerIo IoOther), root)
          else if li_log_irregular IO
          then (Err (MetadataMismatch ''receipt log must be a regular file''), root)
          else if length content > MAX_RECEIPT_LOG_BYTES
          then (Err (MetadataMismatch ''receipt log exceeds the explicit verification bound''), root)
          else if content = [] then (Ok (empty_scan E), root)
          else if last content \<noteq> newline
          then
            (case recover_tail E C (li_recover IO) content of
               (Err e, file) \<Rightarrow> (Err e, root\<lparr>rr_log := Some file\<rparr>)
             | (Ok recovered, file) \<Rightarrow> (scan_complete_bytes E C recovered, root\<lparr>rr_log := Some file\<rparr>))
          else (scan_complete_bytes E C content, root))"

section \<open>The authoritative sequence\<close>

definition verify_references ::
    "env \<Rightarrow> ledger_codec \<Rightarrow> artifact_io \<Rightarrow> artifact_dir \<Rightarrow> ReceiptV1 list \<Rightarrow> LedgerError + artifact_id set" where
  "verify_references E C IO dir receipts =
     try_fold (\<lambda>verified descriptor.
       if ad_owner_id descriptor \<in> verified then Ok verified
       else attempt (verify_descriptor E C IO dir descriptor) (\<lambda>_.
              Ok (insert (ad_owner_id descriptor) verified)))
       {} (concat (map rc_artifact_refs receipts))"

definition validate_authoritative_sequence ::
    "env \<Rightarrow> ledger_codec \<Rightarrow> ledger_io \<Rightarrow> run_root \<Rightarrow> ReceiptV1 list \<Rightarrow> LifecycleValidationMode \<Rightarrow>
     LedgerError + LifecycleValidation \<times> u64" where
  "validate_authoritative_sequence E C IO root receipts mode =
     attempt (map_err LedgerContract (validate_receipt_sequence E receipts mode)) (\<lambda>lifecycle.
     attempt (ok_or (LedgerIo IoNotFound) (rr_artifacts root)) (\<lambda>store.
     attempt (verify_references E C (li_artifacts IO) store receipts) (\<lambda>verified.
     attempt (if mode = LegacyIntegrityOnly then Ok ()
              else validate_permit_continuity E C (li_artifacts IO) store receipts) (\<lambda>_.
       Ok (lifecycle, of_nat (card verified))))))"

section \<open>Metadata\<close>

definition metadata_for :: "env \<Rightarrow> LogScan \<Rightarrow> time \<Rightarrow> ChainMeta" where
  "metadata_for E scan created_at =
     \<lparr>cm_genesis = genesis_digest E, cm_head = ls_head scan, cm_length = ls_length scan,
      cm_created_at = created_at\<rparr>"

definition chain_meta_json :: "env \<Rightarrow> ChainMeta \<Rightarrow> json" where
  "chain_meta_json E m =
     JObj [(''created_at'', time_json E (cm_created_at m)),
           (''genesis'', JStr (cm_genesis m)),
           (''head'', JStr (cm_head m)),
           (''length'', json_of_word (cm_length m))]"

definition current_metadata :: "ledger_codec \<Rightarrow> ledger_io \<Rightarrow> run_root \<Rightarrow> ChainMeta option" where
  "current_metadata C IO root =
     (case rr_meta root of
        Some content \<Rightarrow>
          if li_meta_read_fails IO \<or> length content > MAX_CHAIN_META_BYTES then None else lc_meta C content
      | None \<Rightarrow> None)"

definition existing_creation_time :: "ledger_codec \<Rightarrow> ledger_io \<Rightarrow> run_root \<Rightarrow> time option" where
  "existing_creation_time C IO root = map_option cm_created_at (current_metadata C IO root)"

fun stops_before_sync :: "log_fault \<Rightarrow> bool" where
  "stops_before_sync LogWriteRefused = True"
| "stops_before_sync (LogWriteTorn n) = True"
| "stops_before_sync fault = False"

definition write_metadata_atomic ::
    "env \<Rightarrow> ledger_io \<Rightarrow> ChainMeta \<Rightarrow> AppendStage option \<Rightarrow> run_root \<Rightarrow> unit ledger_result" where
  "write_metadata_atomic E IO meta interrupt_after root =
     (case map_err LedgerContract (jcs_canonical E (chain_meta_json E meta)) of
        Err e \<Rightarrow> (Err e, root)
      | Ok content \<Rightarrow>
          if stops_before_sync (li_meta IO) then (Err (LedgerIo IoOther), root)
          else if interrupt_after = Some MetadataTempWrite
          then (Err (InjectedInterruption MetadataTempWrite), root)
          else if interrupt_after = Some MetadataFsync
          then (Err (InjectedInterruption MetadataFsync), root)
          else
            (let renamed = root\<lparr>rr_meta := Some content\<rparr> in
             if interrupt_after = Some MetadataRename
             then (Err (InjectedInterruption MetadataRename), renamed)
             else if li_meta IO = LogSyncRefused then (Err (LedgerIo IoOther), renamed)
             else if interrupt_after = Some AppendDirectoryFsync
             then (Err (InjectedInterruption AppendDirectoryFsync), renamed)
             else (Ok (), renamed)))"

definition reconcile_locked ::
    "env \<Rightarrow> ledger_codec \<Rightarrow> ledger_io \<Rightarrow> run_root \<Rightarrow> (LogScan \<times> time) ledger_result" where
  "reconcile_locked E C IO root =
     then_op (recover_and_scan E C IO root) (\<lambda>scan root.
     then_op (validate_authoritative_sequence E C IO root (ls_receipts scan) AppendInProgress, root) (\<lambda>_ root.
       let created_at = (case existing_creation_time C IO root of Some t \<Rightarrow> t | None \<Rightarrow> li_now IO);
           expected = metadata_for E scan created_at in
       if current_metadata C IO root \<noteq> Some expected
       then then_op (write_metadata_atomic E IO expected None root) (\<lambda>_ root. (Ok (scan, created_at), root))
       else (Ok (scan, created_at), root)))"

section \<open>Handles and append\<close>

record ChainHandle =
  ch_head :: content_digest
  ch_length :: u64
  ch_created_at :: time
  ch_receipt_ids :: "receipt_id set"

definition open_from_dir_fd :: "env \<Rightarrow> ledger_codec \<Rightarrow> ledger_io \<Rightarrow> run_root \<Rightarrow> ChainHandle ledger_result" where
  "open_from_dir_fd E C IO root =
     (let prepared = root\<lparr>rr_artifacts := Some (case rr_artifacts root of None \<Rightarrow> Map.empty | Some d \<Rightarrow> d)\<rparr> in
      with_exclusive_lock IO (\<lambda>root.
        then_op (reconcile_locked E C IO root) (\<lambda>(scan, created_at) root.
          (Ok \<lparr>ch_head = ls_head scan, ch_length = ls_length scan, ch_created_at = created_at,
               ch_receipt_ids = ls_receipt_ids scan\<rparr>, root))) prepared)"

definition validate_append :: "env \<Rightarrow> LogScan \<Rightarrow> ReceiptV1 \<Rightarrow> LedgerError + unit" where
  "validate_append E scan receipt =
     (if rc_prev_chain_digest receipt \<noteq> ls_head scan
      then Err (ChainDivergence (length (ls_receipts scan))
                  ''append predecessor does not match locked current head'')
      else if rc_receipt_id receipt \<in> ls_receipt_ids scan
      then Err (DuplicateReceipt (length (ls_receipts scan)) (rc_receipt_id receipt))
      else map_err LedgerContract (validate_material E receipt))"

definition log_content :: "run_root \<Rightarrow> bytes" where
  "log_content root = (case rr_log root of None \<Rightarrow> [] | Some content \<Rightarrow> content)"

definition write_record ::
    "ledger_io \<Rightarrow> bytes \<Rightarrow> AppendStage option \<Rightarrow> run_root \<Rightarrow> unit ledger_result" where
  "write_record IO line interrupt_after root =
     (let written = (\<lambda>part. root\<lparr>rr_log := Some (log_content root @ part)\<rparr>) in
      if li_append IO = LogWriteRefused then (Err (LedgerIo IoOther), root)
      else if li_log_irregular IO
      then (Err (MetadataMismatch ''receipt log must be a regular file''), root)
      else
        (case li_append IO of
           LogWriteTorn n \<Rightarrow> (Err (LedgerIo IoOther), written (take n line))
         | fault \<Rightarrow>
             if interrupt_after = Some PartialRecord
             then (Err (if fault = LogSyncRefused then LedgerIo IoOther else InjectedInterruption PartialRecord),
                   written (take (length line div 2) line))
             else if interrupt_after = Some FullReceiptAppend
             then (Err (InjectedInterruption FullReceiptAppend), written line)
             else if fault = LogSyncRefused then (Err (LedgerIo IoOther), written line)
             else if interrupt_after = Some LogFsync
             then (Err (InjectedInterruption LogFsync), written line)
             else (Ok (), written line)))"

definition append_locked ::
    "env \<Rightarrow> ledger_codec \<Rightarrow> ledger_io \<Rightarrow> ChainHandle \<Rightarrow> ReceiptV1 \<Rightarrow> AppendStage option \<Rightarrow> run_root \<Rightarrow>
     LogScan ledger_result" where
  "append_locked E C IO self receipt interrupt_after root =
     then_op (reconcile_locked E C IO root) (\<lambda>(scan, _) root.
     then_op (validate_append E scan receipt, root) (\<lambda>_ root.
     then_op (validate_authoritative_sequence E C IO root (ls_receipts scan @ [receipt]) AppendInProgress, root)
       (\<lambda>_ root.
     then_op (map_err LedgerContract (receipt_canonical_bytes E receipt), root) (\<lambda>canonical root.
     then_op (write_record IO (canonical @ [newline]) interrupt_after root) (\<lambda>_ root.
     then_op (chain_digest_from_raw E C (ls_head scan) canonical, root) (\<lambda>head root.
       let scan' = \<lparr>ls_head = head, ls_length = ls_length scan + 1,
                    ls_receipt_ids = insert (rc_receipt_id receipt) (ls_receipt_ids scan),
                    ls_receipts = ls_receipts scan @ [receipt]\<rparr> in
       then_op (write_metadata_atomic E IO (metadata_for E scan' (ch_created_at self)) interrupt_after root)
         (\<lambda>_ root. (Ok scan', root))))))))"

definition append_with_interruption ::
    "env \<Rightarrow> ledger_codec \<Rightarrow> ledger_io \<Rightarrow> ReceiptV1 \<Rightarrow> AppendStage option \<Rightarrow> ChainHandle \<times> run_root \<Rightarrow>
     (LedgerError + content_digest) \<times> ChainHandle \<times> run_root" where
  "append_with_interruption E C IO receipt interrupt_after = (\<lambda>(self, root).
     (case with_exclusive_lock IO (append_locked E C IO self receipt interrupt_after) root of
        (Ok scan, root') \<Rightarrow>
          (Ok (ls_head scan),
           self\<lparr>ch_head := ls_head scan, ch_length := ls_length scan, ch_receipt_ids := ls_receipt_ids scan\<rparr>,
           root')
      | (Err e, root') \<Rightarrow> (Err e, self, root')))"

section \<open>Lines\<close>

lemma split_on_concat: "concat (map (\<lambda>l. l @ [c]) (split_on c xs)) = xs @ [c]"
proof (induction xs)
  case (Cons x xs)
  then show ?case by (cases "split_on c xs") auto
qed simp

lemma split_on_free: "c \<notin> set l \<Longrightarrow> split_on c l = [l]"
  by (induction l) auto

lemma split_on_append: "split_on c (xs @ c # ys) = split_on c xs @ split_on c ys"
proof (induction xs)
  case (Cons x xs)
  then show ?case by (cases "split_on c xs") auto
qed simp

text \<open>The lines of a log, and the logs that end at a record boundary.\<close>

definition log_lines :: "bytes \<Rightarrow> bytes list" where
  "log_lines content = (if content = [] then [] else split_on newline (butlast content))"

definition complete_log :: "bytes \<Rightarrow> bool" where
  "complete_log content \<longleftrightarrow> content = [] \<or> last content = newline"

lemma log_lines_concat: "complete_log content \<Longrightarrow> concat (map (\<lambda>l. l @ [newline]) (log_lines content)) = content"
  unfolding log_lines_def complete_log_def
  by (auto simp: split_on_concat) (metis append_butlast_last_id)

lemma log_lines_snoc:
  assumes "complete_log content" and "newline \<notin> set l"
  shows "log_lines (content @ l @ [newline]) = log_lines content @ [l]"
proof (cases "content = []")
  case True
  then show ?thesis using assms(2) by (simp add: log_lines_def split_on_free butlast_append)
next
  case False
  with assms(1) obtain front where "content = front @ [newline]"
    unfolding complete_log_def by (metis append_butlast_last_id)
  then show ?thesis
    using assms(2) by (simp add: log_lines_def butlast_append split_on_append split_on_free)
qed

lemma tail_start_complete:
  assumes "complete_log content" and "newline \<notin> set l"
  shows "tail_start (content @ l) = length content"
proof -
  have "takeWhile (\<lambda>b. b \<noteq> newline) (rev l @ rev content) = rev l @ takeWhile (\<lambda>b. b \<noteq> newline) (rev content)"
    using assms(2) by (intro takeWhile_append2) auto
  moreover have "takeWhile (\<lambda>b. b \<noteq> newline) (rev content) = []"
    using assms(1) unfolding complete_log_def
    by (cases content rule: rev_cases) auto
  ultimately show ?thesis by (simp add: tail_start_def)
qed

section \<open>Scans\<close>

lemma scan_line_Ok:
  "scan_line E C scan (i, raw) = Ok scan' \<longleftrightarrow>
     raw \<noteq> [] \<and> (\<exists>r head. lc_receipt C raw = Decoded r \<and> receipt_canonical_bytes E r = Ok raw
       \<and> rc_receipt_id r \<notin> ls_receipt_ids scan \<and> rc_prev_chain_digest r = ls_head scan
       \<and> chain_digest_from_raw E C (ls_head scan) raw = Ok head
       \<and> scan' = \<lparr>ls_head = head, ls_length = ls_length scan + 1,
                  ls_receipt_ids = insert (rc_receipt_id r) (ls_receipt_ids scan),
                  ls_receipts = ls_receipts scan @ [r]\<rparr>)"
  unfolding scan_line_def
  by (auto simp: attempt_Ok_iff map_err_Ok_iff if_Err_Ok_iff split: receipt_decoding.splits)

definition scan_lines :: "env \<Rightarrow> ledger_codec \<Rightarrow> bytes list \<Rightarrow> LedgerError + LogScan" where
  "scan_lines E C lines = try_fold (scan_line E C) (empty_scan E) (enumerate 0 lines)"

lemma scan_lines_Nil [simp]: "scan_lines E C [] = Ok (empty_scan E)"
  by (simp add: scan_lines_def)

lemma scan_lines_snoc:
  "scan_lines E C (lines @ [l]) = attempt (scan_lines E C lines) (\<lambda>scan. scan_line E C scan (length lines, l))"
proof -
  have "attempt r (\<lambda>s. attempt (f s) Ok) = attempt r f" for r :: "LedgerError + LogScan" and f
    by (auto simp: attempt_def split: sum.splits)
  then show ?thesis by (simp add: scan_lines_def enumerate_append_eq try_fold_append)
qed

lemma scan_complete_bytes_Ok:
  "scan_complete_bytes E C content = Ok scan \<longleftrightarrow>
     complete_log content \<and> scan_lines E C (log_lines content) = Ok scan
     \<and> (content \<noteq> [] \<longrightarrow> is_ok (validate_receipt_sequence E (ls_receipts scan) AppendInProgress))"
  unfolding scan_complete_bytes_def complete_log_def log_lines_def
  by (auto simp: attempt_Ok_iff map_err_Ok_iff is_ok_def scan_lines_def split: sum.splits)

section \<open>Tamper evidence\<close>

text \<open>The chain the log is meant to carry, over the hash function itself: every record is hashed behind the
  32 bytes of its predecessor's digest, starting from the digest of the genesis seed.\<close>

definition digest_raw :: "ledger_codec \<Rightarrow> content_digest \<Rightarrow> bytes" where
  "digest_raw C h = (case lc_hex_decode C h of None \<Rightarrow> [] | Some b \<Rightarrow> b)"

definition chain_head :: "env \<Rightarrow> ledger_codec \<Rightarrow> bytes list \<Rightarrow> content_digest" where
  "chain_head E C lines =
     foldl (\<lambda>h l. lc_blake3 C (digest_raw C h @ l)) (digest_compute E ''recursive-agent-m0-genesis'') lines"

definition hashed_inputs :: "env \<Rightarrow> ledger_codec \<Rightarrow> bytes list \<Rightarrow> bytes list" where
  "hashed_inputs E C lines =
     map (\<lambda>i. digest_raw C (chain_head E C (take i lines)) @ lines ! i) [0..<length lines]"

text \<open>What the digest libraries document: digests are 64 lower-case hexadecimal digits, reading such a text
  as a digest keeps it, and decoding it gives 32 bytes, different ones for different texts.\<close>

definition lower_hex :: "char \<Rightarrow> bool" where
  "lower_hex c \<longleftrightarrow> c \<in> set ''0123456789abcdef''"

definition digest_text :: "string \<Rightarrow> bool" where
  "digest_text h \<longleftrightarrow> length h = 64 \<and> list_all lower_hex h"

definition digest_laws :: "env \<Rightarrow> ledger_codec \<Rightarrow> bool" where
  "digest_laws E C \<longleftrightarrow>
     (\<forall>x. digest_text (lc_blake3 C x)) \<and> (\<forall>x. digest_text (digest_compute E x))
     \<and> (\<forall>h. digest_text h \<longrightarrow> digest_from_hex E h = Some h)
     \<and> (\<forall>h. digest_text h \<longrightarrow> (\<exists>b. lc_hex_decode C h = Some b \<and> length b = 32))
     \<and> inj_on (lc_hex_decode C) (Collect digest_text)"

lemma chain_head_Nil: "chain_head E C [] = genesis_digest E"
  by (simp add: chain_head_def genesis_digest_def)

lemma chain_head_snoc: "chain_head E C (xs @ [x]) = lc_blake3 C (digest_raw C (chain_head E C xs) @ x)"
  by (simp add: chain_head_def)

lemma chain_head_text: "digest_laws E C \<Longrightarrow> digest_text (chain_head E C xs)"
  by (cases xs rule: rev_cases) (auto simp: chain_head_snoc chain_head_Nil genesis_digest_def digest_laws_def)

lemma hashed_inputs_snoc:
  "hashed_inputs E C (xs @ [x]) = hashed_inputs E C xs @ [digest_raw C (chain_head E C xs) @ x]"
  by (simp add: hashed_inputs_def nth_append)

lemma digest_raw_text:
  "digest_laws E C \<Longrightarrow> digest_text h \<Longrightarrow> lc_hex_decode C h = Some (digest_raw C h) \<and> length (digest_raw C h) = 32"
  unfolding digest_laws_def digest_raw_def by fastforce

lemma digest_raw_append:
  assumes "digest_laws E C" "digest_text p" "digest_text q" and "digest_raw C p @ x = digest_raw C q @ y"
  shows "p = q \<and> x = y"
proof -
  have "digest_raw C p = digest_raw C q" "x = y"
    using assms(4) digest_raw_text [OF assms(1,2)] digest_raw_text [OF assms(1,3)] by simp_all
  moreover have "inj_on (lc_hex_decode C) (Collect digest_text)" using assms(1) unfolding digest_laws_def by blast
  ultimately show ?thesis
    using digest_raw_text [OF assms(1,2)] digest_raw_text [OF assms(1,3)] assms(2,3)
    by (metis inj_onD mem_Collect_eq)
qed

lemma chain_digest_from_raw_text:
  "digest_laws E C \<Longrightarrow> digest_text p \<Longrightarrow>
   chain_digest_from_raw E C p c = Ok (lc_blake3 C (digest_raw C p @ c))"
  using digest_raw_text [of E C p] unfolding digest_laws_def
  by (simp add: chain_digest_from_raw_def attempt_def ok_or_def)

lemma equal_chain_heads:
  assumes laws: "digest_laws E C" and "chain_head E C xs = chain_head E C ys"
  shows "xs = ys
    \<or> (\<exists>x \<in> set (hashed_inputs E C xs). \<exists>y \<in> set (hashed_inputs E C ys). x \<noteq> y \<and> lc_blake3 C x = lc_blake3 C y)
    \<or> (\<exists>x \<in> set (hashed_inputs E C xs) \<union> set (hashed_inputs E C ys). lc_blake3 C x = genesis_digest E)"
  using assms(2)
proof (induction xs arbitrary: ys rule: rev_induct)
  case Nil
  then show ?case
    by (cases ys rule: rev_cases) (auto simp: chain_head_snoc chain_head_Nil hashed_inputs_snoc)
next
  case (snoc x xs)
  show ?case
  proof (cases ys rule: rev_cases)
    case Nil
    then show ?thesis using snoc.prems by (auto simp: chain_head_snoc chain_head_Nil hashed_inputs_snoc)
  next
    case ys: (snoc ys' y)
    show ?thesis
    proof (cases "digest_raw C (chain_head E C xs) @ x = digest_raw C (chain_head E C ys') @ y")
      case True
      from digest_raw_append [OF laws chain_head_text [OF laws] chain_head_text [OF laws] True]
      have "chain_head E C xs = chain_head E C ys'" "x = y" by simp_all
      with snoc.IH [of ys'] show ?thesis unfolding ys hashed_inputs_snoc set_append by blast
    next
      case False
      with snoc.prems show ?thesis unfolding ys chain_head_snoc hashed_inputs_snoc by auto
    qed
  qed
qed

lemma scan_lines_chain:
  assumes laws: "digest_laws E C" and "scan_lines E C lines = Ok s"
  shows "ls_head s = chain_head E C lines
    \<and> map rc_prev_chain_digest (ls_receipts s) = map (\<lambda>i. chain_head E C (take i lines)) [0..<length lines]"
  using assms(2)
proof (induction lines arbitrary: s rule: rev_induct)
  case Nil
  then show ?case by (auto simp: empty_scan_def chain_head_Nil)
next
  case (snoc l lines)
  then obtain s0 where s0: "scan_lines E C lines = Ok s0" "scan_line E C s0 (length lines, l) = Ok s"
    by (auto simp: scan_lines_snoc attempt_Ok_iff)
  note IH = snoc.IH [OF s0(1)]
  from s0(2) obtain r where r: "rc_prev_chain_digest r = ls_head s0" "ls_receipts s = ls_receipts s0 @ [r]"
    and head: "chain_digest_from_raw E C (ls_head s0) l = Ok (ls_head s)"
    by (auto simp: scan_line_Ok)
  have "ls_head s = chain_head E C (lines @ [l])"
    using head IH chain_digest_from_raw_text [OF laws chain_head_text [OF laws], of lines l]
    by (simp add: chain_head_snoc)
  moreover have "map (\<lambda>i. chain_head E C (take i (lines @ [l]))) [0..<length lines]
      = map (\<lambda>i. chain_head E C (take i lines)) [0..<length lines]"
    by simp
  ultimately show ?case using r IH by simp
qed

text \<open>C5 The log is a hash chain and its head commits to all of it.  In a log that scans, the head is the
  blake3 chain over its lines from the digest of the genesis seed, and every receipt names as its
  predecessor the chain head of the lines before it.  Another log with the same head is the same bytes,
  unless the two logs exhibit two different byte strings hashed by the chain with one blake3 digest, or
  one whose digest is the genesis digest.  Removing, adding, reordering or rewriting receipts therefore
  changes the head.  Of the digest libraries this uses what \<open>digest_laws\<close> says.\<close>

theorem head_commits_to_log:
  assumes laws: "digest_laws E C"
    and a: "scan_complete_bytes E C a = Ok s" and b: "scan_complete_bytes E C b = Ok t"
  shows "ls_head s = chain_head E C (log_lines a)
    \<and> map rc_prev_chain_digest (ls_receipts s) =
        map (\<lambda>i. chain_head E C (take i (log_lines a))) [0..<length (log_lines a)]
    \<and> (ls_head s = ls_head t \<longrightarrow> a = b
        \<or> (\<exists>x \<in> set (hashed_inputs E C (log_lines a)). \<exists>y \<in> set (hashed_inputs E C (log_lines b)).
              x \<noteq> y \<and> lc_blake3 C x = lc_blake3 C y)
        \<or> (\<exists>x \<in> set (hashed_inputs E C (log_lines a)) \<union> set (hashed_inputs E C (log_lines b)).
              lc_blake3 C x = digest_compute E ''recursive-agent-m0-genesis''))"
proof -
  have lines: "scan_lines E C (log_lines a) = Ok s" "scan_lines E C (log_lines b) = Ok t"
    and complete: "complete_log a" "complete_log b"
    using a b by (simp_all add: scan_complete_bytes_Ok)
  note heads = scan_lines_chain [OF laws lines(1)] scan_lines_chain [OF laws lines(2)]
  have "a = b" if "log_lines a = log_lines b" using that complete log_lines_concat by metis
  with equal_chain_heads [OF laws, of "log_lines a" "log_lines b"] heads show ?thesis
    unfolding genesis_digest_def by metis
qed

section \<open>Recovery of a torn append\<close>

definition extend_scan :: "LogScan \<Rightarrow> ReceiptV1 \<Rightarrow> content_digest \<Rightarrow> LogScan" where
  "extend_scan scan r head =
     \<lparr>ls_head = head, ls_length = ls_length scan + 1,
      ls_receipt_ids = insert (rc_receipt_id r) (ls_receipt_ids scan), ls_receipts = ls_receipts scan @ [r]\<rparr>"

text \<open>What the decoder promises of one canonical record: it is a single line, it decodes to the receipt,
  and a proper prefix of it is reported as an unexpected end of input.\<close>

definition record_decodes :: "ledger_codec \<Rightarrow> ReceiptV1 \<Rightarrow> bytes \<Rightarrow> bool" where
  "record_decodes C r c \<longleftrightarrow>
     c \<noteq> [] \<and> newline \<notin> set c \<and> lc_receipt C c = Decoded r
     \<and> (\<forall>n. 0 < n \<and> n < length c \<longrightarrow> lc_receipt C (take n c) = DecodeEof)"

definition quiet_log :: "ledger_io \<Rightarrow> bool" where
  "quiet_log IO \<longleftrightarrow> \<not> li_log_read_fails IO \<and> \<not> li_log_irregular IO \<and> li_recover IO = LogWriteOk"

lemma scan_extend:
  assumes "scan_complete_bytes E C b = Ok scan" and "record_decodes C r c"
    and "receipt_canonical_bytes E r = Ok c" and "validate_append E scan r = Ok ()"
    and "chain_digest_from_raw E C (ls_head scan) c = Ok head"
    and "is_ok (validate_receipt_sequence E (ls_receipts scan @ [r]) AppendInProgress)"
  shows "scan_complete_bytes E C (b @ c @ [newline]) = Ok (extend_scan scan r head)"
proof -
  have b: "complete_log b" "scan_lines E C (log_lines b) = Ok scan"
    using assms(1) by (simp_all add: scan_complete_bytes_Ok)
  have "scan_lines E C (log_lines b @ [c]) = Ok (extend_scan scan r head)"
    using assms(2-5) unfolding scan_lines_snoc b(2)
    by (auto simp: scan_line_Ok record_decodes_def validate_append_def if_Err_Ok_iff extend_scan_def)
  then show ?thesis
    using b(1) assms(2,6) log_lines_snoc [OF b(1), of c]
    by (simp add: scan_complete_bytes_Ok complete_log_def record_decodes_def extend_scan_def)
qed

lemma recover_complete:
  assumes "quiet_log IO" and "scan_complete_bytes E C (log_content root) = Ok scan"
    and "length (log_content root) \<le> MAX_RECEIPT_LOG_BYTES"
  shows "recover_and_scan E C IO root = (Ok scan, root)"
proof (cases "rr_log root")
  case None
  with assms show ?thesis
    by (simp add: recover_and_scan_def log_content_def quiet_log_def scan_complete_bytes_def)
next
  case (Some content)
  with assms show ?thesis
    by (auto simp: recover_and_scan_def log_content_def quiet_log_def scan_complete_bytes_Ok complete_log_def
        log_lines_def)
qed

lemma recover_torn:
  assumes io: "quiet_log IO" and b: "scan_complete_bytes E C b = Ok scan" and r: "record_decodes C r c"
    and canonical: "receipt_canonical_bytes E r = Ok c"
    and log: "rr_log root = Some (b @ take n c)" and n: "0 < n" "n \<le> length c"
    and size: "length b + length c \<le> MAX_RECEIPT_LOG_BYTES"
  shows "recover_and_scan E C IO root =
    (if n < length c then (Ok scan, root\<lparr>rr_log := Some b\<rparr>)
     else (scan_complete_bytes E C (b @ c @ [newline]), root\<lparr>rr_log := Some (b @ c @ [newline])\<rparr>))"
proof -
  have complete: "complete_log b" using b by (simp add: scan_complete_bytes_Ok)
  have c: "newline \<notin> set (take n c)" "take n c \<noteq> []"
    using r n unfolding record_decodes_def by (auto dest: in_set_takeD)
  have start: "tail_start (b @ take n c) = length b" by (rule tail_start_complete [OF complete c(1)])
  have "last (b @ take n c) \<noteq> newline" using c by (metis last_appendR last_in_set)
  then have "recover_and_scan E C IO root =
      (case recover_tail E C LogWriteOk (b @ take n c) of
         (Err e, file) \<Rightarrow> (Err e, root\<lparr>rr_log := Some file\<rparr>)
       | (Ok recovered, file) \<Rightarrow> (scan_complete_bytes E C recovered, root\<lparr>rr_log := Some file\<rparr>))"
    using io log c(2) size n by (simp add: recover_and_scan_def quiet_log_def)
  also have "recover_tail E C LogWriteOk (b @ take n c) =
      (if n < length c then (Ok b, b) else (Ok (b @ c @ [newline]), b @ c @ [newline]))"
    using r n canonical by (simp add: recover_tail_def start record_decodes_def)
  finally show ?thesis using b by simp
qed

lemma recover_prefix:
  assumes io: "quiet_log IO" and b: "scan_complete_bytes E C (log_content root) = Ok scan"
    and r: "record_decodes C r c" and canonical: "receipt_canonical_bytes E r = Ok c"
    and full: "scan_complete_bytes E C (log_content root @ c @ [newline]) = Ok scan'"
    and size: "length (log_content root) + length c < MAX_RECEIPT_LOG_BYTES"
    and log: "rr_log root' = Some (log_content root @ take n (c @ [newline]))"
  shows "\<exists>root3. recover_and_scan E C IO root' = (Ok (if n < length c then scan else scan'), root3)
    \<and> log_content root3 = (if n < length c then log_content root else log_content root @ c @ [newline])"
proof -
  consider "n = 0" | "0 < n" "n \<le> length c" | "length c < n" by linarith
  then show ?thesis
  proof cases
    case 1
    with log have "log_content root' = log_content root" by (simp add: log_content_def)
    with recover_complete [OF io, of E C root' scan] b size 1 r show ?thesis
      by (simp add: record_decodes_def)
  next
    case 2
    then have "rr_log root' = Some (log_content root @ take n c)" using log by simp
    from recover_torn [OF io b r canonical this 2] size full show ?thesis
      by (auto simp: log_content_def)
  next
    case 3
    with log have "log_content root' = log_content root @ c @ [newline]" by (simp add: log_content_def)
    with recover_complete [OF io, of E C root' scan'] full size 3 show ?thesis by simp
  qed
qed

section \<open>What append writes\<close>

lemma then_op_simps [simp]:
  "then_op (Ok x, d) f = f x d" "then_op (Err e, d) f = (Err e, d)"
  by (simp_all add: then_op_def)

lemma then_op_Ok:
  "then_op r f = (Ok y, d') \<longleftrightarrow> (\<exists>x d. r = (Ok x, d) \<and> f x d = (Ok y, d'))"
  by (cases r; cases "fst r") auto

lemma write_metadata_log: "rr_log (snd (write_metadata_atomic E IO meta stage root)) = rr_log root"
  by (simp add: write_metadata_atomic_def Let_def split: sum.splits)

lemma recover_tail_Ok: "recover_tail E C fault content = (Ok x, file) \<Longrightarrow> file = x"
  by (auto simp: recover_tail_def Let_def split: receipt_decoding.splits sum.splits if_splits log_fault.splits)

lemma recover_Ok:
  assumes "recover_and_scan E C IO root = (Ok scan, root1)"
  shows "scan_complete_bytes E C (log_content root1) = Ok scan"
  using assms unfolding recover_and_scan_def
  by (auto simp: log_content_def scan_complete_bytes_def [of E C "[]"] dest!: recover_tail_Ok
      split: option.splits if_splits prod.splits sum.splits)

lemma recover_quiet:
  assumes "recover_and_scan E C IO root = (Ok scan, root1)" and "quiet_log IO'"
  shows "recover_and_scan E C IO' root = (Ok scan, root1)"
proof -
  have tail: "recover_tail E C LogWriteOk content = (Ok x, y)"
    if "recover_tail E C fault content = (Ok x, y)" for fault content x y
    using that
    by (auto simp: recover_tail_def Let_def split: receipt_decoding.splits sum.splits if_splits log_fault.splits)
  show ?thesis
    using assms unfolding recover_and_scan_def quiet_log_def
    by (auto simp: tail split: option.splits if_splits prod.splits sum.splits)
qed

lemma reconcile_Ok:
  assumes "reconcile_locked E C IO root = (Ok (scan, t), root1)"
  obtains root0 where "recover_and_scan E C IO root = (Ok scan, root0)" and "rr_log root1 = rr_log root0"
proof -
  obtain root0 where root0: "recover_and_scan E C IO root = (Ok scan, root0)"
    "root1 = root0 \<or> (\<exists>meta. root1 = snd (write_metadata_atomic E IO meta None root0))"
    using assms unfolding reconcile_locked_def
    by (auto simp: then_op_Ok Let_def split: if_splits) (metis snd_conv)+
  then show ?thesis using that write_metadata_log by metis
qed

lemma write_record_log:
  assumes "write_record IO line stage root = (res, root')"
  shows "(rr_log root' = rr_log root \<and> res \<noteq> Ok ())
    \<or> (\<exists>n. rr_log root' = Some (log_content root @ take n line) \<and> (res = Ok () \<longrightarrow> n = length line))"
  using assms unfolding write_record_def Let_def
  by (auto split: if_splits log_fault.splits intro: exI [of _ "length line"])

lemma append_locked_log:
  assumes reconciled: "reconcile_locked E C IO root = (Ok (scan, t), root1)"
    and canonical: "receipt_canonical_bytes E r = Ok c"
    and chain: "chain_digest_from_raw E C (ls_head scan) c = Ok head"
    and append: "append_locked E C IO self r stage root = (res, root2)"
  shows "(rr_log root2 = rr_log root1 \<and> \<not> is_ok res)
    \<or> (\<exists>n. rr_log root2 = Some (log_content root1 @ take n (c @ [newline]))
        \<and> validate_append E scan r = Ok ()
        \<and> is_ok (validate_receipt_sequence E (ls_receipts scan @ [r]) AppendInProgress)
        \<and> (\<forall>s. res = Ok s \<longrightarrow> s = extend_scan scan r head \<and> length c < n))"
proof (cases "validate_append E scan r = Ok ()
    \<and> is_ok (validate_authoritative_sequence E C IO root1 (ls_receipts scan @ [r]) AppendInProgress)")
  case False
  then have "rr_log root2 = rr_log root1 \<and> \<not> is_ok res"
    using append unfolding append_locked_def reconciled
    by (cases "validate_append E scan r";
        cases "validate_authoritative_sequence E C IO root1 (ls_receipts scan @ [r]) AppendInProgress")
      (auto simp: is_ok_def)
  then show ?thesis ..
next
  case True
  then obtain v where v: "validate_authoritative_sequence E C IO root1 (ls_receipts scan @ [r]) AppendInProgress = Ok v"
    and append_ok: "validate_append E scan r = Ok ()"
    by (auto simp: is_ok_def split: sum.splits)
  have sequence: "is_ok (validate_receipt_sequence E (ls_receipts scan @ [r]) AppendInProgress)"
    using v unfolding validate_authoritative_sequence_def by (auto simp: attempt_Ok_iff map_err_Ok_iff is_ok_def)
  obtain wres rootw where written: "write_record IO (c @ [newline]) stage root1 = (wres, rootw)"
    by (cases "write_record IO (c @ [newline]) stage root1")
  note unfolded = append [unfolded append_locked_def reconciled then_op_simps prod.case append_ok v canonical
      map_err_simps written Let_def]
  show ?thesis
  proof (cases wres)
    case (Inl e)
    then show ?thesis
      using unfolded write_record_log [OF written] append_ok sequence by (auto simp: is_ok_def)
  next
    case (Inr u)
    have meta: "rr_log root2 = rr_log rootw \<and> (\<forall>s. res = Ok s \<longrightarrow> s = extend_scan scan r head)"
      using unfolded write_metadata_log [of E IO "metadata_for E (extend_scan scan r head) (ch_created_at self)" stage rootw]
      unfolding Inr chain then_op_simps extend_scan_def
      by (auto simp: then_op_def split: prod.splits sum.splits)
    have "rr_log rootw = Some (log_content root1 @ take (Suc (length c)) (c @ [newline]))"
      using write_record_log [OF written] Inr by auto
    with meta append_ok sequence show ?thesis
      by (intro disjI2 exI [of _ "Suc (length c)"]) simp
  qed
qed

text \<open>Recovery never removes a record that is complete: the log before it is not the recovered log followed
  by such a record.\<close>

lemma recover_keeps_record:
  assumes recovered: "recover_and_scan E C IO root = (Ok scan, root1)" and decodes: "record_decodes C r c"
  shows "log_content root \<noteq> log_content root1 @ c \<and> log_content root \<noteq> log_content root1 @ c @ [newline]"
proof (cases "log_content root = log_content root1")
  case True
  then show ?thesis using decodes by (simp add: record_decodes_def)
next
  case False
  obtain content x where log: "log_content root = content" "log_content root1 = x" "last content \<noteq> newline"
    and tail: "recover_tail E C (li_recover IO) content = (Ok x, x)"
    using recovered False unfolding recover_and_scan_def
    by (fastforce simp: log_content_def dest: recover_tail_Ok split: option.splits if_splits prod.splits sum.splits)
  from tail have "x = content @ [newline] \<or> lc_receipt C (drop (tail_start content) content) = DecodeEof
      \<and> x = take (tail_start content) content"
    by (auto simp: recover_tail_def Let_def split: receipt_decoding.splits sum.splits if_splits log_fault.splits)
  then show ?thesis
  proof (elim disjE conjE)
    assume "lc_receipt C (drop (tail_start content) content) = DecodeEof" "x = take (tail_start content) content"
    then have "content = x @ drop (tail_start content) content" "drop (tail_start content) content \<noteq> c"
      using decodes by (auto simp: record_decodes_def)
    then show ?thesis using log by (metis append_assoc last_snoc same_append_eq)
  qed (use log in simp)
qed

lemma take_record_complete:
  "b @ take n (c @ [newline]) = b @ c \<or> b @ take n (c @ [newline]) = b @ c @ [newline] \<longleftrightarrow> \<not> n < length c"
proof (cases "n < length c")
  case True
  then have "length (take n (c @ [newline])) < length c" by simp
  then show ?thesis using True by (metis less_irrefl length_append_singleton less_Suc_eq same_append_eq)
next
  case False
  then show ?thesis by (cases "n = length c") (auto simp: take_Cons')
qed

lemma recover_after_write:
  assumes quiet: "quiet_log IO" and b: "scan_complete_bytes E C (log_content root) = Ok scan"
    and decodes: "record_decodes C r c" and canonical: "receipt_canonical_bytes E r = Ok c"
    and chain: "chain_digest_from_raw E C (ls_head scan) c = Ok head"
    and valid: "validate_append E scan r = Ok ()"
      "is_ok (validate_receipt_sequence E (ls_receipts scan @ [r]) AppendInProgress)"
    and size: "length (log_content root) + length c < MAX_RECEIPT_LOG_BYTES"
    and log: "rr_log root' = Some (log_content root @ take n (c @ [newline]))"
  shows "\<exists>recovered root3. recover_and_scan E C IO root' = (Ok recovered, root3)
    \<and> scan_complete_bytes E C (log_content root3) = Ok recovered
    \<and> (if log_content root' = log_content root @ c \<or> log_content root' = log_content root @ c @ [newline]
       then ls_receipts recovered = ls_receipts scan @ [r] \<and> ls_head recovered = head
          \<and> log_content root3 = log_content root @ c @ [newline]
       else recovered = scan \<and> log_content root3 = log_content root)"
proof -
  have full: "scan_complete_bytes E C (log_content root @ c @ [newline]) = Ok (extend_scan scan r head)"
    by (rule scan_extend [OF b decodes canonical valid(1) chain valid(2)])
  have log': "log_content root' = log_content root @ take n (c @ [newline])"
    using log by (simp add: log_content_def)
  obtain root3 where root3: "recover_and_scan E C IO root'
        = (Ok (if n < length c then scan else extend_scan scan r head), root3)"
      "log_content root3 = (if n < length c then log_content root else log_content root @ c @ [newline])"
    using recover_prefix [OF quiet b decodes canonical full size log] by blast
  have "ls_receipts (extend_scan scan r head) = ls_receipts scan @ [r]" "ls_head (extend_scan scan r head) = head"
    by (simp_all add: extend_scan_def)
  then show ?thesis
    unfolding log' take_record_complete
    by - (rule exI, rule exI, rule conjI, rule root3(1), use root3(2) b full in \<open>cases "n < length c"; auto\<close>)
qed

text \<open>C4 A torn append recovers to a record boundary.  Let append be called on a directory whose log
  reconciles to \<open>scan\<close>, and let it end in any way: success, a refusal, a write that stops
  after any number of bytes, a failed sync, an injected interruption at any stage, or a failed lock or
  unlock.  The next recovery, with working reads and writes, succeeds and the log it leaves scans.  When
  the bytes that append left behind the reconciled log are the whole canonical record, with or without its
  line break, recovery ends with the scan extended by the receipt and the log closed by the line break;
  otherwise it ends with the old scan and exactly the old log.  When append reported a head, the record
  is whole and the reported head is the chain digest.  Of the decoder this uses what \<open>record_decodes\<close>
  says of this one record; the log with the record must fit the verification bound.\<close>

theorem torn_append_recovers:
  assumes reconciled: "reconcile_locked E C IO root = (Ok (scan, t), root1)"
    and canonical: "receipt_canonical_bytes E r = Ok c" and decodes: "record_decodes C r c"
    and chain: "chain_digest_from_raw E C (ls_head scan) c = Ok head"
    and size: "length (log_content root1) + length c < MAX_RECEIPT_LOG_BYTES"
    and append: "append_with_interruption E C IO r stage (self, root) = (result, self', root2)"
    and quiet: "quiet_log IO'"
  shows "\<exists>recovered root3. recover_and_scan E C IO' root2 = (Ok recovered, root3)
    \<and> scan_complete_bytes E C (log_content root3) = Ok recovered
    \<and> (if log_content root2 = log_content root1 @ c \<or> log_content root2 = log_content root1 @ c @ [newline]
       then ls_receipts recovered = ls_receipts scan @ [r] \<and> ls_head recovered = head
          \<and> log_content root3 = log_content root1 @ c @ [newline]
       else recovered = scan \<and> log_content root3 = log_content root1)
    \<and> (\<forall>h. result = Ok h \<longrightarrow> h = head \<and> log_content root2 = log_content root1 @ c @ [newline])"
proof -
  obtain root0 where root0: "recover_and_scan E C IO root = (Ok scan, root0)" "rr_log root1 = rr_log root0"
    using reconciled by (rule reconcile_Ok)
  then have log0: "log_content root0 = log_content root1" by (simp add: log_content_def)
  have b: "scan_complete_bytes E C (log_content root1) = Ok scan" using recover_Ok [OF root0(1)] log0 by simp
  obtain res rootl where locked: "append_locked E C IO self r stage root = (res, rootl)"
    by (cases "append_locked E C IO self r stage root")
  show ?thesis
  proof (cases "li_lock_fails IO")
    case True
    then have "root2 = root" "\<not> is_ok result"
      using append by (auto simp: append_with_interruption_def with_exclusive_lock_def is_ok_def)
    then show ?thesis
      using recover_quiet [OF root0(1) quiet] recover_keeps_record [OF root0(1) decodes] b log0
      by (auto simp: is_ok_def)
  next
    case False
    then have root2: "root2 = rootl" and result: "\<And>h. result = Ok h \<Longrightarrow> \<exists>s. res = Ok s \<and> ls_head s = h"
      using append locked
      by (auto simp: append_with_interruption_def with_exclusive_lock_def then_op_def split: sum.splits if_splits)
    from append_locked_log [OF reconciled canonical chain locked] show ?thesis
    proof (elim disjE exE conjE)
      assume same: "rr_log rootl = rr_log root1" and failed: "\<not> is_ok res"
      then have "log_content root2 = log_content root1" using root2 by (simp add: log_content_def)
      moreover have "c \<noteq> []" using decodes by (simp add: record_decodes_def)
      ultimately show ?thesis
        using recover_complete [OF quiet, of E C root2 scan] b size result failed by (auto simp: is_ok_def)
    next
      fix n
      assume n: "rr_log rootl = Some (log_content root1 @ take n (c @ [newline]))"
        "validate_append E scan r = Ok ()"
        "is_ok (validate_receipt_sequence E (ls_receipts scan @ [r]) AppendInProgress)"
        "\<forall>s. res = Ok s \<longrightarrow> s = extend_scan scan r head \<and> length c < n"
      have "h = head \<and> log_content root2 = log_content root1 @ c @ [newline]" if "result = Ok h" for h
        using result [OF that] n(1,4) root2 by (auto simp: extend_scan_def log_content_def)
      with recover_after_write [OF quiet b decodes canonical chain n(2,3) size, of root2 n] n(1) root2
      show ?thesis by auto
    qed
  qed
qed

text \<open>Append has no bound of its own: a record that takes the log past the bound of the scanner is
  written and acknowledged, and no later call can read the log.\<close>

lemma append_outgrows_bound:
  assumes "write_record IO line None root = (Ok (), root')"
    and "length (log_content root) + length line > MAX_RECEIPT_LOG_BYTES"
  shows "\<not> is_ok (fst (recover_and_scan E C IO' root'))"
proof -
  have "rr_log root' = Some (log_content root @ line)"
    using write_record_log [OF assms(1)] by auto
  then show ?thesis using assms(2) by (simp add: recover_and_scan_def is_ok_def)
qed

section \<open>A concrete log\<close>

definition first_receipt :: ReceiptV1 where
  "first_receipt = (sample_receipt RunStarted OutcomeOk [])\<lparr>rc_prev_chain_digest := hex64 CHR ''b''\<rparr>"

definition first_codec :: ledger_codec where
  "first_codec = sample_codec
     \<lparr>lc_receipt := (\<lambda>b. if b = ''{}'' then Decoded first_receipt else DecodeEof),
      lc_blake3 := (\<lambda>b. hex64 CHR ''c'')\<rparr>"

definition quiet_ledger_io :: ledger_io where
  "quiet_ledger_io =
     \<lparr>li_artifacts = quiet_artifact_io, li_lock_fails = False, li_unlock_fails = False,
      li_log_read_fails = False, li_log_irregular = False, li_recover = LogWriteOk, li_append = LogWriteOk,
      li_meta_read_fails = False, li_meta = LogWriteOk, li_now = 0\<rparr>"

definition fresh_root :: run_root where
  "fresh_root = \<lparr>rr_log = None, rr_meta = None, rr_artifacts = Some Map.empty\<rparr>"

lemma first_receipt_valid: "validate_material sample_env first_receipt = Ok ()"
  by (simp add: validate_material_Ok_iff validate_lineage_Ok_iff derive_receipt_id_Ok_iff
      first_receipt_def sample_receipt_def sample_entry_def)

lemma first_receipt_canonical: "receipt_canonical_bytes sample_env first_receipt = Ok ''{}''"
  using first_receipt_valid by (simp add: receipt_canonical_bytes_def jcs_canonical_def sample_env_def)

lemma first_receipt_decodes: "record_decodes first_codec first_receipt ''{}''"
  by (auto simp: record_decodes_def first_codec_def sample_codec_def less_Suc_eq)

lemma first_chain: "chain_digest_from_raw sample_env first_codec p c = Ok (hex64 CHR ''c'')"
  by (simp add: chain_digest_from_raw_def first_codec_def sample_codec_def sample_env_def)

lemma first_sequence: "is_ok (validate_receipt_sequence sample_env [first_receipt] AppendInProgress)"
proof -
  have "rc_kind first_receipt = RunStarted" "rc_outcome first_receipt = OutcomeOk"
    by (simp_all add: first_receipt_def)
  then have "is_ok (lifecycle_run sample_env [first_receipt])"
    using first_receipt_valid
    by (simp add: lifecycle_run_def lifecycle_step_def on_kind_def lifecycle_init_def arm_defs is_ok_def)
  then show ?thesis by (auto simp: validate_receipt_sequence_def is_ok_def attempt_def split: sum.splits)
qed

lemma first_append_valid: "validate_append sample_env (empty_scan sample_env) first_receipt = Ok ()"
  using first_receipt_canonical
  by (auto simp: validate_append_def empty_scan_def genesis_digest_def sample_env_def [THEN arg_cong [where f = digest_compute]]
      first_receipt_def [THEN arg_cong [where f = rc_prev_chain_digest]] receipt_canonical_bytes_def attempt_Ok_iff)

text \<open>A codec that keeps the digest laws: hexadecimal decoding, and a hash that separates the first record
  of a log from everything else.\<close>

definition hex_value :: "char \<Rightarrow> nat" where
  "hex_value c = length (takeWhile (\<lambda>d. d \<noteq> c) ''0123456789abcdef'')"

fun hex_decode :: "string \<Rightarrow> bytes option" where
  "hex_decode [] = Some []"
| "hex_decode [c] = None"
| "hex_decode (c # d # s) = map_option ((#) (char_of (16 * hex_value c + hex_value d))) (hex_decode s)"

definition chain_codec :: ledger_codec where
  "chain_codec = first_codec
     \<lparr>lc_hex_decode := hex_decode,
      lc_blake3 := (\<lambda>b. if b = replicate 32 (CHR 0xBB) @ ''{}'' then hex64 CHR ''c'' else hex64 CHR ''d'')\<rparr>"

lemma hex_value_digit:
  "lower_hex c \<Longrightarrow> hex_value c < 16 \<and> ''0123456789abcdef'' ! hex_value c = c"
  by (auto simp: hex_value_def lower_hex_def)

lemma hex_value_inj:
  assumes "lower_hex c" "lower_hex c'" "lower_hex d" "lower_hex d'"
    and "(char_of (16 * hex_value c + hex_value d) :: char) = char_of (16 * hex_value c' + hex_value d')"
  shows "c = c' \<and> d = d'"
proof -
  note digits = hex_value_digit [OF assms(1)] hex_value_digit [OF assms(2)]
    hex_value_digit [OF assms(3)] hex_value_digit [OF assms(4)]
  from arg_cong [OF assms(5), of "of_char :: char \<Rightarrow> nat"]
  have "(16 * hex_value c + hex_value d) mod 256 = (16 * hex_value c' + hex_value d') mod 256"
    by (simp only: of_char_of)
  with digits have eq: "16 * hex_value c + hex_value d = 16 * hex_value c' + hex_value d'" by simp
  with digits have "hex_value c = hex_value c'" by linarith
  moreover from this eq have "hex_value d = hex_value d'" by linarith
  ultimately have "hex_value c = hex_value c'" "hex_value d = hex_value d'" by blast+
  with digits show ?thesis by metis
qed

lemma hex_decode_length:
  "even (length s) \<Longrightarrow> \<exists>b. hex_decode s = Some b \<and> length b = length s div 2"
  by (induction s rule: hex_decode.induct) auto

lemma hex_decode_inj:
  assumes "list_all lower_hex s" "list_all lower_hex s'" "even (length s)" "length s = length s'"
    and "hex_decode s = hex_decode s'"
  shows "s = s'"
  using assms
proof (induction s arbitrary: s' rule: hex_decode.induct)
  case (3 c d s)
  then obtain c' d' t where s': "s' = c' # d' # t" by (cases s' rule: hex_decode.cases) auto
  obtain u where u: "hex_decode s = Some u" using hex_decode_length [of s] "3.prems"(3) by auto
  obtain v where v: "hex_decode t = Some v" using hex_decode_length [of t] "3.prems"(3,4) unfolding s' by auto
  from "3.prems"(5) have "u = v"
    and head: "(char_of (16 * hex_value c + hex_value d) :: char) = char_of (16 * hex_value c' + hex_value d')"
    unfolding s' hex_decode.simps u v option.map option.inject list.inject by (rule conjunct2, rule conjunct1)
  moreover have "s = t" using "3.IH" [of t] "3.prems"(1-4) u v \<open>u = v\<close> unfolding s' by simp
  ultimately show ?case using hex_value_inj [OF _ _ _ _ head] "3.prems"(1,2) unfolding s' by simp
qed auto

lemma chain_codec_laws: "digest_laws sample_env chain_codec"
proof -
  have "digest_text (hex64 d)" if "d \<in> {CHR ''b'', CHR ''c'', CHR ''d''}" for d
    using that by (auto simp: digest_text_def hex64_def lower_hex_def list_all_iff)
  moreover have "inj_on hex_decode (Collect digest_text)"
    by (rule inj_onI) (auto simp: digest_text_def intro: hex_decode_inj)
  moreover have "\<exists>b. hex_decode h = Some b \<and> length b = 32" if "digest_text h" for h
    using hex_decode_length [of h] that by (simp add: digest_text_def)
  ultimately show ?thesis
    by (simp add: digest_laws_def chain_codec_def sample_env_def)
qed

lemma hex_decode_replicate: "hex_decode (replicate (2 * n) c) = Some (replicate n (char_of (17 * hex_value c)))"
  by (induction n) simp_all

lemma genesis_raw: "digest_raw chain_codec (hex64 CHR ''b'') = replicate 32 (CHR 0xBB)"
  using hex_decode_replicate [of 32 "CHR ''b''"]
  by (simp add: digest_raw_def chain_codec_def hex64_def hex_value_def char_of_eq_iff)

lemma first_log_inputs:
  "hashed_inputs sample_env chain_codec (log_lines (''{}'' @ [newline])) = [replicate 32 (CHR 0xBB) @ ''{}'']"
proof -
  have "log_lines (''{}'' @ [newline]) = [''{}'']" by (simp add: log_lines_def)
  moreover have "chain_head sample_env chain_codec [] = hex64 CHR ''b''"
    by (simp add: chain_head_def sample_env_def)
  ultimately show ?thesis by (simp add: hashed_inputs_def genesis_raw)
qed

lemma first_log_chain:
  "\<exists>scan. scan_complete_bytes sample_env chain_codec (''{}'' @ [newline]) = Ok scan \<and> ls_head scan = hex64 CHR ''c''"
proof -
  have head: "chain_digest_from_raw sample_env chain_codec (ls_head (empty_scan sample_env)) ''{}'' = Ok (hex64 CHR ''c'')"
    using chain_digest_from_raw_text [OF chain_codec_laws, of "hex64 CHR ''b''" "''{}''"] chain_codec_laws
    by (simp add: empty_scan_def genesis_digest_def sample_env_def genesis_raw digest_laws_def)
      (simp add: chain_codec_def)
  have "record_decodes chain_codec first_receipt ''{}''"
    using first_receipt_decodes by (simp add: record_decodes_def chain_codec_def)
  from scan_extend [OF _ this first_receipt_canonical first_append_valid head, of "[]"]
  have "scan_complete_bytes sample_env chain_codec ([] @ ''{}'' @ [newline])
      = Ok (extend_scan (empty_scan sample_env) first_receipt (hex64 CHR ''c''))"
    using first_sequence by (simp add: scan_complete_bytes_def [of _ _ "[]"] empty_scan_def)
  then show ?thesis by (simp add: extend_scan_def)
qed

theorem head_commits_to_log_witness:
  "{log. \<exists>scan. scan_complete_bytes sample_env chain_codec log = Ok scan \<and> ls_head scan = hex64 CHR ''c''}
   = {''{}'' @ [newline]}"
proof -
  have "log = ''{}'' @ [newline]"
    if "scan_complete_bytes sample_env chain_codec log = Ok t" "ls_head t = hex64 CHR ''c''" for log t
  proof -
    obtain s where "scan_complete_bytes sample_env chain_codec (''{}'' @ [newline]) = Ok s"
      and s: "ls_head s = hex64 CHR ''c''"
      using first_log_chain by blast
    from head_commits_to_log [OF chain_codec_laws this(1) that(1)] that(2) s show ?thesis
      unfolding first_log_inputs by (auto simp: chain_codec_def hex64_def sample_env_def split: if_splits)
  qed
  with first_log_chain show ?thesis by blast
qed

lemma fresh_reconcile:
  "\<exists>root1. reconcile_locked sample_env first_codec quiet_ledger_io fresh_root = (Ok (empty_scan sample_env, 0), root1)
     \<and> log_content root1 = []"
proof -
  have "recover_and_scan sample_env first_codec quiet_ledger_io fresh_root = (Ok (empty_scan sample_env), fresh_root)"
    by (simp add: recover_and_scan_def fresh_root_def quiet_ledger_io_def)
  moreover have "validate_authoritative_sequence sample_env first_codec quiet_ledger_io fresh_root [] AppendInProgress
      = Ok (\<lparr>lv_run_id = None, lv_terminal_state = None, lv_finalized = False\<rparr>, 0)"
    by (simp add: validate_authoritative_sequence_def validate_receipt_sequence_def lifecycle_init_def
        fresh_root_def verify_references_def validate_permit_continuity_def)
  moreover have "current_metadata first_codec quiet_ledger_io fresh_root = None"
    by (simp add: current_metadata_def fresh_root_def)
  moreover have "write_metadata_atomic sample_env quiet_ledger_io meta None fresh_root
      = (Ok (), fresh_root\<lparr>rr_meta := Some ''{}''\<rparr>)" for meta
    by (simp add: write_metadata_atomic_def jcs_canonical_def sample_env_def quiet_ledger_io_def)
  ultimately show ?thesis
    by (simp add: reconcile_locked_def existing_creation_time_def empty_scan_def log_content_def)
      (simp add: quiet_ledger_io_def fresh_root_def)
qed

theorem torn_append_recovers_witness:
  "let root2 = snd (snd (append_with_interruption sample_env first_codec quiet_ledger_io first_receipt
         (Some PartialRecord) (\<lparr>ch_head = [], ch_length = 0, ch_created_at = 0, ch_receipt_ids = {}\<rparr>, fresh_root)))
   in \<exists>recovered root3. recover_and_scan sample_env first_codec quiet_ledger_io root2 = (Ok recovered, root3)
     \<and> (if log_content root2 = ''{}'' \<or> log_content root2 = ''{}'' @ [newline]
        then ls_receipts recovered = [first_receipt] \<and> log_content root3 = ''{}'' @ [newline]
        else recovered = empty_scan sample_env \<and> log_content root3 = [])"
proof -
  let ?self = "\<lparr>ch_head = [], ch_length = 0, ch_created_at = 0, ch_receipt_ids = {}\<rparr> :: ChainHandle"
  obtain root1 where root1: "reconcile_locked sample_env first_codec quiet_ledger_io fresh_root
      = (Ok (empty_scan sample_env, 0), root1)" "log_content root1 = []"
    using fresh_reconcile by blast
  obtain result self' root2 where append: "append_with_interruption sample_env first_codec quiet_ledger_io
      first_receipt (Some PartialRecord) (?self, fresh_root) = (result, self', root2)"
    by (cases "append_with_interruption sample_env first_codec quiet_ledger_io first_receipt
        (Some PartialRecord) (?self, fresh_root)")
  have quiet: "quiet_log quiet_ledger_io" by (simp add: quiet_log_def quiet_ledger_io_def)
  have size: "length (log_content root1) + length ''{}'' < MAX_RECEIPT_LOG_BYTES"
    using root1(2) by simp
  have empty: "ls_receipts (empty_scan sample_env) @ [first_receipt] = [first_receipt]" by (simp add: empty_scan_def)
  from torn_append_recovers [OF root1(1) first_receipt_canonical first_receipt_decodes first_chain size append quiet]
  show ?thesis
    unfolding root1(2) append snd_conv Let_def append_Nil empty by (elim exE conjE) (intro exI conjI, assumption, argo)
qed

end
