(* ===== verification/Verify.thy ===== *)
theory Verify
  imports Ledger
begin

text \<open>
  Verification of a run directory in \<open>recursive-agent-ledger/src/lib.rs\<close>: the strict and legacy checks of
  a reconciled log, the binding of the verified run to an expected run or to the directory's name, the
  snapshots taken of a live run, the committed events, and the read-only check a run pack is taken
  from.  The directory's final path component is an argument.
\<close>

section \<open>Operations\<close>

datatype VerificationMode = VerifyStrictCurrent | VerifyLegacyIntegrityOnly

text \<open>The fields \<open>ok\<close> and \<open>first_divergence\<close> are the constants \<open>true\<close> and \<open>None\<close> wherever the source builds
  this struct.\<close>

record ChainVerification =
  cv_current_strict_success :: bool
  cv_length :: u64
  cv_final_head :: content_digest
  cv_verified_artifacts :: u64
  cv_terminal_state :: RunTerminalStateV1
  cv_verified_run_id :: "run_id option"

abbreviation chain_verification :: "bool \<Rightarrow> LogScan \<Rightarrow> LifecycleValidation \<Rightarrow> u64 \<Rightarrow> ChainVerification" where
  "chain_verification strict scan lifecycle verified_artifacts \<equiv>
     \<lparr>cv_current_strict_success = strict, cv_length = ls_length scan, cv_final_head = ls_head scan,
      cv_verified_artifacts = verified_artifacts,
      cv_terminal_state = (case lv_terminal_state lifecycle of Some s \<Rightarrow> s | None \<Rightarrow> LegacyUnknown),
      cv_verified_run_id = lv_run_id lifecycle\<rparr>"

definition verify_scan_locked ::
    "env \<Rightarrow> ledger_codec \<Rightarrow> ledger_io \<Rightarrow> run_root \<Rightarrow> LogScan \<Rightarrow> VerificationMode \<Rightarrow>
     LedgerError + ChainVerification" where
  "verify_scan_locked E C IO root scan mode =
     attempt (validate_authoritative_sequence E C IO root (ls_receipts scan)
          (if mode = VerifyStrictCurrent then StrictCurrent else LegacyIntegrityOnly))
       (\<lambda>(lifecycle, verified_artifacts).
          Ok (chain_verification (mode = VerifyStrictCurrent) scan lifecycle verified_artifacts))"

definition verify_from_dir_fd ::
    "env \<Rightarrow> ledger_codec \<Rightarrow> ledger_io \<Rightarrow> VerificationMode \<Rightarrow> run_root \<Rightarrow> ChainVerification ledger_result" where
  "verify_from_dir_fd E C IO mode =
     with_exclusive_lock IO (\<lambda>root.
       then_op (reconcile_locked E C IO root) (\<lambda>(scan, _) root.
         (verify_scan_locked E C IO root scan mode, root)))"

abbreviation check_expected_run :: "run_id \<Rightarrow> run_id option \<Rightarrow> LedgerError + unit" where
  "check_expected_run expected_run_id observed \<equiv>
     (if observed \<noteq> Some expected_run_id then Err (ExpectedRunMismatch expected_run_id observed) else Ok ())"

definition verify_expected_run_from_dir_fd ::
    "env \<Rightarrow> ledger_codec \<Rightarrow> ledger_io \<Rightarrow> run_id \<Rightarrow> run_root \<Rightarrow> ChainVerification ledger_result" where
  "verify_expected_run_from_dir_fd E C IO expected_run_id root =
     then_op (verify_from_dir_fd E C IO VerifyStrictCurrent root) (\<lambda>verification root.
       (attempt (check_expected_run expected_run_id (cv_verified_run_id verification)) (\<lambda>_.
          Ok verification), root))"

definition validate_run_directory_binding :: "env \<Rightarrow> string option \<Rightarrow> run_id \<Rightarrow> LedgerError + unit" where
  "validate_run_directory_binding E observed_name verified_run_id =
     attempt (map_err LedgerContract (content_digest E (JStr verified_run_id))) (\<lambda>expected_name.
       if observed_name \<noteq> Some expected_name then Err (DirectoryRunMismatch (Some verified_run_id)) else Ok ())"

definition validate_directory_binding ::
    "env \<Rightarrow> string option \<Rightarrow> ChainVerification \<Rightarrow> LedgerError + unit" where
  "validate_directory_binding E observed_name verification =
     attempt (ok_or (DirectoryRunMismatch None) (cv_verified_run_id verification)) (\<lambda>verified_run_id.
       validate_run_directory_binding E observed_name verified_run_id)"

definition verify_directory_bound ::
    "env \<Rightarrow> ledger_codec \<Rightarrow> ledger_io \<Rightarrow> string option \<Rightarrow> run_root \<Rightarrow> ChainVerification ledger_result" where
  "verify_directory_bound E C IO observed_name root =
     then_op (verify_from_dir_fd E C IO VerifyStrictCurrent root) (\<lambda>verification root.
       (attempt (validate_directory_binding E observed_name verification) (\<lambda>_. Ok verification), root))"

definition appendable_snapshot_expected_run_from_dir_fd ::
    "env \<Rightarrow> ledger_codec \<Rightarrow> ledger_io \<Rightarrow> run_id \<Rightarrow> run_root \<Rightarrow>
     (ChainVerification \<times> ReceiptV1 list) ledger_result" where
  "appendable_snapshot_expected_run_from_dir_fd E C IO expected_run_id =
     with_exclusive_lock IO (\<lambda>root.
       then_op (reconcile_locked E C IO root) (\<lambda>(scan, _) root.
       then_op (validate_authoritative_sequence E C IO root (ls_receipts scan) AppendInProgress, root)
         (\<lambda>(lifecycle, verified_artifacts) root.
         (attempt (check_expected_run expected_run_id (lv_run_id lifecycle)) (\<lambda>_.
            Ok (chain_verification False scan lifecycle verified_artifacts, ls_receipts scan)), root))))"

definition verified_snapshot_expected_run_from_dir_fd ::
    "env \<Rightarrow> ledger_codec \<Rightarrow> ledger_io \<Rightarrow> run_id \<Rightarrow> run_root \<Rightarrow>
     (ChainVerification \<times> ReceiptV1 list) ledger_result" where
  "verified_snapshot_expected_run_from_dir_fd E C IO expected_run_id =
     with_exclusive_lock IO (\<lambda>root.
       then_op (reconcile_locked E C IO root) (\<lambda>(scan, _) root.
       then_op (verify_scan_locked E C IO root scan VerifyStrictCurrent, root) (\<lambda>verification root.
         (attempt (check_expected_run expected_run_id (cv_verified_run_id verification)) (\<lambda>_.
            Ok (verification, ls_receipts scan)), root))))"

definition committed_events_directory_bound ::
    "env \<Rightarrow> ledger_codec \<Rightarrow> ledger_io \<Rightarrow> string option \<Rightarrow> u64 option \<Rightarrow> run_root \<Rightarrow>
     RuntimeEventV1 list ledger_result" where
  "committed_events_directory_bound E C IO observed_name after =
     with_exclusive_lock IO (\<lambda>root.
       then_op (reconcile_locked E C IO root) (\<lambda>(scan, _) root.
       then_op (validate_authoritative_sequence E C IO root (ls_receipts scan) AppendInProgress, root)
         (\<lambda>(lifecycle, _) root.
         (attempt (ok_or (DirectoryRunMismatch None) (lv_run_id lifecycle)) (\<lambda>run_id.
          attempt (validate_run_directory_binding E observed_name run_id) (\<lambda>_.
          attempt (map_err LedgerContract (project_runtime_events E (ls_receipts scan))) (\<lambda>events.
            Ok (filter (\<lambda>event. case after of Some cursor \<Rightarrow> ev_sequence event > cursor | None \<Rightarrow> True)
                  events)))), root))))"

definition scan_existing_read_only ::
    "env \<Rightarrow> ledger_codec \<Rightarrow> ledger_io \<Rightarrow> run_root \<Rightarrow> LedgerError + LogScan" where
  "scan_existing_read_only E C IO root =
     (if li_log_read_fails IO then Err (LedgerIo IoOther)
      else
        (case rr_log root of
           None \<Rightarrow> Err (LedgerIo IoNotFound)
         | Some content \<Rightarrow>
             if li_log_irregular IO \<or> length content > MAX_RECEIPT_LOG_BYTES then Err (LedgerIo IoOther)
             else scan_complete_bytes E C content))"

definition validate_chain_metadata_read_only ::
    "env \<Rightarrow> ledger_codec \<Rightarrow> ledger_io \<Rightarrow> run_root \<Rightarrow> LogScan \<Rightarrow> LedgerError + unit" where
  "validate_chain_metadata_read_only E C IO root scan =
     (if li_meta_read_fails IO then Err (LedgerIo IoOther)
      else
        (case rr_meta root of
           None \<Rightarrow> Err MetadataMissing
         | Some content \<Rightarrow>
             if length content > MAX_CHAIN_META_BYTES then Err (LedgerIo IoOther)
             else
               attempt (ok_or LedgerJson (lc_meta C content)) (\<lambda>metadata.
               attempt (map_err LedgerContract (jcs_canonical E (chain_meta_json E metadata))) (\<lambda>canonical.
                 if canonical \<noteq> content
                 then Err (MetadataMismatch ''chain metadata is not canonical JCS'')
                 else if metadata \<noteq> metadata_for E scan (cm_created_at metadata)
                 then Err (MetadataMismatch ''chain metadata does not bind the receipt chain'')
                 else Ok ()))))"

definition strict_pack_snapshot ::
    "env \<Rightarrow> ledger_codec \<Rightarrow> ledger_io \<Rightarrow> string option \<Rightarrow> run_root \<Rightarrow>
     LedgerError + ChainVerification \<times> ReceiptV1 list" where
  "strict_pack_snapshot E C IO observed_name root =
     attempt (scan_existing_read_only E C IO root) (\<lambda>scan.
     attempt (validate_chain_metadata_read_only E C IO root scan) (\<lambda>_.
     attempt (verify_scan_locked E C IO root scan VerifyStrictCurrent) (\<lambda>verification.
     attempt (validate_directory_binding E observed_name verification) (\<lambda>_.
       Ok (verification, ls_receipts scan)))))"

section \<open>References\<close>

definition reference_step ::
    "env \<Rightarrow> ledger_codec \<Rightarrow> artifact_io \<Rightarrow> artifact_dir \<Rightarrow> artifact_id set \<Rightarrow> ArtifactDescriptorV1 \<Rightarrow>
     LedgerError + artifact_id set" where
  "reference_step E C IO dir verified descriptor =
     (if ad_owner_id descriptor \<in> verified then Ok verified
      else attempt (verify_descriptor E C IO dir descriptor) (\<lambda>_.
             Ok (insert (ad_owner_id descriptor) verified)))"

lemma verify_references_alt:
  "verify_references E C IO dir rs = try_fold (reference_step E C IO dir) {} (concat (map rc_artifact_refs rs))"
  by (simp add: verify_references_def reference_step_def [abs_def])

text \<open>Some descriptor under this owner identifier was compared with the store.\<close>

definition owner_verified ::
    "env \<Rightarrow> ledger_codec \<Rightarrow> artifact_io \<Rightarrow> artifact_dir \<Rightarrow> artifact_id \<Rightarrow> bool" where
  "owner_verified E C IO dir owner \<longleftrightarrow>
     (\<exists>d. ad_owner_id d = owner \<and> verify_descriptor E C IO dir d = Ok ())"

lemma reference_step_Ok:
  assumes "reference_step E C IO dir seen d = Ok seen'"
  shows "seen' = insert (ad_owner_id d) seen"
    and "ad_owner_id d \<in> seen \<or> owner_verified E C IO dir (ad_owner_id d)"
  using assms unfolding reference_step_def owner_verified_def
  by (auto simp: attempt_Ok_iff split: if_splits)

lemma references_verified:
  assumes "try_fold (reference_step E C IO dir) seen ds = Ok verified"
  shows "verified = seen \<union> ad_owner_id ` set ds
    \<and> (\<forall>owner \<in> verified. owner \<in> seen \<or> owner_verified E C IO dir owner)"
  using assms
proof (induction ds arbitrary: seen)
  case (Cons d ds)
  then obtain seen' where step: "reference_step E C IO dir seen d = Ok seen'"
    and rest: "try_fold (reference_step E C IO dir) seen' ds = Ok verified"
    by (auto simp: attempt_Ok_iff)
  note IH = Cons.IH [OF rest] and here = reference_step_Ok [OF step]
  show ?case
  proof (intro conjI ballI)
    show "verified = seen \<union> ad_owner_id ` set (d # ds)"
      using conjunct1 [OF IH] here(1) by simp
    fix owner assume "owner \<in> verified"
    with conjunct2 [OF IH] have "owner = ad_owner_id d \<or> owner \<in> seen \<or> owner_verified E C IO dir owner"
      unfolding here(1) by blast
    with here(2) show "owner \<in> seen \<or> owner_verified E C IO dir owner" by metis
  qed
qed simp

text \<open>The references of a log are verified once per owner identifier.  A second descriptor under an owner
  identifier already seen is never compared with the store: whatever digest, length and media type it
  claims, the answer is the one without it.\<close>

lemma attempt_Ok_right: "attempt r (\<lambda>x. attempt (f x) Ok) = attempt r f"
  by (cases r; cases "f (projr r)") simp_all

lemma reused_owner_is_not_verified:
  assumes "ad_owner_id d' = ad_owner_id d" and "rc_artifact_refs r = refs @ [d]"
    and "r' = r\<lparr>rc_artifact_refs := refs @ [d, d']\<rparr>"
  shows "verify_references E C IO dir [r'] = verify_references E C IO dir [r]"
proof -
  have "reference_step E C IO dir seen d' = Ok seen" if "reference_step E C IO dir s d = Ok seen" for s seen
    using that assms(1) by (auto simp: reference_step_def attempt_Ok_iff split: if_splits)
  then have "attempt (reference_step E C IO dir s d) (\<lambda>s. reference_step E C IO dir s d') = reference_step E C IO dir s d" for s
    by (cases "reference_step E C IO dir s d") auto
  then show ?thesis
    using assms(2,3) by (simp add: verify_references_alt try_fold_append attempt_Ok_right)
qed

section \<open>What verification establishes\<close>

lemma verify_from_Ok:
  assumes "verify_from_dir_fd E C IO mode root = (Ok v, root')"
  obtains scan where "scan_complete_bytes E C (log_content root') = Ok scan"
    and "verify_scan_locked E C IO root' scan mode = Ok v"
proof -
  obtain scan t where reconciled: "reconcile_locked E C IO root = (Ok (scan, t), root')"
    and scan: "verify_scan_locked E C IO root' scan mode = Ok v"
    using assms unfolding verify_from_dir_fd_def with_exclusive_lock_def
    by (auto simp: then_op_Ok split: if_splits)
  from reconciled obtain root0 where "recover_and_scan E C IO root = (Ok scan, root0)"
    "rr_log root' = rr_log root0" by (rule reconcile_Ok)
  then have "scan_complete_bytes E C (log_content root') = Ok scan"
    using recover_Ok by (fastforce simp: log_content_def)
  with scan show ?thesis using that by blast
qed

lemma scan_lines_length:
  "scan_lines E C lines = Ok scan \<Longrightarrow>
     length (ls_receipts scan) = length lines \<and> ls_length scan = of_nat (length lines)"
proof (induction lines arbitrary: scan rule: rev_induct)
  case Nil
  then show ?case by (auto simp: empty_scan_def)
next
  case (snoc l lines)
  then obtain s where "scan_lines E C lines = Ok s" "scan_line E C s (length lines, l) = Ok scan"
    by (auto simp: scan_lines_snoc attempt_Ok_iff)
  with snoc.IH [of s] show ?case by (auto simp: scan_line_Ok)
qed

lemma verify_scan_Ok:
  assumes "verify_scan_locked E C IO root scan VerifyStrictCurrent = Ok v"
  obtains lifecycle dir where "validate_receipt_sequence E (ls_receipts scan) StrictCurrent = Ok lifecycle"
    and "rr_artifacts root = Some dir"
    and "\<forall>r \<in> set (ls_receipts scan). \<forall>d \<in> set (rc_artifact_refs r).
      owner_verified E C (li_artifacts IO) dir (ad_owner_id d)"
    and "validate_permit_continuity E C (li_artifacts IO) dir (ls_receipts scan) = Ok ()"
    and "cv_final_head v = ls_head scan" and "cv_length v = ls_length scan"
    and "cv_verified_run_id v = lv_run_id lifecycle"
    and "\<And>s. lv_terminal_state lifecycle = Some s \<Longrightarrow> cv_terminal_state v = s"
proof -
  obtain lifecycle n dir verified where *: "validate_receipt_sequence E (ls_receipts scan) StrictCurrent = Ok lifecycle"
      "rr_artifacts root = Some dir"
      "verify_references E C (li_artifacts IO) dir (ls_receipts scan) = Ok verified"
      "validate_permit_continuity E C (li_artifacts IO) dir (ls_receipts scan) = Ok ()"
      "v = chain_verification True scan lifecycle n"
    using assms unfolding verify_scan_locked_def validate_authoritative_sequence_def
    by (auto simp: attempt_Ok_iff map_err_Ok_iff ok_or_Ok_iff)
  have "owner_verified E C (li_artifacts IO) dir (ad_owner_id d)"
    if "r \<in> set (ls_receipts scan)" "d \<in> set (rc_artifact_refs r)" for r d
    using references_verified [OF *(3) [unfolded verify_references_alt]] that by auto
  with * show ?thesis by (intro that [of lifecycle dir]) auto
qed

section \<open>A concrete finished run\<close>

text \<open>The two receipts of a run without steps: their canonical encodings are the one-byte lines \<open>1\<close> and
  \<open>2\<close>, and their identifiers differ.\<close>

definition is_final :: "json \<Rightarrow> bool" where
  "is_final v = (case v of JObj kvs \<Rightarrow> map_of kvs ''kind'' = Some (JStr ''run_finalized'') | _ \<Rightarrow> False)"

definition run_env :: env where
  "run_env = sample_env
     \<lparr>canonicalize_bytes := (\<lambda>v. Ok (if is_final v then ''2'' else ''1'')),
      boundary_digest := (\<lambda>v. Ok (hex64 (if is_final v then CHR ''d'' else CHR ''a'')))\<rparr>"

definition run_receipt :: "ReceiptKindV1 \<Rightarrow> char \<Rightarrow> char \<Rightarrow> ReceiptV1" where
  "run_receipt kind c p = (sample_receipt kind OutcomeOk [])
     \<lparr>rc_receipt_id := ''v1:recursive-agent/receipt/v1:det:'' @ hex64 c, rc_prev_chain_digest := hex64 p\<rparr>"

definition run_codec :: ledger_codec where
  "run_codec = sample_codec
     \<lparr>lc_receipt := (\<lambda>b. if b = ''1'' then Decoded (run_receipt RunStarted CHR ''a'' CHR ''b'')
        else Decoded (run_receipt RunFinalized CHR ''d'' CHR ''c'')),
      lc_blake3 := (\<lambda>b. hex64 CHR ''c'')\<rparr>"

definition finished_root :: run_root where
  "finished_root =
     \<lparr>rr_log = Some [CHR ''1'', newline, CHR ''2'', newline], rr_meta = None, rr_artifacts = Some Map.empty\<rparr>"

lemma run_receipts_valid:
  "validate_material run_env (run_receipt RunStarted CHR ''a'' CHR ''b'') = Ok ()"
  "validate_material run_env (run_receipt RunFinalized CHR ''d'' CHR ''c'') = Ok ()"
  by code_simp+

lemma run_receipts_canonical:
  "receipt_canonical_bytes run_env (run_receipt RunStarted CHR ''a'' CHR ''b'') = Ok ''1''"
  "receipt_canonical_bytes run_env (run_receipt RunFinalized CHR ''d'' CHR ''c'') = Ok ''2''"
  using run_receipts_valid
  by (simp_all add: receipt_canonical_bytes_def jcs_canonical_def run_env_def is_final_def receipt_json_def run_receipt_def)

abbreviation finished_run :: "ReceiptV1 list" where
  "finished_run \<equiv> [run_receipt RunStarted CHR ''a'' CHR ''b'', run_receipt RunFinalized CHR ''d'' CHR ''c'']"

lemma finished_run_strict:
  "validate_receipt_sequence run_env finished_run StrictCurrent
   = Ok \<lparr>lv_run_id = Some ''run'', lv_terminal_state = Some Succeeded, lv_finalized = True\<rparr>"
proof -
  have kinds: "rc_kind (run_receipt kind c p) = kind" "rc_outcome (run_receipt kind c p) = OutcomeOk"
    "rc_run_id (run_receipt kind c p) = ''run''" for kind c p
    by (simp_all add: run_receipt_def)
  show ?thesis
    using run_receipts_valid
    by (simp add: validate_receipt_sequence_def lifecycle_run_def lifecycle_step_def on_kind_def lifecycle_init_def
        arm_defs kinds bt_empty_def bt_values_def)
qed

lemma finished_run_scans:
  "\<exists>scan. scan_complete_bytes run_env run_codec [CHR ''1'', newline, CHR ''2'', newline] = Ok scan
     \<and> ls_receipts scan = finished_run \<and> ls_head scan = hex64 CHR ''c''"
proof -
  have genesis: "genesis_digest run_env = hex64 CHR ''b''"
    by (simp add: genesis_digest_def run_env_def sample_env_def)
  have chain: "chain_digest_from_raw run_env run_codec p c = Ok (hex64 CHR ''c'')" for p c
    by (simp add: chain_digest_from_raw_def run_codec_def sample_codec_def run_env_def sample_env_def)
  have ids: "rc_receipt_id (run_receipt RunFinalized CHR ''d'' CHR ''c'')
      \<noteq> rc_receipt_id (run_receipt RunStarted CHR ''a'' CHR ''b'')"
    by (simp add: run_receipt_def hex64_def)
  have prev: "rc_prev_chain_digest (run_receipt kind c p) = hex64 p" for kind c p
    by (simp add: run_receipt_def)
  have decoded: "lc_receipt run_codec ''1'' = Decoded (run_receipt RunStarted CHR ''a'' CHR ''b'')"
    "lc_receipt run_codec ''2'' = Decoded (run_receipt RunFinalized CHR ''d'' CHR ''c'')"
    by (simp_all add: run_codec_def)
  have "is_ok (validate_receipt_sequence run_env finished_run AppendInProgress)"
    using strict_accepted_for_append [OF finished_run_strict] by (simp add: is_ok_def)
  then show ?thesis
    using ids
    by (auto simp: scan_complete_bytes_def scan_line_def empty_scan_def genesis chain decoded
        run_receipts_canonical prev is_ok_def split: sum.splits)
qed

lemma finished_run_authoritative:
  assumes "mode = AppendInProgress \<or> mode = StrictCurrent" and "rr_artifacts root = Some Map.empty"
  shows "validate_authoritative_sequence run_env run_codec IO root finished_run mode
    = Ok (\<lparr>lv_run_id = Some ''run'', lv_terminal_state = Some Succeeded, lv_finalized = True\<rparr>, 0)"
proof -
  have kinds: "rc_kind (run_receipt kind c p) = kind" "rc_artifact_refs (run_receipt kind c p) = []" for kind c p
    by (simp_all add: run_receipt_def)
  have "validate_receipt_sequence run_env finished_run mode
      = Ok \<lparr>lv_run_id = Some ''run'', lv_terminal_state = Some Succeeded, lv_finalized = True\<rparr>"
    using assms(1) finished_run_strict strict_accepted_for_append [OF finished_run_strict] by auto
  moreover have "validate_permit_continuity run_env run_codec aio dir finished_run = Ok ()" for aio dir
    by (simp add: validate_permit_continuity_def provider_admission_def kinds
        continuity_step_def check_observed_effect_def check_finalization_def
        bt_empty_def bt_values_def)
  ultimately show ?thesis
    using assms by (auto simp: validate_authoritative_sequence_def verify_references_def kinds)
qed

lemma finished_run_verifies:
  "\<exists>v root'. verify_expected_run_from_dir_fd run_env run_codec quiet_ledger_io ''run'' finished_root = (Ok v, root')"
proof -
  obtain scan where scan: "scan_complete_bytes run_env run_codec [CHR ''1'', newline, CHR ''2'', newline] = Ok scan"
    "ls_receipts scan = finished_run"
    using finished_run_scans by blast
  have recovered: "recover_and_scan run_env run_codec quiet_ledger_io finished_root = (Ok scan, finished_root)"
    using scan(1) by (intro recover_complete)
      (simp_all add: quiet_log_def quiet_ledger_io_def log_content_def finished_root_def)
  have "write_metadata_atomic run_env quiet_ledger_io meta None finished_root
      = (Ok (), finished_root\<lparr>rr_meta := Some ''1''\<rparr>)" for meta
    by (simp add: write_metadata_atomic_def jcs_canonical_def run_env_def is_final_def chain_meta_json_def
        quiet_ledger_io_def)
  then obtain t root' where reconciled: "reconcile_locked run_env run_codec quiet_ledger_io finished_root = (Ok (scan, t), root')"
    "rr_artifacts root' = Some Map.empty"
    using recovered scan(2) finished_run_authoritative
    by (simp add: reconcile_locked_def current_metadata_def finished_root_def Let_def)
  then show ?thesis
    using scan(2) finished_run_authoritative [of StrictCurrent root' quiet_ledger_io]
    by (simp add: verify_expected_run_from_dir_fd_def verify_from_dir_fd_def with_exclusive_lock_def
        verify_scan_locked_def quiet_ledger_io_def)
qed

end
