(* ===== verification/Managed.thy ===== *)
theory Managed
  imports Machine
begin

text \<open>
  The admission domain of the runner's managed physical leaves
  (\<open>recursive-agent-runner/src/managed_admission.rs\<close>).

  \<^item> \<open>AdmissionState\<close> is the state behind the domain's mutex; every public operation is a function
    on it that also says whether it called \<open>notify_all\<close> on the condition variable.
  \<^item> \<open>reserve\<close> takes the lock twice and may then wait: it is split at those points into
    \<open>validate_request\<close>, \<open>reserve_enqueue\<close> with the first \<open>reserve_iteration\<close>, and one
    \<open>reserve_wakeup\<close> per return of \<open>wait_timeout\<close>.  What the clock says is an argument.
  \<^item> \<open>ManagedRun\<close> interleaves these pieces of any number of threads with the other operations;
    what the domain guarantees is proved there and in \<open>ManagedLimits\<close>.
\<close>

section \<open>Saturating arithmetic\<close>

definition saturating_add :: "'w::len word \<Rightarrow> 'w word \<Rightarrow> 'w word" where
  "saturating_add a b = (if unat a + unat b < 2 ^ LENGTH('w) then a + b else - 1)"

definition saturating_sub :: "'w::len word \<Rightarrow> 'w word \<Rightarrow> 'w word" where
  "saturating_sub a b = (if b \<le> a then a - b else 0)"

definition saturating_mul :: "'w::len word \<Rightarrow> 'w word \<Rightarrow> 'w word" where
  "saturating_mul a b = (if unat a * unat b < 2 ^ LENGTH('w) then a * b else - 1)"

text \<open>An executable form of the overflow test.\<close>

lemma saturating_add_code [code]:
  "saturating_add a b = (let c = a + b in if c < a then - 1 else c)" for a b :: "'w::len word"
proof (cases "unat a + unat b < 2 ^ LENGTH('w)")
  case True
  then show ?thesis by (simp add: saturating_add_def word_less_nat_alt unat_word_ariths)
next
  case False
  have "unat b < 2 ^ LENGTH('w)" "unat a < 2 ^ LENGTH('w)" by (rule unsigned_less)+
  with False have "unat a + unat b - 2 ^ LENGTH('w) < unat a" by linarith
  moreover have "(unat a + unat b) mod 2 ^ LENGTH('w) = (unat a + unat b - 2 ^ LENGTH('w)) mod 2 ^ LENGTH('w)"
    using False by (simp add: le_mod_geq)
  ultimately have "(unat a + unat b) mod 2 ^ LENGTH('w) < unat a"
    using mod_less_eq_dividend le_less_trans by metis
  then show ?thesis using False by (simp add: saturating_add_def word_less_nat_alt unat_word_ariths)
qed

section \<open>Configuration, budgets and requests\<close>

abbreviation PROVIDER_LANE :: string where "PROVIDER_LANE \<equiv> ''provider''"
abbreviation TOOL_LANE :: string where "TOOL_LANE \<equiv> ''tool''"
abbreviation SANDBOX_PROCESS_LANE :: string where "SANDBOX_PROCESS_LANE \<equiv> ''sandbox-process''"
abbreviation usize_max :: nat where "usize_max \<equiv> 2 ^ 64 - 1"

record ManagedAdmissionConfigV1 =
  mc_revision :: u64
  mc_global_max_active :: nat
  mc_lane_caps :: "(string, nat) btmap"
  mc_max_queued :: nat
  mc_max_materialized_context_bytes :: u64
  mc_max_reserved_artifact_bytes :: u64

datatype ManagedAdmissionError =
    InvalidConfig string
  | MissingRoute
  | MissingLane string
  | InvalidLane string
  | DuplicateOperation string
  | ParentFenced string
  | SimultaneousCapacity nat nat
  | QueueCapacity nat
  | Capacity nat
  | QueueTimeout
  | ContextBudget
  | ContextCapacity u64 u64
  | ArtifactCapacity u64 u64
  | BudgetScopeConflict string
  | BudgetExceeded string
  | StatePoisoned
  | NotActive string
  | NotDraining string
  | ProviderStillInFlight string

text \<open>\<open>u64::try_from(usize)\<close> is exact on the 64-bit targets.\<close>

definition config_from_global :: "nat \<Rightarrow> ManagedAdmissionConfigV1" where
  "config_from_global global_max_active =
     \<lparr>mc_revision = 1,
      mc_global_max_active = global_max_active,
      mc_lane_caps =
        bt_insert PROVIDER_LANE global_max_active
          (bt_insert TOOL_LANE global_max_active
            (bt_insert SANDBOX_PROCESS_LANE global_max_active bt_empty)),
      mc_max_queued = max (min (global_max_active * 16) usize_max) 1,
      mc_max_materialized_context_bytes = 64 * 1024 * 1024,
      mc_max_reserved_artifact_bytes =
        saturating_mul (64 * 1024 * 1024) (word_of_nat global_max_active)\<rparr>"

definition config_validate :: "ManagedAdmissionConfigV1 \<Rightarrow> ManagedAdmissionError + unit" where
  "config_validate c =
     (if mc_revision c = 0 \<or> mc_global_max_active c = 0 \<or> mc_max_queued c = 0
         \<or> mc_max_materialized_context_bytes c = 0 \<or> mc_max_reserved_artifact_bytes c = 0
      then Err (InvalidConfig ''revision, global, queue, context and artifact caps must be positive'')
      else if list_ex (\<lambda>(lane, cap). lane = [] \<or> cap = 0 \<or> cap > mc_global_max_active c) (mc_lane_caps c)
      then Err (InvalidConfig ''every lane must be named and have a positive cap no wider than global'')
      else Ok ())"

record ManagedBudgetV1 =
  mb_max_attempts :: u64
  mb_max_wall_time_ms :: u64
  mb_max_tokens :: u64
  mb_max_cost_microunits :: u64
  mb_max_artifact_bytes :: u64
  mb_max_context_bytes :: u64

definition ManagedBudget_default :: ManagedBudgetV1 where
  "ManagedBudget_default =
     \<lparr>mb_max_attempts = 1, mb_max_wall_time_ms = 120000, mb_max_tokens = - 1,
      mb_max_cost_microunits = - 1, mb_max_artifact_bytes = 64 * 1024 * 1024,
      mb_max_context_bytes = 16 * 1024 * 1024\<rparr>"

datatype ManagedQueueClassV1 = Interactive | NormalClass

record LaneRequirementV1 =
  lr_lane :: string
  lr_units :: nat

record ManagedAdmissionRequestV1 =
  mr_operation_id :: string
  mr_parent_operation_id :: "string option"
  mr_budget_scope_id :: "string option"
  mr_model_ref :: string
  mr_lanes :: "LaneRequirementV1 list"
  mr_context_bytes :: u64
  mr_estimated_artifact_bytes :: u64
  mr_budget :: ManagedBudgetV1
  mr_queue_class :: ManagedQueueClassV1
  mr_queue_timeout_ms :: u64
  mr_require_simultaneous_members :: "nat option"

definition provider_request :: "string \<Rightarrow> string \<Rightarrow> ManagedBudgetV1 \<Rightarrow> ManagedAdmissionRequestV1" where
  "provider_request operation_id model_ref budget =
     \<lparr>mr_operation_id = operation_id, mr_parent_operation_id = None, mr_budget_scope_id = None,
      mr_model_ref = model_ref, mr_lanes = [\<lparr>lr_lane = PROVIDER_LANE, lr_units = 1\<rparr>],
      mr_context_bytes = 0, mr_estimated_artifact_bytes = 0, mr_budget = budget,
      mr_queue_class = NormalClass, mr_queue_timeout_ms = 0, mr_require_simultaneous_members = None\<rparr>"

definition tool_request :: "string \<Rightarrow> string \<Rightarrow> ManagedBudgetV1 \<Rightarrow> ManagedAdmissionRequestV1" where
  "tool_request operation_id model_ref budget =
     \<lparr>mr_operation_id = operation_id, mr_parent_operation_id = None, mr_budget_scope_id = None,
      mr_model_ref = model_ref, mr_lanes = [\<lparr>lr_lane = TOOL_LANE, lr_units = 1\<rparr>],
      mr_context_bytes = 0, mr_estimated_artifact_bytes = 0, mr_budget = budget,
      mr_queue_class = NormalClass, mr_queue_timeout_ms = 0, mr_require_simultaneous_members = None\<rparr>"

record ManagedUsageV1 =
  mu_attempts :: u64
  mu_wall_time_ms :: u64
  mu_tokens :: u64
  mu_cost_microunits :: u64
  mu_artifact_bytes :: u64
  mu_context_bytes :: u64

text \<open>\<open>UsageDelta\<close> has the same six fields.\<close>

type_synonym UsageDelta = ManagedUsageV1

abbreviation ManagedUsage_default :: ManagedUsageV1 where
  "ManagedUsage_default \<equiv>
     \<lparr>mu_attempts = 0, mu_wall_time_ms = 0, mu_tokens = 0, mu_cost_microunits = 0,
      mu_artifact_bytes = 0, mu_context_bytes = 0\<rparr>"

section \<open>State\<close>

record QueuedLeaf =
  ql_ticket :: u64
  ql_submitted_config_revision :: u64
  ql_request :: ManagedAdmissionRequestV1

record ActiveLeaf =
  al_ticket :: u64
  al_submitted_config_revision :: u64
  al_admitted_config_revision :: u64
  al_request :: ManagedAdmissionRequestV1
  al_provider_in_flight :: bool

record UsageRecord =
  ur_scope_id :: string
  ur_submitted_config_revision :: u64
  ur_admitted_config_revision :: u64
  ur_usage :: ManagedUsageV1
  ur_unknown_spend :: bool

text \<open>A \<open>BTreeSet\<close> is, as in the standard library, a map to the unit type.\<close>

record AdmissionState =
  as_config :: ManagedAdmissionConfigV1
  as_next_ticket :: u64
  as_selected :: "(string, unit) btmap"
  as_queue :: "QueuedLeaf list"
  as_active :: "(string, ActiveLeaf) btmap"
  as_draining :: "(string, ActiveLeaf) btmap"
  as_cancelled :: "(string, unit) btmap"
  as_fenced_parents :: "(string, unit) btmap"
  as_usage :: "(string, UsageRecord) btmap"
  as_scope_budgets :: "(string, ManagedBudgetV1) btmap"
  as_open_ipc_connections :: u64

definition new_unchecked :: "ManagedAdmissionConfigV1 \<Rightarrow> AdmissionState" where
  "new_unchecked config =
     \<lparr>as_config = config, as_next_ticket = 1, as_selected = bt_empty, as_queue = [],
      as_active = bt_empty, as_draining = bt_empty, as_cancelled = bt_empty,
      as_fenced_parents = bt_empty, as_usage = bt_empty, as_scope_budgets = bt_empty,
      as_open_ipc_connections = 0\<rparr>"

definition domain_from_global :: "nat \<Rightarrow> AdmissionState" where
  "domain_from_global global_max_active = new_unchecked (config_from_global global_max_active)"

definition with_config :: "ManagedAdmissionConfigV1 \<Rightarrow> ManagedAdmissionError + AdmissionState" where
  "with_config config = attempt (config_validate config) (\<lambda>_. Ok (new_unchecked config))"

section \<open>Queue and capacity\<close>

definition request_scope_id :: "ManagedAdmissionRequestV1 \<Rightarrow> string" where
  "request_scope_id r = (case mr_budget_scope_id r of Some scope \<Rightarrow> scope | None \<Rightarrow> mr_operation_id r)"

text \<open>\<open>state.active.values().chain(state.draining.values())\<close>\<close>

abbreviation leaves :: "AdmissionState \<Rightarrow> ActiveLeaf list" where
  "leaves st \<equiv> bt_values (as_active st) @ bt_values (as_draining st)"

definition cleanup_scope_if_unused :: "string \<Rightarrow> AdmissionState \<Rightarrow> AdmissionState" where
  "cleanup_scope_if_unused scope_id st =
     (let retained =
            list_ex (\<lambda>leaf. request_scope_id (ql_request leaf) = scope_id) (as_queue st)
            \<or> list_ex (\<lambda>leaf. request_scope_id (al_request leaf) = scope_id) (leaves st)
            \<or> list_ex (\<lambda>r. ur_scope_id r = scope_id) (bt_values (as_usage st))
      in if retained then st
         else st\<lparr>as_scope_budgets := bt_remove scope_id (as_scope_budgets st)\<rparr>)"

definition remove_queued :: "u64 \<Rightarrow> QueuedLeaf list \<Rightarrow> QueuedLeaf list" where
  "remove_queued ticket queue = filter (\<lambda>q. ql_ticket q \<noteq> ticket) queue"

definition selected_context_bytes :: "AdmissionState \<Rightarrow> u64" where
  "selected_context_bytes st =
     foldl saturating_add 0
       (map (mr_context_bytes \<circ> ql_request) (as_queue st)
        @ map (mr_context_bytes \<circ> al_request) (leaves st))"

definition selected_artifact_bytes :: "AdmissionState \<Rightarrow> u64" where
  "selected_artifact_bytes st =
     foldl saturating_add 0
       (map (mr_estimated_artifact_bytes \<circ> ql_request) (as_queue st)
        @ map (mr_estimated_artifact_bytes \<circ> al_request) (leaves st))"

definition can_fit :: "AdmissionState \<Rightarrow> ManagedAdmissionRequestV1 \<Rightarrow> bool" where
  "can_fit st request =
     (if length (as_active st) + length (as_draining st) \<ge> mc_global_max_active (as_config st) then False
      else list_all
        (\<lambda>required.
           let used = sum_list (map lr_units
                 (filter (\<lambda>lane. lr_lane lane = lr_lane required)
                   (concat (map (mr_lanes \<circ> al_request) (leaves st)))))
           in case bt_get (mc_lane_caps (as_config st)) (lr_lane required) of
                None \<Rightarrow> False
              | Some cap \<Rightarrow> used + lr_units required \<le> cap)
        (mr_lanes request))"

definition next_in_class :: "AdmissionState \<Rightarrow> ManagedQueueClassV1 \<Rightarrow> QueuedLeaf option" where
  "next_in_class st class =
     List.find (\<lambda>q. mr_queue_class (ql_request q) = class \<and> can_fit st (ql_request q)) (as_queue st)"

definition next_admissible_ticket :: "AdmissionState \<Rightarrow> u64 option" where
  "next_admissible_ticket st =
     (case next_in_class st Interactive of
        Some q \<Rightarrow> Some (ql_ticket q)
      | None \<Rightarrow> map_option ql_ticket (next_in_class st NormalClass))"

section \<open>Operations\<close>

text \<open>An operation that holds the lock returns its result, whether it called \<open>notify_all\<close>, and the
  state it leaves behind; a failing operation may leave a changed state.\<close>

type_synonym 'a locked = "(ManagedAdmissionError + 'a) \<times> bool \<times> AdmissionState"

definition validate_request ::
    "AdmissionState \<Rightarrow> ManagedAdmissionRequestV1 \<Rightarrow> ManagedAdmissionError + unit" where
  "validate_request st r =
     (if mr_operation_id r = [] \<or> mr_model_ref r = [] then Err MissingRoute
      else if (case mr_parent_operation_id r of
                 None \<Rightarrow> False | Some parent \<Rightarrow> parent = [] \<or> parent = mr_operation_id r)
      then Err (InvalidConfig ''parent operation identity must be non-empty and differ from the leaf'')
      else if mr_budget_scope_id r = Some []
      then Err (InvalidConfig ''budget scope identity must be non-empty'')
      else if mb_max_attempts (mr_budget r) = 0 \<or> mb_max_wall_time_ms (mr_budget r) = 0
         \<or> mb_max_artifact_bytes (mr_budget r) = 0 \<or> mb_max_context_bytes (mr_budget r) = 0
      then Err (InvalidConfig
        ''operation budgets must have positive attempt, wall, artifact and context ceilings'')
      else if mr_estimated_artifact_bytes r > mb_max_artifact_bytes (mr_budget r)
      then Err (BudgetExceeded ''artifact_bytes'')
      else if mr_context_bytes r > mb_max_context_bytes (mr_budget r)
         \<or> mr_context_bytes r > mc_max_materialized_context_bytes (as_config st)
      then Err ContextBudget
      else attempt
        (try_fold (\<lambda>seen lane.
           if lr_units lane = 0 \<or> lr_lane lane \<in> set seen then Err (InvalidLane (lr_lane lane))
           else case bt_get (mc_lane_caps (as_config st)) (lr_lane lane) of
                  None \<Rightarrow> Err (MissingLane (lr_lane lane))
                | Some cap \<Rightarrow> if lr_units lane > cap then Err (Capacity cap)
                              else Ok (lr_lane lane # seen)) [] (mr_lanes r))
        (\<lambda>_. Ok ()))"

text \<open>The four ways in which \<open>reserve\<close> takes its own entry back share three statements.\<close>

definition give_up :: "u64 \<Rightarrow> ManagedAdmissionRequestV1 \<Rightarrow> AdmissionState \<Rightarrow> AdmissionState" where
  "give_up ticket request st =
     cleanup_scope_if_unused (request_scope_id request)
       (st\<lparr>as_queue := remove_queued ticket (as_queue st),
           as_selected := bt_remove (mr_operation_id request) (as_selected st)\<rparr>)"

text \<open>\<open>reserve\<close> from its second acquisition of the lock to its loop: every check, the retained scope
  budget and the queue entry.\<close>

definition enqueue_refusal ::
    "AdmissionState \<Rightarrow> ManagedAdmissionRequestV1 \<Rightarrow> ManagedAdmissionError option" where
  "enqueue_refusal st r =
     (let context_available =
            saturating_sub (mc_max_materialized_context_bytes (as_config st)) (selected_context_bytes st);
          artifact_available =
            saturating_sub (mc_max_reserved_artifact_bytes (as_config st)) (selected_artifact_bytes st);
          parent_fenced = (case mr_parent_operation_id r of
             None \<Rightarrow> False | Some parent \<Rightarrow> bt_contains_key (as_fenced_parents st) parent);
          oversized = (case mr_require_simultaneous_members r of
             None \<Rightarrow> False | Some requested \<Rightarrow> requested > mc_global_max_active (as_config st))
      in if parent_fenced then Some (ParentFenced (the (mr_parent_operation_id r)))
         else if bt_contains_key (as_selected st) (mr_operation_id r)
           \<or> list_ex (\<lambda>q. mr_operation_id (ql_request q) = mr_operation_id r) (as_queue st)
           \<or> bt_contains_key (as_active st) (mr_operation_id r)
           \<or> bt_contains_key (as_draining st) (mr_operation_id r)
           \<or> bt_contains_key (as_cancelled st) (mr_operation_id r)
           \<or> bt_contains_key (as_usage st) (mr_operation_id r)
         then Some (DuplicateOperation (mr_operation_id r))
         else if oversized
         then Some (SimultaneousCapacity (the (mr_require_simultaneous_members r))
                      (mc_global_max_active (as_config st)))
         else if mr_context_bytes r > context_available
         then Some (ContextCapacity (mr_context_bytes r) context_available)
         else if mr_estimated_artifact_bytes r > artifact_available
         then Some (ArtifactCapacity (mr_estimated_artifact_bytes r) artifact_available)
         else (case bt_get (as_scope_budgets st) (request_scope_id r) of
                 None \<Rightarrow> None
               | Some existing \<Rightarrow> if existing \<noteq> mr_budget r
                                  then Some (BudgetScopeConflict (request_scope_id r)) else None))"

definition push_queued :: "AdmissionState \<Rightarrow> ManagedAdmissionRequestV1 \<Rightarrow> AdmissionState" where
  "push_queued st r =
     st\<lparr>as_scope_budgets :=
          (case bt_get (as_scope_budgets st) (request_scope_id r) of
             Some _ \<Rightarrow> as_scope_budgets st
           | None \<Rightarrow> bt_insert (request_scope_id r) (mr_budget r) (as_scope_budgets st)),
        as_selected := bt_insert (mr_operation_id r) () (as_selected st),
        as_next_ticket := saturating_add (as_next_ticket st) 1,
        as_queue := as_queue st
          @ [\<lparr>ql_ticket = as_next_ticket st,
              ql_submitted_config_revision = mc_revision (as_config st), ql_request = r\<rparr>]\<rparr>"

definition reserve_enqueue ::
    "AdmissionState \<Rightarrow> ManagedAdmissionRequestV1 \<Rightarrow> (ManagedAdmissionError + u64) \<times> AdmissionState" where
  "reserve_enqueue st r =
     (case enqueue_refusal st r of
        Some e \<Rightarrow> (Err e, st)
      | None \<Rightarrow>
          (let ticket = as_next_ticket st; st' = push_queued st r
           in if length (as_queue st') > mc_max_queued (as_config st')
              then (Err (QueueCapacity (mc_max_queued (as_config st'))), give_up ticket r st')
              else (Ok ticket, st')))"

text \<open>The grant inside the loop: the queue entry becomes a usage record and an active leaf.\<close>

definition admit_queued :: "string \<Rightarrow> u64 \<Rightarrow> QueuedLeaf \<Rightarrow> AdmissionState \<Rightarrow> AdmissionState" where
  "admit_queued scope_id ticket queued st =
     (let operation_id = mr_operation_id (ql_request queued);
          revision = mc_revision (as_config st)
      in st\<lparr>as_queue := remove1 queued (as_queue st),
            as_usage := bt_insert operation_id
              \<lparr>ur_scope_id = scope_id,
               ur_submitted_config_revision = ql_submitted_config_revision queued,
               ur_admitted_config_revision = revision,
               ur_usage = ManagedUsage_default, ur_unknown_spend = False\<rparr> (as_usage st),
            as_active := bt_insert operation_id
              \<lparr>al_ticket = ticket,
               al_submitted_config_revision = ql_submitted_config_revision queued,
               al_admitted_config_revision = revision,
               al_request = ql_request queued, al_provider_in_flight = False\<rparr> (as_active st)\<rparr>)"

text \<open>One pass of the loop up to \<open>wait_timeout\<close>: the value \<open>reserve\<close> returns, the operation of the
  reservation it grants, or \<open>None\<close> when the thread goes to wait.  \<open>remaining_zero\<close> is what the clock
  answers.\<close>

definition reserve_iteration ::
    "AdmissionState \<Rightarrow> u64 \<Rightarrow> ManagedAdmissionRequestV1 \<Rightarrow> bool
       \<Rightarrow> (ManagedAdmissionError + string) option \<times> bool \<times> AdmissionState" where
  "reserve_iteration st ticket r remaining_zero =
     (if \<not> list_ex (\<lambda>q. ql_ticket q = ticket) (as_queue st)
      then (Some (Err (ParentFenced
              (case mr_parent_operation_id r of Some p \<Rightarrow> p | None \<Rightarrow> mr_operation_id r))), False, st)
      else if next_admissible_ticket st = Some ticket
      then (case List.find (\<lambda>q. ql_ticket q = ticket) (as_queue st) of
              None \<Rightarrow> (Some (Err StatePoisoned), False, st)
            | Some queued \<Rightarrow>
                (Some (Ok (mr_operation_id (ql_request queued))), True,
                 admit_queued (request_scope_id r) ticket queued st))
      else if mr_queue_timeout_ms r = 0
      then (Some (Err (Capacity (mc_global_max_active (as_config st)))), False, give_up ticket r st)
      else if remaining_zero then (Some (Err QueueTimeout), False, give_up ticket r st)
      else (None, False, st))"

definition reserve_wakeup ::
    "AdmissionState \<Rightarrow> u64 \<Rightarrow> ManagedAdmissionRequestV1 \<Rightarrow> bool \<Rightarrow> bool
       \<Rightarrow> (ManagedAdmissionError + string) option \<times> bool \<times> AdmissionState" where
  "reserve_wakeup st ticket r timed_out remaining_zero =
     (if timed_out \<and> next_admissible_ticket st \<noteq> Some ticket
      then (Some (Err QueueTimeout), False, give_up ticket r st)
      else reserve_iteration st ticket r remaining_zero)"

definition reconfigure :: "ManagedAdmissionConfigV1 \<Rightarrow> AdmissionState \<Rightarrow> unit locked" where
  "reconfigure config st =
     (case config_validate config of
        Err e \<Rightarrow> (Err e, False, st)
      | Ok _ \<Rightarrow>
          if mc_revision config \<le> mc_revision (as_config st)
          then (Err (InvalidConfig ''configuration revision must increase''), False, st)
          else (Ok (), True,
            st\<lparr>as_config := config\<lparr>mc_max_queued := max (mc_max_queued config) (length (as_queue st))\<rparr>\<rparr>))"

definition contains_active :: "string \<Rightarrow> AdmissionState \<Rightarrow> bool" where
  "contains_active operation_id st =
     (bt_contains_key (as_active st) operation_id \<or> bt_contains_key (as_draining st) operation_id)"

definition set_open_ipc_connections :: "u64 \<Rightarrow> AdmissionState \<Rightarrow> unit locked" where
  "set_open_ipc_connections connections st =
     (Ok (), False, st\<lparr>as_open_ipc_connections := connections\<rparr>)"

definition connection_opened :: "AdmissionState \<Rightarrow> unit locked" where
  "connection_opened st =
     (Ok (), False, st\<lparr>as_open_ipc_connections := saturating_add (as_open_ipc_connections st) 1\<rparr>)"

definition connection_closed :: "AdmissionState \<Rightarrow> unit locked" where
  "connection_closed st =
     (Ok (), False, st\<lparr>as_open_ipc_connections := saturating_sub (as_open_ipc_connections st) 1\<rparr>)"

definition set_provider_in_flight :: "string \<Rightarrow> bool \<Rightarrow> AdmissionState \<Rightarrow> unit locked" where
  "set_provider_in_flight operation_id in_flight st =
     (let on_provider_lane = (\<lambda>leaf. list_ex (\<lambda>lane. lr_lane lane = PROVIDER_LANE) (mr_lanes (al_request leaf)))
      in case bt_get (as_active st) operation_id of
        Some leaf \<Rightarrow>
          if \<not> on_provider_lane leaf then (Err (InvalidLane PROVIDER_LANE), False, st)
          else (Ok (), True,
            st\<lparr>as_active := bt_insert operation_id (leaf\<lparr>al_provider_in_flight := in_flight\<rparr>) (as_active st)\<rparr>)
      | None \<Rightarrow>
         (case bt_get (as_draining st) operation_id of
            Some leaf \<Rightarrow>
              if \<not> on_provider_lane leaf then (Err (InvalidLane PROVIDER_LANE), False, st)
              else (Ok (), True,
                st\<lparr>as_draining := bt_insert operation_id (leaf\<lparr>al_provider_in_flight := in_flight\<rparr>)
                     (as_draining st)\<rparr>)
          | None \<Rightarrow> (Err (NotActive operation_id), False, st)))"

text \<open>The statements that \<open>mark_descendants_draining\<close> and \<open>move_to_draining\<close> share, once the leaf
  has been found.\<close>

definition drain_leaf :: "string \<Rightarrow> ActiveLeaf \<Rightarrow> AdmissionState \<Rightarrow> AdmissionState" where
  "drain_leaf operation_id leaf st =
     st\<lparr>as_active := bt_remove operation_id (as_active st),
        as_usage :=
          (if al_provider_in_flight leaf
           then (case bt_get (as_usage st) operation_id of
                   None \<Rightarrow> as_usage st
                 | Some usage \<Rightarrow> bt_insert operation_id (usage\<lparr>ur_unknown_spend := True\<rparr>) (as_usage st))
           else as_usage st),
        as_cancelled := bt_insert operation_id () (as_cancelled st),
        as_draining := bt_insert operation_id leaf (as_draining st)\<rparr>"

definition drain_if_active :: "AdmissionState \<Rightarrow> string \<Rightarrow> AdmissionState" where
  "drain_if_active st operation_id =
     (case bt_get (as_active st) operation_id of
        None \<Rightarrow> st
      | Some leaf \<Rightarrow> drain_leaf operation_id leaf st)"

definition cancel_queued :: "AdmissionState \<Rightarrow> string \<times> string \<Rightarrow> AdmissionState" where
  "cancel_queued st = (\<lambda>(operation_id, scope_id).
     cleanup_scope_if_unused scope_id
       (st\<lparr>as_selected := bt_remove operation_id (as_selected st),
           as_cancelled := bt_insert operation_id () (as_cancelled st)\<rparr>))"

abbreviation child_of :: "string \<Rightarrow> ManagedAdmissionRequestV1 \<Rightarrow> bool" where
  "child_of parent r \<equiv> mr_parent_operation_id r = Some parent"

definition mark_descendants_draining :: "string \<Rightarrow> AdmissionState \<Rightarrow> nat locked" where
  "mark_descendants_draining parent st =
     (let queued_ids =
            map (\<lambda>leaf. (mr_operation_id (ql_request leaf), request_scope_id (ql_request leaf)))
              (filter (\<lambda>leaf. child_of parent (ql_request leaf)) (as_queue st));
          st1 = st\<lparr>as_fenced_parents := bt_insert parent () (as_fenced_parents st),
                   as_queue := filter (\<lambda>leaf. \<not> child_of parent (ql_request leaf)) (as_queue st)\<rparr>;
          st2 = foldl cancel_queued st1 queued_ids;
          active_ids = map fst (filter (\<lambda>(_, leaf). child_of parent (al_request leaf)) (as_active st2));
          st3 = foldl drain_if_active st2 active_ids
      in (Ok (length queued_ids + length active_ids), queued_ids \<noteq> [] \<or> active_ids \<noteq> [], st3))"

definition release_active :: "string \<Rightarrow> AdmissionState \<Rightarrow> unit locked" where
  "release_active operation_id st =
     (case bt_get (as_active st) operation_id of
        None \<Rightarrow> (Err (NotActive operation_id), False, st)
      | Some _ \<Rightarrow>
          (Ok (), True,
           st\<lparr>as_active := bt_remove operation_id (as_active st),
              as_selected := bt_remove operation_id (as_selected st)\<rparr>))"

definition move_to_draining :: "string \<Rightarrow> AdmissionState \<Rightarrow> unit locked" where
  "move_to_draining operation_id st =
     (case bt_get (as_active st) operation_id of
        None \<Rightarrow> (Err (NotActive operation_id), False, st)
      | Some leaf \<Rightarrow> (Ok (), True, drain_leaf operation_id leaf st))"

definition reconcile_draining :: "string \<Rightarrow> AdmissionState \<Rightarrow> unit locked" where
  "reconcile_draining operation_id st =
     (case bt_get (as_draining st) operation_id of
        None \<Rightarrow> (Err (NotDraining operation_id), False, st)
      | Some leaf \<Rightarrow>
          if al_provider_in_flight leaf then (Err (ProviderStillInFlight operation_id), False, st)
          else (Ok (), True,
            st\<lparr>as_draining := bt_remove operation_id (as_draining st),
               as_selected := bt_remove operation_id (as_selected st)\<rparr>))"

definition usage_add :: "ManagedUsageV1 \<Rightarrow> UsageDelta \<Rightarrow> ManagedUsageV1" where
  "usage_add u d =
     \<lparr>mu_attempts = saturating_add (mu_attempts u) (mu_attempts d),
      mu_wall_time_ms = saturating_add (mu_wall_time_ms u) (mu_wall_time_ms d),
      mu_tokens = saturating_add (mu_tokens u) (mu_tokens d),
      mu_cost_microunits = saturating_add (mu_cost_microunits u) (mu_cost_microunits d),
      mu_artifact_bytes = saturating_add (mu_artifact_bytes u) (mu_artifact_bytes d),
      mu_context_bytes = saturating_add (mu_context_bytes u) (mu_context_bytes d)\<rparr>"

definition scope_usage :: "string \<Rightarrow> AdmissionState \<Rightarrow> ManagedUsageV1" where
  "scope_usage scope_id st =
     foldl (\<lambda>total r. usage_add total (ur_usage r)) ManagedUsage_default
       (filter (\<lambda>r. ur_scope_id r = scope_id) (bt_values (as_usage st)))"

definition exceeded :: "ManagedUsageV1 \<Rightarrow> ManagedBudgetV1 \<Rightarrow> string option" where
  "exceeded u b =
     (if mu_attempts u > mb_max_attempts b then Some ''attempts''
      else if mu_wall_time_ms u > mb_max_wall_time_ms b then Some ''wall_time_ms''
      else if mu_tokens u > mb_max_tokens b then Some ''tokens''
      else if mu_cost_microunits u > mb_max_cost_microunits b then Some ''cost_microunits''
      else if mu_artifact_bytes u > mb_max_artifact_bytes b then Some ''artifact_bytes''
      else if mu_context_bytes u > mb_max_context_bytes b then Some ''context_bytes''
      else None)"

definition charge :: "string \<Rightarrow> UsageDelta \<Rightarrow> AdmissionState \<Rightarrow> ManagedUsageV1 locked" where
  "charge operation_id delta st =
     (if \<not> bt_contains_key (as_active st) operation_id \<and> \<not> bt_contains_key (as_draining st) operation_id
      then (Err (NotActive operation_id), False, st)
      else case bt_get (as_usage st) operation_id of
        None \<Rightarrow> (Err StatePoisoned, False, st)
      | Some r \<Rightarrow>
         (case bt_get (as_scope_budgets st) (ur_scope_id r) of
            None \<Rightarrow> (Err StatePoisoned, False, st)
          | Some budget \<Rightarrow>
              (let usage = usage_add (ur_usage r) delta;
                   st' = st\<lparr>as_usage := bt_insert operation_id (r\<lparr>ur_usage := usage\<rparr>) (as_usage st)\<rparr>
               in case exceeded (scope_usage (ur_scope_id r) st') budget of
                    Some kind \<Rightarrow> (Err (BudgetExceeded kind), False, st')
                  | None \<Rightarrow> (Ok usage, False, st'))))"

text \<open>The methods of \<open>ManagedReservation\<close> that add something to the domain's operations.\<close>

definition charge_attempt ::
    "string \<Rightarrow> u64 \<Rightarrow> u64 \<Rightarrow> u64 \<Rightarrow> u64 \<Rightarrow> u64 \<Rightarrow> AdmissionState \<Rightarrow> ManagedUsageV1 locked" where
  "charge_attempt operation_id wall_time_ms tokens cost_microunits artifact_bytes context_bytes =
     charge operation_id
       \<lparr>mu_attempts = 1, mu_wall_time_ms = wall_time_ms, mu_tokens = tokens,
        mu_cost_microunits = cost_microunits, mu_artifact_bytes = artifact_bytes,
        mu_context_bytes = context_bytes\<rparr>"

definition settle_usage ::
    "string \<Rightarrow> u64 \<Rightarrow> u64 \<Rightarrow> u64 \<Rightarrow> u64 \<Rightarrow> u64 \<Rightarrow> AdmissionState \<Rightarrow> ManagedUsageV1 locked" where
  "settle_usage operation_id wall_time_ms tokens cost_microunits artifact_bytes context_bytes =
     charge operation_id
       \<lparr>mu_attempts = 0, mu_wall_time_ms = wall_time_ms, mu_tokens = tokens,
        mu_cost_microunits = cost_microunits, mu_artifact_bytes = artifact_bytes,
        mu_context_bytes = context_bytes\<rparr>"

text \<open>\<open>Drop\<close> of a reservation that was neither released nor marked as draining.  When the release
  fails, the lock is taken a second time; what other threads may do in between is covered by the
  sequences of \<open>managed_step\<close> that hold the two operations as separate calls.\<close>

definition drop_reservation :: "string \<Rightarrow> AdmissionState \<Rightarrow> unit locked" where
  "drop_reservation operation_id st =
     (case release_active operation_id st of
        (Ok u, notified, st') \<Rightarrow> (Ok u, notified, st')
      | (Err _, _, st') \<Rightarrow>
         (case reconcile_draining operation_id st' of
            (_, notified, st'') \<Rightarrow> (Ok (), notified, st'')))"

section \<open>Snapshot\<close>

record ManagedAdmissionSnapshotV1 =
  sn_config_revision :: u64
  sn_global_max_active :: nat
  sn_selected :: "string list"
  sn_queued :: "string list"
  sn_active :: "string list"
  sn_draining :: "string list"
  sn_cancelled :: "string list"
  sn_lane_active_units :: "(string, nat) btmap"
  sn_provider_requests_in_flight :: nat
  sn_selected_context_bytes :: u64
  sn_selected_artifact_bytes :: u64
  sn_total_attempts :: u64
  sn_total_wall_time_ms :: u64
  sn_total_tokens :: u64
  sn_total_cost_microunits :: u64
  sn_total_artifact_bytes :: u64
  sn_total_context_bytes :: u64
  sn_budget_scope_attempts :: "(string, u64) btmap"
  sn_submitted_config_revisions :: "(string, u64) btmap"
  sn_admitted_config_revisions :: "(string, u64) btmap"
  sn_queue_tickets :: "(string, u64) btmap"
  sn_queue_classes :: "(string, ManagedQueueClassV1) btmap"
  sn_unknown_spend_operations :: "string list"
  sn_open_ipc_connections :: u64
  sn_queue_policy :: string
  sn_enforcement_scope :: string
  sn_unmanaged_host_load_enforced :: bool

abbreviation lane_units_add :: "(string, nat) btmap \<Rightarrow> LaneRequirementV1 \<Rightarrow> (string, nat) btmap" where
  "lane_units_add m lane \<equiv>
     bt_insert (lr_lane lane)
       ((case bt_get m (lr_lane lane) of None \<Rightarrow> 0 | Some n \<Rightarrow> n) + lr_units lane) m"

definition or_insert :: "('k::linorder, 'v) btmap \<Rightarrow> 'k \<times> 'v \<Rightarrow> ('k, 'v) btmap" where
  "or_insert m = (\<lambda>(k, v). if bt_contains_key m k then m else bt_insert k v m)"

definition bt_insert_pair :: "('k::linorder, 'v) btmap \<Rightarrow> 'k \<times> 'v \<Rightarrow> ('k, 'v) btmap" where
  "bt_insert_pair m = (\<lambda>(k, v). bt_insert k v m)"

text \<open>The six totals and the attempts per scope are plain \<open>u64\<close> sums, which wrap in a build without
  overflow checks, unlike the saturating sums of \<open>charge\<close>.\<close>

abbreviation scope_attempts_add :: "(string, u64) btmap \<Rightarrow> UsageRecord \<Rightarrow> (string, u64) btmap" where
  "scope_attempts_add m r \<equiv>
     bt_insert (ur_scope_id r)
       ((case bt_get m (ur_scope_id r) of None \<Rightarrow> 0 | Some n \<Rightarrow> n) + mu_attempts (ur_usage r)) m"

abbreviation of_queue :: "AdmissionState \<Rightarrow> (QueuedLeaf \<Rightarrow> 'v) \<Rightarrow> (string \<times> 'v) list" where
  "of_queue st f \<equiv> map (\<lambda>q. (mr_operation_id (ql_request q), f q)) (as_queue st)"
abbreviation of_leaves :: "AdmissionState \<Rightarrow> (ActiveLeaf \<Rightarrow> 'v) \<Rightarrow> (string \<times> 'v) list" where
  "of_leaves st f \<equiv> map (\<lambda>(k, leaf). (k, f leaf)) (as_active st @ as_draining st)"
abbreviation of_usage :: "AdmissionState \<Rightarrow> (UsageRecord \<Rightarrow> 'v) \<Rightarrow> (string \<times> 'v) list" where
  "of_usage st f \<equiv> map (\<lambda>(k, r). (k, f r)) (as_usage st)"

definition snapshot :: "AdmissionState \<Rightarrow> ManagedAdmissionSnapshotV1" where
  "snapshot st =
     (let total = (\<lambda>f. sum_list (map (f \<circ> ur_usage) (bt_values (as_usage st))))
      in \<lparr>sn_config_revision = mc_revision (as_config st),
          sn_global_max_active = mc_global_max_active (as_config st),
          sn_selected = bt_keys (as_selected st),
          sn_queued = map (mr_operation_id \<circ> ql_request) (as_queue st),
          sn_active = bt_keys (as_active st),
          sn_draining = bt_keys (as_draining st),
          sn_cancelled = bt_keys (as_cancelled st),
          sn_lane_active_units =
            foldl lane_units_add bt_empty (concat (map (mr_lanes \<circ> al_request) (leaves st))),
          sn_provider_requests_in_flight = length (filter al_provider_in_flight (leaves st)),
          sn_selected_context_bytes = selected_context_bytes st,
          sn_selected_artifact_bytes = selected_artifact_bytes st,
          sn_total_attempts = total mu_attempts,
          sn_total_wall_time_ms = total mu_wall_time_ms,
          sn_total_tokens = total mu_tokens,
          sn_total_cost_microunits = total mu_cost_microunits,
          sn_total_artifact_bytes = total mu_artifact_bytes,
          sn_total_context_bytes = total mu_context_bytes,
          sn_budget_scope_attempts = foldl scope_attempts_add bt_empty (bt_values (as_usage st)),
          sn_submitted_config_revisions =
            foldl or_insert
              (foldl bt_insert_pair
                (foldl bt_insert_pair bt_empty (of_queue st ql_submitted_config_revision))
                (of_leaves st al_submitted_config_revision))
              (of_usage st ur_submitted_config_revision),
          sn_admitted_config_revisions =
            foldl or_insert (foldl bt_insert_pair bt_empty (of_leaves st al_admitted_config_revision))
              (of_usage st ur_admitted_config_revision),
          sn_queue_tickets =
            foldl bt_insert_pair (foldl bt_insert_pair bt_empty (of_queue st ql_ticket)) (of_leaves st al_ticket),
          sn_queue_classes =
            foldl bt_insert_pair
              (foldl bt_insert_pair bt_empty (of_queue st (mr_queue_class \<circ> ql_request)))
              (of_leaves st (mr_queue_class \<circ> al_request)),
          sn_unknown_spend_operations = map fst (filter (\<lambda>(_, r). ur_unknown_spend r) (as_usage st)),
          sn_open_ipc_connections = as_open_ipc_connections st,
          sn_queue_policy = ''interactive_next_feasible_then_fifo_ticket'',
          sn_enforcement_scope = ''managed_native_physical_leaves_only'',
          sn_unmanaged_host_load_enforced = False\<rparr>)"

section \<open>A sample domain\<close>

text \<open>One slot, one lane and two children of the same parent that ask for it; \<open>managed_step\<close> is run on
  them where a statement about runs is instantiated.\<close>

definition sample_config :: ManagedAdmissionConfigV1 where
  "sample_config =
     \<lparr>mc_revision = 1, mc_global_max_active = 1, mc_lane_caps = [(PROVIDER_LANE, 1)], mc_max_queued = 4,
      mc_max_materialized_context_bytes = 100, mc_max_reserved_artifact_bytes = 100\<rparr>"

definition sample_request :: "string \<Rightarrow> ManagedAdmissionRequestV1" where
  "sample_request i =
     (provider_request i ''model'' ManagedBudget_default)
       \<lparr>mr_parent_operation_id := Some ''p'', mr_queue_timeout_ms := 10, mr_context_bytes := 40\<rparr>"

end
