(* ===== verification/ManagedRun.thy ===== *)
theory ManagedRun
  imports Managed
begin

text \<open>
  The threads of the managed admission domain (\<open>SharedAdmission\<close> in
  \<open>recursive-agent-runner/src/managed_admission.rs\<close>): \<open>managed_step\<close> is one acquisition of the lock by some
  thread, \<open>ms_changed\<close> the wait set of the condition variable.  The invariant \<open>system_ok\<close> holds of every
  state the threads reach; it gives that no wake-up is lost and that a fence is final.
\<close>

section \<open>Threads\<close>

text \<open>\<open>SharedAdmission\<close>: the state behind the mutex and the threads blocked on the condition
  variable, each with the call it will resume and whether a notification has reached it.
  \<open>ms_entering\<close> holds the \<open>reserve\<close> calls that have validated their request and not yet taken the
  lock again.\<close>

record Waiter =
  w_ticket :: u64
  w_request :: ManagedAdmissionRequestV1
  w_woken :: bool

record managed_system =
  ms_state :: AdmissionState
  ms_changed :: "Waiter list"
  ms_entering :: "ManagedAdmissionRequestV1 list"

datatype ManagedCall =
    ReserveBegin ManagedAdmissionRequestV1
  | ReserveEnter ManagedAdmissionRequestV1 bool
  | ReserveWake u64 bool bool
  | Reconfigure ManagedAdmissionConfigV1
  | SetOpenIpc u64
  | ConnectionOpened
  | ConnectionClosed
  | SetProviderInFlight string bool
  | MarkDescendantsDraining string
  | MoveToDraining string
  | ReleaseActive string
  | ReconcileDraining string
  | DropReservation string
  | Charge string UsageDelta

definition notify_all :: "Waiter list \<Rightarrow> Waiter list" where
  "notify_all ws = map (\<lambda>w. w\<lparr>w_woken := True\<rparr>) ws"

definition after_lock :: "managed_system \<Rightarrow> 'a \<times> bool \<times> AdmissionState \<Rightarrow> managed_system" where
  "after_lock s = (\<lambda>(_, notified, st).
     s\<lparr>ms_state := st, ms_changed := (if notified then notify_all (ms_changed s) else ms_changed s)\<rparr>)"

text \<open>A thread whose pass of the loop ends without a result blocks again, with no notification
  pending.\<close>

definition after_pass ::
    "managed_system \<Rightarrow> u64 \<Rightarrow> ManagedAdmissionRequestV1
       \<Rightarrow> (ManagedAdmissionError + string) option \<times> bool \<times> AdmissionState \<Rightarrow> managed_system" where
  "after_pass s ticket r pass =
     (let s' = after_lock s pass
      in case fst pass of
           Some _ \<Rightarrow> s'
         | None \<Rightarrow> s'\<lparr>ms_changed := \<lparr>w_ticket = ticket, w_request = r, w_woken = False\<rparr> # ms_changed s'\<rparr>)"

definition find_waiter :: "u64 \<Rightarrow> managed_system \<Rightarrow> Waiter option" where
  "find_waiter ticket s = List.find (\<lambda>w. w_ticket w = ticket) (ms_changed s)"

fun managed_step :: "managed_system \<Rightarrow> ManagedCall \<Rightarrow> managed_system" where
  "managed_step s (ReserveBegin r) =
     (if is_ok (validate_request (ms_state s) r) then s\<lparr>ms_entering := r # ms_entering s\<rparr> else s)"
| "managed_step s (ReserveEnter r remaining_zero) =
     (if r \<notin> set (ms_entering s) then s
      else let s' = s\<lparr>ms_entering := remove1 r (ms_entering s)\<rparr>
           in case reserve_enqueue (ms_state s) r of
                (Err _, st) \<Rightarrow> s'\<lparr>ms_state := st\<rparr>
              | (Ok ticket, st) \<Rightarrow> after_pass s' ticket r (reserve_iteration st ticket r remaining_zero))"
| "managed_step s (ReserveWake ticket timed_out remaining_zero) =
     (case find_waiter ticket s of
        None \<Rightarrow> s
      | Some w \<Rightarrow>
          after_pass (s\<lparr>ms_changed := remove1 w (ms_changed s)\<rparr>) ticket (w_request w)
            (reserve_wakeup (ms_state s) ticket (w_request w) timed_out remaining_zero))"
| "managed_step s (Reconfigure config) = after_lock s (reconfigure config (ms_state s))"
| "managed_step s (SetOpenIpc n) = after_lock s (set_open_ipc_connections n (ms_state s))"
| "managed_step s ConnectionOpened = after_lock s (connection_opened (ms_state s))"
| "managed_step s ConnectionClosed = after_lock s (connection_closed (ms_state s))"
| "managed_step s (SetProviderInFlight i b) = after_lock s (set_provider_in_flight i b (ms_state s))"
| "managed_step s (MarkDescendantsDraining p) = after_lock s (mark_descendants_draining p (ms_state s))"
| "managed_step s (MoveToDraining i) = after_lock s (move_to_draining i (ms_state s))"
| "managed_step s (ReleaseActive i) = after_lock s (release_active i (ms_state s))"
| "managed_step s (ReconcileDraining i) = after_lock s (reconcile_draining i (ms_state s))"
| "managed_step s (DropReservation i) = after_lock s (drop_reservation i (ms_state s))"
| "managed_step s (Charge i d) = after_lock s (charge i d (ms_state s))"

definition managed_start :: "ManagedAdmissionConfigV1 \<Rightarrow> managed_system" where
  "managed_start config = \<lparr>ms_state = new_unchecked config, ms_changed = [], ms_entering = []\<rparr>"

definition managed_run :: "ManagedAdmissionConfigV1 \<Rightarrow> ManagedCall list \<Rightarrow> managed_system" where
  "managed_run config calls = foldl managed_step (managed_start config) calls"

definition sample_calls :: "ManagedCall list" where
  "sample_calls =
     [ReserveBegin (sample_request ''a''), ReserveBegin (sample_request ''b''),
      ReserveEnter (sample_request ''a'') False, ReserveEnter (sample_request ''b'') False]"

section \<open>Soundness of the state\<close>

definition queue_ids :: "AdmissionState \<Rightarrow> string list" where
  "queue_ids st = map (mr_operation_id \<circ> ql_request) (as_queue st)"

definition maps_ok :: "AdmissionState \<Rightarrow> bool" where
  "maps_ok st = (bt_inv (as_active st) \<and> bt_inv (as_draining st) \<and> bt_inv (as_usage st))"

definition keys_ok :: "AdmissionState \<Rightarrow> bool" where
  "keys_ok st =
     (\<forall>k l. bt_get (as_active st) k = Some l \<or> bt_get (as_draining st) k = Some l
            \<longrightarrow> mr_operation_id (al_request l) = k)"

text \<open>An identity is queued, active or draining exactly when it is selected, and in only one of the
  three; a queued identity was never admitted or cancelled, a held one has a usage record, and a
  leaf is draining only when it has been cancelled.\<close>

definition ids_ok :: "AdmissionState \<Rightarrow> bool" where
  "ids_ok st =
     (distinct (queue_ids st)
      \<and> (\<forall>k. bt_contains_key (as_selected st) k \<longleftrightarrow>
             k \<in> set (queue_ids st) \<or> bt_contains_key (as_active st) k \<or> bt_contains_key (as_draining st) k)
      \<and> (\<forall>k. k \<in> set (queue_ids st) \<longrightarrow>
             \<not> bt_contains_key (as_usage st) k \<and> \<not> bt_contains_key (as_cancelled st) k)
      \<and> (\<forall>k. bt_contains_key (as_active st) k \<longrightarrow>
             bt_contains_key (as_usage st) k \<and> \<not> bt_contains_key (as_cancelled st) k)
      \<and> (\<forall>k. bt_contains_key (as_draining st) k \<longrightarrow>
             bt_contains_key (as_usage st) k \<and> bt_contains_key (as_cancelled st) k))"

definition tickets_ok :: "AdmissionState \<Rightarrow> bool" where
  "tickets_ok st =
     (distinct (map ql_ticket (as_queue st)) \<and> (\<forall>q \<in> set (as_queue st). ql_ticket q < as_next_ticket st))"

text \<open>Every scope that anything still refers to keeps the budget of the requests in it.\<close>

definition scopes_ok :: "AdmissionState \<Rightarrow> bool" where
  "scopes_ok st =
     ((\<forall>q \<in> set (as_queue st).
         bt_get (as_scope_budgets st) (request_scope_id (ql_request q)) = Some (mr_budget (ql_request q)))
      \<and> (\<forall>k l. bt_get (as_active st) k = Some l \<or> bt_get (as_draining st) k = Some l \<longrightarrow>
           bt_get (as_scope_budgets st) (request_scope_id (al_request l)) = Some (mr_budget (al_request l))
           \<and> map_option ur_scope_id (bt_get (as_usage st) k) = Some (request_scope_id (al_request l)))
      \<and> (\<forall>k s. map_option ur_scope_id (bt_get (as_usage st) k) = Some s \<longrightarrow>
           bt_contains_key (as_scope_budgets st) s))"

definition fence_ok :: "AdmissionState \<Rightarrow> bool" where
  "fence_ok st =
     (\<forall>p. bt_contains_key (as_fenced_parents st) p \<longrightarrow>
        (\<forall>q \<in> set (as_queue st). \<not> child_of p (ql_request q))
        \<and> (\<forall>k l. bt_get (as_active st) k = Some l \<longrightarrow> \<not> child_of p (al_request l)))"

definition lanes_ok :: "AdmissionState \<Rightarrow> bool" where
  "lanes_ok st = (\<forall>q \<in> set (as_queue st). distinct (map lr_lane (mr_lanes (ql_request q))))"

definition sound :: "AdmissionState \<Rightarrow> bool" where
  "sound st = (maps_ok st \<and> keys_ok st \<and> ids_ok st \<and> tickets_ok st \<and> scopes_ok st \<and> lanes_ok st)"

lemmas sound_defs = maps_ok_def keys_ok_def ids_ok_def tickets_ok_def scopes_ok_def lanes_ok_def
  queue_ids_def bt_contains_key_def

lemma bt_contains_key_remove [simp]:
  "bt_contains_key (bt_remove k m) k' \<longleftrightarrow> k' \<noteq> k \<and> bt_contains_key m k'"
  by (simp add: bt_contains_key_def)

lemma bt_contains_keyI: "bt_get m k = Some v \<Longrightarrow> bt_contains_key m k"
  by (simp add: bt_contains_key_def)

lemma cleanup_scope_same [simp]:
  "as_config (cleanup_scope_if_unused s st) = as_config st"
  "as_next_ticket (cleanup_scope_if_unused s st) = as_next_ticket st"
  "as_selected (cleanup_scope_if_unused s st) = as_selected st"
  "as_queue (cleanup_scope_if_unused s st) = as_queue st"
  "as_active (cleanup_scope_if_unused s st) = as_active st"
  "as_draining (cleanup_scope_if_unused s st) = as_draining st"
  "as_cancelled (cleanup_scope_if_unused s st) = as_cancelled st"
  "as_fenced_parents (cleanup_scope_if_unused s st) = as_fenced_parents st"
  "as_usage (cleanup_scope_if_unused s st) = as_usage st"
  by (simp_all add: cleanup_scope_if_unused_def Let_def)

lemma cleanup_scopes_ok:
  assumes "scopes_ok st"
  shows "scopes_ok (cleanup_scope_if_unused s st)"
proof (cases "as_scope_budgets (cleanup_scope_if_unused s st) = as_scope_budgets st")
  case True
  with assms show ?thesis by (simp add: scopes_ok_def)
next
  case False
  then have unused: "\<not> list_ex (\<lambda>q. request_scope_id (ql_request q) = s) (as_queue st)"
      "\<not> list_ex (\<lambda>l. request_scope_id (al_request l) = s) (leaves st)"
      "\<not> list_ex (\<lambda>r. ur_scope_id r = s) (bt_values (as_usage st))"
    and budgets: "as_scope_budgets (cleanup_scope_if_unused s st) = bt_remove s (as_scope_budgets st)"
    by (auto simp: cleanup_scope_if_unused_def Let_def split: if_splits)
  have "\<forall>q \<in> set (as_queue st). request_scope_id (ql_request q) \<noteq> s"
    "\<forall>k l. bt_get (as_active st) k = Some l \<or> bt_get (as_draining st) k = Some l
       \<longrightarrow> request_scope_id (al_request l) \<noteq> s"
    "\<forall>k u. bt_get (as_usage st) k = Some u \<longrightarrow> ur_scope_id u \<noteq> s"
    using unused by (auto simp: list_ex_iff dest: bt_get_in_values)
  with assms show ?thesis
    unfolding scopes_ok_def budgets by (auto simp: bt_contains_key_def)
qed

lemma cleanup_sound:
  "sound st \<Longrightarrow> sound (cleanup_scope_if_unused s st)"
  using cleanup_scopes_ok [of st s] by (simp add: sound_def sound_defs)

text \<open>A thread that takes its entry back owns that entry, or has lost it to a fence.\<close>

definition owns_entry :: "AdmissionState \<Rightarrow> u64 \<Rightarrow> ManagedAdmissionRequestV1 \<Rightarrow> bool" where
  "owns_entry st ticket r =
     (if ticket \<in> ql_ticket ` set (as_queue st)
      then \<forall>q \<in> set (as_queue st). ql_ticket q = ticket \<longrightarrow> ql_request q = r
      else bt_contains_key (as_cancelled st) (mr_operation_id r)
           \<and> \<not> bt_contains_key (as_usage st) (mr_operation_id r))"

lemma remove_queued_ids:
  assumes "sound st" and "owns_entry st t r"
  shows "set (map (mr_operation_id \<circ> ql_request) (remove_queued t (as_queue st)))
    = set (queue_ids st) - {mr_operation_id r}"
proof -
  have key: "ql_ticket q = t \<longleftrightarrow> mr_operation_id (ql_request q) = mr_operation_id r"
    if q: "q \<in> set (as_queue st)" for q
  proof (cases "t \<in> ql_ticket ` set (as_queue st)")
    case True
    then obtain q' where q': "q' \<in> set (as_queue st)" "ql_ticket q' = t" "ql_request q' = r"
      using assms(2) by (auto simp: owns_entry_def)
    have "inj_on (mr_operation_id \<circ> ql_request) (set (as_queue st))"
      using assms(1) by (simp add: sound_def ids_ok_def queue_ids_def distinct_map)
    then have "mr_operation_id (ql_request q) = mr_operation_id r \<Longrightarrow> q = q'"
      using q q' by (auto simp: inj_on_def)
    then show ?thesis
      using q q' assms(2) True by (auto simp: owns_entry_def)
  next
    case False
    then have "mr_operation_id r \<notin> set (queue_ids st)"
      using assms by (auto simp: sound_def ids_ok_def owns_entry_def)
    then show ?thesis using q False by (force simp: queue_ids_def)
  qed
  then show ?thesis by (auto simp: remove_queued_def queue_ids_def)
qed

lemma give_up_sound:
  assumes "sound st" and "owns_entry st t r"
  shows "sound (give_up t r st)"
proof -
  let ?st = "st\<lparr>as_queue := remove_queued t (as_queue st),
    as_selected := bt_remove (mr_operation_id r) (as_selected st)\<rparr>"
  have held: "\<not> bt_contains_key (as_active st) (mr_operation_id r)"
      "\<not> bt_contains_key (as_draining st) (mr_operation_id r)"
    using assms by (auto simp: sound_def ids_ok_def owns_entry_def queue_ids_def split: if_splits)
  have "distinct (queue_ids ?st)" "distinct (map ql_ticket (as_queue ?st))"
    using assms(1) by (auto simp: sound_def sound_defs remove_queued_def intro: distinct_map_filter)
  moreover have "set (queue_ids ?st) = set (queue_ids st) - {mr_operation_id r}"
    using remove_queued_ids [OF assms] by (simp add: queue_ids_def)
  ultimately have "ids_ok ?st" "tickets_ok ?st"
    using assms(1) held
    by (auto simp: sound_def ids_ok_def tickets_ok_def bt_contains_key_def remove_queued_def)
  then have "sound ?st"
    using assms(1)
    by (auto simp: sound_def maps_ok_def keys_ok_def scopes_ok_def lanes_ok_def remove_queued_def)
  then show ?thesis
    unfolding give_up_def by (rule cleanup_sound)
qed

lemma saturating_add_less:
  "saturating_add a 1 \<noteq> - 1 \<Longrightarrow> a < saturating_add a 1" for a :: "'w::len word"
  by (auto simp: saturating_add_def word_less_nat_alt unat_word_ariths split: if_splits)

lemma enqueue_refusal_None:
  assumes "enqueue_refusal st r = None"
  shows "\<forall>p. child_of p r \<longrightarrow> \<not> bt_contains_key (as_fenced_parents st) p"
    and "\<not> bt_contains_key (as_selected st) (mr_operation_id r)"
    and "mr_operation_id r \<notin> set (queue_ids st)"
    and "\<not> bt_contains_key (as_active st) (mr_operation_id r)"
    and "\<not> bt_contains_key (as_draining st) (mr_operation_id r)"
    and "\<not> bt_contains_key (as_cancelled st) (mr_operation_id r)"
    and "\<not> bt_contains_key (as_usage st) (mr_operation_id r)"
    and "mr_context_bytes r
      \<le> saturating_sub (mc_max_materialized_context_bytes (as_config st)) (selected_context_bytes st)"
    and "mr_estimated_artifact_bytes r
      \<le> saturating_sub (mc_max_reserved_artifact_bytes (as_config st)) (selected_artifact_bytes st)"
    and "bt_get (as_scope_budgets st) (request_scope_id r) \<in> {None, Some (mr_budget r)}"
  using assms
  by (auto simp: enqueue_refusal_def Let_def list_ex_iff queue_ids_def not_less
      split: if_splits option.splits)

lemma push_queued_same [simp]:
  "as_config (push_queued st r) = as_config st"
  "as_active (push_queued st r) = as_active st"
  "as_draining (push_queued st r) = as_draining st"
  "as_cancelled (push_queued st r) = as_cancelled st"
  "as_fenced_parents (push_queued st r) = as_fenced_parents st"
  "as_usage (push_queued st r) = as_usage st"
  "as_selected (push_queued st r) = bt_insert (mr_operation_id r) () (as_selected st)"
  "as_next_ticket (push_queued st r) = saturating_add (as_next_ticket st) 1"
  "as_queue (push_queued st r) = as_queue st
     @ [\<lparr>ql_ticket = as_next_ticket st,
         ql_submitted_config_revision = mc_revision (as_config st), ql_request = r\<rparr>]"
  by (simp_all add: push_queued_def)

lemma push_queued_budgets:
  assumes "enqueue_refusal st r = None"
  shows "bt_get (as_scope_budgets (push_queued st r))
    = (bt_get (as_scope_budgets st))(request_scope_id r \<mapsto> mr_budget r)"
  using enqueue_refusal_None(10) [OF assms]
  by (auto simp: push_queued_def fun_eq_iff split: option.splits)

lemma push_sound:
  assumes "sound st" and "enqueue_refusal st r = None"
    and "saturating_add (as_next_ticket st) 1 \<noteq> - 1"
    and "distinct (map lr_lane (mr_lanes r))"
  shows "sound (push_queued st r)"
proof -
  note new = enqueue_refusal_None [OF assms(2)]
  have less: "as_next_ticket st < saturating_add (as_next_ticket st) 1"
    using saturating_add_less [OF assms(3)] .
  then have tickets: "tickets_ok (push_queued st r)"
    using assms(1) by (fastforce simp: sound_def tickets_ok_def)
  have ids: "ids_ok (push_queued st r)"
    using assms(1) new by (auto simp: sound_def ids_ok_def queue_ids_def bt_contains_key_def)
  have mono: "bt_get (as_scope_budgets (push_queued st r)) s = Some b"
    if "bt_get (as_scope_budgets st) s = Some b" for s b
    using that new(10) by (auto simp: push_queued_budgets [OF assms(2)])
  have "bt_get (as_scope_budgets (push_queued st r)) (request_scope_id r) = Some (mr_budget r)"
    by (simp add: push_queued_budgets [OF assms(2)])
  then have "scopes_ok (push_queued st r)"
    using assms(1) unfolding sound_def scopes_ok_def bt_contains_key_def
    by (auto intro: mono) (metis mono)
  with tickets ids assms(1,4) show ?thesis
    by (auto simp: sound_def maps_ok_def keys_ok_def lanes_ok_def)
qed

lemma owns_pushed:
  assumes "sound st"
  shows "owns_entry (push_queued st r) (as_next_ticket st) r"
  using assms by (auto simp: owns_entry_def sound_def tickets_ok_def)

lemma find_ticket:
  assumes "sound st" and "List.find (\<lambda>q. ql_ticket q = t) (as_queue st) = Some q"
  shows "q \<in> set (as_queue st)" and "ql_ticket q = t"
  using assms(2) by (auto simp: find_Some_iff)

lemma admit_queued_same [simp]:
  "as_config (admit_queued s t q st) = as_config st"
  "as_next_ticket (admit_queued s t q st) = as_next_ticket st"
  "as_selected (admit_queued s t q st) = as_selected st"
  "as_queue (admit_queued s t q st) = remove1 q (as_queue st)"
  "as_draining (admit_queued s t q st) = as_draining st"
  "as_cancelled (admit_queued s t q st) = as_cancelled st"
  "as_fenced_parents (admit_queued s t q st) = as_fenced_parents st"
  "as_scope_budgets (admit_queued s t q st) = as_scope_budgets st"
  by (simp_all add: admit_queued_def Let_def)

lemma queue_ids_remove1:
  assumes "ids_ok st" and "q \<in> set (as_queue st)"
  shows "distinct (map (mr_operation_id \<circ> ql_request) (remove1 q (as_queue st)))"
    and "set (map (mr_operation_id \<circ> ql_request) (remove1 q (as_queue st)))
       = set (queue_ids st) - {mr_operation_id (ql_request q)}"
proof -
  have dist: "distinct (map (mr_operation_id \<circ> ql_request) (as_queue st))"
    using assms(1) by (simp add: ids_ok_def queue_ids_def)
  then show "distinct (map (mr_operation_id \<circ> ql_request) (remove1 q (as_queue st)))"
    by (auto simp: distinct_map inj_on_def dest: notin_set_remove1)
  show "set (map (mr_operation_id \<circ> ql_request) (remove1 q (as_queue st)))
       = set (queue_ids st) - {mr_operation_id (ql_request q)}"
    using dist assms(2) by (auto simp: distinct_map inj_on_def queue_ids_def)
qed

lemma admit_sound:
  assumes "sound st" and "q \<in> set (as_queue st)"
  shows "sound (admit_queued (request_scope_id (ql_request q)) t q st)"
proof -
  let ?st = "admit_queued (request_scope_id (ql_request q)) t q st"
  let ?k = "mr_operation_id (ql_request q)"
  have k: "?k \<in> set (queue_ids st)" using assms(2) by (simp add: queue_ids_def)
  have "ids_ok ?st"
    using assms k queue_ids_remove1 [of st q]
    by (auto simp: sound_def ids_ok_def queue_ids_def bt_contains_key_def admit_queued_def Let_def)
  moreover have "tickets_ok ?st"
    using assms(1)
    by (auto simp: sound_def tickets_ok_def distinct_map inj_on_def dest: notin_set_remove1)
  moreover have "scopes_ok ?st"
    using assms k unfolding sound_def scopes_ok_def ids_ok_def
    by (auto simp: admit_queued_def Let_def bt_contains_key_def dest: notin_set_remove1)
  ultimately show ?thesis
    using assms(1)
    by (auto simp: sound_def maps_ok_def keys_ok_def lanes_ok_def admit_queued_def Let_def
        bt_inv_insert dest: notin_set_remove1)
qed

lemma drain_leaf_same [simp]:
  "as_config (drain_leaf k l st) = as_config st"
  "as_next_ticket (drain_leaf k l st) = as_next_ticket st"
  "as_selected (drain_leaf k l st) = as_selected st"
  "as_queue (drain_leaf k l st) = as_queue st"
  "as_active (drain_leaf k l st) = bt_remove k (as_active st)"
  "as_draining (drain_leaf k l st) = bt_insert k l (as_draining st)"
  "as_cancelled (drain_leaf k l st) = bt_insert k () (as_cancelled st)"
  "as_fenced_parents (drain_leaf k l st) = as_fenced_parents st"
  "as_scope_budgets (drain_leaf k l st) = as_scope_budgets st"
  by (simp_all add: drain_leaf_def)

lemma drain_leaf_usage:
  shows "bt_inv (as_usage st) \<Longrightarrow> bt_inv (as_usage (drain_leaf k l st))"
    and "map_option ur_scope_id (bt_get (as_usage (drain_leaf k l st)) i)
       = map_option ur_scope_id (bt_get (as_usage st) i)"
    and "bt_contains_key (as_usage (drain_leaf k l st)) i = bt_contains_key (as_usage st) i"
  by (auto simp: drain_leaf_def bt_inv_insert bt_contains_key_def split: option.splits)

lemma drain_sound:
  assumes "sound st" and "bt_get (as_active st) k = Some l"
  shows "sound (drain_leaf k l st)"
proof -
  have "ids_ok (drain_leaf k l st)"
    using assms bt_contains_keyI [OF assms(2)]
    by (auto simp: sound_def ids_ok_def queue_ids_def drain_leaf_usage(3))
  moreover have "scopes_ok (drain_leaf k l st)"
    using assms unfolding sound_def scopes_ok_def drain_leaf_same drain_leaf_usage(2) by (auto split: if_splits)
  ultimately show ?thesis
    using assms
    by (auto simp: sound_def maps_ok_def keys_ok_def tickets_ok_def lanes_ok_def drain_leaf_usage(1)
        bt_inv_insert bt_inv_remove split: if_splits)
qed

lemma drain_if_active_sound: "sound st \<Longrightarrow> sound (drain_if_active st k)"
  by (auto simp: drain_if_active_def drain_sound split: option.splits)

lemma drain_all:
  shows "sound st \<Longrightarrow> sound (foldl drain_if_active st ks)"
    and "as_queue (foldl drain_if_active st ks) = as_queue st"
    and "as_next_ticket (foldl drain_if_active st ks) = as_next_ticket st"
    and "as_config (foldl drain_if_active st ks) = as_config st"
    and "as_fenced_parents (foldl drain_if_active st ks) = as_fenced_parents st"
    and "bt_get (as_active (foldl drain_if_active st ks)) k
       = (if k \<in> set ks then None else bt_get (as_active st) k)"
    and "bt_contains_key (as_usage (foldl drain_if_active st ks)) k = bt_contains_key (as_usage st) k"
    and "bt_contains_key (as_cancelled st) k
       \<Longrightarrow> bt_contains_key (as_cancelled (foldl drain_if_active st ks)) k"
  by (induction ks arbitrary: st)
    (auto simp: drain_if_active_sound drain_leaf_usage(3), auto simp: drain_if_active_def drain_leaf_usage(3)
      split: option.splits)

lemma cancel_queued_same [simp]:
  "as_config (cancel_queued st p) = as_config st"
  "as_next_ticket (cancel_queued st p) = as_next_ticket st"
  "as_selected (cancel_queued st p) = bt_remove (fst p) (as_selected st)"
  "as_queue (cancel_queued st p) = as_queue st"
  "as_active (cancel_queued st p) = as_active st"
  "as_draining (cancel_queued st p) = as_draining st"
  "as_cancelled (cancel_queued st p) = bt_insert (fst p) () (as_cancelled st)"
  "as_fenced_parents (cancel_queued st p) = as_fenced_parents st"
  "as_usage (cancel_queued st p) = as_usage st"
  by (simp_all add: cancel_queued_def split_beta)

lemma cancel_queued_scopes: "scopes_ok st \<Longrightarrow> scopes_ok (cancel_queued st p)"
  unfolding cancel_queued_def split_beta by (rule cleanup_scopes_ok) (simp add: scopes_ok_def)

lemma cancel_all:
  shows "as_config (foldl cancel_queued st ps) = as_config st"
    and "as_next_ticket (foldl cancel_queued st ps) = as_next_ticket st"
    and "as_queue (foldl cancel_queued st ps) = as_queue st"
    and "as_active (foldl cancel_queued st ps) = as_active st"
    and "as_draining (foldl cancel_queued st ps) = as_draining st"
    and "as_fenced_parents (foldl cancel_queued st ps) = as_fenced_parents st"
    and "as_usage (foldl cancel_queued st ps) = as_usage st"
    and "bt_contains_key (as_selected (foldl cancel_queued st ps)) k
       \<longleftrightarrow> bt_contains_key (as_selected st) k \<and> k \<notin> fst ` set ps"
    and "bt_contains_key (as_cancelled (foldl cancel_queued st ps)) k
       \<longleftrightarrow> bt_contains_key (as_cancelled st) k \<or> k \<in> fst ` set ps"
    and "scopes_ok st \<Longrightarrow> scopes_ok (foldl cancel_queued st ps)"
  by (induction ps arbitrary: st) (auto simp: cancel_queued_scopes bt_contains_key_def)

section \<open>The next ticket\<close>

lemma can_fit_cong:
  assumes "as_config st' = as_config st" and "as_active st' = as_active st"
    and "as_draining st' = as_draining st"
  shows "can_fit st' = can_fit st"
  using assms by (simp add: can_fit_def fun_eq_iff)

lemma next_in_class_cong:
  assumes "as_config st' = as_config st" and "as_active st' = as_active st"
    and "as_draining st' = as_draining st" and "as_queue st' = as_queue st"
  shows "next_in_class st' = next_in_class st"
  using assms can_fit_cong [OF assms(1-3)] by (simp add: next_in_class_def fun_eq_iff)

lemma next_admissible_cong:
  assumes "as_config st' = as_config st" and "as_active st' = as_active st"
    and "as_draining st' = as_draining st" and "as_queue st' = as_queue st"
  shows "next_admissible_ticket st' = next_admissible_ticket st"
  using next_in_class_cong [OF assms] by (simp add: next_admissible_ticket_def split: option.split)

lemma next_in_class_Some:
  "next_in_class st c = Some q
     \<Longrightarrow> q \<in> set (as_queue st) \<and> mr_queue_class (ql_request q) = c \<and> can_fit st (ql_request q)"
  by (auto simp: next_in_class_def find_Some_iff)

lemma next_admissible_Some:
  assumes "next_admissible_ticket st = Some t"
  obtains q where "q \<in> set (as_queue st)" and "ql_ticket q = t" and "can_fit st (ql_request q)"
  using assms
  by (auto simp: next_admissible_ticket_def dest!: next_in_class_Some split: option.splits)

lemma find_append:
  "List.find P (xs @ ys) = (case List.find P xs of Some x \<Rightarrow> Some x | None \<Rightarrow> List.find P ys)"
  by (induction xs) auto

lemma next_admissible_push:
  assumes "next_admissible_ticket (push_queued st r) \<noteq> Some (as_next_ticket st)"
  shows "next_admissible_ticket (push_queued st r) = next_admissible_ticket st"
  using assms can_fit_cong [of "push_queued st r" st]
  by (auto simp: next_admissible_ticket_def next_in_class_def find_append split: option.splits if_splits)

lemma find_filter_other:
  "List.find P xs = Some x \<Longrightarrow> Q x \<Longrightarrow> List.find P (filter Q xs) = Some x"
  "List.find P xs = None \<Longrightarrow> List.find P (filter Q xs) = None"
  by (induction xs) (auto split: if_splits)

lemma next_admissible_remove:
  assumes "next_admissible_ticket st \<noteq> Some t" and "as_queue st' = remove_queued t (as_queue st)"
    and "as_config st' = as_config st" and "as_active st' = as_active st"
    and "as_draining st' = as_draining st"
  shows "next_admissible_ticket st' = next_admissible_ticket st"
proof -
  have eq: "next_in_class st' c = next_in_class st c"
    if "\<forall>q. next_in_class st c = Some q \<longrightarrow> ql_ticket q \<noteq> t" for c
    using that can_fit_cong [OF assms(3-5)] assms(2)
      find_filter_other(1) [where Q = "\<lambda>q. ql_ticket q \<noteq> t"]
      find_filter_other(2) [where Q = "\<lambda>q. ql_ticket q \<noteq> t"]
    by (cases "next_in_class st c") (auto simp: next_in_class_def remove_queued_def)
  show ?thesis
    using assms(1) eq [of Interactive] eq [of NormalClass]
    by (cases "next_in_class st Interactive") (auto simp: next_admissible_ticket_def)
qed

section \<open>Operations that hold the lock once\<close>

definition domain_ok :: "AdmissionState \<Rightarrow> bool" where
  "domain_ok st = (sound st \<and> fence_ok st \<and> length (as_queue st) \<le> mc_max_queued (as_config st))"

text \<open>What every operation apart from \<open>reserve\<close> promises the waiting threads: the state stays
  sound, no entry enters the queue, an owner keeps its entry or loses it to a fence, the records
  that forbid an identity or a parent only grow, and an operation that does not notify leaves the
  next ticket alone.\<close>

locale locked_operation =
  fixes run :: "AdmissionState \<Rightarrow> 'a \<times> bool \<times> AdmissionState"
  assumes keeps_domain: "domain_ok st \<Longrightarrow> run st = (x, notified, st') \<Longrightarrow> domain_ok st'"
    and keeps_ticket: "run st = (x, notified, st') \<Longrightarrow> as_next_ticket st' = as_next_ticket st"
    and keeps_queue: "run st = (x, notified, st') \<Longrightarrow> set (as_queue st') \<subseteq> set (as_queue st)"
    and keeps_owner:
      "domain_ok st \<Longrightarrow> run st = (x, notified, st') \<Longrightarrow> owns_entry st t r \<Longrightarrow> owns_entry st' t r"
    and keeps_usage:
      "run st = (x, notified, st') \<Longrightarrow> bt_contains_key (as_usage st') k = bt_contains_key (as_usage st) k"
    and keeps_fences:
      "run st = (x, notified, st') \<Longrightarrow> bt_contains_key (as_fenced_parents st) p
         \<Longrightarrow> bt_contains_key (as_fenced_parents st') p"
    and quiet: "run st = (x, False, st') \<Longrightarrow> next_admissible_ticket st' = next_admissible_ticket st"

lemma owns_entry_frame:
  assumes "owns_entry st t r" and "as_queue st' = as_queue st"
    and "\<And>k. bt_contains_key (as_usage st') k = bt_contains_key (as_usage st) k"
    and "\<And>k. bt_contains_key (as_cancelled st) k \<Longrightarrow> bt_contains_key (as_cancelled st') k"
  shows "owns_entry st' t r"
  using assms by (auto simp: owns_entry_def)

lemma remove_leaf_sound:
  assumes "sound st"
  shows "bt_get (as_active st) k = Some l \<Longrightarrow>
      sound (st\<lparr>as_active := bt_remove k (as_active st), as_selected := bt_remove k (as_selected st)\<rparr>)"
    and "bt_get (as_draining st) k = Some l \<Longrightarrow>
      sound (st\<lparr>as_draining := bt_remove k (as_draining st), as_selected := bt_remove k (as_selected st)\<rparr>)"
  using assms
  by (auto simp: sound_def maps_ok_def keys_ok_def ids_ok_def tickets_ok_def scopes_ok_def lanes_ok_def
      queue_ids_def bt_inv_remove dest: bt_contains_keyI split: if_splits)

interpretation release_op: locked_operation "release_active i" for i
proof unfold_locales
  fix st st' :: AdmissionState and x notified
  assume "domain_ok st" and "release_active i st = (x, notified, st')"
  then show "domain_ok st'"
    using remove_leaf_sound(1)
    by (auto simp: domain_ok_def release_active_def fence_ok_def split: option.splits if_splits)
qed (auto simp: release_active_def split: option.splits elim!: owns_entry_frame)

interpretation reconcile_op: locked_operation "reconcile_draining i" for i
proof unfold_locales
  fix st st' :: AdmissionState and x notified
  assume "domain_ok st" and "reconcile_draining i st = (x, notified, st')"
  then show "domain_ok st'"
    using remove_leaf_sound(2)
    by (auto simp: domain_ok_def reconcile_draining_def fence_ok_def split: option.splits if_splits)
qed (auto simp: reconcile_draining_def split: option.splits if_splits elim!: owns_entry_frame)

interpretation move_op: locked_operation "move_to_draining i" for i
proof unfold_locales
  fix st st' :: AdmissionState and x notified
  assume "domain_ok st" and "move_to_draining i st = (x, notified, st')"
  then show "domain_ok st'"
    using drain_sound
    by (auto simp: domain_ok_def move_to_draining_def fence_ok_def split: option.splits if_splits)
qed (auto simp: move_to_draining_def drain_leaf_usage(3) split: option.splits elim!: owns_entry_frame)

lemma flag_leaf_sound:
  assumes "sound st"
  shows "bt_get (as_active st) k = Some l \<Longrightarrow>
      sound (st\<lparr>as_active := bt_insert k (l\<lparr>al_provider_in_flight := b\<rparr>) (as_active st)\<rparr>)"
    and "bt_get (as_draining st) k = Some l \<Longrightarrow>
      sound (st\<lparr>as_draining := bt_insert k (l\<lparr>al_provider_in_flight := b\<rparr>) (as_draining st)\<rparr>)"
  using assms
  by (auto simp: sound_def maps_ok_def keys_ok_def ids_ok_def tickets_ok_def scopes_ok_def lanes_ok_def
      queue_ids_def bt_inv_insert dest: bt_contains_keyI split: if_splits)

interpretation provider_op: locked_operation "set_provider_in_flight i b" for i b
proof unfold_locales
  fix st st' :: AdmissionState and x notified
  assume "domain_ok st" and "set_provider_in_flight i b st = (x, notified, st')"
  then show "domain_ok st'"
    by (auto simp: domain_ok_def set_provider_in_flight_def fence_ok_def Let_def intro!: flag_leaf_sound
        split: option.splits if_splits)
qed (auto simp: set_provider_in_flight_def Let_def split: option.splits if_splits elim!: owns_entry_frame)

lemma update_usage_sound:
  assumes "sound st" and "bt_get (as_usage st) k = Some u"
  shows "sound (st\<lparr>as_usage := bt_insert k (u\<lparr>ur_usage := v\<rparr>) (as_usage st)\<rparr>)"
    (is "sound ?st")
proof -
  have scope: "map_option ur_scope_id (bt_get (as_usage ?st) i) = map_option ur_scope_id (bt_get (as_usage st) i)"
    and key: "bt_contains_key (as_usage ?st) i = bt_contains_key (as_usage st) i" for i
    using assms(2) by (auto dest: bt_contains_keyI)
  have "ids_ok ?st"
    using assms(1) unfolding sound_def ids_ok_def key by (simp add: queue_ids_def)
  moreover have "scopes_ok ?st"
    using assms(1) unfolding sound_def scopes_ok_def scope by simp
  ultimately show ?thesis
    using assms(1) by (simp add: sound_def maps_ok_def keys_ok_def tickets_ok_def lanes_ok_def bt_inv_insert)
qed

lemma charge_state:
  assumes "charge i d st = (x, notified, st')"
  shows "notified = False"
    and "st' = st \<or> (\<exists>u. bt_get (as_usage st) i = Some u
      \<and> st' = st\<lparr>as_usage := bt_insert i (u\<lparr>ur_usage := usage_add (ur_usage u) d\<rparr>) (as_usage st)\<rparr>)"
  using assms by (simp_all add: charge_def Let_def split: if_splits option.splits)

interpretation charge_op: locked_operation "charge i d" for i d
proof unfold_locales
  fix st st' :: AdmissionState and x notified
  assume "domain_ok st" and "charge i d st = (x, notified, st')"
  then show "domain_ok st'"
    using charge_state(2) [of i d st x notified st'] update_usage_sound [of st i]
    by (auto simp: domain_ok_def fence_ok_def)
qed (auto dest!: charge_state(2) dest: bt_contains_keyI elim!: owns_entry_frame intro: next_admissible_cong)

lemma config_sound [simp]:
  "sound (st\<lparr>as_config := c\<rparr>) = sound st" "fence_ok (st\<lparr>as_config := c\<rparr>) = fence_ok st"
  by (simp_all add: sound_def sound_defs fence_ok_def)

interpretation reconfigure_op: locked_operation "reconfigure c" for c
proof unfold_locales
  fix st st' :: AdmissionState and x notified
  assume "domain_ok st" and "reconfigure c st = (x, notified, st')"
  then show "domain_ok st'"
    by (auto simp: domain_ok_def reconfigure_def split: sum.splits if_splits)
qed (auto simp: reconfigure_def split: sum.splits if_splits elim!: owns_entry_frame)

lemmas ipc_defs = set_open_ipc_connections_def connection_opened_def connection_closed_def

lemma ipc_domain [simp]: "domain_ok (st\<lparr>as_open_ipc_connections := n\<rparr>) = domain_ok st"
  by (simp add: domain_ok_def sound_def sound_defs fence_ok_def)

interpretation set_ipc_op: locked_operation "set_open_ipc_connections n" for n
  by unfold_locales (auto simp: ipc_defs elim!: owns_entry_frame intro: next_admissible_cong)

interpretation open_op: locked_operation connection_opened
  by unfold_locales (auto simp: ipc_defs elim!: owns_entry_frame intro: next_admissible_cong)

interpretation close_op: locked_operation connection_closed
  by unfold_locales (auto simp: ipc_defs elim!: owns_entry_frame intro: next_admissible_cong)

lemma drop_cases:
  assumes "drop_reservation i st = (x, notified, st')"
  obtains y where "release_active i st = (y, notified, st')"
  | y where "reconcile_draining i st = (y, notified, st')"
  using assms
  by (auto simp: drop_reservation_def release_active_def split: option.splits prod.splits)

interpretation drop_op: locked_operation "drop_reservation i" for i
proof unfold_locales
  fix st st' :: AdmissionState and x notified k t r p
  assume run: "drop_reservation i st = (x, notified, st')"
  show "as_next_ticket st' = as_next_ticket st"
    by (rule drop_cases [OF run]) (simp_all add: release_op.keeps_ticket reconcile_op.keeps_ticket)
  show "set (as_queue st') \<subseteq> set (as_queue st)"
    by (rule drop_cases [OF run]) (simp_all add: release_op.keeps_queue reconcile_op.keeps_queue)
  show "bt_contains_key (as_usage st') k = bt_contains_key (as_usage st) k"
    by (rule drop_cases [OF run]) (simp_all add: release_op.keeps_usage reconcile_op.keeps_usage)
  show "bt_contains_key (as_fenced_parents st') p" if "bt_contains_key (as_fenced_parents st) p"
    by (rule drop_cases [OF run])
      (simp_all add: that release_op.keeps_fences reconcile_op.keeps_fences)
  show "domain_ok st'" if "domain_ok st"
    by (rule drop_cases [OF run])
      (simp_all add: release_op.keeps_domain [OF that] reconcile_op.keeps_domain [OF that])
  show "owns_entry st' t r" if "domain_ok st" "owns_entry st t r"
    by (rule drop_cases [OF run])
      (simp_all add: release_op.keeps_owner [OF that(1) _ that(2)] reconcile_op.keeps_owner [OF that(1) _ that(2)])
next
  fix st st' :: AdmissionState and x
  assume run: "drop_reservation i st = (x, False, st')"
  show "next_admissible_ticket st' = next_admissible_ticket st"
    by (rule drop_cases [OF run]) (simp_all add: release_op.quiet reconcile_op.quiet)
qed

text \<open>\<open>mark_descendants_draining\<close> in its two phases.\<close>

definition fence_queue :: "string \<Rightarrow> AdmissionState \<Rightarrow> AdmissionState" where
  "fence_queue p st =
     foldl cancel_queued
       (st\<lparr>as_fenced_parents := bt_insert p () (as_fenced_parents st),
           as_queue := filter (\<lambda>q. \<not> child_of p (ql_request q)) (as_queue st)\<rparr>)
       (map (\<lambda>q. (mr_operation_id (ql_request q), request_scope_id (ql_request q)))
         (filter (\<lambda>q. child_of p (ql_request q)) (as_queue st)))"

definition active_children :: "string \<Rightarrow> AdmissionState \<Rightarrow> string list" where
  "active_children p st = map fst (filter (\<lambda>(_, l). child_of p (al_request l)) (as_active st))"

lemma mark_descendants_phases:
  assumes "mark_descendants_draining p st = (x, notified, st')"
  shows "st' = foldl drain_if_active (fence_queue p st) (active_children p st)"
    and "\<not> notified \<Longrightarrow> (\<forall>q \<in> set (as_queue st). \<not> child_of p (ql_request q)) \<and> active_children p st = []"
  using assms
  by (auto simp: mark_descendants_draining_def Let_def fence_queue_def active_children_def cancel_all
      filter_empty_conv)

lemma fence_queue_same:
  "as_config (fence_queue p st) = as_config st"
  "as_next_ticket (fence_queue p st) = as_next_ticket st"
  "as_queue (fence_queue p st) = filter (\<lambda>q. \<not> child_of p (ql_request q)) (as_queue st)"
  "as_active (fence_queue p st) = as_active st"
  "as_draining (fence_queue p st) = as_draining st"
  "as_fenced_parents (fence_queue p st) = bt_insert p () (as_fenced_parents st)"
  "as_usage (fence_queue p st) = as_usage st"
  "bt_contains_key (as_selected (fence_queue p st)) k \<longleftrightarrow> bt_contains_key (as_selected st) k
     \<and> k \<notin> (mr_operation_id \<circ> ql_request) ` {q \<in> set (as_queue st). child_of p (ql_request q)}"
  "bt_contains_key (as_cancelled (fence_queue p st)) k \<longleftrightarrow> bt_contains_key (as_cancelled st) k
     \<or> k \<in> (mr_operation_id \<circ> ql_request) ` {q \<in> set (as_queue st). child_of p (ql_request q)}"
  by (simp_all add: fence_queue_def cancel_all image_image)

lemma queue_ids_filter:
  assumes "ids_ok st"
  shows "distinct (map (mr_operation_id \<circ> ql_request) (filter P (as_queue st)))"
    and "(mr_operation_id \<circ> ql_request) ` {q \<in> set (as_queue st). P q}
       = set (queue_ids st) - (mr_operation_id \<circ> ql_request) ` {q \<in> set (as_queue st). \<not> P q}"
proof -
  have inj: "inj_on (mr_operation_id \<circ> ql_request) (set (as_queue st))"
    and dist: "distinct (map (mr_operation_id \<circ> ql_request) (as_queue st))"
    using assms by (auto simp: ids_ok_def queue_ids_def distinct_map)
  show "distinct (map (mr_operation_id \<circ> ql_request) (filter P (as_queue st)))"
    using dist by (rule distinct_map_filter)
  show "(mr_operation_id \<circ> ql_request) ` {q \<in> set (as_queue st). P q}
       = set (queue_ids st) - (mr_operation_id \<circ> ql_request) ` {q \<in> set (as_queue st). \<not> P q}"
    using inj unfolding queue_ids_def inj_on_def by (auto simp del: comp_apply)
qed

lemma fence_queue_sound:
  assumes "sound st"
  shows "sound (fence_queue p st)"
proof -
  let ?C = "(mr_operation_id \<circ> ql_request) ` {q \<in> set (as_queue st). child_of p (ql_request q)}"
  have ids: "ids_ok st" using assms by (simp add: sound_def)
  have queue: "set (queue_ids (fence_queue p st)) = set (queue_ids st) - ?C"
    using queue_ids_filter(2) [OF ids, of "\<lambda>q. \<not> child_of p (ql_request q)"]
    by (simp add: queue_ids_def fence_queue_same)
  have "distinct (queue_ids (fence_queue p st))"
    using queue_ids_filter(1) [OF ids] by (simp add: queue_ids_def fence_queue_same)
  moreover have "?C \<subseteq> set (queue_ids st)" by (auto simp: queue_ids_def)
  ultimately have "ids_ok (fence_queue p st)"
    using ids unfolding ids_ok_def queue fence_queue_same by blast
  moreover have "scopes_ok (fence_queue p st)"
    unfolding fence_queue_def using assms
    by (intro cancel_all(10)) (auto simp: sound_def scopes_ok_def)
  moreover have "tickets_ok (fence_queue p st)"
    using assms by (auto simp: sound_def tickets_ok_def fence_queue_same intro: distinct_map_filter)
  ultimately show ?thesis
    using assms by (simp add: sound_def maps_ok_def keys_ok_def lanes_ok_def fence_queue_same)
qed

lemma active_child:
  "bt_get (as_active st) k = Some l \<Longrightarrow> child_of p (al_request l) \<Longrightarrow> k \<in> set (active_children p st)"
  by (force simp: active_children_def dest: bt_get_in_set)

lemma fence_queue_owner:
  assumes "sound st" and "owns_entry st t r"
  shows "owns_entry (fence_queue p st) t r"
proof (cases "t \<in> ql_ticket ` set (as_queue st)")
  case True
  then obtain q where q: "q \<in> set (as_queue st)" "ql_ticket q = t" "ql_request q = r"
    and all: "\<forall>q \<in> set (as_queue st). ql_ticket q = t \<longrightarrow> ql_request q = r"
    using assms(2) by (auto simp: owns_entry_def)
  have "\<not> bt_contains_key (as_usage st) (mr_operation_id r)"
    using assms(1) q by (auto simp: sound_def ids_ok_def queue_ids_def)
  then show ?thesis
    using q all by (auto simp: owns_entry_def fence_queue_same)
next
  case False
  then show ?thesis
    using assms(2) by (auto simp: owns_entry_def fence_queue_same)
qed

interpretation fence_op: locked_operation "mark_descendants_draining p" for p
proof unfold_locales
  fix st st' :: AdmissionState and x notified k t r p'
  assume "mark_descendants_draining p st = (x, notified, st')"
  note st' = mark_descendants_phases(1) [OF this]
  show "as_next_ticket st' = as_next_ticket st" "set (as_queue st') \<subseteq> set (as_queue st)"
    "bt_contains_key (as_usage st') k = bt_contains_key (as_usage st) k"
    unfolding st' drain_all fence_queue_same by auto
  show "bt_contains_key (as_fenced_parents st') p'" if "bt_contains_key (as_fenced_parents st) p'"
    using that unfolding st' drain_all fence_queue_same by simp
  show "owns_entry st' t r" if "domain_ok st" "owns_entry st t r"
    unfolding st'
    by (rule owns_entry_frame [OF fence_queue_owner])
      (use that in \<open>auto simp: domain_ok_def drain_all\<close>)
  show "domain_ok st'" if "domain_ok st"
  proof -
    have "sound st'"
      unfolding st' using that by (intro drain_all(1) fence_queue_sound) (simp add: domain_ok_def)
    moreover have "fence_ok st'"
      using that active_child [of st] unfolding st' domain_ok_def fence_ok_def drain_all fence_queue_same
      by (auto split: if_splits)
    moreover have "length (as_queue st') \<le> mc_max_queued (as_config st')"
      using that length_filter_le le_trans unfolding st' domain_ok_def drain_all fence_queue_same by blast
    ultimately show ?thesis by (simp add: domain_ok_def)
  qed
next
  fix st st' :: AdmissionState and x
  assume run: "mark_descendants_draining p st = (x, False, st')"
  show "next_admissible_ticket st' = next_admissible_ticket st"
    using mark_descendants_phases [OF run]
    by (intro next_admissible_cong) (auto simp: fence_queue_same intro: filter_True)
qed

section \<open>Passes of the reservation loop\<close>

lemma give_up_same [simp]:
  "as_config (give_up t r st) = as_config st"
  "as_next_ticket (give_up t r st) = as_next_ticket st"
  "as_queue (give_up t r st) = remove_queued t (as_queue st)"
  "as_active (give_up t r st) = as_active st"
  "as_draining (give_up t r st) = as_draining st"
  "as_cancelled (give_up t r st) = as_cancelled st"
  "as_fenced_parents (give_up t r st) = as_fenced_parents st"
  "as_usage (give_up t r st) = as_usage st"
  by (simp_all add: give_up_def)

lemma set_remove_queued [simp]: "set (remove_queued t qs) = {q \<in> set qs. ql_ticket q \<noteq> t}"
  by (auto simp: remove_queued_def)

lemma owns_other:
  assumes "owns_entry st t' r'" and "t' \<noteq> t"
    and "set (as_queue st') = {q \<in> set (as_queue st). ql_ticket q \<noteq> t}"
    and "as_cancelled st' = as_cancelled st"
    and "\<And>k. bt_contains_key (as_cancelled st) k
       \<Longrightarrow> bt_contains_key (as_usage st') k = bt_contains_key (as_usage st) k"
  shows "owns_entry st' t' r'"
proof -
  have "t' \<in> ql_ticket ` set (as_queue st') \<longleftrightarrow> t' \<in> ql_ticket ` set (as_queue st)"
    using assms(2,3) by auto
  then show ?thesis
    using assms by (auto simp: owns_entry_def)
qed

text \<open>What a pass of the loop, on the way in or after a wake-up, does for its own ticket and promises
  the other threads.\<close>

definition fair_pass ::
    "AdmissionState \<Rightarrow> u64 \<Rightarrow> ManagedAdmissionRequestV1
      \<Rightarrow> (ManagedAdmissionError + string) option \<times> bool \<times> AdmissionState \<Rightarrow> bool" where
  "fair_pass st t r = (\<lambda>(outcome, notified, st').
     domain_ok st' \<and> as_next_ticket st' = as_next_ticket st \<and> as_config st' = as_config st
     \<and> set (as_queue st') \<subseteq> set (as_queue st)
     \<and> (\<forall>t' r'. t' \<noteq> t \<longrightarrow> owns_entry st t' r' \<longrightarrow> owns_entry st' t' r')
     \<and> (\<forall>p. bt_contains_key (as_fenced_parents st') p = bt_contains_key (as_fenced_parents st) p)
     \<and> (\<not> notified \<longrightarrow> next_admissible_ticket st' = next_admissible_ticket st
          \<and> next_admissible_ticket st \<noteq> Some t)
     \<and> (outcome = None \<longrightarrow> st' = st \<and> \<not> notified \<and> t \<in> ql_ticket ` set (as_queue st))
     \<and> (outcome \<noteq> None \<longrightarrow> t \<notin> ql_ticket ` set (as_queue st')))"

lemma give_up_fair:
  assumes "sound st" and "fence_ok st" and "length (remove_queued t (as_queue st)) \<le> mc_max_queued (as_config st)"
    and "owns_entry st t r" and "next_admissible_ticket st \<noteq> Some t"
  shows "fair_pass st t r (Some x, False, give_up t r st)"
proof -
  have "domain_ok (give_up t r st)"
    using give_up_sound [OF assms(1,4)] assms(2,3) by (auto simp: domain_ok_def fence_ok_def)
  moreover have "next_admissible_ticket (give_up t r st) = next_admissible_ticket st"
    by (rule next_admissible_remove [OF assms(5)]) simp_all
  moreover have "owns_entry (give_up t r st) t' r'" if "t' \<noteq> t" "owns_entry st t' r'" for t' r'
    by (rule owns_other [OF that(2,1)]) simp_all
  ultimately show ?thesis
    using assms(5) by (auto simp: fair_pass_def)
qed

lemma give_up_fair_domain:
  assumes "domain_ok st" and "owns_entry st t r" and "next_admissible_ticket st \<noteq> Some t"
  shows "fair_pass st t r (Some x, False, give_up t r st)"
proof (rule give_up_fair [OF _ _ _ assms(2,3)])
  show "length (remove_queued t (as_queue st)) \<le> mc_max_queued (as_config st)"
    using assms(1) by (auto simp: domain_ok_def remove_queued_def intro: le_trans [OF length_filter_le])
qed (use assms(1) in \<open>simp_all add: domain_ok_def\<close>)

lemma remove1_ticket:
  assumes "tickets_ok st" and "q \<in> set (as_queue st)"
  shows "set (remove1 q (as_queue st)) = {x \<in> set (as_queue st). ql_ticket x \<noteq> ql_ticket q}"
  using assms by (auto simp: tickets_ok_def distinct_map inj_on_def)

lemma admit_fair:
  assumes "domain_ok st" and "owns_entry st (ql_ticket q) r" and "q \<in> set (as_queue st)"
  shows "fair_pass st (ql_ticket q) r (Some x, True, admit_queued (request_scope_id r) (ql_ticket q) q st)"
    (is "fair_pass st ?t r (_, _, ?st)")
proof -
  have r: "ql_request q = r" using assms(2,3) by (auto simp: owns_entry_def split: if_splits)
  have queue: "set (as_queue ?st) = {x \<in> set (as_queue st). ql_ticket x \<noteq> ?t}"
    using assms(1,3) remove1_ticket by (simp add: domain_ok_def sound_def)
  have "sound ?st"
    using admit_sound [OF _ assms(3)] assms(1) by (simp add: domain_ok_def r)
  moreover have "fence_ok ?st"
    using assms(1,3) by (auto simp: domain_ok_def fence_ok_def admit_queued_def Let_def dest: notin_set_remove1)
  moreover have "length (as_queue ?st) \<le> mc_max_queued (as_config ?st)"
    using assms(1,3) by (auto simp: domain_ok_def length_remove1)
  moreover have "owns_entry ?st t' r'" if "t' \<noteq> ?t" "owns_entry st t' r'" for t' r'
  proof (rule owns_other [OF that(2,1) queue])
    have "mr_operation_id r \<in> set (queue_ids st)" using assms(3) r by (auto simp: queue_ids_def)
    then show "bt_contains_key (as_usage ?st) k = bt_contains_key (as_usage st) k"
      if "bt_contains_key (as_cancelled st) k" for k
      using that assms(1) by (auto simp: domain_ok_def sound_def ids_ok_def admit_queued_def Let_def r)
  qed simp
  ultimately show ?thesis
    using queue by (auto simp: fair_pass_def domain_ok_def)
qed

lemma iteration_fair:
  assumes "domain_ok st" and "owns_entry st t r"
  shows "fair_pass st t r (reserve_iteration st t r z)"
proof (cases "next_admissible_ticket st = Some t")
  case True
  then obtain q where "q \<in> set (as_queue st)" "ql_ticket q = t" by (rule next_admissible_Some)
  then obtain q' where q': "List.find (\<lambda>q. ql_ticket q = t) (as_queue st) = Some q'"
    and ex: "list_ex (\<lambda>q. ql_ticket q = t) (as_queue st)"
    by (cases "List.find (\<lambda>q. ql_ticket q = t) (as_queue st)") (auto simp: find_None_iff list_ex_iff)
  then have "q' \<in> set (as_queue st)" "ql_ticket q' = t" by (auto simp: find_Some_iff)
  with admit_fair [of st q' r] assms show ?thesis
    using True q' ex by (simp add: reserve_iteration_def)
next
  case False
  have "fair_pass st t r (Some x, False, give_up t r st)" for x
    by (rule give_up_fair_domain [OF assms False])
  moreover have "fair_pass st t r (x, False, st)"
    if "x = None \<longleftrightarrow> t \<in> ql_ticket ` set (as_queue st)" for x
    using that assms False by (auto simp: fair_pass_def)
  ultimately show ?thesis
    using False by (auto simp: reserve_iteration_def list_ex_iff image_iff)
qed

lemma wakeup_fair:
  assumes "domain_ok st" and "owns_entry st t r"
  shows "fair_pass st t r (reserve_wakeup st t r timed z)"
proof -
  have "fair_pass st t r (Some x, False, give_up t r st)" if "next_admissible_ticket st \<noteq> Some t" for x
    by (rule give_up_fair_domain [OF assms that])
  with iteration_fair [OF assms] show ?thesis
    by (simp add: reserve_wakeup_def)
qed

section \<open>Every interleaving\<close>

text \<open>Each queue entry belongs to exactly one blocked thread, and the thread whose turn it is has a
  notification pending.\<close>

definition waiters_ok :: "managed_system \<Rightarrow> bool" where
  "waiters_ok s =
     (distinct (map w_ticket (ms_changed s))
      \<and> (\<forall>w \<in> set (ms_changed s). w_ticket w < as_next_ticket (ms_state s)
           \<and> owns_entry (ms_state s) (w_ticket w) (w_request w))
      \<and> ql_ticket ` set (as_queue (ms_state s)) \<subseteq> w_ticket ` set (ms_changed s))"

definition notified_ok :: "managed_system \<Rightarrow> bool" where
  "notified_ok s =
     (\<forall>t. next_admissible_ticket (ms_state s) = Some t
        \<longrightarrow> (\<exists>w \<in> set (ms_changed s). w_ticket w = t \<and> w_woken w))"

definition entering_ok :: "managed_system \<Rightarrow> bool" where
  "entering_ok s = (\<forall>r \<in> set (ms_entering s). distinct (map lr_lane (mr_lanes r)))"

definition system_ok :: "managed_system \<Rightarrow> bool" where
  "system_ok s = (domain_ok (ms_state s) \<and> waiters_ok s \<and> notified_ok s \<and> entering_ok s)"

lemma set_notify_all:
  "set (notify_all ws) = (\<lambda>w. w\<lparr>w_woken := True\<rparr>) ` set ws"
  "map w_ticket (notify_all ws) = map w_ticket ws"
  by (simp_all add: notify_all_def)

lemma woken_in_notify_all:
  "t \<in> w_ticket ` set ws \<Longrightarrow> \<exists>w \<in> set (notify_all ws). w_ticket w = t \<and> w_woken w"
  by (force simp: set_notify_all)

lemma next_admissible_queued:
  "next_admissible_ticket st = Some t \<Longrightarrow> t \<in> ql_ticket ` set (as_queue st)"
  by (elim next_admissible_Some) auto

lemma notify_all_ok:
  assumes "ql_ticket ` set (as_queue st) \<subseteq> w_ticket ` set ws" and "next_admissible_ticket st = Some t"
  shows "\<exists>w \<in> set (notify_all ws). w_ticket w = t \<and> w_woken w"
  using subsetD [OF assms(1) next_admissible_queued [OF assms(2)]] by (rule woken_in_notify_all)

lemma settle_ok:
  assumes "domain_ok st" and "distinct (map w_ticket ws)"
    and "\<forall>w \<in> set ws. w_ticket w < as_next_ticket st \<and> owns_entry st (w_ticket w) (w_request w)"
    and "ql_ticket ` set (as_queue st) \<subseteq> w_ticket ` set ws"
    and "\<not> notified \<Longrightarrow> \<forall>t. next_admissible_ticket st = Some t \<longrightarrow> (\<exists>w \<in> set ws. w_ticket w = t \<and> w_woken w)"
    and "entering_ok s"
  shows "system_ok (s\<lparr>ms_state := st, ms_changed := (if notified then notify_all ws else ws)\<rparr>)"
proof (cases notified)
  case True
  have "waiters_ok (s\<lparr>ms_state := st, ms_changed := notify_all ws\<rparr>)"
    using assms(2-4) by (simp add: waiters_ok_def set_notify_all image_image)
  moreover have "notified_ok (s\<lparr>ms_state := st, ms_changed := notify_all ws\<rparr>)"
    using notify_all_ok [OF assms(4)] by (simp add: notified_ok_def)
  ultimately show ?thesis
    using True assms(1,6) by (simp add: system_ok_def entering_ok_def)
next
  case False
  then show ?thesis
    using assms by (simp add: system_ok_def waiters_ok_def notified_ok_def entering_ok_def)
qed

context locked_operation begin

lemma step_ok:
  assumes "system_ok s"
  shows "system_ok (after_lock s (run (ms_state s)))"
proof -
  obtain x notified st' where run: "run (ms_state s) = (x, notified, st')" by (cases "run (ms_state s)")
  have ok: "domain_ok (ms_state s)" "waiters_ok s" "notified_ok s" "entering_ok s"
    using assms by (simp_all add: system_ok_def)
  have "ql_ticket ` set (as_queue st') \<subseteq> w_ticket ` set (ms_changed s)"
    using ok(2) image_mono [OF keeps_queue [OF run], of ql_ticket]
    unfolding waiters_ok_def by (meson subset_trans)
  then have "system_ok (s\<lparr>ms_state := st',
      ms_changed := (if notified then notify_all (ms_changed s) else ms_changed s)\<rparr>)"
  proof (rule settle_ok [rotated 3])
    show "domain_ok st'" using keeps_domain [OF ok(1) run] .
    show "\<forall>w \<in> set (ms_changed s). w_ticket w < as_next_ticket st' \<and> owns_entry st' (w_ticket w) (w_request w)"
      using ok(2) keeps_owner [OF ok(1) run] by (simp add: waiters_ok_def keeps_ticket [OF run])
    show "\<forall>t. next_admissible_ticket st' = Some t \<longrightarrow> (\<exists>w \<in> set (ms_changed s). w_ticket w = t \<and> w_woken w)"
      if "\<not> notified"
      using ok(3) quiet [of "ms_state s" x st'] run that by (simp add: notified_ok_def)
  qed (use ok in \<open>simp_all add: waiters_ok_def\<close>)
  then show ?thesis
    by (simp add: run after_lock_def)
qed

end

text \<open>The state in which a thread with a given ticket runs its pass: it is the only thread with that
  ticket, every other entry has its blocked owner, and every other turn its notification.\<close>

definition pass_ready :: "managed_system \<Rightarrow> AdmissionState \<Rightarrow> u64 \<Rightarrow> ManagedAdmissionRequestV1 \<Rightarrow> bool" where
  "pass_ready s st t r =
     (t < as_next_ticket st \<and> owns_entry st t r \<and> t \<notin> w_ticket ` set (ms_changed s)
      \<and> distinct (map w_ticket (ms_changed s))
      \<and> (\<forall>w \<in> set (ms_changed s). w_ticket w < as_next_ticket st \<and> owns_entry st (w_ticket w) (w_request w))
      \<and> ql_ticket ` set (as_queue st) \<subseteq> insert t (w_ticket ` set (ms_changed s))
      \<and> (\<forall>t'. next_admissible_ticket st = Some t' \<longrightarrow> t' \<noteq> t
           \<longrightarrow> (\<exists>w \<in> set (ms_changed s). w_ticket w = t' \<and> w_woken w)))"

lemma after_pass_waits:
  assumes "pass_ready s st t r" and "fair_pass st t r (None, notified, st')" and "entering_ok s"
  shows "system_ok (after_pass s t r (None, notified, st'))"
proof -
  let ?s = "s\<lparr>ms_state := st, ms_changed := \<lparr>w_ticket = t, w_request = r, w_woken = False\<rparr> # ms_changed s\<rparr>"
  have pass: "st' = st" "notified = False" "domain_ok st" "next_admissible_ticket st \<noteq> Some t"
    using assms(2) unfolding fair_pass_def prod.case by blast+
  have "waiters_ok ?s"
    using assms(1) by (simp add: pass_ready_def waiters_ok_def)
  moreover have "notified_ok ?s"
    using assms(1) pass(4) by (auto simp: pass_ready_def notified_ok_def)
  ultimately show ?thesis
    using assms(3) pass(1-3) by (simp add: after_pass_def after_lock_def system_ok_def entering_ok_def)
qed

lemma fair_passD:
  assumes "fair_pass st t r (x, notified, st')"
  shows "domain_ok st'" "as_next_ticket st' = as_next_ticket st"
    "x \<noteq> None \<Longrightarrow> t \<notin> ql_ticket ` set (as_queue st')"
    "t' \<noteq> t \<Longrightarrow> owns_entry st t' r' \<Longrightarrow> owns_entry st' t' r'"
    "\<not> notified \<Longrightarrow> next_admissible_ticket st' = next_admissible_ticket st"
    "\<not> notified \<Longrightarrow> next_admissible_ticket st \<noteq> Some t"
    "set (as_queue st') \<subseteq> set (as_queue st)"
    "bt_contains_key (as_fenced_parents st') p = bt_contains_key (as_fenced_parents st) p"
    "as_config st' = as_config st"
  using assms unfolding fair_pass_def prod.case by simp_all

lemma after_pass_returns:
  assumes "pass_ready s st t r" and "fair_pass st t r (Some x, notified, st')" and "entering_ok s"
  shows "system_ok (after_pass s t r (Some x, notified, st'))"
proof -
  note fair = fair_passD [OF assms(2)]
  have ready: "t \<notin> w_ticket ` set (ms_changed s)" "distinct (map w_ticket (ms_changed s))"
      "\<forall>w \<in> set (ms_changed s). w_ticket w < as_next_ticket st \<and> owns_entry st (w_ticket w) (w_request w)"
      "ql_ticket ` set (as_queue st) \<subseteq> insert t (w_ticket ` set (ms_changed s))"
      "\<And>t'. next_admissible_ticket st = Some t' \<Longrightarrow> t' \<noteq> t
         \<Longrightarrow> \<exists>w \<in> set (ms_changed s). w_ticket w = t' \<and> w_woken w"
    using assms(1) by (simp_all add: pass_ready_def)
  have "system_ok (s\<lparr>ms_state := st',
      ms_changed := (if notified then notify_all (ms_changed s) else ms_changed s)\<rparr>)"
  proof (rule settle_ok [OF fair(1) ready(2) _ _ _ assms(3)])
    show "\<forall>w \<in> set (ms_changed s). w_ticket w < as_next_ticket st' \<and> owns_entry st' (w_ticket w) (w_request w)"
      using ready(1,3) fair(2,4) by (metis imageI)
    show "ql_ticket ` set (as_queue st') \<subseteq> w_ticket ` set (ms_changed s)"
      using ready(4) fair(3) image_mono [OF fair(7), of ql_ticket] by blast
    show "\<forall>t. next_admissible_ticket st' = Some t \<longrightarrow> (\<exists>w \<in> set (ms_changed s). w_ticket w = t \<and> w_woken w)"
      if "\<not> notified"
      using ready(5) fair(5) [OF that] fair(6) [OF that] by metis
  qed
  then show ?thesis
    by (simp add: after_pass_def after_lock_def)
qed

lemma after_pass_ok:
  assumes "pass_ready s st t r" and "fair_pass st t r pass" and "entering_ok s"
  shows "system_ok (after_pass s t r pass)"
  using assms after_pass_waits after_pass_returns by (cases pass; cases "fst pass") auto

lemma find_waiter_Some:
  assumes "find_waiter t s = Some w"
  shows "w \<in> set (ms_changed s)" and "w_ticket w = t"
  using assms by (auto simp: find_waiter_def find_Some_iff)

lemma wake_ready:
  assumes "system_ok s" and "find_waiter t s = Some w"
  shows "pass_ready (s\<lparr>ms_changed := remove1 w (ms_changed s)\<rparr>) (ms_state s) t (w_request w)"
proof -
  note w = find_waiter_Some [OF assms(2)]
  have ok: "waiters_ok s" "notified_ok s" using assms(1) by (auto simp: system_ok_def)
  then have "distinct (ms_changed s)" "inj_on w_ticket (set (ms_changed s))"
    by (auto simp: waiters_ok_def distinct_map)
  then have rest: "set (remove1 w (ms_changed s)) = {v \<in> set (ms_changed s). w_ticket v \<noteq> t}"
    using w by (auto simp: inj_on_def)
  have "distinct (map w_ticket (remove1 w (ms_changed s)))"
    using ok(1) by (auto simp: waiters_ok_def distinct_map intro: inj_on_diff)
  moreover have "ql_ticket ` set (as_queue (ms_state s)) \<subseteq> insert t (w_ticket ` set (remove1 w (ms_changed s)))"
    using ok(1) unfolding rest waiters_ok_def by auto
  ultimately show ?thesis
    using ok w by (auto simp: pass_ready_def rest waiters_ok_def notified_ok_def)
qed

lemma push_owner:
  assumes "owns_entry st t r" and "t < as_next_ticket st"
  shows "owns_entry (push_queued st q) t r"
  using assms by (auto simp: owns_entry_def)

lemma enter_ready:
  assumes "system_ok s" and "saturating_add (as_next_ticket (ms_state s)) 1 \<noteq> - 1"
  shows "pass_ready (s\<lparr>ms_entering := rs\<rparr>) (push_queued (ms_state s) r) (as_next_ticket (ms_state s)) r"
proof -
  have less: "as_next_ticket (ms_state s) < saturating_add (as_next_ticket (ms_state s)) 1"
    using saturating_add_less [OF assms(2)] .
  have "owns_entry (push_queued (ms_state s) r) (as_next_ticket (ms_state s)) r"
    using assms(1) by (simp add: owns_pushed system_ok_def domain_ok_def)
  then show ?thesis
    using assms(1) less next_admissible_push [of "ms_state s" r]
    by (fastforce simp: pass_ready_def system_ok_def waiters_ok_def notified_ok_def push_owner)
qed

lemma try_fold_distinct:
  assumes "try_fold f seen xs = Ok seen'"
    and "\<And>seen x seen'. f seen x = Ok seen' \<Longrightarrow> g x \<notin> set seen \<and> seen' = g x # seen"
  shows "distinct (map g xs) \<and> set (map g xs) \<inter> set seen = {}"
  using assms(1)
proof (induction xs arbitrary: seen)
  case (Cons x xs)
  then obtain s1 where "f seen x = Ok s1" "try_fold f s1 xs = Ok seen'" by (auto simp: attempt_Ok_iff)
  then show ?case using Cons.IH [of s1] assms(2) [of seen x s1] by auto
qed simp

lemma validated_lanes:
  assumes "is_ok (validate_request st r)"
  shows "distinct (map lr_lane (mr_lanes r))"
proof -
  obtain seen where "try_fold (\<lambda>seen lane.
           if lr_units lane = 0 \<or> lr_lane lane \<in> set seen then Err (InvalidLane (lr_lane lane))
           else case bt_get (mc_lane_caps (as_config st)) (lr_lane lane) of
                  None \<Rightarrow> Err (MissingLane (lr_lane lane))
                | Some cap \<Rightarrow> if lr_units lane > cap then Err (Capacity cap)
                              else Ok (lr_lane lane # seen)) [] (mr_lanes r) = Ok seen"
    using assms by (auto simp: is_ok_iff validate_request_def attempt_Ok_iff if_Err_Ok_iff)
  then show ?thesis
    by (rule try_fold_distinct [THEN conjunct1]) (auto split: if_splits option.splits)
qed

lemma pass_ticket:
  "as_next_ticket (snd (snd (reserve_iteration st t r z))) = as_next_ticket st"
  "as_next_ticket (snd (snd (reserve_wakeup st t r timed z))) = as_next_ticket st"
  by (simp_all add: reserve_wakeup_def reserve_iteration_def split: option.split)

lemma after_pass_state [simp]: "ms_state (after_pass s t r pass) = snd (snd pass)"
  by (cases pass) (simp add: after_pass_def after_lock_def Let_def split: option.split)

lemma queue_without_new:
  assumes "tickets_ok st"
  shows "remove_queued (as_next_ticket st) (as_queue (push_queued st r)) = as_queue st"
  using assms by (auto simp: tickets_ok_def remove_queued_def intro!: filter_True)

lemma overfull_ok:
  assumes "system_ok s" and "enqueue_refusal (ms_state s) r = None" and "distinct (map lr_lane (mr_lanes r))"
    and "saturating_add (as_next_ticket (ms_state s)) 1 \<noteq> - 1" and "set rs \<subseteq> set (ms_entering s)"
  shows "system_ok (s\<lparr>ms_entering := rs,
    ms_state := give_up (as_next_ticket (ms_state s)) r (push_queued (ms_state s) r)\<rparr>)"
    (is "system_ok (_ \<lparr>ms_state := give_up ?t r ?push\<rparr>)")
proof -
  have ok: "domain_ok (ms_state s)" "waiters_ok s" "notified_ok s" "entering_ok s"
    using assms(1) by (simp_all add: system_ok_def)
  then have sound: "sound (ms_state s)" and tickets: "tickets_ok (ms_state s)"
    by (simp_all add: domain_ok_def sound_def)
  have queue: "as_queue (give_up ?t r ?push) = as_queue (ms_state s)"
    using queue_without_new [OF tickets] by simp
  have "domain_ok (give_up ?t r ?push)"
    using give_up_sound [OF push_sound [OF sound assms(2,4,3)] owns_pushed [OF sound]] ok(1) queue
    by (simp add: domain_ok_def fence_ok_def)
  moreover have "next_admissible_ticket (give_up ?t r ?push) = next_admissible_ticket (ms_state s)"
    by (rule next_admissible_cong [OF _ _ _ queue]) simp_all
  moreover have "?t < as_next_ticket (give_up ?t r ?push)"
    using saturating_add_less [OF assms(4)] by simp
  moreover have "owns_entry (give_up ?t r ?push) t q" if "owns_entry (ms_state s) t q" for t q
    using that unfolding owns_entry_def queue by simp
  ultimately show ?thesis
    using ok(2-4) assms(5)
    by (auto simp: system_ok_def waiters_ok_def notified_ok_def entering_ok_def queue simp del: give_up_same(3)
        intro: less_trans)
qed

lemma push_domain:
  assumes "system_ok s" and "r \<in> set (ms_entering s)" and "enqueue_refusal (ms_state s) r = None"
    and "length (as_queue (push_queued (ms_state s) r)) \<le> mc_max_queued (as_config (ms_state s))"
    and "saturating_add (as_next_ticket (ms_state s)) 1 \<noteq> - 1"
  shows "domain_ok (push_queued (ms_state s) r)"
proof -
  have ok: "domain_ok (ms_state s)" "entering_ok s" using assms(1) by (simp_all add: system_ok_def)
  then have "sound (push_queued (ms_state s) r)"
    using push_sound [OF _ assms(3,5)] assms(2) by (simp add: domain_ok_def entering_ok_def)
  then show ?thesis
    using ok(1) assms(4) enqueue_refusal_None(1) [OF assms(3)] by (auto simp: domain_ok_def fence_ok_def)
qed

lemma enter_ok:
  assumes "system_ok s" and "as_next_ticket (ms_state (managed_step s (ReserveEnter r z))) \<noteq> - 1"
  shows "system_ok (managed_step s (ReserveEnter r z))"
proof (cases "r \<in> set (ms_entering s)")
  case True
  let ?st = "ms_state s" and ?rs = "remove1 r (ms_entering s)"
  have ok: "domain_ok ?st" "entering_ok s" using assms(1) by (simp_all add: system_ok_def)
  have lanes: "distinct (map lr_lane (mr_lanes r))" using True ok(2) by (simp add: entering_ok_def)
  have rs: "set ?rs \<subseteq> set (ms_entering s)" by (rule set_remove1_subset)
  show ?thesis
  proof (cases "enqueue_refusal ?st r")
    case (Some e)
    then show ?thesis
      using assms(1) True rs
      by (auto simp: reserve_enqueue_def system_ok_def waiters_ok_def notified_ok_def entering_ok_def)
  next
    case None
    show ?thesis
    proof (cases "length (as_queue (push_queued ?st r)) > mc_max_queued (as_config ?st)")
      case True
      then show ?thesis
        using assms \<open>r \<in> set (ms_entering s)\<close> None overfull_ok [OF assms(1) None lanes _ rs]
        by (simp add: reserve_enqueue_def)
    next
      case False
      have pass: "managed_step s (ReserveEnter r z) = after_pass (s\<lparr>ms_entering := ?rs\<rparr>) (as_next_ticket ?st) r
          (reserve_iteration (push_queued ?st r) (as_next_ticket ?st) r z)"
        using True None False by (simp add: reserve_enqueue_def)
      then have ticket: "saturating_add (as_next_ticket ?st) 1 \<noteq> - 1"
        using assms(2) by (simp add: pass_ticket del: managed_step.simps)
      have "domain_ok (push_queued ?st r)"
        using push_domain [OF assms(1) True None _ ticket] False by simp
      then have "fair_pass (push_queued ?st r) (as_next_ticket ?st) r
          (reserve_iteration (push_queued ?st r) (as_next_ticket ?st) r z)"
        using ok(1) by (intro iteration_fair owns_pushed) (simp_all add: domain_ok_def)
      then show ?thesis
        unfolding pass
        by (rule after_pass_ok [OF enter_ready [OF assms(1) ticket]])
          (use ok(2) rs in \<open>auto simp: entering_ok_def\<close>)
    qed
  qed
qed (use assms in simp)

lemma wake_ok:
  assumes "system_ok s"
  shows "system_ok (managed_step s (ReserveWake t timed z))"
proof (cases "find_waiter t s")
  case (Some w)
  have ok: "domain_ok (ms_state s)" "entering_ok s" "waiters_ok s"
    using assms by (simp_all add: system_ok_def)
  then have "owns_entry (ms_state s) t (w_request w)"
    using find_waiter_Some [OF Some] by (auto simp: waiters_ok_def)
  then have "system_ok (after_pass (s\<lparr>ms_changed := remove1 w (ms_changed s)\<rparr>) t (w_request w)
      (reserve_wakeup (ms_state s) t (w_request w) timed z))"
    by (rule after_pass_ok [OF wake_ready [OF assms Some] wakeup_fair [OF ok(1)]])
      (use ok(2) in \<open>simp add: entering_ok_def\<close>)
  then show ?thesis using Some by simp
qed (use assms in simp)

lemma begin_ok:
  assumes "system_ok s"
  shows "system_ok (managed_step s (ReserveBegin r))"
  using assms validated_lanes [of "ms_state s" r]
  by (simp add: system_ok_def waiters_ok_def notified_ok_def entering_ok_def)

lemma managed_step_ok:
  assumes "system_ok s" and "as_next_ticket (ms_state (managed_step s c)) \<noteq> - 1"
  shows "system_ok (managed_step s c)"
proof (cases c)
  case (ReserveEnter r z)
  then show ?thesis using assms enter_ok by blast
next
  case (ReserveWake t timed z)
  then show ?thesis using assms wake_ok by blast
next
  case (ReserveBegin r)
  then show ?thesis using assms begin_ok by blast
qed (simp_all add: assms(1) reconfigure_op.step_ok set_ipc_op.step_ok open_op.step_ok close_op.step_ok
  provider_op.step_ok fence_op.step_ok move_op.step_ok release_op.step_ok reconcile_op.step_ok
  drop_op.step_ok charge_op.step_ok)

section \<open>Runs\<close>

lemma after_lock_state [simp]: "ms_state (after_lock s pass) = snd (snd pass)"
  by (cases pass) (simp add: after_lock_def)

context locked_operation begin

lemma step_ticket: "as_next_ticket (snd (snd (run st))) = as_next_ticket st"
  using keeps_ticket [of st] by (cases "run st") auto

lemma step_fences:
  "bt_contains_key (as_fenced_parents st) p \<Longrightarrow> bt_contains_key (as_fenced_parents (snd (snd (run st)))) p"
  using keeps_fences [of st] by (cases "run st") auto

lemma step_usage: "bt_contains_key (as_usage (snd (snd (run st)))) k = bt_contains_key (as_usage st) k"
  using keeps_usage [of st] by (cases "run st") auto

end

lemmas locked_tickets = reconfigure_op.step_ticket set_ipc_op.step_ticket open_op.step_ticket
  close_op.step_ticket provider_op.step_ticket fence_op.step_ticket move_op.step_ticket
  release_op.step_ticket reconcile_op.step_ticket drop_op.step_ticket charge_op.step_ticket

lemmas locked_fences = reconfigure_op.step_fences set_ipc_op.step_fences open_op.step_fences
  close_op.step_fences provider_op.step_fences fence_op.step_fences move_op.step_fences
  release_op.step_fences reconcile_op.step_fences drop_op.step_fences charge_op.step_fences

lemmas locked_usage = reconfigure_op.step_usage set_ipc_op.step_usage open_op.step_usage
  close_op.step_usage provider_op.step_usage fence_op.step_usage move_op.step_usage
  release_op.step_usage reconcile_op.step_usage drop_op.step_usage charge_op.step_usage

lemma pass_fences [simp]:
  "as_fenced_parents (snd (snd (reserve_iteration st t r z))) = as_fenced_parents st"
  "as_fenced_parents (snd (snd (reserve_wakeup st t r timed z))) = as_fenced_parents st"
  by (simp_all add: reserve_wakeup_def reserve_iteration_def split: option.split)

lemma enqueue_cases:
  obtains (refused) e where "reserve_enqueue st r = (Err e, st)"
  | (overfull) e where "enqueue_refusal st r = None"
      "reserve_enqueue st r = (Err e, give_up (as_next_ticket st) r (push_queued st r))"
  | (queued) "enqueue_refusal st r = None"
      "length (as_queue (push_queued st r)) \<le> mc_max_queued (as_config st)"
      "reserve_enqueue st r = (Ok (as_next_ticket st), push_queued st r)"
  by (cases "enqueue_refusal st r";
      cases "length (as_queue (push_queued st r)) > mc_max_queued (as_config (push_queued st r))")
    (simp_all add: reserve_enqueue_def Let_def)

lemma saturated_stays [simp]: "saturating_add (- 1) (1 :: 'w::len word) = - 1"
  by (simp add: saturating_add_def unsigned_minus_1_eq_mask mask_eq_exp_minus_1)

lemma managed_step_ticket:
  assumes "as_next_ticket (ms_state s) = - 1"
  shows "as_next_ticket (ms_state (managed_step s c)) = - 1"
proof (cases c)
  case (ReserveEnter r z)
  then show ?thesis
    using assms by (cases rule: enqueue_cases [of "ms_state s" r]) (simp_all add: pass_ticket)
qed (simp_all add: assms locked_tickets pass_ticket split: option.split)

lemma managed_step_fences:
  assumes "bt_contains_key (as_fenced_parents (ms_state s)) p"
  shows "bt_contains_key (as_fenced_parents (ms_state (managed_step s c))) p"
proof (cases c)
  case (ReserveEnter r z)
  then show ?thesis
    using assms by (cases rule: enqueue_cases [of "ms_state s" r]) simp_all
qed (simp_all add: assms locked_fences split: option.split)

abbreviation call_step :: "managed_system \<Rightarrow> ManagedCall \<Rightarrow> unit + managed_system" where
  "call_step s c \<equiv> Ok (managed_step s c)"

text \<open>All of it holds as long as the ticket counter has not saturated, that is for the first
  \<open>2\<^sup>6\<^sup>4 - 2\<close> submissions.\<close>

abbreviation tickets_left :: "managed_system \<Rightarrow> bool" where
  "tickets_left s \<equiv> as_next_ticket (ms_state s) \<noteq> - 1"

interpretation managed: guarded_machine call_step "\<lambda>s. tickets_left s \<longrightarrow> system_ok s"
  by unfold_locales (use managed_step_ok managed_step_ticket in blast)

interpretation fenced: stable_fact call_step "\<lambda>s. tickets_left s \<longrightarrow> system_ok s"
    "\<lambda>s. bt_contains_key (as_fenced_parents (ms_state s)) p" for p
  by unfold_locales (use managed_step_fences in blast)

lemma managed_run_exec: "managed_run config calls = exec call_step (managed_start config) calls"
proof -
  have "exec1 call_step = managed_step" by (simp add: fun_eq_iff exec1_def)
  then show ?thesis by (simp add: managed_run_def exec_def)
qed

lemma start_ok: "system_ok (managed_start config)"
  by (simp add: managed_start_def new_unchecked_def system_ok_def domain_ok_def sound_def sound_defs fence_ok_def
      waiters_ok_def notified_ok_def entering_ok_def next_admissible_ticket_def next_in_class_def
      bt_inv_empty)

lemma run_ok: "tickets_left (managed_run config calls) \<Longrightarrow> system_ok (managed_run config calls)"
  unfolding managed_run_exec using managed.exec_invar start_ok by blast

lemma fenced_child_refused:
  assumes "bt_contains_key (as_fenced_parents st) p" and "child_of p r"
  shows "enqueue_refusal st r = Some (ParentFenced p)"
  using assms by (simp add: enqueue_refusal_def Let_def)

text \<open>C15 After a parent has been fenced, whatever the threads do next, no leaf of that parent is queued
  or active again, and every new reservation for it is refused as fenced.\<close>

theorem fenced_parent_stays_fenced:
  assumes "s = managed_run config (before @ MarkDescendantsDraining p # after)" and "tickets_left s"
  shows "(\<forall>q \<in> set (as_queue (ms_state s)). mr_parent_operation_id (ql_request q) \<noteq> Some p)
    \<and> (\<forall>k l. bt_get (as_active (ms_state s)) k = Some l \<longrightarrow> mr_parent_operation_id (al_request l) \<noteq> Some p)
    \<and> (\<forall>r. mr_parent_operation_id r = Some p
         \<longrightarrow> reserve_enqueue (ms_state s) r = (Err (ParentFenced p), ms_state s))"
proof -
  let ?mid = "exec1 call_step (managed_run config before) (MarkDescendantsDraining p)"
  have "bt_contains_key (as_fenced_parents (ms_state ?mid)) p"
    by (simp add: exec1_def mark_descendants_draining_def Let_def drain_all cancel_all)
  moreover have "tickets_left ?mid \<longrightarrow> system_ok ?mid"
    using managed.exec_invar [of "managed_start config" "before @ [MarkDescendantsDraining p]"] start_ok
    by (simp add: exec_append managed_run_exec)
  ultimately have fenced: "bt_contains_key (as_fenced_parents (ms_state s)) p"
    using fenced.exec_fact [of ?mid p after] by (simp add: assms(1) managed_run_exec exec_append)
  have "fence_ok (ms_state s)"
    using run_ok assms by (auto simp: system_ok_def domain_ok_def)
  with fenced fenced_child_refused [OF fenced] show ?thesis
    by (auto simp: fence_ok_def reserve_enqueue_def)
qed

theorem fenced_parent_stays_fenced_witness:
  "as_active (ms_state (managed_run sample_config (sample_calls @ [MarkDescendantsDraining ''p'']))) = []
   \<and> fst (reserve_enqueue (ms_state (managed_run sample_config (sample_calls @ [MarkDescendantsDraining ''p''])))
        (sample_request ''c'')) = Err (ParentFenced ''p'')"
proof -
  let ?s = "managed_run sample_config (sample_calls @ [MarkDescendantsDraining ''p''])"
  have "tickets_left ?s" "as_active (ms_state ?s) = []"
    "mr_parent_operation_id (sample_request ''c'') = Some ''p''" by code_simp+
  then show ?thesis
    using fenced_parent_stays_fenced [of ?s sample_config sample_calls "''p''" "[]"] by simp
qed

lemma woken_turn_admitted:
  assumes "system_ok s" and "find_waiter t s = Some w" and "next_admissible_ticket (ms_state s) = Some t"
  shows "\<exists>st. reserve_wakeup (ms_state s) t (w_request w) timed z
    = (Some (Ok (mr_operation_id (w_request w))), True, st)"
proof -
  let ?find = "List.find (\<lambda>q. ql_ticket q = t) (as_queue (ms_state s))"
  obtain q where q: "q \<in> set (as_queue (ms_state s))" "ql_ticket q = t"
    using assms(3) by (rule next_admissible_Some)
  then obtain q' where q': "?find = Some q'" by (cases ?find) (auto simp: find_None_iff)
  then have "q' \<in> set (as_queue (ms_state s))" "ql_ticket q' = t" by (auto simp: find_Some_iff)
  moreover have "owns_entry (ms_state s) t (w_request w)"
    using assms(1) find_waiter_Some [OF assms(2)] by (auto simp: system_ok_def waiters_ok_def)
  ultimately have "ql_request q' = w_request w"
    by (auto simp: owns_entry_def split: if_splits)
  then show ?thesis
    using assms(3) q q' by (auto simp: reserve_wakeup_def reserve_iteration_def list_ex_iff)
qed

text \<open>C12 No wake-up is lost: in every state the threads can reach, when the policy grants some queued
  ticket the next slot, the thread that waits with that ticket has a notification pending, and
  its wake-up is admitted, whatever the clock says.\<close>

theorem no_lost_wakeup:
  assumes "s = managed_run config calls" and "tickets_left s"
    and "next_admissible_ticket (ms_state s) = Some t"
  shows "\<exists>w. find_waiter t s = Some w \<and> w_woken w
    \<and> (\<forall>timed_out remaining_zero. \<exists>st. reserve_wakeup (ms_state s) t (w_request w) timed_out remaining_zero
         = (Some (Ok (mr_operation_id (w_request w))), True, st))"
proof -
  have ok: "system_ok s" using run_ok assms(1,2) by simp
  then obtain w where w: "w \<in> set (ms_changed s)" "w_ticket w = t" "w_woken w"
    using assms(3) by (auto simp: system_ok_def notified_ok_def)
  then obtain v where v: "find_waiter t s = Some v"
    by (cases "find_waiter t s") (auto simp: find_waiter_def find_None_iff)
  have "inj_on w_ticket (set (ms_changed s))"
    using ok by (simp add: system_ok_def waiters_ok_def distinct_map)
  then have "v = w" using w find_waiter_Some [OF v] by (auto simp: inj_on_def)
  then show ?thesis
    using v w woken_turn_admitted [OF ok v assms(3)] by blast
qed

theorem no_lost_wakeup_witness:
  "\<exists>w. find_waiter 2 (managed_run sample_config (sample_calls @ [ReleaseActive ''a''])) = Some w \<and> w_woken w"
proof -
  let ?s = "managed_run sample_config (sample_calls @ [ReleaseActive ''a''])"
  have "tickets_left ?s" "next_admissible_ticket (ms_state ?s) = Some 2" by code_simp+
  then show ?thesis
    using no_lost_wakeup [of ?s sample_config "sample_calls @ [ReleaseActive ''a'']" 2] by blast
qed

end
