(* ===== verification/ManagedLimits.thy ===== *)
theory ManagedLimits
  imports ManagedRun
begin

text \<open>
  What the managed admission domain guarantees to the operator and to a scope: physical capacity and
  byte reservations over every interleaving and reconfiguration, a single admission per identity,
  and cumulative budgets.
\<close>

section \<open>Reservations held\<close>



definition request_units :: "string \<Rightarrow> ManagedAdmissionRequestV1 \<Rightarrow> nat" where
  "request_units l r = sum_list (map lr_units (filter (\<lambda>x. lr_lane x = l) (mr_lanes r)))"

definition lane_cap :: "ManagedAdmissionConfigV1 \<Rightarrow> string \<Rightarrow> nat" where
  "lane_cap c l = (case bt_get (mc_lane_caps c) l of None \<Rightarrow> 0 | Some cap \<Rightarrow> cap)"


definition narrower :: "ManagedAdmissionConfigV1 \<Rightarrow> ManagedAdmissionConfigV1 \<Rightarrow> bool" where
  "narrower c lim =
     (mc_global_max_active c \<le> mc_global_max_active lim
      \<and> (\<forall>l. lane_cap c l \<le> lane_cap lim l)
      \<and> mc_max_materialized_context_bytes c \<le> mc_max_materialized_context_bytes lim
      \<and> mc_max_reserved_artifact_bytes c \<le> mc_max_reserved_artifact_bytes lim)"






















section \<open>Capacity\<close>

lemma unat_saturating_add:
  "unat (saturating_add a b) = min (unat a + unat b) (2 ^ LENGTH('w) - 1)" for a b :: "'w::len word"
  by (auto simp: saturating_add_def unat_word_ariths unsigned_minus_1_eq_mask mask_eq_exp_minus_1)













lemma pass_config [simp]:
  "as_config (snd (snd (reserve_iteration st t r z))) = as_config st"
  "as_config (snd (snd (reserve_wakeup st t r timed z))) = as_config st"
  by (simp_all add: reserve_wakeup_def reserve_iteration_def split: option.split)




lemma narrower_queued [simp]: "narrower (c\<lparr>mc_max_queued := n\<rparr>) lim = narrower c lim"
  by (simp add: narrower_def lane_cap_def)






section \<open>One admission per identity\<close>

text \<open>The operation whose reservation a call grants, if it grants one.\<close>

definition pass_grant :: "(ManagedAdmissionError + string) option \<times> bool \<times> AdmissionState \<Rightarrow> string option" where
  "pass_grant pass = (case fst pass of Some (Ok k) \<Rightarrow> Some k | _ \<Rightarrow> None)"

fun granted :: "managed_system \<Rightarrow> ManagedCall \<Rightarrow> string option" where
  "granted s (ReserveEnter r z) =
     (if r \<notin> set (ms_entering s) then None
      else case reserve_enqueue (ms_state s) r of
             (Err _, _) \<Rightarrow> None
           | (Ok t, st) \<Rightarrow> pass_grant (reserve_iteration st t r z))"
| "granted s (ReserveWake t timed_out z) =
     (case find_waiter t s of
        None \<Rightarrow> None
      | Some w \<Rightarrow> pass_grant (reserve_wakeup (ms_state s) t (w_request w) timed_out z))"
| "granted s _ = None"

fun grants :: "managed_system \<Rightarrow> ManagedCall list \<Rightarrow> string list" where
  "grants s [] = []"
| "grants s (c # cs) =
     (case granted s c of None \<Rightarrow> [] | Some k \<Rightarrow> [k]) @ grants (managed_step s c) cs"

lemma iteration_usage:
  assumes "domain_ok st"
  shows "pass_grant (reserve_iteration st t r z) = Some k
      \<Longrightarrow> \<not> bt_contains_key (as_usage st) k
        \<and> bt_contains_key (as_usage (snd (snd (reserve_iteration st t r z)))) k"
    and "bt_contains_key (as_usage st) k
      \<Longrightarrow> bt_contains_key (as_usage (snd (snd (reserve_iteration st t r z)))) k"
proof -
  have fresh: "\<not> bt_contains_key (as_usage st) (mr_operation_id (ql_request q))"
    if "List.find (\<lambda>q. ql_ticket q = t) (as_queue st) = Some q" for q
    using that assms by (auto simp: find_Some_iff domain_ok_def sound_def ids_ok_def queue_ids_def)
  show "pass_grant (reserve_iteration st t r z) = Some k
      \<Longrightarrow> \<not> bt_contains_key (as_usage st) k
        \<and> bt_contains_key (as_usage (snd (snd (reserve_iteration st t r z)))) k"
    using fresh by (auto simp: reserve_iteration_def pass_grant_def admit_queued_def Let_def
        split: if_splits option.splits)
  show "bt_contains_key (as_usage st) k
      \<Longrightarrow> bt_contains_key (as_usage (snd (snd (reserve_iteration st t r z)))) k"
    by (simp add: reserve_iteration_def admit_queued_def Let_def split: option.split)
qed

lemma wakeup_usage:
  assumes "domain_ok st"
  shows "pass_grant (reserve_wakeup st t r timed z) = Some k
      \<Longrightarrow> \<not> bt_contains_key (as_usage st) k
        \<and> bt_contains_key (as_usage (snd (snd (reserve_wakeup st t r timed z)))) k"
    and "bt_contains_key (as_usage st) k
      \<Longrightarrow> bt_contains_key (as_usage (snd (snd (reserve_wakeup st t r timed z)))) k"
  using iteration_usage [OF assms] by (auto simp: reserve_wakeup_def pass_grant_def split: if_splits)

lemma enter_usage:
  assumes "system_ok s" and "tickets_left (managed_step s (ReserveEnter r z))"
  shows "(granted s (ReserveEnter r z) = Some k
      \<longrightarrow> \<not> bt_contains_key (as_usage (ms_state s)) k
        \<and> bt_contains_key (as_usage (ms_state (managed_step s (ReserveEnter r z)))) k)
    \<and> (bt_contains_key (as_usage (ms_state s)) k
      \<longrightarrow> bt_contains_key (as_usage (ms_state (managed_step s (ReserveEnter r z)))) k)"
proof (cases rule: enqueue_cases [of "ms_state s" r])
  case queued
  have "domain_ok (push_queued (ms_state s) r)" if "r \<in> set (ms_entering s)"
  proof (rule push_domain [OF assms(1) that queued(1,2)])
    show "saturating_add (as_next_ticket (ms_state s)) 1 \<noteq> - 1"
      using assms(2) queued(3) that by (simp add: pass_ticket)
  qed
  then show ?thesis
    using queued(3) iteration_usage [of "push_queued (ms_state s) r"] by (auto split: if_splits)
qed auto

lemma managed_step_usage:
  assumes "system_ok s" and "tickets_left (managed_step s c)"
  shows "granted s c = Some k
      \<Longrightarrow> \<not> bt_contains_key (as_usage (ms_state s)) k
        \<and> bt_contains_key (as_usage (ms_state (managed_step s c))) k"
    and "bt_contains_key (as_usage (ms_state s)) k
      \<Longrightarrow> bt_contains_key (as_usage (ms_state (managed_step s c))) k"
proof -
  have dom: "domain_ok (ms_state s)" using assms(1) by (simp add: system_ok_def)
  show "granted s c = Some k
      \<Longrightarrow> \<not> bt_contains_key (as_usage (ms_state s)) k
        \<and> bt_contains_key (as_usage (ms_state (managed_step s c))) k"
    using assms enter_usage wakeup_usage(1) [OF dom] by (cases c) (auto split: option.splits)
  show "bt_contains_key (as_usage (ms_state s)) k
      \<Longrightarrow> bt_contains_key (as_usage (ms_state (managed_step s c))) k"
    using assms enter_usage wakeup_usage(2) [OF dom]
    by (cases c) (auto simp: locked_usage split: option.splits)
qed

lemma grants_distinct:
  assumes "system_ok s" and "tickets_left (foldl managed_step s calls)"
  shows "distinct (grants s calls) \<and> (\<forall>k \<in> set (grants s calls). \<not> bt_contains_key (as_usage (ms_state s)) k)"
  using assms
proof (induction calls arbitrary: s)
  case (Cons c calls)
  have keep: "\<not> tickets_left t \<Longrightarrow> \<not> tickets_left (foldl managed_step t cs)" for t cs
    by (induction cs arbitrary: t) (auto simp: managed_step_ticket)
  have left: "tickets_left (managed_step s c)" using Cons.prems(2) keep by auto
  note IH = Cons.IH [OF managed_step_ok [OF Cons.prems(1) left]]
  show ?case
    using IH Cons.prems(2) managed_step_usage [OF Cons.prems(1) left]
    by (auto split: option.splits)
qed simp

text \<open>C14 An operation identity is granted a reservation at most once in the life of a domain: neither its
  release, nor a cancellation, nor a failed or repeated submission makes it admissible again.\<close>

theorem identity_admitted_once:
  assumes "tickets_left (managed_run config calls)"
  shows "distinct (grants (managed_start config) calls)"
  using grants_distinct [OF start_ok] assms by (simp add: managed_run_def)

theorem identity_admitted_once_witness:
  "distinct (grants (managed_start sample_config)
     (sample_calls @ [ReleaseActive ''a'', ReserveWake 2 False False, ReserveBegin (sample_request ''a''),
        ReserveEnter (sample_request ''a'') False]))
   \<and> grants (managed_start sample_config)
     (sample_calls @ [ReleaseActive ''a'', ReserveWake 2 False False, ReserveBegin (sample_request ''a''),
        ReserveEnter (sample_request ''a'') False]) = [''a'', ''b'']"
  (is "distinct (grants _ ?calls) \<and> _")
proof
  have "tickets_left (managed_run sample_config ?calls)" by code_simp
  then show "distinct (grants (managed_start sample_config) ?calls)" by (rule identity_admitted_once)
  show "grants (managed_start sample_config) ?calls = [''a'', ''b'']" by code_simp
qed

section \<open>Budgets\<close>

definition usage_amounts :: "ManagedUsageV1 \<Rightarrow> nat list" where
  "usage_amounts u = map unat
     [mu_attempts u, mu_wall_time_ms u, mu_tokens u, mu_cost_microunits u, mu_artifact_bytes u,
      mu_context_bytes u]"

definition budget_amounts :: "ManagedBudgetV1 \<Rightarrow> nat list" where
  "budget_amounts b = map unat
     [mb_max_attempts b, mb_max_wall_time_ms b, mb_max_tokens b, mb_max_cost_microunits b,
      mb_max_artifact_bytes b, mb_max_context_bytes b]"

text \<open>What the operations of a scope have been charged in one of the six dimensions, without the
  saturation.\<close>

definition scope_total :: "string \<Rightarrow> AdmissionState \<Rightarrow> nat \<Rightarrow> nat" where
  "scope_total scope st i =
     (\<Sum>r\<leftarrow>filter (\<lambda>r. ur_scope_id r = scope) (bt_values (as_usage st)). usage_amounts (ur_usage r) ! i)"

lemma less6: "i < 6 \<longleftrightarrow> i = 0 \<or> i = 1 \<or> i = 2 \<or> i = 3 \<or> i = 4 \<or> i = 5" for i :: nat
  by auto

lemma usage_amounts_add:
  "i < 6 \<Longrightarrow> usage_amounts (usage_add u d) ! i = min (usage_amounts u ! i + usage_amounts d ! i) (2 ^ 64 - 1)"
  by (elim less6 [THEN iffD1, elim_format] disjE)
    (simp_all add: usage_amounts_def usage_add_def unat_saturating_add)

lemma unat_u64_bound: "unat a \<le> 2 ^ 64 - 1" for a :: u64
  using unsigned_less [of a, where 'a = nat] by simp

lemma usage_amounts_bound: "i < 6 \<Longrightarrow> usage_amounts u ! i \<le> 2 ^ 64 - 1"
  using unat_u64_bound by (elim less6 [THEN iffD1, elim_format] disjE) (simp_all add: usage_amounts_def)

lemma scope_usage_amounts:
  assumes "i < 6"
  shows "usage_amounts (scope_usage scope st) ! i = min (scope_total scope st i) (2 ^ 64 - 1)"
proof -
  have "usage_amounts (foldl (\<lambda>total r. usage_add total (ur_usage r)) u rs) ! i
      = min (usage_amounts u ! i + (\<Sum>r\<leftarrow>rs. usage_amounts (ur_usage r) ! i)) (2 ^ 64 - 1)"
    for u :: ManagedUsageV1 and rs :: "UsageRecord list"
  proof (induction rs arbitrary: u)
    case Nil
    then show ?case using usage_amounts_bound [OF assms, of u] by simp
  next
    case (Cons r rs)
    then show ?case
      using usage_amounts_add [OF assms, of u "ur_usage r"]
      by (simp only: foldl.simps list.map sum_list.Cons)
  qed
  moreover have "usage_amounts ManagedUsage_default ! i = 0"
    using assms unfolding less6 by (auto simp: usage_amounts_def)
  ultimately show ?thesis
    by (simp add: scope_usage_def scope_total_def)
qed

lemma not_exceeded:
  "exceeded u b = None \<longleftrightarrow> (\<forall>i < 6. usage_amounts u ! i \<le> budget_amounts b ! i)"
  unfolding less6
  by (auto simp: exceeded_def usage_amounts_def budget_amounts_def word_le_nat_alt word_less_nat_alt not_less)

lemma charge_not_poisoned:
  assumes "domain_ok st"
  shows "fst (charge i d st) \<noteq> Err StatePoisoned"
    and "contains_active i st \<Longrightarrow> \<exists>u. bt_get (as_usage st) i = Some u
      \<and> snd (snd (charge i d st))
         = st\<lparr>as_usage := bt_insert i (u\<lparr>ur_usage := usage_add (ur_usage u) d\<rparr>) (as_usage st)\<rparr>"
proof -
  have "\<exists>u b. bt_get (as_usage st) i = Some u \<and> bt_get (as_scope_budgets st) (ur_scope_id u) = Some b"
    if "bt_contains_key (as_active st) i \<or> bt_contains_key (as_draining st) i"
  proof -
    have "bt_contains_key (as_usage st) i"
      using assms that by (auto simp: domain_ok_def sound_def ids_ok_def)
    then obtain u where u: "bt_get (as_usage st) i = Some u"
      by (auto simp: bt_contains_key_def)
    moreover have "bt_contains_key (as_scope_budgets st) (ur_scope_id u)"
      using assms u unfolding domain_ok_def sound_def scopes_ok_def by (metis option.map(2))
    ultimately show ?thesis by (auto simp: bt_contains_key_def)
  qed
  then show "fst (charge i d st) \<noteq> Err StatePoisoned"
    and "contains_active i st \<Longrightarrow> \<exists>u. bt_get (as_usage st) i = Some u
      \<and> snd (snd (charge i d st))
         = st\<lparr>as_usage := bt_insert i (u\<lparr>ur_usage := usage_add (ur_usage u) d\<rparr>) (as_usage st)\<rparr>"
    by (auto simp: charge_def Let_def contains_active_def split: option.split)
qed

lemma charge_Ok:
  assumes "charge i d st = (Ok v, notified, st')"
  obtains u b where "bt_get (as_usage st') i = Some u" and "ur_usage u = v"
    and "bt_get (as_scope_budgets st') (ur_scope_id u) = Some b"
    and "exceeded (scope_usage (ur_scope_id u) st') b = None"
  using assms by (auto simp: charge_def Let_def split: if_splits option.splits)

text \<open>C16 In every state the threads can reach, a charge to an active or draining operation is recorded
  whether or not it is allowed, never finds the domain's records inconsistent, and succeeds only
  when everything charged to the scope so far, this charge included, is within the scope's budget
  in each of the six dimensions.\<close>

theorem charge_enforces_scope_budget:
  assumes "st = ms_state (managed_run config calls)" and "as_next_ticket st \<noteq> - 1"
    and "charge operation delta st = (result, notified, st')"
  shows "result \<noteq> Err StatePoisoned
    \<and> (contains_active operation st \<longrightarrow> (\<exists>u. bt_get (as_usage st) operation = Some u
         \<and> bt_get (as_usage st') operation = Some (u\<lparr>ur_usage := usage_add (ur_usage u) delta\<rparr>)))
    \<and> (\<forall>v. result = Ok v \<longrightarrow> (\<exists>u b. bt_get (as_usage st') operation = Some u \<and> ur_usage u = v
         \<and> bt_get (as_scope_budgets st') (ur_scope_id u) = Some b
         \<and> (\<forall>i < 6. min (scope_total (ur_scope_id u) st' i) (2 ^ 64 - 1) \<le> budget_amounts b ! i)))"
proof -
  have dom: "domain_ok st" using run_ok [of config calls] assms(1,2) by (simp add: system_ok_def)
  have "\<exists>u. bt_get (as_usage st) operation = Some u
      \<and> bt_get (as_usage st') operation = Some (u\<lparr>ur_usage := usage_add (ur_usage u) delta\<rparr>)"
    if "contains_active operation st"
    using charge_not_poisoned(2) [OF dom that, of delta] by (auto simp: assms(3))
  moreover have "result \<noteq> Err StatePoisoned"
    using charge_not_poisoned(1) [OF dom, of operation delta] by (simp add: assms(3))
  moreover have "\<exists>u b. bt_get (as_usage st') operation = Some u \<and> ur_usage u = v
      \<and> bt_get (as_scope_budgets st') (ur_scope_id u) = Some b
      \<and> (\<forall>i < 6. min (scope_total (ur_scope_id u) st' i) (2 ^ 64 - 1) \<le> budget_amounts b ! i)"
    if "result = Ok v" for v
  proof -
    obtain u b where "bt_get (as_usage st') operation = Some u" "ur_usage u = v"
        "bt_get (as_scope_budgets st') (ur_scope_id u) = Some b"
        "exceeded (scope_usage (ur_scope_id u) st') b = None"
      using assms(3) unfolding \<open>result = Ok v\<close> by (rule charge_Ok)
    then show ?thesis
      using scope_usage_amounts [of _ "ur_scope_id u" st'] unfolding not_exceeded by metis
  qed
  ultimately show ?thesis by blast
qed

theorem charge_enforces_scope_budget_witness:
  "contains_active ''a'' (ms_state (managed_run sample_config sample_calls))
   \<and> fst (charge ''a'' \<lparr>mu_attempts = 2, mu_wall_time_ms = 0, mu_tokens = 0, mu_cost_microunits = 0,
         mu_artifact_bytes = 0, mu_context_bytes = 0\<rparr> (ms_state (managed_run sample_config sample_calls)))
       = Err (BudgetExceeded ''attempts'')
   \<and> (\<exists>u. bt_get (as_usage (snd (snd (charge ''a'' \<lparr>mu_attempts = 2, mu_wall_time_ms = 0, mu_tokens = 0,
         mu_cost_microunits = 0, mu_artifact_bytes = 0, mu_context_bytes = 0\<rparr>
         (ms_state (managed_run sample_config sample_calls)))))) ''a'' = Some u)"
  (is "contains_active _ ?st \<and> fst (charge _ ?d _) = _ \<and> _")
proof -
  have "contains_active ''a'' ?st" "as_next_ticket ?st \<noteq> - 1"
    "fst (charge ''a'' ?d ?st) = Err (BudgetExceeded ''attempts'')" by code_simp+
  moreover have "charge ''a'' ?d ?st
      = (fst (charge ''a'' ?d ?st), fst (snd (charge ''a'' ?d ?st)), snd (snd (charge ''a'' ?d ?st)))" by simp
  ultimately show ?thesis
    using charge_enforces_scope_budget [OF refl, of sample_config sample_calls "''a''" ?d] by blast
qed

section \<open>Snapshot\<close>

lemma lane_units_fold:
  "(case bt_get (foldl lane_units_add m lanes) l of None \<Rightarrow> 0 | Some n \<Rightarrow> n)
     = (case bt_get m l of None \<Rightarrow> 0 | Some n \<Rightarrow> n)
       + sum_list (map lr_units (filter (\<lambda>x. lr_lane x = l) lanes))"
  by (induction lanes arbitrary: m) (auto split: option.splits)

text \<open>The snapshot reports for every lane the units that are really held, and as selected exactly the
  identities that are queued, active or draining.\<close>

lemma snapshot_lane_units:
  "(case bt_get (sn_lane_active_units (snapshot st)) l of None \<Rightarrow> 0 | Some n \<Rightarrow> n)
     = (\<Sum>leaf\<leftarrow>leaves st. request_units l (al_request leaf))"
proof -
  have "(\<Sum>leaf\<leftarrow>ls. request_units l (al_request leaf))
      = sum_list (map lr_units (filter (\<lambda>x. lr_lane x = l) (concat (map (mr_lanes \<circ> al_request) ls))))"
    for ls :: "ActiveLeaf list"
    by (induction ls) (simp_all add: request_units_def)
  then show ?thesis
    unfolding snapshot_def Let_def by (simp add: lane_units_fold del: concat_append map_append)
qed

lemma snapshot_selected:
  assumes "system_ok s"
  shows "set (sn_selected (snapshot (ms_state s)))
    = set (sn_queued (snapshot (ms_state s))) \<union> set (sn_active (snapshot (ms_state s)))
      \<union> set (sn_draining (snapshot (ms_state s)))"
proof -
  have "bt_contains_key (as_selected (ms_state s)) k \<longleftrightarrow> k \<in> set (queue_ids (ms_state s))
      \<or> bt_contains_key (as_active (ms_state s)) k \<or> bt_contains_key (as_draining (ms_state s)) k" for k
    using assms by (simp add: system_ok_def domain_ok_def sound_def ids_ok_def)
  then show ?thesis
    by (simp add: snapshot_def Let_def bt_keys_def bt_contains_key_iff queue_ids_def set_eq_iff)
qed

text \<open>Its totals are plain sums: two operations that have been charged \<open>u64::MAX\<close> tokens, which
  \<open>charge\<close> records by saturation, are reported as \<open>u64::MAX - 1\<close> tokens together.\<close>

definition spend_all :: UsageDelta where
  "spend_all = ManagedUsage_default\<lparr>mu_tokens := - 1\<rparr>"

lemma snapshot_total_wraps:
  "map (mu_tokens \<circ> ur_usage) (bt_values (as_usage (ms_state (managed_run sample_config
       (sample_calls @ [Charge ''a'' spend_all, ReleaseActive ''a'', ReserveWake 2 False False,
          Charge ''b'' spend_all]))))) = [- 1, - 1]
   \<and> sn_total_tokens (snapshot (ms_state (managed_run sample_config
       (sample_calls @ [Charge ''a'' spend_all, ReleaseActive ''a'', ReserveWake 2 False False,
          Charge ''b'' spend_all])))) = - 2"
  by code_simp

text \<open>Only direct children are fenced: the leaf of a child of a fenced parent's leaf stays active.\<close>

lemma grandchild_stays_active:
  "bt_keys (as_active (ms_state (managed_run
     (sample_config\<lparr>mc_global_max_active := 2, mc_lane_caps := [(PROVIDER_LANE, 2)]\<rparr>)
     (let grandchild = (sample_request ''b'')\<lparr>mr_parent_operation_id := Some ''a''\<rparr>
      in [ReserveBegin (sample_request ''a''), ReserveEnter (sample_request ''a'') False,
          ReserveBegin grandchild, ReserveEnter grandchild False, MarkDescendantsDraining ''p''])))) = [''b'']"
  by code_simp

end
