(* ===== verification/Spec2Isabelle.thy ===== *)
theory Spec2Isabelle
  imports Lifecycle Scheduler Ingress Events Operation Egress NormalChat Permits Admission Family PermitStore
    PermitLife Delegation Artifacts Continuity Ledger Verify ManagedLimits
begin

text \<open>
  Verification library of the recursive-agent runtime (\<open>src/crates\<close>).

  \<^bold>\<open>The program.\<close>  A client submits a run specification or a native operation envelope
  (\<open>recursive-agent-contracts\<close>).  The runner admits it, takes a lease from the scheduler store and a
  reservation from the managed admission domain (\<open>recursive-agent-runner\<close>), and asks the policy
  stores (\<open>recursive-agent-policy\<close>) for single-use permits before every effect.  What happened is written
  as receipts to a hash-chained log beside a content-addressed artifact store
  (\<open>recursive-agent-ledger\<close>), and a finished run is verified from these files alone.

  \<^bold>\<open>Theories.\<close>  The order is that of the imports.

  \<^item> \<open>Prelude\<close>: results, checked words, strings, paths.  \<open>Machine\<close>: the interfaces, as locales: ordered maps
    (\<open>btree_map\<close>), stores with an invariant (\<open>guarded_machine\<close>, \<open>stable_fact\<close>) and refinement of a store's
    parts by an abstract machine (\<open>simulation\<close>).  \<open>Json\<close>: JSON values and the derived codecs.
    \<open>Samples\<close>: concrete values for the instances of the theorems.
  \<^item> \<open>Contracts\<close>, \<open>Ingress\<close>, \<open>Lifecycle\<close>, \<open>Events\<close>: \<open>contracts/src/lib.rs\<close> and \<open>event.rs\<close>.  Identifiers and
    receipts; \<open>parse_run_spec_bytes\<close> and its limits; \<open>validate_receipt_sequence\<close>, one definition per receipt
    kind; the event projection.  An accepted sequence is a word of the step protocol, success is
    earned by consumed permits, admitted shell calls are confined, and projections of a growing log only
    grow.
  \<^item> \<open>Operation\<close>, \<open>Egress\<close>, \<open>NormalChat\<close>: \<open>contracts/src/operation.rs\<close>, \<open>egress.rs\<close>,
    \<open>provider_egress_operation.rs\<close>, \<open>native_operation.rs\<close>, \<open>normal_chat_operation.rs\<close>.  The three operation
    families with their encodings, validation, ingress and identities: an identity binds its
    content up to an exhibited collision of the digest, and declared effects are exact.
  \<^item> \<open>Permits\<close>, \<open>Delegation\<close>: the pure part of \<open>policy/src/lib.rs\<close>: bindings, ceilings, evidence, dispatch and
    delegation checks.  A dispatch is the permitted one and nothing else, delegation attenuates in
    every dimension and ends.
  \<^item> \<open>Admission\<close>: provider-egress and normal-chat admission against the injected verifiers, and the attempt
    families of normal chat.  Rechecking a normal-chat admission never extends it.
  \<^item> \<open>Family\<close>: \<open>FamilyAuthorityStore\<close>; the children of a family never exceed its grant, reservations are
    durable before they are acknowledged, revocation is final.
  \<^item> \<open>PermitStore\<close>, \<open>PermitLife\<close>: \<open>DurablePermitStore\<close> over an explicit directory.  Each operation moves each
    permit file along the abstract machine \<open>record_step\<close>, wherever the operation fails or is
    interrupted; single use, write-once receipts and conservation of allocations follow.
  \<^item> \<open>Scheduler\<close>: \<open>runner/src/scheduler.rs\<close>; every change of the store and its publication by several
    processes.  A grant that was transferred stays fenced, a stopped operation is inert, and no sequence of
    calls leaves a file that the next call cannot read.
  \<^item> \<open>Managed\<close>, \<open>ManagedRun\<close>, \<open>ManagedLimits\<close>: \<open>runner/src/managed_admission.rs\<close>.  The operations behind the
    mutex; the interleavings of threads, with the condition variable's wait set; capacity, identities
    and budgets over every interleaving.  The locale \<open>locked_operation\<close> is what an operation promises the
    waiting threads, \<open>releasing_operation\<close> that it adds no reservation; both are interpreted on each
    operation.
  \<^item> \<open>Artifacts\<close>, \<open>Continuity\<close>, \<open>Ledger\<close>, \<open>Verify\<close>: \<open>ledger/src/lib.rs\<close>.  The artifact store; the replay of a log
    against permit evidence; the chained log with torn-tail recovery and every interruption point of
    append; verification of a run directory.  A torn append recovers to exactly the old log or the old log
    and the whole record, and the chain head commits to the log.  This theory joins them: a run that passes strict
    verification holds only authorised effects.

  \<^bold>\<open>State, errors and effects.\<close>  Structures are records and enumerations are datatypes, with the
  source's constructors; where two enumerations share a constructor name it carries a prefix.
  Results are sums with the error on the left, and every early return is a branch.  A durable store
  is an explicit disk; what the operating system answers during one call (locks, reads, the stage at
  which a write fails) is a record passed to the operation, so a theorem that quantifies over it
  speaks about every failure and interruption point.  A store shared by processes or threads is a
  sequence of calls, each atomic where the code holds its lock.

  \<^bold>\<open>Code outside the repository\<close> is a parameter: canonical JSON, digests, identifier construction,
  strict parsing and instants are the record \<open>env\<close>; typed decoders and the artifact hash are
  \<open>ledger_codec\<close>; the policy verifiers are arguments.  Theorems that need one of them to behave name it as
  a hypothesis, discharged at a concrete instance in the theorem's \<open>_witness\<close>.  Digests are never assumed
  to be injective: the theorems exhibit the collision instead.  A stored file of the scheduler and of the family
  authority is the value whose JSON text is on disk; that the JSON library reads back what it wrote is
  part of this reading.

  \<^bold>\<open>Bounds.\<close>  Loops are structural recursion over the data they read; the one loop over a reader,
  \<open>hash_stream\<close>, has a termination proof, and \<open>is_blank\<close> has the length of the string as fuel,
  of which every step uses up at least one byte.  \<open>u64\<close> and \<open>u32\<close> are words; \<open>usize\<close> lengths and
  counts are natural numbers, which the enforced caps keep below \<open>2\<^sup>6\<^sup>4\<close>.  The theorems on
  managed admission hold until its ticket counter saturates at \<open>2\<^sup>6\<^sup>4 - 1\<close>.

  \<^bold>\<open>What modelling showed.\<close>  \<open>interrupted_put_blocks_retry\<close>: bytes stored without their sidecar make every
  later \<open>put\<close> of them fail.  \<open>reused_owner_is_not_verified\<close>: only the first descriptor under an owner is
  compared with the store.  \<open>append_outgrows_bound\<close>: append may take the log past the size its reader
  accepts.  \<open>grandchild_budget_may_exceed_parent\<close>: a family bounds descendants together, not by
  their parent.  \<open>snapshot_total_wraps\<close>: totals of the admission snapshot are unchecked sums.
  \<open>grandchild_stays_active\<close>: a cancelled parent fences its direct children only.

  \<^bold>\<open>Not modelled.\<close>  Run packs, the pack vault and the walk along child links copy or traverse several
  directory trees; the model's unit is one run directory.  The context authority beside its legacy
  refusal is a second store with its own format, which the permit store reads as an answer of the file
  system; the policy approvals are used by none of the modelled code.  Opening of the scheduler store,
  and lock poisoning by a thread that panics, are left out.  The runner, the runtime service and
  autonomous families drive the modelled stores through threads, clocks, injected executors and
  floating-point scores.  Sandbox, provider client, daemon, command line, memory, skills and MCP
  adapters consist of effects of the kernel, the network, a database or a subprocess.
\<close>

section \<open>Properties across components\<close>

text \<open>C11 What a successful verification establishes.  When strict verification of a run directory for an
  expected run succeeds, the log it leaves scans, and the reported head and length are those of the
  log.  Its receipts belong to the expected run, begin with \<open>RunStarted\<close>, end with \<open>RunFinalized\<close>, and
  the reported terminal state is the one the last receipt carries.  Every owner identifier a receipt
  references was compared with the artifact store.  Every receipt that stores an artifact or completes
  a step was authorised by a consumed effect permit under a control permit that was live at the time.\<close>

theorem verified_run_is_authorised:
  assumes "verify_expected_run_from_dir_fd E C IO run root = (Ok v, root')"
  shows "\<exists>scan dir. scan_complete_bytes E C (log_content root') = Ok scan \<and> rr_artifacts root' = Some dir
    \<and> cv_final_head v = ls_head scan \<and> cv_length v = of_nat (length (ls_receipts scan))
    \<and> ls_receipts scan \<noteq> [] \<and> (\<forall>r \<in> set (ls_receipts scan). rc_run_id r = run)
    \<and> rc_kind (hd (ls_receipts scan)) = RunStarted \<and> rc_kind (last (ls_receipts scan)) = RunFinalized
    \<and> terminal_state (rc_outcome (last (ls_receipts scan))) = Some (cv_terminal_state v)
    \<and> (\<forall>r \<in> set (ls_receipts scan). \<forall>d \<in> set (rc_artifact_refs r).
          owner_verified E C (li_artifacts IO) dir (ad_owner_id d))
    \<and> (\<forall>i < length (ls_receipts scan).
          rc_kind (ls_receipts scan ! i) = ArtifactStored \<or> rc_kind (ls_receipts scan ! i) = StepCompleted \<longrightarrow>
          effect_authorised E C (li_artifacts IO) dir (ls_receipts scan) i)"
proof -
  from assms have verified: "verify_from_dir_fd E C IO VerifyStrictCurrent root = (Ok v, root')"
    and run: "cv_verified_run_id v = Some run"
    unfolding verify_expected_run_from_dir_fd_def by (auto simp: then_op_Ok attempt_Ok_iff if_Err_Ok_iff)
  obtain scan where scan: "scan_complete_bytes E C (log_content root') = Ok scan"
    and locked: "verify_scan_locked E C IO root' scan VerifyStrictCurrent = Ok v"
    using verified by (rule verify_from_Ok)
  from locked obtain lifecycle dir where strict: "validate_receipt_sequence E (ls_receipts scan) StrictCurrent = Ok lifecycle"
    and dir: "rr_artifacts root' = Some dir"
    and refs: "\<forall>r \<in> set (ls_receipts scan). \<forall>d \<in> set (rc_artifact_refs r).
      owner_verified E C (li_artifacts IO) dir (ad_owner_id d)"
    and permits: "validate_permit_continuity E C (li_artifacts IO) dir (ls_receipts scan) = Ok ()"
    and reported: "cv_final_head v = ls_head scan" "cv_length v = ls_length scan"
      "cv_verified_run_id v = lv_run_id lifecycle"
      "\<And>s. lv_terminal_state lifecycle = Some s \<Longrightarrow> cv_terminal_state v = s"
    by (rule verify_scan_Ok) blast
  have "ls_length scan = of_nat (length (ls_receipts scan))"
    using scan scan_lines_length by (fastforce simp: scan_complete_bytes_Ok)
  moreover have "effect_authorised E C (li_artifacts IO) dir (ls_receipts scan) i"
    if "i < length (ls_receipts scan)"
      "rc_kind (ls_receipts scan ! i) = ArtifactStored \<or> rc_kind (ls_receipts scan ! i) = StepCompleted" for i
    using permits that by (rule observed_effect_authorised)
  ultimately show ?thesis
    using scan dir refs reported run strict_shape [OF strict]
    by (intro exI [of _ scan] exI [of _ dir]) (auto simp: list_all_iff)
qed

theorem verified_run_is_authorised_witness:
  "\<exists>v root' scan. verify_expected_run_from_dir_fd run_env run_codec quiet_ledger_io ''run'' finished_root = (Ok v, root')
     \<and> scan_complete_bytes run_env run_codec (log_content root') = Ok scan
     \<and> rc_kind (last (ls_receipts scan)) = RunFinalized"
proof -
  obtain v root' where verified:
    "verify_expected_run_from_dir_fd run_env run_codec quiet_ledger_io ''run'' finished_root = (Ok v, root')"
    using finished_run_verifies by blast
  with verified_run_is_authorised [OF verified] show ?thesis by blast
qed

end
